(* ===== verification/Prelude.thy ===== *)
theory Prelude
  imports Main "HOL-Library.Word" "HOL-Library.Char_ord" "HOL-Library.List_Lexorder"
    "HOL-Library.Product_Lexorder" "HOL-Library.Monad_Syntax"
begin

text \<open>
  Shared material of the YunLink development: the names of the machine types the C++ sources use,
  the conversion between \<open>std::string\<close> and bytes, the little-endian and big-endian integer loops
  that every codec of the code base repeats, bounds-checked reads of a byte array (an out-of-range
  read, undefined in C++, is the value \<open>None\<close>), and the collections of rewrite rules that carry
  the component proofs.
\<close>

unbundle bit_operations_syntax

named_theorems span_simps \<open>reading at an offset of a concatenation\<close>
named_theorems codec_laws \<open>what a writer emits and what a reader makes of it\<close>
named_theorems frame_simps \<open>fields an operation leaves unchanged\<close>

type_synonym u8 = "8 word"
type_synonym u16 = "16 word"
type_synonym u32 = "32 word"
type_synonym u64 = "64 word"
type_synonym bytes = "u8 list"

section \<open>Strings as bytes\<close>

definition byte_of_char :: "char \<Rightarrow> u8" where
  "byte_of_char c = word_of_nat (of_char c)"

definition char_of_byte :: "u8 \<Rightarrow> char" where
  "char_of_byte b = char_of (unat b)"

abbreviation bytes_of_string :: "string \<Rightarrow> bytes" where
  "bytes_of_string s \<equiv> map byte_of_char s"

abbreviation string_of_bytes :: "bytes \<Rightarrow> string" where
  "string_of_bytes bs \<equiv> map char_of_byte bs"

lemma char_of_byte_of_char [simp]: "char_of_byte (byte_of_char c) = c"
  by (simp add: char_of_byte_def byte_of_char_def unat_of_nat)

lemma byte_of_char_of_byte [simp]: "byte_of_char (char_of_byte b) = b"
proof -
  have "unat b < 256" using unsigned_less[of b, where 'a=nat] by simp
  then show ?thesis by (simp add: char_of_byte_def byte_of_char_def)
qed

lemma char_byte_comp [simp]:
  "char_of_byte \<circ> byte_of_char = id" "byte_of_char \<circ> char_of_byte = id"
  by (simp_all add: fun_eq_iff)

lemma string_of_bytes_of_string [simp]: "string_of_bytes (bytes_of_string s) = s"
  by (simp add: comp_def)

lemma bytes_of_string_of_bytes [simp]: "bytes_of_string (string_of_bytes bs) = bs"
  by (simp add: comp_def)

lemma bytes_of_string_inj [simp]: "bytes_of_string s = bytes_of_string t \<longleftrightarrow> s = t"
  by (metis string_of_bytes_of_string)

section \<open>Integers as bytes\<close>

text \<open>
  \<open>for (shift = 0; shift < 8 * n; shift += 8) out.push_back(uint8_t(value >> shift))\<close>, and the
  reading loop \<open>value |= T(data[k]) << shift\<close>. The big-endian loops of the discovery packets count
  the shift down.
\<close>

definition le_bytes :: "nat \<Rightarrow> 'a::len word \<Rightarrow> bytes" where
  "le_bytes n v = map (\<lambda>k. ucast (drop_bit (8 * k) v)) [0..<n]"

fun le_acc :: "nat \<Rightarrow> bytes \<Rightarrow> 'a::len word \<Rightarrow> 'a word" where
  "le_acc shift [] v = v"
| "le_acc shift (b # bs) v = le_acc (shift + 8) bs (v OR push_bit shift (ucast b))"

definition le_word :: "bytes \<Rightarrow> 'a::len word" where
  "le_word bs = le_acc 0 bs 0"

definition be_bytes :: "nat \<Rightarrow> 'a::len word \<Rightarrow> bytes" where
  "be_bytes n v = map (\<lambda>k. ucast (drop_bit (8 * k) v)) (rev [0..<n])"

fun be_acc :: "bytes \<Rightarrow> 'a::len word \<Rightarrow> 'a word" where
  "be_acc [] v = v"
| "be_acc (b # bs) v = be_acc bs (v OR push_bit (8 * length bs) (ucast b))"

definition be_word :: "bytes \<Rightarrow> 'a::len word" where
  "be_word bs = be_acc bs 0"

lemma length_le_bytes [simp]: "length (le_bytes n v) = n"
  by (simp add: le_bytes_def)

lemma length_be_bytes [simp]: "length (be_bytes n v) = n"
  by (simp add: be_bytes_def)

lemma le_bytes_1: "le_bytes (Suc 0) v = [ucast v]"
  by (simp add: le_bytes_def)

lemma bit_le_acc:
  "bit (le_acc s bs (v :: 'a::len word)) i \<longleftrightarrow>
     bit v i \<or> (s \<le> i \<and> i < LENGTH('a) \<and> (i - s) div 8 < length bs \<and>
       bit (bs ! ((i - s) div 8)) ((i - s) mod 8))"
proof (induction s bs v rule: le_acc.induct)
  case (1 shift v)
  then show ?case by simp
next
  case (2 shift b bs v)
  show ?case
  proof (cases "shift + 8 \<le> i")
    case True
    then have "(i - shift) div 8 = Suc ((i - (shift + 8)) div 8)"
      and "(i - shift) mod 8 = (i - (shift + 8)) mod 8"
      by (simp_all add: div_if[of "i - shift"] mod_if[of "i - shift"])
    with True show ?thesis
      by (auto simp: 2 bit_simps dest: bit_imp_le_length)
  next
    case False
    then show ?thesis
      by (auto simp: 2 bit_simps dest: bit_imp_le_length)
  qed
qed

lemma le_word_le_bytes:
  assumes "LENGTH('a) = 8 * n"
  shows "le_word (le_bytes n (v :: 'a::len word)) = v"
  unfolding le_word_def
  by (rule bit_word_eqI)
    (use assms in \<open>auto simp: bit_le_acc le_bytes_def bit_simps less_mult_imp_div_less mult.commute\<close>)

lemma le_bytes_le_word:
  assumes "LENGTH('a) = 8 * length bs"
  shows "le_bytes (length bs) (le_word bs :: 'a::len word) = bs"
  unfolding le_word_def
proof (rule nth_equalityI)
  show "le_bytes (length bs) (le_acc 0 bs (0 :: 'a word)) ! k = bs ! k"
    if "k < length (le_bytes (length bs) (le_acc 0 bs (0 :: 'a word)))" for k
  proof (rule bit_word_eqI)
    fix n assume "n < LENGTH(8)"
    then have "(8 * k + n) div 8 = k" "(8 * k + n) mod 8 = n" "n < 8" by auto
    with that assms show
      "bit (le_bytes (length bs) (le_acc 0 bs (0 :: 'a word)) ! k) n = bit (bs ! k) n"
      by (auto simp: le_bytes_def bit_simps bit_le_acc)
  qed
qed simp

text \<open>The big-endian loops are the little-endian ones on the reversed bytes.\<close>

lemma be_bytes_rev: "be_bytes n v = rev (le_bytes n v)"
  by (simp add: be_bytes_def le_bytes_def rev_map)

lemma le_acc_append: "le_acc s (xs @ ys) v = le_acc (s + 8 * length xs) ys (le_acc s xs v)"
  by (induction s xs v rule: le_acc.induct) (simp_all add: algebra_simps)

lemma le_acc_OR: "le_acc s bs (v OR w) = le_acc s bs v OR w"
  by (rule bit_word_eqI) (auto simp: bit_le_acc bit_simps)

lemma be_acc_rev: "be_acc bs v = le_acc 0 (rev bs) v"
  by (induction bs v rule: be_acc.induct) (simp_all add: le_acc_append le_acc_OR)

lemma be_word_rev: "be_word bs = le_word (rev bs)"
  by (simp add: be_word_def le_word_def be_acc_rev)

lemma be_word_be_bytes:
  "LENGTH('a) = 8 * n \<Longrightarrow> be_word (be_bytes n (v :: 'a::len word)) = v"
  by (simp add: be_word_rev be_bytes_rev le_word_le_bytes)

lemma be_bytes_be_word:
  assumes "LENGTH('a) = 8 * length bs"
  shows "be_bytes (length bs) (be_word bs :: 'a::len word) = bs"
proof -
  have "le_bytes (length (rev bs)) (le_word (rev bs) :: 'a word) = rev bs"
    by (rule le_bytes_le_word) (simp add: assms)
  then show ?thesis by (simp add: be_word_rev be_bytes_rev)
qed

lemma le_word_bytes [simp]:
  "le_word (le_bytes 2 v16) = (v16 :: u16)"
  "le_word (le_bytes 4 v32) = (v32 :: u32)"
  "le_word (le_bytes 8 v64) = (v64 :: u64)"
  by (simp_all add: le_word_le_bytes)

lemma be_word_bytes [simp]:
  "be_word (be_bytes 2 v16) = (v16 :: u16)"
  "be_word (be_bytes 4 v32) = (v32 :: u32)"
  "be_word (be_bytes 8 v64) = (v64 :: u64)"
  by (simp_all add: be_word_be_bytes)

lemma le_bytes_word:
  "length bs = 2 \<Longrightarrow> le_bytes 2 (le_word bs :: u16) = bs"
  "length bs = 4 \<Longrightarrow> le_bytes 4 (le_word bs :: u32) = bs"
  "length bs = 8 \<Longrightarrow> le_bytes 8 (le_word bs :: u64) = bs"
  using le_bytes_le_word[of bs, where 'a=16] le_bytes_le_word[of bs, where 'a=32]
    le_bytes_le_word[of bs, where 'a=64] by simp_all

lemma be_bytes_word:
  "length bs = 2 \<Longrightarrow> be_bytes 2 (be_word bs :: u16) = bs"
  "length bs = 4 \<Longrightarrow> be_bytes 4 (be_word bs :: u32) = bs"
  "length bs = 8 \<Longrightarrow> be_bytes 8 (be_word bs :: u64) = bs"
  using be_bytes_be_word[of bs, where 'a=16] be_bytes_be_word[of bs, where 'a=32]
    be_bytes_be_word[of bs, where 'a=64] by simp_all

section \<open>Reads of a byte array\<close>

text \<open>
  \<open>span data i n\<close> is the \<open>n\<close> bytes at \<open>data + i\<close>. C++ leaves a read past the end undefined; here
  it is \<open>None\<close>, so that a function over \<open>span\<close> that returns \<open>Some\<close> stayed inside the array.
  \<open>checked_sub\<close> is an unsigned subtraction whose wrap-around would be a bug.
\<close>

definition span :: "bytes \<Rightarrow> nat \<Rightarrow> nat \<Rightarrow> bytes option" where
  "span data i n = (if i + n \<le> length data then Some (take n (drop i data)) else None)"

definition byte_at :: "bytes \<Rightarrow> nat \<Rightarrow> u8 option" where
  "byte_at data i = (if i < length data then Some (data ! i) else None)"

definition checked_sub :: "nat \<Rightarrow> nat \<Rightarrow> nat option" where
  "checked_sub a b = (if b \<le> a then Some (a - b) else None)"

lemma span_skip [span_simps]:
  "length xs \<le> i \<Longrightarrow> span (xs @ ys) i n = span ys (i - length xs) n"
  by (auto simp: span_def)

lemma span_skip_Cons [span_simps]: "0 < i \<Longrightarrow> span (x # ys) i n = span ys (i - 1) n"
  using span_skip[of "[x]" i ys n] by simp

lemma span_here [span_simps]: "length xs = n \<Longrightarrow> span (xs @ ys) 0 n = Some xs"
  by (simp add: span_def)

lemma span_whole [span_simps]: "length xs = n \<Longrightarrow> span xs 0 n = Some xs"
  by (simp add: span_def)

lemma byte_at_skip [span_simps]:
  "length xs \<le> i \<Longrightarrow> byte_at (xs @ ys) i = byte_at ys (i - length xs)"
  by (auto simp: byte_at_def nth_append)

lemma byte_at_Cons_0 [span_simps]: "byte_at (x # xs) 0 = Some x"
  by (simp add: byte_at_def)

lemma byte_at_Cons_Suc [span_simps]: "0 < i \<Longrightarrow> byte_at (x # xs) i = byte_at xs (i - 1)"
  by (cases i) (auto simp: byte_at_def)

lemma span_Some_iff: "span data i n = Some bs \<longleftrightarrow> i + n \<le> length data \<and> bs = take n (drop i data)"
  by (auto simp: span_def)

lemma span_in_range: "i + n \<le> length data \<Longrightarrow> span data i n = Some (take n (drop i data))"
  by (simp add: span_def)

lemma byte_at_in_range: "i < length data \<Longrightarrow> byte_at data i = Some (data ! i)"
  by (simp add: byte_at_def)

lemma span_length: "span data i n = Some bs \<Longrightarrow> length bs = n"
  by (auto simp: span_def split: if_splits)

section \<open>Numbers and lists\<close>

lemma unat_of_nat_u16 [simp]: "n < 65536 \<Longrightarrow> unat (word_of_nat n :: u16) = n"
  by (simp add: unat_of_nat)

lemma unat_of_nat_u8 [simp]: "n < 256 \<Longrightarrow> unat (word_of_nat n :: u8) = n"
  by (simp add: unat_of_nat)

lemma unat_of_nat_u32 [simp]: "n < 4294967296 \<Longrightarrow> unat (word_of_nat n :: u32) = n"
  by (simp add: unat_of_nat)

lemma unat_u16_less: "unat (x :: u16) < 65536"
  using unsigned_less[of x, where 'a=nat] by simp

lemma unat_u16_le [simp]: "unat (x :: u16) \<le> 65535"
  using unat_u16_less[of x] by simp

lemma unat_u8_less: "unat (x :: u8) < 256"
  using unsigned_less[of x, where 'a=nat] by simp

lemma unat_u32_less: "unat (x :: u32) < 4294967296"
  using unsigned_less[of x, where 'a=nat] by simp

lemma unat_u64_less: "unat (w :: u64) < 18446744073709551616"
  using unsigned_less[of w] by simp

lemma find_SomeD: "List.find P xs = Some x \<Longrightarrow> P x"
  by (induction xs) (auto split: if_splits)

lemma u8_le_9_cases:
  fixes b :: u8
  assumes "b \<le> 9"
  shows "b = 0 \<or> b = 1 \<or> b = 2 \<or> b = 3 \<or> b = 4 \<or> b = 5 \<or> b = 6 \<or> b = 7 \<or> b = 8 \<or> b = 9"
proof -
  have "unat b \<le> 9" using assms by (simp add: word_le_nat_alt)
  then show ?thesis unfolding word_unat_eq_iff by simp presburger
qed

lemma u8_le_4_cases:
  fixes b :: u8
  assumes "b \<le> 4"
  shows "b = 0 \<or> b = 1 \<or> b = 2 \<or> b = 3 \<or> b = 4"
proof -
  have "unat b \<le> 4" using assms by (simp add: word_le_nat_alt)
  then show ?thesis unfolding word_unat_eq_iff by simp presburger
qed

lemma fold_preserves:
  "(\<And>x s. x \<in> set xs \<Longrightarrow> P s \<Longrightarrow> P (f x s)) \<Longrightarrow> P s \<Longrightarrow> P (fold f xs s)"
  by (induction xs arbitrary: s) auto

lemma bind_SomeE:
  assumes "Option.bind m k = Some y"
  obtains x where "m = Some x" and "k x = Some y"
  using assms by (auto simp: bind_eq_Some_conv)

lemma xor_cancel: "(x :: 'a::len word) XOR z = y XOR z \<longleftrightarrow> x = y" "z XOR x = z XOR y \<longleftrightarrow> x = y"
  by (auto simp: bit_eq_iff bit_xor_iff)

lemma ucast_u8_u32_inj: "(ucast (b :: u8) :: u32) = ucast c \<longleftrightarrow> b = c"
proof
  assume "(ucast b :: u32) = ucast c"
  then have "unat (ucast b :: u32) = unat (ucast c :: u32)" by simp
  then show "b = c" using unat_u8_less[of b] unat_u8_less[of c]
    by (simp add: unsigned_ucast_eq word_unat_eq_iff take_bit_eq_mod)
qed simp

text \<open>\<open>std::to_string\<close> of an unsigned value.\<close>

fun to_string :: "nat \<Rightarrow> string" where
  "to_string n = (if n < 10 then [char_of (48 + n)] else to_string (n div 10) @ [char_of (48 + n mod 10)])"

declare to_string.simps [simp del]

end
