(* ===== verification/StdMap.thy ===== *)
theory StdMap
  imports Prelude
begin

text \<open>
  \<open>std::map\<close> as the sources use it: an association list in strictly ascending key order, so that
  iteration is the list itself. \<open>std::string\<close> keys compare bytewise and pairs lexicographically,
  which are the orders of \<open>List_Lexorder\<close>, \<open>Char_ord\<close> and \<open>Product_Lexorder\<close>. The interface its
  clients rely on (what a lookup returns after a write or an erase, and that every operation keeps
  the order) is the locale \<open>keyed_store\<close>.
\<close>

type_synonym ('k, 'v) omap = "('k \<times> 'v) list"

definition om_find :: "('k, 'v) omap \<Rightarrow> 'k \<Rightarrow> 'v option" where
  "om_find m k = map_of m k"

text \<open>\<open>m[k] = v\<close>.\<close>

fun om_put :: "'k::linorder \<Rightarrow> 'v \<Rightarrow> ('k, 'v) omap \<Rightarrow> ('k, 'v) omap" where
  "om_put k v [] = [(k, v)]"
| "om_put k v (e # m) =
     (if k < fst e then (k, v) # e # m
      else if k = fst e then (k, v) # m
      else e # om_put k v m)"

text \<open>\<open>m.emplace(k, v).second\<close> is false, and the map unchanged, when the key is present.\<close>

definition om_emplace :: "'k::linorder \<Rightarrow> 'v \<Rightarrow> ('k, 'v) omap \<Rightarrow> ('k, 'v) omap option" where
  "om_emplace k v m = (if om_find m k = None then Some (om_put k v m) else None)"

definition om_erase :: "'k \<Rightarrow> ('k, 'v) omap \<Rightarrow> ('k, 'v) omap" where
  "om_erase k m = filter (\<lambda>e. fst e \<noteq> k) m"

text \<open>
  The iterator \<open>m.erase(it)\<close> returns: the entry that followed the erased key, or the end of the map.
\<close>

definition om_after :: "'k::linorder \<Rightarrow> ('k, 'v) omap \<Rightarrow> ('k \<times> 'v) option" where
  "om_after k m = List.find (\<lambda>e. k < fst e) m"

text \<open>The loop \<open>it = drop(it) ? m.erase(it) : ++it\<close>.\<close>

definition om_erase_if :: "('k \<Rightarrow> 'v \<Rightarrow> bool) \<Rightarrow> ('k, 'v) omap \<Rightarrow> ('k, 'v) omap" where
  "om_erase_if drop_it m = filter (\<lambda>(k, v). \<not> drop_it k v) m"

definition omap_ok :: "('k::linorder, 'v) omap \<Rightarrow> bool" where
  "omap_ok m \<longleftrightarrow> sorted_wrt (<) (map fst m)"

section \<open>The interface\<close>

locale keyed_store =
  fixes find :: "'m \<Rightarrow> 'k \<Rightarrow> 'v option"
    and put :: "'k \<Rightarrow> 'v \<Rightarrow> 'm \<Rightarrow> 'm"
    and del :: "'k \<Rightarrow> 'm \<Rightarrow> 'm"
    and invar :: "'m \<Rightarrow> bool"
  assumes find_put: "find (put k v m) j = (if j = k then Some v else find m j)"
    and find_del: "find (del k m) j = (if j = k then None else find m j)"
    and invar_put: "invar m \<Longrightarrow> invar (put k v m)"
    and invar_del: "invar m \<Longrightarrow> invar (del k m)"
begin

lemma find_put_same: "find (put k v m) k = Some v"
  by (simp add: find_put)

lemma find_put_other: "j \<noteq> k \<Longrightarrow> find (put k v m) j = find m j"
  by (simp add: find_put)

lemma dom_put: "dom (find (put k v m)) = insert k (dom (find m))"
  by (auto simp: find_put dom_def split: if_splits)

lemma dom_del: "dom (find (del k m)) = dom (find m) - {k}"
  by (auto simp: find_del dom_def split: if_splits)

lemma find_put_all_untouched:
  "j \<notin> set (map fst kvs) \<Longrightarrow> find (fold (\<lambda>(k, v). put k v) kvs m) j = find m j"
  by (induction kvs arbitrary: m) (auto simp: find_put)

lemma invar_put_all: "invar m \<Longrightarrow> invar (fold (\<lambda>(k, v). put k v) kvs m)"
  by (induction kvs arbitrary: m) (auto intro: invar_put)

lemma find_put_all_distinct:
  "distinct (map fst kvs) \<Longrightarrow> (k, v) \<in> set kvs \<Longrightarrow>
     find (fold (\<lambda>(k, v). put k v) kvs m) k = Some v"
proof (induction kvs arbitrary: m)
  case (Cons e kvs)
  show ?case
  proof (cases "e = (k, v)")
    case True
    then have "k \<notin> set (map fst kvs)" using Cons.prems(1) by force
    with True show ?thesis by (simp add: find_put_all_untouched find_put)
  next
    case False
    with Cons.prems have "distinct (map fst kvs)" "(k, v) \<in> set kvs" by auto
    then show ?thesis using Cons.IH by simp
  qed
qed simp

end

section \<open>The ordered association list provides it\<close>

lemma om_find_put: "om_find (om_put k v m) j = (if j = k then Some v else om_find m j)"
  by (induction k v m rule: om_put.induct) (auto simp: om_find_def)

lemma om_find_erase: "om_find (om_erase k m) j = (if j = k then None else om_find m j)"
  by (induction m) (auto simp: om_find_def om_erase_def)

lemma set_om_put: "fst ` set (om_put k v m) = insert k (fst ` set m)"
  by (induction k v m rule: om_put.induct) auto

lemma omap_ok_put: "omap_ok m \<Longrightarrow> omap_ok (om_put k v m)"
proof (induction m)
  case (Cons e m)
  have "\<forall>x \<in> fst ` set (om_put k v m). fst e < x" if "fst e < k"
    using Cons.prems that by (auto simp: set_om_put omap_ok_def)
  with Cons show ?case by (auto simp: omap_ok_def not_less_iff_gr_or_eq)
qed (simp add: omap_ok_def)

lemma omap_ok_filter: "omap_ok m \<Longrightarrow> omap_ok (filter P m)"
  by (simp add: omap_ok_def sorted_wrt_map sorted_wrt_filter)

lemma omap_ok_erase: "omap_ok m \<Longrightarrow> omap_ok (om_erase k m)"
  by (simp add: om_erase_def omap_ok_filter)

lemma omap_ok_erase_if: "omap_ok m \<Longrightarrow> omap_ok (om_erase_if P m)"
  by (simp add: om_erase_if_def omap_ok_filter)

interpretation om: keyed_store om_find om_put om_erase omap_ok
  by unfold_locales (simp_all add: om_find_put om_find_erase omap_ok_put omap_ok_erase)

declare om_find_put [simp] om_find_erase [simp]

lemma om_find_Nil [simp]: "om_find [] k = None"
  by (simp add: om_find_def)

lemma omap_ok_Nil [simp]: "omap_ok []"
  by (simp add: omap_ok_def)

lemma omap_ok_distinct: "omap_ok m \<Longrightarrow> distinct (map fst m)"
  by (simp add: omap_ok_def strict_sorted_iff)

lemma om_find_in_set: "om_find m k = Some v \<Longrightarrow> (k, v) \<in> set m"
  by (simp add: om_find_def map_of_SomeD)

lemma om_find_iff: "omap_ok m \<Longrightarrow> om_find m k = Some v \<longleftrightarrow> (k, v) \<in> set m"
  by (simp add: om_find_def omap_ok_distinct)

lemma om_find_erase_if:
  "omap_ok m \<Longrightarrow> om_find (om_erase_if P m) k =
     (case om_find m k of None \<Rightarrow> None | Some v \<Rightarrow> if P k v then None else Some v)"
proof -
  assume ok: "omap_ok m"
  have "om_find (om_erase_if P m) k = Some v \<longleftrightarrow> om_find m k = Some v \<and> \<not> P k v" for v
    using ok omap_ok_erase_if[OF ok, of P] by (auto simp: om_find_iff om_erase_if_def)
  note this[of "the (om_find m k)"] this[of "the (om_find (om_erase_if P m) k)"]
  then show ?thesis
    by (cases "om_find (om_erase_if P m) k"; cases "om_find m k") simp_all
qed

text \<open>The entry after a key is the one with the least greater key.\<close>

lemma om_after_in_set: "om_after k m = Some e \<Longrightarrow> e \<in> set m \<and> k < fst e"
  by (auto simp: om_after_def find_Some_iff)

lemma om_after_find:
  assumes "omap_ok m" and "om_after k m = Some (j, v)"
  shows "om_find m j = Some v" and "k < j"
  using assms om_after_in_set[OF assms(2)] by (simp_all add: om_find_iff)

lemma om_after_None: "om_after k m = None \<longleftrightarrow> (\<forall>j \<in> fst ` set m. \<not> k < j)"
  by (auto simp: om_after_def find_None_iff)

lemma om_after_least:
  assumes "omap_ok m" and "om_after k m = Some e" and "j \<in> fst ` set m" and "k < j"
  shows "fst e \<le> j"
  using assms
  by (induction m) (auto simp: om_after_def omap_ok_def split: if_splits intro: less_imp_le)

lemma om_dom: "fst ` set m = dom (om_find m)"
proof -
  have "om_find m = map_of m" by (rule ext) (simp add: om_find_def)
  then show ?thesis by (simp add: dom_map_of_conv_image_fst)
qed

text \<open>Entries added in key order land at the end, which is how a decoded map is rebuilt.\<close>

lemma om_put_snoc: "\<forall>j \<in> fst ` set m. j < k \<Longrightarrow> om_put k v m = m @ [(k, v)]"
  by (induction m) (auto dest: less_asym)

lemma om_emplace_snoc:
  assumes "omap_ok (m @ [(k, v)])"
  shows "om_emplace k v m = Some (m @ [(k, v)])"
proof -
  have less: "\<forall>j \<in> fst ` set m. j < k"
    using assms by (auto simp: omap_ok_def sorted_wrt_append)
  have "om_find m k = None"
    unfolding om_find_def map_of_eq_None_iff using less by blast
  with less show ?thesis by (simp add: om_emplace_def om_put_snoc)
qed

lemma omap_ok_emplace: "omap_ok m \<Longrightarrow> om_emplace k v m = Some m' \<Longrightarrow> omap_ok m'"
  by (auto simp: om_emplace_def omap_ok_put split: if_splits)

end
