(* ===== verification/Wire.thy ===== *)
theory Wire
  imports StdMap
begin

text \<open>
  The protocol contract of \<open>include/yunlink/core/wire_v2.hpp\<close> and \<open>src/core/wire_v2.cpp\<close>: the
  enumerations with their wire numbers, the envelope and the records it carries, target selection,
  and the validity of UIDs, profile identifiers and type references.
\<close>

definition kProtocolMajor :: u8 where "kProtocolMajor = 2"
definition kHeaderVersion :: u8 where "kHeaderVersion = 2"
definition kSchemaVersion :: u16 where "kSchemaVersion = 2"
definition kMaxUidBytes :: nat where "kMaxUidBytes = 128"
definition kMaxTypeNameBytes :: nat where "kMaxTypeNameBytes = 256"
definition kMaxProfileIdBytes :: nat where "kMaxProfileIdBytes = 128"
definition kMaxPayloadBytes :: nat where "kMaxPayloadBytes = 16 * 1024 * 1024"

datatype ErrorCode = Err_kOk | Err_kInvalidArgument | Err_kEncodeError | Err_kDecodeError
  | Err_kChecksumMismatch | Err_kInvalidHeader | Err_kProtocolMismatch | Err_kTimeout
  | Err_kUnauthorized | Err_kRejected | Err_kNotFound | Err_kConflict | Err_kUnsupported
  | Err_kInternal

fun error_code :: "ErrorCode \<Rightarrow> u16" where
  "error_code Err_kOk = 0"
| "error_code Err_kInvalidArgument = 1"
| "error_code Err_kEncodeError = 2"
| "error_code Err_kDecodeError = 3"
| "error_code Err_kChecksumMismatch = 4"
| "error_code Err_kInvalidHeader = 5"
| "error_code Err_kProtocolMismatch = 6"
| "error_code Err_kTimeout = 7"
| "error_code Err_kUnauthorized = 8"
| "error_code Err_kRejected = 9"
| "error_code Err_kNotFound = 10"
| "error_code Err_kConflict = 11"
| "error_code Err_kUnsupported = 12"
| "error_code Err_kInternal = 13"

datatype MessageFamily = MF_kSession | MF_kAuthority | MF_kEntityDirectory | MF_kStream
  | MF_kAction | MF_kRpc | MF_kConfiguration | MF_kLog | MF_kBulk

fun family_code :: "MessageFamily \<Rightarrow> u8" where
  "family_code MF_kSession = 1"
| "family_code MF_kAuthority = 2"
| "family_code MF_kEntityDirectory = 3"
| "family_code MF_kStream = 4"
| "family_code MF_kAction = 5"
| "family_code MF_kRpc = 6"
| "family_code MF_kConfiguration = 7"
| "family_code MF_kLog = 8"
| "family_code MF_kBulk = 9"

datatype QosClass = Qos_kReliableOrdered | Qos_kReliableLatest | Qos_kBestEffort | Qos_kBulk

fun qos_code :: "QosClass \<Rightarrow> u8" where
  "qos_code Qos_kReliableOrdered = 1"
| "qos_code Qos_kReliableLatest = 2"
| "qos_code Qos_kBestEffort = 3"
| "qos_code Qos_kBulk = 4"

datatype TargetScope = Scope_kEndpoint | Scope_kEntity | Scope_kGroup | Scope_kBroadcast

fun scope_code :: "TargetScope \<Rightarrow> u8" where
  "scope_code Scope_kEndpoint = 1"
| "scope_code Scope_kEntity = 2"
| "scope_code Scope_kGroup = 3"
| "scope_code Scope_kBroadcast = 4"

datatype Availability = Av_kUnknown | Av_kOnline | Av_kDegraded | Av_kOffline

fun availability_code :: "Availability \<Rightarrow> u8" where
  "availability_code Av_kUnknown = 0"
| "availability_code Av_kOnline = 1"
| "availability_code Av_kDegraded = 2"
| "availability_code Av_kOffline = 3"

datatype ActionPhase = Phase_kReceived | Phase_kAccepted | Phase_kRunning | Phase_kSucceeded
  | Phase_kFailed | Phase_kCancelled | Phase_kExpired

fun phase_code :: "ActionPhase \<Rightarrow> u8" where
  "phase_code Phase_kReceived = 1"
| "phase_code Phase_kAccepted = 2"
| "phase_code Phase_kRunning = 3"
| "phase_code Phase_kSucceeded = 4"
| "phase_code Phase_kFailed = 5"
| "phase_code Phase_kCancelled = 6"
| "phase_code Phase_kExpired = 7"

text \<open>
  \<open>static_cast<E>(byte)\<close> after the range check that precedes it in the sources: \<open>None\<close> is the
  failed check.
\<close>

definition family_of :: "u8 \<Rightarrow> MessageFamily option" where
  "family_of b = List.find (\<lambda>f. family_code f = b)
     [MF_kSession, MF_kAuthority, MF_kEntityDirectory, MF_kStream, MF_kAction, MF_kRpc,
      MF_kConfiguration, MF_kLog, MF_kBulk]"

definition qos_of :: "u8 \<Rightarrow> QosClass option" where
  "qos_of b = List.find (\<lambda>q. qos_code q = b)
     [Qos_kReliableOrdered, Qos_kReliableLatest, Qos_kBestEffort, Qos_kBulk]"

definition scope_of :: "u8 \<Rightarrow> TargetScope option" where
  "scope_of b = List.find (\<lambda>s. scope_code s = b)
     [Scope_kEndpoint, Scope_kEntity, Scope_kGroup, Scope_kBroadcast]"

definition availability_of :: "u8 \<Rightarrow> Availability option" where
  "availability_of b = List.find (\<lambda>a. availability_code a = b)
     [Av_kUnknown, Av_kOnline, Av_kDegraded, Av_kOffline]"

definition phase_of :: "u8 \<Rightarrow> ActionPhase option" where
  "phase_of b = List.find (\<lambda>p. phase_code p = b)
     [Phase_kReceived, Phase_kAccepted, Phase_kRunning, Phase_kSucceeded, Phase_kFailed,
      Phase_kCancelled, Phase_kExpired]"

record TypeRef =
  tr_profile_id :: string
  tr_major :: u16
  tr_minor :: u16
  tr_type_name :: string

definition is_core :: "TypeRef \<Rightarrow> bool" where
  "is_core t \<longleftrightarrow> tr_profile_id t = ''yunlink.core''"

record ProfileDescriptor =
  pd_profile_id :: string
  pd_major :: u16
  pd_minor :: u16
  pd_schema_digest :: string

record SourceIdentity =
  src_endpoint_uid :: string
  src_entity_uid :: string

record TargetSelector =
  ts_scope :: TargetScope
  ts_uids :: "string list"

record SecurityContext =
  sec_key_epoch :: u32
  sec_auth_tag :: bytes

record Envelope =
  protocol_major :: u8
  header_version :: u8
  flags :: u16
  header_len :: u16
  payload_len :: u32
  qos_class :: QosClass
  family :: MessageFamily
  operation :: u8
  schema_version :: u16
  session_id :: u64
  message_id :: u64
  correlation_id :: u64
  source :: SourceIdentity
  target :: TargetSelector
  env_type :: TypeRef
  created_at_ms :: u64
  ttl_ms :: u32
  payload :: bytes
  security :: SecurityContext
  checksum :: u32

record EntityDescriptor =
  ed_entity_uid :: string
  ed_kind :: string
  ed_display_name :: string
  ed_hardware_id :: string
  ed_attributes :: "(string, string) omap"
  ed_capabilities :: "string list"
  ed_availability :: Availability

text \<open>The member initialisers of the struct.\<close>

definition empty_envelope :: Envelope where
  "empty_envelope = \<lparr>
     protocol_major = kProtocolMajor, header_version = kHeaderVersion, flags = 0, header_len = 0,
     payload_len = 0, qos_class = Qos_kReliableOrdered, family = MF_kSession, operation = 0,
     schema_version = kSchemaVersion, session_id = 0, message_id = 0, correlation_id = 0,
     source = \<lparr>src_endpoint_uid = [], src_entity_uid = []\<rparr>,
     target = \<lparr>ts_scope = Scope_kBroadcast, ts_uids = []\<rparr>,
     env_type = \<lparr>tr_profile_id = [], tr_major = 0, tr_minor = 0, tr_type_name = []\<rparr>,
     created_at_ms = 0, ttl_ms = 0, payload = [],
     security = \<lparr>sec_key_epoch = 0, sec_auth_tag = []\<rparr>, checksum = 0\<rparr>"

section \<open>Target selection\<close>

definition target_of :: "TargetScope \<Rightarrow> string \<Rightarrow> TargetSelector" where
  "target_of scope uid = \<lparr>ts_scope = scope, ts_uids = [uid]\<rparr>"

definition target_endpoint :: "string \<Rightarrow> TargetSelector" where
  "target_endpoint uid = target_of Scope_kEndpoint uid"

definition target_entity :: "string \<Rightarrow> TargetSelector" where
  "target_entity uid = target_of Scope_kEntity uid"

definition target_group :: "string \<Rightarrow> TargetSelector" where
  "target_group uid = target_of Scope_kGroup uid"

definition target_broadcast :: TargetSelector where
  "target_broadcast = \<lparr>ts_scope = Scope_kBroadcast, ts_uids = []\<rparr>"

definition target_matches ::
  "TargetSelector \<Rightarrow> string \<Rightarrow> string list \<Rightarrow> string list \<Rightarrow> bool" where
  "target_matches t endpoint_uid entity_uids group_uids =
     (if ts_scope t = Scope_kBroadcast then ts_uids t = []
      else if ts_uids t = [] then False
      else if ts_scope t = Scope_kEndpoint then List.member (ts_uids t) endpoint_uid
      else if ts_scope t = Scope_kEntity
        then list_ex (\<lambda>uid. List.member entity_uids uid) (ts_uids t)
      else list_ex (\<lambda>uid. List.member group_uids uid) (ts_uids t))"

section \<open>Validity of identifiers\<close>

text \<open>\<open>std::isalnum\<close> in the C locale, in which the library runs.\<close>

definition is_alnum :: "char \<Rightarrow> bool" where
  "is_alnum c = (let n = (of_char c :: nat) in
     48 \<le> n \<and> n \<le> 57 \<or> 65 \<le> n \<and> n \<le> 90 \<or> 97 \<le> n \<and> n \<le> 122)"

definition uid_char :: "char \<Rightarrow> bool" where
  "uid_char c \<longleftrightarrow> is_alnum c \<or> c = CHR ''.'' \<or> c = CHR ''_'' \<or> c = CHR '':'' \<or> c = CHR ''-''"

definition valid_uid :: "string \<Rightarrow> bool" where
  "valid_uid value = (if value = [] \<or> length value > kMaxUidBytes then False
     else list_all uid_char value)"

definition valid_profile_id :: "string \<Rightarrow> bool" where
  "valid_profile_id value \<longleftrightarrow> valid_uid value \<and> length value \<le> kMaxProfileIdBytes"

definition valid_type_ref :: "TypeRef \<Rightarrow> bool" where
  "valid_type_ref t \<longleftrightarrow> valid_profile_id (tr_profile_id t) \<and> tr_type_name t \<noteq> [] \<and>
     length (tr_type_name t) \<le> kMaxTypeNameBytes \<and> tr_major t > 0"

section \<open>Facts\<close>

lemma family_of_code [simp]: "family_of (family_code f) = Some f"
  by (cases f) (simp_all add: family_of_def)

lemma qos_of_code [simp]: "qos_of (qos_code q) = Some q"
  by (cases q) (simp_all add: qos_of_def)

lemma scope_of_code [simp]: "scope_of (scope_code s) = Some s"
  by (cases s) (simp_all add: scope_of_def)

lemma availability_of_code [simp]: "availability_of (availability_code a) = Some a"
  by (cases a) (simp_all add: availability_of_def)

lemma phase_of_code [simp]: "phase_of (phase_code p) = Some p"
  by (cases p) (simp_all add: phase_of_def)

lemma family_ofD: "family_of b = Some f \<Longrightarrow> family_code f = b"
  unfolding family_of_def by (drule find_SomeD)

lemma qos_ofD: "qos_of b = Some q \<Longrightarrow> qos_code q = b"
  unfolding qos_of_def by (drule find_SomeD)

lemma scope_ofD: "scope_of b = Some s \<Longrightarrow> scope_code s = b"
  unfolding scope_of_def by (drule find_SomeD)

lemma availability_ofD: "availability_of b = Some a \<Longrightarrow> availability_code a = b"
  unfolding availability_of_def by (drule find_SomeD)

lemma phase_ofD: "phase_of b = Some p \<Longrightarrow> phase_code p = b"
  unfolding phase_of_def by (drule find_SomeD)

lemma valid_uid_length: "valid_uid s \<Longrightarrow> 0 < length s \<and> length s \<le> 128"
  by (auto simp: valid_uid_def kMaxUidBytes_def split: if_splits)

lemma valid_profile_id_uid: "valid_profile_id s \<longleftrightarrow> valid_uid s"
  by (auto simp: valid_profile_id_def valid_uid_def kMaxUidBytes_def kMaxProfileIdBytes_def
      split: if_splits)

lemma valid_type_ref_lengths:
  "valid_type_ref t \<Longrightarrow> length (tr_profile_id t) \<le> 128 \<and> length (tr_type_name t) \<le> 256"
  by (auto simp: valid_type_ref_def valid_profile_id_uid kMaxTypeNameBytes_def
      dest: valid_uid_length)

lemma target_matches_iff:
  "target_matches t ep entities groups \<longleftrightarrow>
     (case ts_scope t of
        Scope_kBroadcast \<Rightarrow> ts_uids t = []
      | Scope_kEndpoint \<Rightarrow> ep \<in> set (ts_uids t)
      | Scope_kEntity \<Rightarrow> set (ts_uids t) \<inter> set entities \<noteq> {}
      | Scope_kGroup \<Rightarrow> set (ts_uids t) \<inter> set groups \<noteq> {})"
  by (auto simp: target_matches_def list_ex_iff split: TargetScope.splits)

end
