(* ===== verification/WireCodec.thy ===== *)
theory WireCodec
  imports Wire
begin

text \<open>
  The envelope codec of \<open>src/core/wire_v2_codec.cpp\<close>. Buffers are byte lists and \<open>data + i\<close> reads go
  through \<open>span\<close> and \<open>byte_at\<close>, so a decoder result of \<open>None\<close> would be an out-of-bounds read, a
  wrapped unsigned subtraction or a cast outside an enumeration; \<open>decode_defined\<close> shows that there is none. A
  null pointer is the empty buffer: both end in the first error branch. The wall clock is a
  parameter of \<open>encode\<close>; \<open>decode\<close> ignores its clock argument, as the source does.
\<close>

definition kFixedHeaderSize :: nat where "kFixedHeaderSize = 80"
definition kTrailerSize :: nat where "kTrailerSize = 4"
definition kMinEnvelopeSize :: nat where "kMinEnvelopeSize = kFixedHeaderSize + kTrailerSize"

definition kMagic :: bytes where
  "kMagic = bytes_of_string ''YLNK''"

definition read_u16 :: "bytes \<Rightarrow> nat \<Rightarrow> u16 option" where
  "read_u16 data i = map_option le_word (span data i 2)"

definition read_u32 :: "bytes \<Rightarrow> nat \<Rightarrow> u32 option" where
  "read_u32 data i = map_option le_word (span data i 4)"

definition read_u64 :: "bytes \<Rightarrow> nat \<Rightarrow> u64 option" where
  "read_u64 data i = map_option le_word (span data i 8)"

definition valid_family :: "u8 \<Rightarrow> bool" where
  "valid_family v \<longleftrightarrow> v \<ge> family_code MF_kSession \<and> v \<le> family_code MF_kBulk"

definition valid_qos :: "u8 \<Rightarrow> bool" where
  "valid_qos v \<longleftrightarrow> v \<ge> qos_code Qos_kReliableOrdered \<and> v \<le> qos_code Qos_kBulk"

definition valid_scope :: "u8 \<Rightarrow> bool" where
  "valid_scope v \<longleftrightarrow> v \<ge> scope_code Scope_kEndpoint \<and> v \<le> scope_code Scope_kBroadcast"

definition has_magic :: "bytes \<Rightarrow> bool" where
  "has_magic data \<longleftrightarrow> length data \<ge> 4 \<and> take 4 data = kMagic"

text \<open>32-bit FNV-1a over the whole buffer.\<close>

definition fnv_step :: "u8 \<Rightarrow> u32 \<Rightarrow> u32" where
  "fnv_step b hash = (hash XOR ucast b) * 16777619"

definition wire_checksum :: "bytes \<Rightarrow> u32" where
  "wire_checksum data = fold fnv_step data 2166136261"

section \<open>Encoding\<close>

definition targets_bytes :: "string list \<Rightarrow> nat" where
  "targets_bytes uids = sum_list (map (\<lambda>uid. 2 + length uid) uids)"

definition variable_size :: "Envelope \<Rightarrow> nat" where
  "variable_size e =
     length (src_endpoint_uid (source e)) + length (src_entity_uid (source e)) +
     targets_bytes (ts_uids (target e)) + length (sec_auth_tag (security e)) +
     length (tr_profile_id (env_type e)) + length (tr_type_name (env_type e))"

text \<open>The checks of the first half of \<open>encode\<close>: true when it returns the empty buffer.\<close>

definition encode_refuses :: "Envelope \<Rightarrow> bool" where
  "encode_refuses e \<longleftrightarrow>
     (protocol_major e \<noteq> kProtocolMajor \<or> header_version e \<noteq> kHeaderVersion \<or>
      schema_version e \<noteq> kSchemaVersion \<or> \<not> valid_uid (src_endpoint_uid (source e)) \<or>
      (src_entity_uid (source e) \<noteq> [] \<and> \<not> valid_uid (src_entity_uid (source e))) \<or>
      \<not> valid_type_ref (env_type e) \<or> length (payload e) > kMaxPayloadBytes \<or>
      length (ts_uids (target e)) > 65535) \<or>
     (if ts_scope (target e) = Scope_kBroadcast then ts_uids (target e) \<noteq> []
      else ts_uids (target e) = []) \<or>
     list_ex (\<lambda>uid. \<not> valid_uid uid) (ts_uids (target e)) \<or>
     (variable_size e > 65535 - kFixedHeaderSize \<or> length (sec_auth_tag (security e)) > 65535)"

definition fill_header :: "u64 \<Rightarrow> Envelope \<Rightarrow> Envelope" where
  "fill_header now e =
     (let e = e\<lparr>header_len := word_of_nat (kFixedHeaderSize + variable_size e),
                payload_len := word_of_nat (length (payload e))\<rparr>;
          e = (if created_at_ms e = 0 then e\<lparr>created_at_ms := now\<rparr> else e)
      in if message_id e = 0 then e\<lparr>message_id := created_at_ms e\<rparr> else e)"

text \<open>The 80 fixed bytes, in the order of the \<open>push_back\<close> and \<open>append_*\<close> calls.\<close>

definition fixed_header :: "Envelope \<Rightarrow> bytes" where
  "fixed_header e =
     kMagic @ [protocol_major e] @ [header_version e] @ le_bytes 2 (flags e) @
     le_bytes 2 (header_len e) @ le_bytes 4 (payload_len e) @ [qos_code (qos_class e)] @
     [family_code (family e)] @ [operation e] @ [0] @ le_bytes 2 (schema_version e) @
     le_bytes 8 (session_id e) @ le_bytes 8 (message_id e) @ le_bytes 8 (correlation_id e) @
     le_bytes 8 (created_at_ms e) @ le_bytes 4 (ttl_ms e) @ le_bytes 4 (sec_key_epoch (security e)) @
     le_bytes 2 (word_of_nat (length (src_endpoint_uid (source e))) :: u16) @
     le_bytes 2 (word_of_nat (length (src_entity_uid (source e))) :: u16) @
     le_bytes 2 (word_of_nat (length (ts_uids (target e))) :: u16) @
     le_bytes 2 (word_of_nat (length (sec_auth_tag (security e))) :: u16) @
     le_bytes 2 (word_of_nat (length (tr_profile_id (env_type e))) :: u16) @
     le_bytes 2 (word_of_nat (length (tr_type_name (env_type e))) :: u16) @
     [scope_code (ts_scope (target e))] @ [0] @
     le_bytes 2 (tr_major (env_type e)) @ le_bytes 2 (tr_minor (env_type e)) @ le_bytes 2 (0 :: u16)"

definition target_entry :: "string \<Rightarrow> bytes" where
  "target_entry uid = le_bytes 2 (word_of_nat (length uid) :: u16) @ bytes_of_string uid"

definition variable_header :: "Envelope \<Rightarrow> bytes" where
  "variable_header e =
     bytes_of_string (src_endpoint_uid (source e)) @ bytes_of_string (src_entity_uid (source e)) @
     concat (map target_entry (ts_uids (target e))) @ sec_auth_tag (security e) @
     bytes_of_string (tr_profile_id (env_type e)) @ bytes_of_string (tr_type_name (env_type e))"

definition frame_body :: "Envelope \<Rightarrow> bytes" where
  "frame_body e = fixed_header e @ variable_header e @ payload e"

definition encode :: "u64 \<Rightarrow> Envelope \<Rightarrow> bool \<Rightarrow> bytes" where
  "encode now input auto_fill_header =
     (if encode_refuses input then []
      else let e = (if auto_fill_header then fill_header now input else input) in
        if unat (header_len e) \<noteq> kFixedHeaderSize + variable_size e \<or>
           unat (payload_len e) \<noteq> length (payload e) then []
        else frame_body e @ le_bytes 4 (wire_checksum (frame_body e)))"

section \<open>Decoding\<close>

record DecodeResult =
  dr_code :: ErrorCode
  dr_consumed :: nat
  dr_envelope :: Envelope

definition decode_error :: "ErrorCode \<Rightarrow> nat \<Rightarrow> DecodeResult" where
  "decode_error code consumed =
     \<lparr>dr_code = code, dr_consumed = consumed, dr_envelope = empty_envelope\<rparr>"

text \<open>
  The lambda \<open>read_text\<close>: \<open>Some None\<close> is its \<open>false\<close>, \<open>Some (Some (text, cursor'))\<close> the text and the
  moved cursor.
\<close>

definition read_text :: "bytes \<Rightarrow> nat \<Rightarrow> nat \<Rightarrow> nat \<Rightarrow> (string \<times> nat) option option" where
  "read_text data hlen cursor text_len = do {
     room \<leftarrow> checked_sub hlen cursor;
     if text_len > room then Some None
     else do {
       bs \<leftarrow> span data cursor text_len;
       Some (Some (string_of_bytes bs, cursor + text_len)) } }"

fun read_targets :: "bytes \<Rightarrow> nat \<Rightarrow> nat \<Rightarrow> nat \<Rightarrow> (string list \<times> nat) option option" where
  "read_targets data hlen 0 cursor = Some (Some ([], cursor))"
| "read_targets data hlen (Suc n) cursor =
     (if cursor + 2 > hlen then Some None
      else do {
        uid_len \<leftarrow> read_u16 data cursor;
        uid \<leftarrow> read_text data hlen (cursor + 2) (unat uid_len);
        case uid of
          None \<Rightarrow> Some None
        | Some (uid, cursor) \<Rightarrow> do {
            rest \<leftarrow> read_targets data hlen n cursor;
            case rest of
              None \<Rightarrow> Some None
            | Some (uids, cursor) \<Rightarrow> Some (Some (uid # uids, cursor)) } })"

text \<open>
  The variable part of the header, from the cursor at the end of the fixed header: \<open>Some None\<close> when
  a length does not fit, otherwise the source identity, the target UIDs, the security tag, the
  profile and type names and the final cursor.
\<close>

definition read_variable ::
  "bytes \<Rightarrow> nat \<Rightarrow> nat \<times> nat \<times> nat \<times> nat \<times> nat \<times> nat \<Rightarrow>
     (string \<times> string \<times> string list \<times> bytes \<times> string \<times> string \<times> nat) option option" where
  "read_variable data hlen lens =
     (case lens of (endpoint_len, entity_len, target_count, auth_len, profile_len, type_len) \<Rightarrow> do {
        ep \<leftarrow> read_text data hlen kFixedHeaderSize endpoint_len;
        case ep of None \<Rightarrow> Some None | Some (endpoint_uid, cursor) \<Rightarrow> do {
        en \<leftarrow> read_text data hlen cursor entity_len;
        case en of None \<Rightarrow> Some None | Some (entity_uid, cursor) \<Rightarrow> do {
        ts \<leftarrow> read_targets data hlen target_count cursor;
        case ts of None \<Rightarrow> Some None | Some (uids, cursor) \<Rightarrow> do {
        room \<leftarrow> checked_sub hlen cursor;
        if auth_len > room then Some None else do {
        auth_tag \<leftarrow> span data cursor auth_len;
        pr \<leftarrow> read_text data hlen (cursor + auth_len) profile_len;
        case pr of None \<Rightarrow> Some None | Some (profile_id, cursor) \<Rightarrow> do {
        ty \<leftarrow> read_text data hlen cursor type_len;
        case ty of None \<Rightarrow> Some None | Some (type_name, cursor) \<Rightarrow>
          if cursor \<noteq> hlen then Some None
          else Some (Some (endpoint_uid, entity_uid, uids, auth_tag, profile_id, type_name, cursor))
        }}}}}})"

text \<open>The checks on the decoded identifiers that follow.\<close>

definition identity_refused :: "Envelope \<Rightarrow> bool" where
  "identity_refused e \<longleftrightarrow>
     \<not> valid_uid (src_endpoint_uid (source e)) \<or>
     (src_entity_uid (source e) \<noteq> [] \<and> \<not> valid_uid (src_entity_uid (source e))) \<or>
     \<not> valid_type_ref (env_type e) \<or>
     (ts_scope (target e) = Scope_kBroadcast) \<noteq> (ts_uids (target e) = []) \<or>
     list_ex (\<lambda>uid. \<not> valid_uid uid) (ts_uids (target e))"

text \<open>
  From the enumeration checks to the identifier checks: \<open>Some None\<close> is one of the three returns of
  \<open>kDecodeError\<close> with \<open>consumed = total_len\<close>, otherwise the envelope but for payload and checksum.
\<close>

definition decode_fields :: "bytes \<Rightarrow> u16 \<Rightarrow> u32 \<Rightarrow> Envelope option option" where
  "decode_fields data hlen plen = do {
     b14 \<leftarrow> byte_at data 14; b15 \<leftarrow> byte_at data 15; b72 \<leftarrow> byte_at data 72;
     if \<not> valid_qos b14 \<or> \<not> valid_family b15 \<or> \<not> valid_scope b72 then Some None
     else do {
       endpoint_len \<leftarrow> read_u16 data 60; entity_len \<leftarrow> read_u16 data 62;
       target_count \<leftarrow> read_u16 data 64; auth_len \<leftarrow> read_u16 data 66;
       profile_len \<leftarrow> read_u16 data 68; type_len \<leftarrow> read_u16 data 70;
       b4 \<leftarrow> byte_at data 4; b5 \<leftarrow> byte_at data 5; fl \<leftarrow> read_u16 data 6;
       qos \<leftarrow> qos_of b14; fam \<leftarrow> family_of b15; b16 \<leftarrow> byte_at data 16;
       schema \<leftarrow> read_u16 data 18; sid \<leftarrow> read_u64 data 20; mid \<leftarrow> read_u64 data 28;
       cid \<leftarrow> read_u64 data 36; created \<leftarrow> read_u64 data 44; ttl \<leftarrow> read_u32 data 52;
       epoch \<leftarrow> read_u32 data 56; scope \<leftarrow> scope_of b72;
       maj \<leftarrow> read_u16 data 74; mnr \<leftarrow> read_u16 data 76;
       var \<leftarrow> read_variable data (unat hlen)
         (unat endpoint_len, unat entity_len, unat target_count, unat auth_len,
          unat profile_len, unat type_len);
       case var of
         None \<Rightarrow> Some None
       | Some (endpoint_uid, entity_uid, uids, auth_tag, profile_id, type_name, cursor) \<Rightarrow>
           let value = \<lparr>
             protocol_major = b4, header_version = b5, flags = fl, header_len = hlen,
             payload_len = plen, qos_class = qos, family = fam, operation = b16,
             schema_version = schema, session_id = sid, message_id = mid, correlation_id = cid,
             source = \<lparr>src_endpoint_uid = endpoint_uid, src_entity_uid = entity_uid\<rparr>,
             target = \<lparr>ts_scope = scope, ts_uids = uids\<rparr>,
             env_type = \<lparr>tr_profile_id = profile_id, tr_major = maj, tr_minor = mnr,
                          tr_type_name = type_name\<rparr>,
             created_at_ms = created, ttl_ms = ttl, payload = [],
             security = \<lparr>sec_key_epoch = epoch, sec_auth_tag = auth_tag\<rparr>, checksum = 0\<rparr>
           in if identity_refused value then Some None else Some (Some value) } }"

definition decode_frame :: "bytes \<Rightarrow> u16 \<Rightarrow> u32 \<Rightarrow> DecodeResult option" where
  "decode_frame data hlen plen = do {
     let total_len = unat hlen + unat plen + kTrailerSize;
     fields \<leftarrow> decode_fields data hlen plen;
     case fields of
       None \<Rightarrow> Some (decode_error Err_kDecodeError total_len)
     | Some value \<Rightarrow> do {
         tail_at \<leftarrow> checked_sub total_len kTrailerSize;
         sum \<leftarrow> read_u32 data tail_at;
         body \<leftarrow> span data 0 tail_at;
         if sum \<noteq> wire_checksum body
         then Some (decode_error Err_kChecksumMismatch total_len)
         else do {
           pay \<leftarrow> span data (unat hlen) (unat plen);
           Some \<lparr>dr_code = Err_kOk, dr_consumed = total_len,
                 dr_envelope = value\<lparr>payload := pay, checksum := sum\<rparr>\<rparr> } } }"

definition decode :: "bytes \<Rightarrow> DecodeResult option" where
  "decode data =
     (if length data < kMinEnvelopeSize then Some (decode_error Err_kDecodeError 0)
      else if \<not> has_magic data then Some (decode_error Err_kInvalidHeader 0)
      else do {
        b4 \<leftarrow> byte_at data 4; b5 \<leftarrow> byte_at data 5; schema \<leftarrow> read_u16 data 18;
        if b4 \<noteq> kProtocolMajor \<or> b5 \<noteq> kHeaderVersion \<or> schema \<noteq> kSchemaVersion
        then Some (decode_error Err_kProtocolMismatch 0)
        else do {
          hlen \<leftarrow> read_u16 data 8;
          plen \<leftarrow> read_u32 data 10;
          if unat hlen < kFixedHeaderSize \<or> unat plen > kMaxPayloadBytes
          then Some (decode_error Err_kDecodeError 0)
          else if length data < unat hlen + unat plen + kTrailerSize
          then Some (decode_error Err_kDecodeError 0)
          else decode_frame data hlen plen } })"

section \<open>Layout of an encoded frame\<close>

text \<open>The envelope whose bytes \<open>encode\<close> emits.\<close>

definition sent_envelope :: "u64 \<Rightarrow> Envelope \<Rightarrow> bool \<Rightarrow> Envelope" where
  "sent_envelope now e auto = (if auto then fill_header now e else e)"

lemmas wire_consts = kFixedHeaderSize_def kTrailerSize_def kMinEnvelopeSize_def kMaxPayloadBytes_def

lemma length_kMagic [simp]: "length kMagic = 4"
  by (simp add: kMagic_def)

lemma length_fixed_header [simp]: "length (fixed_header e) = 80"
  by (simp add: fixed_header_def)

lemma length_target_entry [simp]: "length (target_entry u) = 2 + length u"
  by (simp add: target_entry_def)

lemma targets_bytes_simps [simp]:
  "targets_bytes [] = 0" "targets_bytes (u # us) = 2 + length u + targets_bytes us"
  by (simp_all add: targets_bytes_def)

lemma length_target_entries: "length (concat (map target_entry uids)) = targets_bytes uids"
  by (induction uids) simp_all

lemma length_variable_header [simp]: "length (variable_header e) = variable_size e"
  by (simp add: variable_header_def variable_size_def length_target_entries)

lemma length_frame_body: "length (frame_body e) = 80 + variable_size e + length (payload e)"
  by (simp add: frame_body_def)

lemma read_u16_skip [span_simps]: "length xs \<le> i \<Longrightarrow> read_u16 (xs @ ys) i = read_u16 ys (i - length xs)"
  by (simp add: read_u16_def span_simps)
lemma read_u16_Cons [span_simps]: "0 < i \<Longrightarrow> read_u16 (x # ys) i = read_u16 ys (i - 1)"
  by (simp add: read_u16_def span_simps)
lemma read_u16_here [span_simps]: "read_u16 (le_bytes 2 v @ ys) 0 = Some v"
  by (simp add: read_u16_def span_simps)
lemma read_u32_skip [span_simps]: "length xs \<le> i \<Longrightarrow> read_u32 (xs @ ys) i = read_u32 ys (i - length xs)"
  by (simp add: read_u32_def span_simps)
lemma read_u32_Cons [span_simps]: "0 < i \<Longrightarrow> read_u32 (x # ys) i = read_u32 ys (i - 1)"
  by (simp add: read_u32_def span_simps)
lemma read_u32_here [span_simps]: "read_u32 (le_bytes 4 v @ ys) 0 = Some v"
  by (simp add: read_u32_def span_simps)
lemma read_u64_skip [span_simps]: "length xs \<le> i \<Longrightarrow> read_u64 (xs @ ys) i = read_u64 ys (i - length xs)"
  by (simp add: read_u64_def span_simps)
lemma read_u64_Cons [span_simps]: "0 < i \<Longrightarrow> read_u64 (x # ys) i = read_u64 ys (i - 1)"
  by (simp add: read_u64_def span_simps)
lemma read_u64_here [span_simps]: "read_u64 (le_bytes 8 v @ ys) 0 = Some v"
  by (simp add: read_u64_def span_simps)

lemma header_u16_fields:
  "read_u16 (fixed_header e @ rest) 6 = Some (flags e)"
  "read_u16 (fixed_header e @ rest) 8 = Some (header_len e)"
  "read_u16 (fixed_header e @ rest) 18 = Some (schema_version e)"
  "read_u16 (fixed_header e @ rest) 60 = Some (word_of_nat (length (src_endpoint_uid (source e))))"
  "read_u16 (fixed_header e @ rest) 62 = Some (word_of_nat (length (src_entity_uid (source e))))"
  "read_u16 (fixed_header e @ rest) 64 = Some (word_of_nat (length (ts_uids (target e))))"
  "read_u16 (fixed_header e @ rest) 66 = Some (word_of_nat (length (sec_auth_tag (security e))))"
  "read_u16 (fixed_header e @ rest) 68 = Some (word_of_nat (length (tr_profile_id (env_type e))))"
  "read_u16 (fixed_header e @ rest) 70 = Some (word_of_nat (length (tr_type_name (env_type e))))"
  "read_u16 (fixed_header e @ rest) 74 = Some (tr_major (env_type e))"
  "read_u16 (fixed_header e @ rest) 76 = Some (tr_minor (env_type e))"
  by (simp_all add: fixed_header_def span_simps)

lemma header_u32_u64_fields:
  "read_u32 (fixed_header e @ rest) 10 = Some (payload_len e)"
  "read_u64 (fixed_header e @ rest) 20 = Some (session_id e)"
  "read_u64 (fixed_header e @ rest) 28 = Some (message_id e)"
  "read_u64 (fixed_header e @ rest) 36 = Some (correlation_id e)"
  "read_u64 (fixed_header e @ rest) 44 = Some (created_at_ms e)"
  "read_u32 (fixed_header e @ rest) 52 = Some (ttl_ms e)"
  "read_u32 (fixed_header e @ rest) 56 = Some (sec_key_epoch (security e))"
  by (simp_all add: fixed_header_def span_simps)

lemma header_byte_fields:
  "byte_at (fixed_header e @ rest) 4 = Some (protocol_major e)"
  "byte_at (fixed_header e @ rest) 5 = Some (header_version e)"
  "byte_at (fixed_header e @ rest) 14 = Some (qos_code (qos_class e))"
  "byte_at (fixed_header e @ rest) 15 = Some (family_code (family e))"
  "byte_at (fixed_header e @ rest) 16 = Some (operation e)"
  "byte_at (fixed_header e @ rest) 72 = Some (scope_code (ts_scope (target e)))"
  by (simp_all add: fixed_header_def span_simps)

lemmas header_fields = header_u16_fields header_u32_u64_fields header_byte_fields

lemma has_magic_fixed_header: "has_magic (fixed_header e @ rest)"
  by (simp add: has_magic_def fixed_header_def)

lemma read_text_at:
  assumes "i = length pre" and "n = length s" and "i + n \<le> hlen"
  shows "read_text (pre @ bytes_of_string s @ post) hlen i n = Some (Some (s, i + n))"
  using assms by (simp add: read_text_def checked_sub_def span_simps)

lemma read_targets_at:
  assumes "list_all (\<lambda>u. length u \<le> 65535) uids" "i = length pre"
    and "i + targets_bytes uids \<le> hlen"
  shows "read_targets (pre @ concat (map target_entry uids) @ post) hlen (length uids) i =
     Some (Some (uids, i + targets_bytes uids))"
  using assms
proof (induction uids arbitrary: pre i)
  case (Cons u us)
  have 1: "read_u16 (pre @ concat (map target_entry (u # us)) @ post) i = Some (word_of_nat (length u))"
    using Cons.prems by (simp add: target_entry_def span_simps)
  have 2: "read_text (pre @ concat (map target_entry (u # us)) @ post) hlen (i + 2) (length u) = Some (Some (u, i + 2 + length u))"
    using Cons.prems read_text_at[of "i + 2" "pre @ le_bytes 2 (word_of_nat (length u) :: u16)" "length u" u hlen "concat (map target_entry us) @ post"]
    by (simp add: target_entry_def)
  have 3: "read_targets (pre @ concat (map target_entry (u # us)) @ post) hlen (length us) (i + 2 + length u) =
     Some (Some (us, i + targets_bytes (u # us)))"
    using Cons.prems Cons.IH[of "i + 2 + length u" "pre @ target_entry u"] by simp
  show ?case using 1 2 3 Cons.prems by simp
qed simp

lemma valid_codes [simp]:
  "valid_qos (qos_code q)" "valid_family (family_code f)" "valid_scope (scope_code s)"
  unfolding valid_qos_def valid_family_def valid_scope_def by (cases q, simp_all) (cases f, simp_all, cases s, simp_all)

lemma not_refused_bounds:
  assumes "\<not> encode_refuses e"
  shows "length (src_endpoint_uid (source e)) \<le> 128" "length (src_entity_uid (source e)) \<le> 128"
    "length (ts_uids (target e)) \<le> 65535" "list_all (\<lambda>u. length u \<le> 65535) (ts_uids (target e))"
    "length (sec_auth_tag (security e)) \<le> 65535" "length (tr_profile_id (env_type e)) \<le> 128"
    "length (tr_type_name (env_type e)) \<le> 256" "variable_size e \<le> 65455"
    "length (payload e) \<le> kMaxPayloadBytes" "\<not> identity_refused e"
    "protocol_major e = kProtocolMajor" "header_version e = kHeaderVersion"
    "schema_version e = kSchemaVersion"
proof -
  show "length (src_endpoint_uid (source e)) \<le> 128" "length (src_entity_uid (source e)) \<le> 128"
    using assms valid_uid_length[of "src_endpoint_uid (source e)"] valid_uid_length[of "src_entity_uid (source e)"]
    by (auto simp: encode_refuses_def)
  show "list_all (\<lambda>u. length u \<le> 65535) (ts_uids (target e))"
    using assms by (fastforce simp: encode_refuses_def list_ex_iff list_all_iff dest: valid_uid_length)
  show "length (tr_profile_id (env_type e)) \<le> 128" "length (tr_type_name (env_type e)) \<le> 256"
    using assms valid_type_ref_lengths by (auto simp: encode_refuses_def)
  show "\<not> identity_refused e"
    using assms by (auto simp: encode_refuses_def identity_refused_def split: if_splits)
qed (use assms in \<open>simp_all add: encode_refuses_def kFixedHeaderSize_def\<close>)

lemma read_variable_at:
  assumes "\<not> encode_refuses e" and "hlen = 80 + variable_size e" and "length hdr = 80"
  shows "read_variable (hdr @ variable_header e @ rest) hlen
      (length (src_endpoint_uid (source e)), length (src_entity_uid (source e)),
       length (ts_uids (target e)), length (sec_auth_tag (security e)),
       length (tr_profile_id (env_type e)), length (tr_type_name (env_type e))) =
    Some (Some (src_endpoint_uid (source e), src_entity_uid (source e), ts_uids (target e),
      sec_auth_tag (security e), tr_profile_id (env_type e), tr_type_name (env_type e), hlen))"
proof -
  define ep en us au pr ty where defs:
    "ep = src_endpoint_uid (source e)" "en = src_entity_uid (source e)" "us = ts_uids (target e)"
    "au = sec_auth_tag (security e)" "pr = tr_profile_id (env_type e)" "ty = tr_type_name (env_type e)"
  have vs: "variable_size e = length ep + length en + targets_bytes us + length au + length pr + length ty"
    by (simp add: variable_size_def defs)
  have us: "list_all (\<lambda>u. length u \<le> 65535) us"
    using not_refused_bounds(4)[OF assms(1)] by (simp add: defs)
  let ?d = "hdr @ variable_header e @ rest"
  have d: "?d = hdr @ bytes_of_string ep @ bytes_of_string en @ concat (map target_entry us) @ au @
      bytes_of_string pr @ bytes_of_string ty @ rest"
    by (simp add: variable_header_def defs)
  have 1: "read_text ?d hlen 80 (length ep) = Some (Some (ep, 80 + length ep))"
    unfolding d by (rule read_text_at) (use assms vs in simp_all)
  have 2: "read_text ?d hlen (80 + length ep) (length en) = Some (Some (en, 80 + length ep + length en))"
    unfolding d using read_text_at[of _ "hdr @ bytes_of_string ep"] assms vs by simp
  have 3: "read_targets ?d hlen (length us) (80 + length ep + length en) =
      Some (Some (us, 80 + length ep + length en + targets_bytes us))"
    unfolding d
    using read_targets_at[of us "80 + length ep + length en" "hdr @ bytes_of_string ep @ bytes_of_string en"
        hlen "au @ bytes_of_string pr @ bytes_of_string ty @ rest"] us assms vs by simp
  let ?c = "80 + length ep + length en + targets_bytes us"
  have 4: "span ?d ?c (length au) = Some au"
    unfolding d using assms by (simp add: span_simps length_target_entries)
  have 5: "read_text ?d hlen (?c + length au) (length pr) = Some (Some (pr, ?c + length au + length pr))"
    unfolding d
    using read_text_at[of "?c + length au" "hdr @ bytes_of_string ep @ bytes_of_string en @ concat (map target_entry us) @ au"
        "length pr" pr hlen "bytes_of_string ty @ rest"] assms vs
    by (simp add: length_target_entries)
  have 6: "read_text ?d hlen (?c + length au + length pr) (length ty) = Some (Some (ty, ?c + length au + length pr + length ty))"
    unfolding d
    using read_text_at[of "?c + length au + length pr" "hdr @ bytes_of_string ep @ bytes_of_string en @ concat (map target_entry us) @ au @ bytes_of_string pr"
        "length ty" ty hlen rest] assms vs
    by (simp add: length_target_entries)
  show ?thesis
    unfolding read_variable_def defs[symmetric] kFixedHeaderSize_def
    using 1 2 3 4 5 6 vs assms(2) by (simp add: checked_sub_def)
qed

lemma rebuild_envelope:
  "\<lparr>protocol_major = protocol_major e, header_version = header_version e, flags = flags e,
     header_len = header_len e, payload_len = payload_len e, qos_class = qos_class e,
     family = family e, operation = operation e, schema_version = schema_version e,
     session_id = session_id e, message_id = message_id e, correlation_id = correlation_id e,
     source = \<lparr>src_endpoint_uid = src_endpoint_uid (source e),
                src_entity_uid = src_entity_uid (source e)\<rparr>,
     target = \<lparr>ts_scope = ts_scope (target e), ts_uids = ts_uids (target e)\<rparr>,
     env_type = \<lparr>tr_profile_id = tr_profile_id (env_type e), tr_major = tr_major (env_type e),
                  tr_minor = tr_minor (env_type e), tr_type_name = tr_type_name (env_type e)\<rparr>,
     created_at_ms = created_at_ms e, ttl_ms = ttl_ms e, payload = [],
     security = \<lparr>sec_key_epoch = sec_key_epoch (security e),
                  sec_auth_tag = sec_auth_tag (security e)\<rparr>, checksum = 0\<rparr> =
   e\<lparr>payload := [], checksum := 0\<rparr>"
  by (rule Envelope.equality) simp_all

lemma identity_refused_payload [simp]:
  "identity_refused (e\<lparr>payload := p, checksum := c\<rparr>) = identity_refused e"
  by (simp add: identity_refused_def)

lemma decode_body:
  assumes ok: "\<not> encode_refuses e" and h: "unat (header_len e) = 80 + variable_size e"
    and p: "unat (payload_len e) = length (payload e)"
    and frame: "frame = frame_body e @ le_bytes 4 (wire_checksum (frame_body e))"
  shows "decode (frame @ rest) = Some \<lparr>dr_code = Err_kOk, dr_consumed = length frame,
     dr_envelope = e\<lparr>checksum := wire_checksum (frame_body e)\<rparr>\<rparr>"
proof -
  note b = not_refused_bounds[OF ok]
  define tail where "tail = variable_header e @ payload e @ le_bytes 4 (wire_checksum (frame_body e)) @ rest"
  have d: "frame @ rest = fixed_header e @ tail"
    by (simp add: frame frame_body_def tail_def)
  have len: "length frame = unat (header_len e) + unat (payload_len e) + kTrailerSize"
    by (simp add: frame length_frame_body h p kTrailerSize_def)
  have var: "read_variable (fixed_header e @ tail) (unat (header_len e))
      (length (src_endpoint_uid (source e)), length (src_entity_uid (source e)),
       length (ts_uids (target e)), length (sec_auth_tag (security e)),
       length (tr_profile_id (env_type e)), length (tr_type_name (env_type e))) =
    Some (Some (src_endpoint_uid (source e), src_entity_uid (source e), ts_uids (target e),
      sec_auth_tag (security e), tr_profile_id (env_type e), tr_type_name (env_type e), unat (header_len e)))"
    unfolding tail_def by (rule read_variable_at) (simp_all add: ok h)
  have body: "span (fixed_header e @ tail) 0 (80 + variable_size e + length (payload e)) = Some (frame_body e)"
    unfolding tail_def frame_body_def by (simp add: span_def)
  have sum: "read_u32 (fixed_header e @ tail) (80 + variable_size e + length (payload e)) = Some (wire_checksum (frame_body e))"
    unfolding tail_def by (simp add: span_simps)
  have pay: "span (fixed_header e @ tail) (80 + variable_size e) (length (payload e)) = Some (payload e)"
    unfolding tail_def by (simp add: span_simps)
  have flds: "decode_fields (fixed_header e @ tail) (header_len e) (payload_len e) =
      Some (Some (e\<lparr>payload := [], checksum := 0\<rparr>))"
    unfolding decode_fields_def using b(1-10) var
    by (simp add: header_fields rebuild_envelope)
  have df: "decode_frame (fixed_header e @ tail) (header_len e) (payload_len e) = Some \<lparr>dr_code = Err_kOk, dr_consumed = length frame,
     dr_envelope = e\<lparr>checksum := wire_checksum (frame_body e)\<rparr>\<rparr>"
    unfolding decode_frame_def
    using flds body sum pay by (simp add: len h p kTrailerSize_def checked_sub_def add.assoc Let_def)
  show ?thesis
    unfolding d decode_def using b df len h p
    by (simp add: header_fields has_magic_fixed_header wire_consts tail_def)
qed

lemma fill_header_frame:
  "source (fill_header now e) = source e" "target (fill_header now e) = target e"
  "env_type (fill_header now e) = env_type e" "payload (fill_header now e) = payload e"
  "security (fill_header now e) = security e" "protocol_major (fill_header now e) = protocol_major e"
  "header_version (fill_header now e) = header_version e"
  "schema_version (fill_header now e) = schema_version e"
  "header_len (fill_header now e) = word_of_nat (80 + variable_size e)"
  "payload_len (fill_header now e) = word_of_nat (length (payload e))"
  by (simp_all add: fill_header_def Let_def kFixedHeaderSize_def)

lemma variable_size_fill [simp]: "variable_size (fill_header now e) = variable_size e"
  by (simp add: variable_size_def fill_header_frame)

lemma encode_refuses_fill [simp]: "encode_refuses (fill_header now e) = encode_refuses e"
  by (simp add: encode_refuses_def fill_header_frame)

lemma encode_fill_sizes:
  assumes "\<not> encode_refuses e"
  shows "unat (header_len (fill_header now e)) = 80 + variable_size e"
    and "unat (payload_len (fill_header now e)) = length (payload e)"
  using not_refused_bounds(8,9)[OF assms]
  by (simp_all add: fill_header_frame kMaxPayloadBytes_def del: of_nat_add)

lemma encode_nonempty_iff:
  "encode now e auto \<noteq> [] \<longleftrightarrow> \<not> encode_refuses e \<and>
     (auto \<or> unat (header_len e) = 80 + variable_size e \<and> unat (payload_len e) = length (payload e))"
  using encode_fill_sizes[of e now]
  by (auto simp: encode_def Let_def kFixedHeaderSize_def fill_header_frame(4)
      simp flip: length_greater_0_conv)

lemma encode_cases:
  assumes "encode now e auto \<noteq> []"
  obtains "\<not> encode_refuses (sent_envelope now e auto)"
    and "unat (header_len (sent_envelope now e auto)) = 80 + variable_size (sent_envelope now e auto)"
    and "unat (payload_len (sent_envelope now e auto)) = length (payload (sent_envelope now e auto))"
    and "encode now e auto = frame_body (sent_envelope now e auto) @
           le_bytes 4 (wire_checksum (frame_body (sent_envelope now e auto)))"
  using assms
  by (auto simp: encode_def Let_def sent_envelope_def kFixedHeaderSize_def split: if_splits)

lemma decode_encode:
  assumes "encode now e auto \<noteq> []"
  shows "decode (encode now e auto @ rest) =
    Some \<lparr>dr_code = Err_kOk, dr_consumed = length (encode now e auto),
          dr_envelope = (sent_envelope now e auto)
            \<lparr>checksum := wire_checksum (frame_body (sent_envelope now e auto))\<rparr>\<rparr>"
  using assms by (rule encode_cases) (rule decode_body)

section \<open>Decoding stays inside the buffer\<close>

lemma valid_qos_of: "valid_qos b \<longleftrightarrow> qos_of b \<noteq> None"
proof
  show "valid_qos b \<Longrightarrow> qos_of b \<noteq> None"
    using u8_le_4_cases[of b] by (auto simp: valid_qos_def qos_of_def)
qed (auto dest: qos_ofD)
lemma valid_family_of: "valid_family b \<longleftrightarrow> family_of b \<noteq> None"
proof
  show "valid_family b \<Longrightarrow> family_of b \<noteq> None"
    using u8_le_9_cases[of b] by (auto simp: valid_family_def family_of_def)
qed (auto dest: family_ofD)
lemma valid_scope_of: "valid_scope b \<longleftrightarrow> scope_of b \<noteq> None"
proof
  show "valid_scope b \<Longrightarrow> scope_of b \<noteq> None"
    using u8_le_4_cases[of b] by (auto simp: valid_scope_def scope_of_def)
qed (auto dest: scope_ofD)

lemma reads_in_range:
  "i + 2 \<le> length data \<Longrightarrow> read_u16 data i = Some (le_word (take 2 (drop i data)))"
  "i + 4 \<le> length data \<Longrightarrow> read_u32 data i = Some (le_word (take 4 (drop i data)))"
  "i + 8 \<le> length data \<Longrightarrow> read_u64 data i = Some (le_word (take 8 (drop i data)))"
  by (simp_all add: read_u16_def read_u32_def read_u64_def span_in_range)

text \<open>A reader step that starts inside the header is defined and stays inside it.\<close>

definition step_ok :: "nat \<Rightarrow> ('a \<times> nat) option option \<Rightarrow> bool" where
  "step_ok hlen r \<longleftrightarrow> (case r of None \<Rightarrow> False | Some None \<Rightarrow> True | Some (Some (_, c)) \<Rightarrow> c \<le> hlen)"

lemma read_text_defined:
  "cursor \<le> hlen \<Longrightarrow> hlen \<le> length data \<Longrightarrow> step_ok hlen (read_text data hlen cursor n)"
  by (auto simp: step_ok_def read_text_def checked_sub_def span_def)

lemma step_okE:
  assumes "step_ok hlen r"
  obtains "r = Some None" | x c where "r = Some (Some (x, c))" "c \<le> hlen"
  using assms by (auto simp: step_ok_def split: option.splits)

lemma read_targets_defined:
  "cursor \<le> hlen \<Longrightarrow> hlen \<le> length data \<Longrightarrow> step_ok hlen (read_targets data hlen n cursor)"
proof (induction n arbitrary: cursor)
  case (Suc n)
  show ?case
  proof (cases "cursor + 2 > hlen")
    case False
    with Suc.prems reads_in_range(1)[of cursor data] obtain u where u: "read_u16 data cursor = Some u" by auto
    have "step_ok hlen (read_text data hlen (cursor + 2) (unat u))"
      using False Suc.prems by (intro read_text_defined) auto
    then show ?thesis
    proof (rule step_okE)
      fix uid c
      assume r: "read_text data hlen (cursor + 2) (unat u) = Some (Some (uid, c))" and c: "c \<le> hlen"
      have "step_ok hlen (read_targets data hlen n c)" using c Suc.prems(2) by (rule Suc.IH)
      then show ?thesis
        using False u r by (auto simp: step_ok_def split: option.splits)
    qed (use False u in \<open>simp add: step_ok_def\<close>)
  qed (simp add: step_ok_def)
qed (simp add: step_ok_def)

lemma bind_step_defined:
  assumes "step_ok hlen r" and "\<And>x c. c \<le> hlen \<Longrightarrow> \<exists>v. k x c = Some v"
  shows "\<exists>v. Option.bind r (\<lambda>z. case z of None \<Rightarrow> Some None | Some (x, c) \<Rightarrow> k x c) = Some v"
  using assms(1) by (rule step_okE) (use assms(2) in auto)

lemma read_variable_defined:
  assumes "80 \<le> hlen" "hlen \<le> length data"
  shows "\<exists>v. read_variable data hlen lens = Some v"
proof -
  obtain n1 n2 n3 n4 n5 n6 where l: "lens = (n1, n2, n3, n4, n5, n6)" by (cases lens) auto
  note rt = read_text_defined[OF _ assms(2)] and rg = read_targets_defined[OF _ assms(2)]
  have tail: "\<exists>v. (do { room \<leftarrow> checked_sub hlen c;
      if n4 > room then Some None else do { a \<leftarrow> span data c n4; k a } }) = Some v"
    if "c \<le> hlen" "\<And>a. c + n4 \<le> hlen \<Longrightarrow> \<exists>v. k a = Some v" for c and k :: "bytes \<Rightarrow> 'b option option"
    using that assms(2) by (auto simp: checked_sub_def span_def)
  show ?thesis
    unfolding read_variable_def l kFixedHeaderSize_def prod.case
    by (intro bind_step_defined[OF rt] bind_step_defined[OF rg] tail; (simp add: assms)?)
qed

lemma decode_fields_defined:
  assumes "84 \<le> length data" "80 \<le> unat hlen" "unat hlen \<le> length data"
  shows "\<exists>r. decode_fields data hlen plen = Some r"
proof -
  obtain var where var: "\<And>lens. read_variable data (unat hlen) lens = Some (var lens)"
    using read_variable_defined[of "unat hlen" data] assms by metis
  show ?thesis
    unfolding decode_fields_def Let_def
    using assms
    by (auto simp: byte_at_in_range reads_in_range var valid_qos_of valid_family_of valid_scope_of
        split: option.split)
qed

lemma decode_frame_defined:
  assumes "84 \<le> length data" "80 \<le> unat hlen" "unat hlen + unat plen + 4 \<le> length data"
  shows "\<exists>r. decode_frame data hlen plen = Some r"
  using decode_fields_defined[of data hlen plen] assms
  by (auto simp: decode_frame_def reads_in_range checked_sub_def span_in_range kTrailerSize_def
      Let_def split: option.split)

lemma decode_never_undefined: "\<exists>r. decode data = Some r"
  by (auto simp: decode_def wire_consts byte_at_in_range reads_in_range not_less
      intro!: decode_frame_defined)

section \<open>What a decoded frame looks like\<close>

lemma read_text_sound:
  "read_text data hlen cursor n = Some (Some (s, c)) \<Longrightarrow> length s = n \<and> c = cursor + length s"
  by (auto simp: read_text_def checked_sub_def span_def bind_eq_Some_conv split: if_splits)

lemma read_targets_sound:
  "read_targets data hlen n cursor = Some (Some (uids, c)) \<Longrightarrow>
     length uids = n \<and> c = cursor + targets_bytes uids"
proof (induction n arbitrary: cursor uids)
  case (Suc n)
  then obtain u uid c1 us where
      "read_text data hlen (cursor + 2) u = Some (Some (uid, c1))"
      and rest: "read_targets data hlen n c1 = Some (Some (us, c))" and "uids = uid # us"
    by (auto simp: bind_eq_Some_conv split: if_splits option.splits)
  then show ?case using Suc.IH[OF rest] read_text_sound by fastforce
qed simp

lemma read_variable_sound:
  assumes "read_variable data hlen (n1, n2, n3, n4, n5, n6) = Some (Some (ep, en, us, au, pr, ty, c))"
  shows "length us = n3 \<and> length au = n4 \<and>
    80 + length ep + length en + targets_bytes us + length au + length pr + length ty = hlen"
  using assms unfolding read_variable_def
  by (auto simp: bind_eq_Some_conv kFixedHeaderSize_def split: if_splits option.splits
      dest!: read_text_sound read_targets_sound span_length)

lemma decode_fields_ok:
  assumes "decode_fields data hlen plen = Some (Some e)"
  shows "header_len e = hlen \<and> payload_len e = plen \<and> \<not> identity_refused e \<and>
    80 + variable_size e = unat hlen \<and> length (ts_uids (target e)) \<le> 65535 \<and>
    length (sec_auth_tag (security e)) \<le> 65535 \<and>
    byte_at data 4 = Some (protocol_major e) \<and> byte_at data 5 = Some (header_version e) \<and>
    read_u16 data 18 = Some (schema_version e)"
  using assms unfolding decode_fields_def
  by (elim bind_SomeE, split if_split_asm, simp, elim bind_SomeE, split option.split_asm, simp)
    (clarsimp simp: Let_def variable_size_def split: if_splits dest!: read_variable_sound)

text \<open>What a successful decode says about the buffer.\<close>

lemma decode_okE:
  assumes "decode data = Some r" and "dr_code r = Err_kOk"
  obtains "dr_consumed r = unat (header_len (dr_envelope r)) + unat (payload_len (dr_envelope r)) + 4"
    and "dr_consumed r \<le> length data"
    and "read_u16 data 8 = Some (header_len (dr_envelope r))"
    and "read_u32 data 10 = Some (payload_len (dr_envelope r))"
    and "read_u32 data (dr_consumed r - 4) = Some (wire_checksum (take (dr_consumed r - 4) data))"
    and "checksum (dr_envelope r) = wire_checksum (take (dr_consumed r - 4) data)"
    and "length (payload (dr_envelope r)) = unat (payload_len (dr_envelope r))"
    and "unat (header_len (dr_envelope r)) = 80 + variable_size (dr_envelope r)"
    and "\<not> encode_refuses (dr_envelope r)"
proof -
  from assms obtain hlen plen where
      h: "read_u16 data 8 = Some hlen" and p: "read_u32 data 10 = Some plen"
      and b: "unat plen \<le> kMaxPayloadBytes" "unat hlen + unat plen + 4 \<le> length data"
      and v: "byte_at data 4 = Some kProtocolMajor" "byte_at data 5 = Some kHeaderVersion"
        "read_u16 data 18 = Some kSchemaVersion"
      and f: "decode_frame data hlen plen = Some r"
    by (auto simp: decode_def decode_error_def bind_eq_Some_conv kTrailerSize_def split: if_splits)
  from f assms(2) obtain e where
      e: "decode_fields data hlen plen = Some (Some e)"
      and sum: "read_u32 data (unat hlen + unat plen) = Some (wire_checksum (take (unat hlen + unat plen) data))"
      and pay: "span data (unat hlen) (unat plen) = Some (payload (dr_envelope r))"
      and r: "dr_consumed r = unat hlen + unat plen + 4"
        "dr_envelope r = e\<lparr>payload := payload (dr_envelope r), checksum := wire_checksum (take (unat hlen + unat plen) data)\<rparr>"
    by (auto simp: decode_frame_def decode_error_def bind_eq_Some_conv kTrailerSize_def
        checked_sub_def span_def Let_def split: if_splits option.splits)
  note ef = decode_fields_ok[OF e]
  obtain pl where re: "dr_envelope r =
      e\<lparr>payload := pl, checksum := wire_checksum (take (unat hlen + unat plen) data)\<rparr>"
    using r(2) by blast
  have ver: "protocol_major e = kProtocolMajor" "header_version e = kHeaderVersion"
      "schema_version e = kSchemaVersion"
    using ef v by auto
  have "length pl = unat plen" using pay re by (auto dest: span_length)
  have vs: "variable_size (dr_envelope r) = variable_size e"
    by (simp add: re variable_size_def)
  have small: "variable_size e \<le> 65455"
    using ef unat_u16_less[of hlen] by simp
  have "\<not> encode_refuses (dr_envelope r)"
    using ef ver b(1) \<open>length pl = unat plen\<close> small
    unfolding encode_refuses_def kFixedHeaderSize_def vs
    by (auto simp: re identity_refused_def split: if_splits)
  then show thesis
    using that ef r(1) b h p sum vs \<open>length pl = unat plen\<close> by (simp add: re)
qed

lemma decode_reencode:
  assumes "decode data = Some r" and "dr_code r = Err_kOk"
  shows "encode now (dr_envelope r) False \<noteq> [] \<and>
    length (encode now (dr_envelope r) False) = dr_consumed r \<and>
    (\<exists>sum. decode (encode now (dr_envelope r) False) =
      Some (r\<lparr>dr_envelope := (dr_envelope r)\<lparr>checksum := sum\<rparr>\<rparr>))"
proof -
  let ?e = "dr_envelope r"
  from assms obtain f: "unat (header_len ?e) = 80 + variable_size ?e" "\<not> encode_refuses ?e"
      "length (payload ?e) = unat (payload_len ?e)"
      and n: "dr_consumed r = unat (header_len ?e) + unat (payload_len ?e) + 4"
    by (rule decode_okE) blast
  from f have ne: "encode now ?e False \<noteq> []" by (simp add: encode_nonempty_iff)
  then have len: "length (encode now ?e False) = dr_consumed r"
    by (rule encode_cases) (simp add: n f sent_envelope_def length_frame_body)
  from decode_encode[OF ne, of "[]"] len assms(2) have
    "decode (encode now ?e False) =
      Some (r\<lparr>dr_envelope := ?e\<lparr>checksum := wire_checksum (frame_body ?e)\<rparr>\<rparr>)"
    by (simp add: sent_envelope_def)
  with ne len show ?thesis by blast
qed

section \<open>The checksum notices a changed byte\<close>

lemma fnv_mult_inj: "(x :: u32) * 16777619 = y * 16777619 \<longleftrightarrow> x = y"
proof
  assume "x * 16777619 = y * 16777619"
  then have "x * 16777619 * 899433627 = y * 16777619 * 899433627" by simp
  then have "x * (16777619 * 899433627) = y * (16777619 * 899433627)"
    by (simp only: mult.assoc)
  moreover have "(16777619 * 899433627 :: u32) = 1" by simp
  ultimately show "x = y" by (simp only: mult_1_right)
qed simp

lemma fnv_step_inj: "fnv_step b h = fnv_step b h' \<longleftrightarrow> h = h'" "fnv_step b h = fnv_step c h \<longleftrightarrow> b = c"
  by (simp_all add: fnv_step_def fnv_mult_inj xor_cancel ucast_u8_u32_inj)

lemma fold_fnv_inj: "fold fnv_step bs h = fold fnv_step bs h' \<longleftrightarrow> h = h'"
  by (induction bs arbitrary: h h') (simp_all add: fnv_step_inj)

lemma checksum_one_byte:
  "wire_checksum (xs @ b # ys) = wire_checksum (xs @ c # ys) \<longleftrightarrow> b = c"
  by (simp add: wire_checksum_def fold_fnv_inj fnv_step_inj)

text \<open>
  One corrupted byte anywhere but in the two length fields (offsets 8 to 13) is noticed.
\<close>

lemma read_u16_update: "i < k \<or> k + 2 \<le> i \<Longrightarrow> read_u16 (data[i := b]) k = read_u16 data k"
  by (auto simp: read_u16_def span_def drop_update_swap)
lemma read_u32_update: "i < k \<or> k + 4 \<le> i \<Longrightarrow> read_u32 (data[i := b]) k = read_u32 data k"
  by (auto simp: read_u32_def span_def drop_update_swap)

lemma read_u32_update_inside:
  assumes "k \<le> i" "i < k + 4" "k + 4 \<le> length data" "read_u32 (data[i := b]) k = read_u32 data k"
  shows "b = data ! i"
proof -
  have "le_bytes 4 (le_word (take 4 (drop k (data[i := b]))) :: u32) = le_bytes 4 (le_word (take 4 (drop k data)) :: u32)"
    using assms by (simp add: reads_in_range)
  then have "take 4 (drop k (data[i := b])) = take 4 (drop k data)"
    using assms by (simp add: le_bytes_word)
  then have "take 4 (drop k (data[i := b])) ! (i - k) = take 4 (drop k data) ! (i - k)" by simp
  with assms show ?thesis by simp
qed

lemma corrupted_byte_noticed:
  assumes "decode data = Some r" and "dr_code r = Err_kOk" and "i < dr_consumed r"
    and "i < 8 \<or> 14 \<le> i" and "b \<noteq> data ! i" and "decode (data[i := b]) = Some r'"
  shows "dr_code r' \<noteq> Err_kOk"
proof
  assume ok': "dr_code r' = Err_kOk"
  define n where "n = dr_consumed r - 4"
  from assms(1,2) obtain
      n1: "dr_consumed r = unat (header_len (dr_envelope r)) + unat (payload_len (dr_envelope r)) + 4"
      "dr_consumed r \<le> length data"
      and h: "read_u16 data 8 = Some (header_len (dr_envelope r))" "read_u32 data 10 = Some (payload_len (dr_envelope r))"
      and s: "read_u32 data n = Some (wire_checksum (take n data))"
    unfolding n_def by (rule decode_okE)
  from assms(6) ok' obtain
      n2: "dr_consumed r' = unat (header_len (dr_envelope r')) + unat (payload_len (dr_envelope r')) + 4"
      and h': "read_u16 (data[i := b]) 8 = Some (header_len (dr_envelope r'))"
      "read_u32 (data[i := b]) 10 = Some (payload_len (dr_envelope r'))"
      and s': "read_u32 (data[i := b]) (dr_consumed r' - 4) = Some (wire_checksum (take (dr_consumed r' - 4) (data[i := b])))"
    by (rule decode_okE)
  have "dr_consumed r' = dr_consumed r"
    using h h' n1 n2 assms(4) by (auto simp: read_u16_update read_u32_update)
  with s' have s2: "read_u32 (data[i := b]) n = Some (wire_checksum (take n (data[i := b])))"
    by (simp add: n_def)
  have len: "n + 4 \<le> length data" using n1 n_def by simp
  show False
  proof (cases "i < n")
    case True
    then have "read_u32 (data[i := b]) n = read_u32 data n" by (simp add: read_u32_update)
    moreover have "take n (data[i := b]) = take i data @ b # drop (Suc i) (take n data)"
      using True len by (simp only: take_update_swap) (simp add: upd_conv_take_nth_drop min_def)
    moreover have "take n data = take i data @ data ! i # drop (Suc i) (take n data)"
      using True len id_take_nth_drop[of i "take n data"] by (simp add: min_def)
    ultimately show False using s s2 assms(5) checksum_one_byte by (metis option.inject)
  next
    case False
    then have "take n (data[i := b]) = take n data" by simp
    with s s2 have "read_u32 (data[i := b]) n = read_u32 data n" by simp
    then have "b = data ! i"
      using read_u32_update_inside[of n i data b] False assms(3) n1 n_def by simp
    with assms(5) show False by simp
  qed
qed

section \<open>Properties\<close>

definition sample_envelope :: Envelope where
  "sample_envelope = empty_envelope\<lparr>
     family := MF_kStream, operation := 4, qos_class := Qos_kBestEffort, session_id := 7,
     message_id := 9, source := \<lparr>src_endpoint_uid = ''ep.a'', src_entity_uid = ''uav-1''\<rparr>,
     target := target_endpoint ''gcs'',
     env_type := \<lparr>tr_profile_id = ''org.x'', tr_major = 1, tr_minor = 0, tr_type_name = ''T''\<rparr>,
     created_at_ms := 11, payload := [1, 2, 3]\<rparr>"

lemma sample_envelope_accepted: "\<not> encode_refuses sample_envelope"
  by (simp add: encode_refuses_def sample_envelope_def empty_envelope_def target_endpoint_def
      target_of_def valid_type_ref_def valid_profile_id_def valid_uid_def uid_char_def is_alnum_def
      kProtocolMajor_def kHeaderVersion_def kSchemaVersion_def kMaxUidBytes_def
      kMaxProfileIdBytes_def kMaxTypeNameBytes_def kMaxPayloadBytes_def kFixedHeaderSize_def
      variable_size_def)

text \<open>
  C6. Round trip of the wire codec: an envelope that passes the checks of \<open>encode\<close> is encoded, and
  decoding the bytes, whatever follows them in the buffer, succeeds, consumes exactly the frame and
  returns the envelope with the header fields \<open>encode\<close> filled in and the checksum of the frame.
\<close>

theorem wire_round_trip:
  assumes "\<not> encode_refuses e"
  shows "encode now e True \<noteq> [] \<and>
    decode (encode now e True @ rest) =
      Some \<lparr>dr_code = Err_kOk, dr_consumed = length (encode now e True),
            dr_envelope = (fill_header now e)
              \<lparr>checksum := wire_checksum (frame_body (fill_header now e))\<rparr>\<rparr>"
proof -
  have "encode now e True \<noteq> []" using assms by (simp add: encode_nonempty_iff)
  with decode_encode[of now e True rest] show ?thesis by (simp add: sent_envelope_def)
qed

theorem wire_round_trip_witness:
  "\<not> encode_refuses sample_envelope \<and> encode 5 sample_envelope True \<noteq> [] \<and>
   decode (encode 5 sample_envelope True @ [0]) =
      Some \<lparr>dr_code = Err_kOk, dr_consumed = length (encode 5 sample_envelope True),
            dr_envelope = (fill_header 5 sample_envelope)
              \<lparr>checksum := wire_checksum (frame_body (fill_header 5 sample_envelope))\<rparr>\<rparr>"
  using wire_round_trip[OF sample_envelope_accepted] sample_envelope_accepted by blast

text \<open>
  C7. \<open>decode\<close> is total on arbitrary bytes: it never reads outside the buffer, never lets an unsigned
  subtraction wrap and never casts a byte outside an enumeration, so it always returns a result.
\<close>

theorem decode_defined: "\<exists>r. decode data = Some r"
  by (rule decode_never_undefined)

text \<open>
  Every frame \<open>decode\<close> accepts can be encoded again: with the header fields as decoded, \<open>encode\<close>
  does not refuse the envelope, produces a frame of the length that was consumed, and that frame
  decodes to the same envelope (up to the checksum, since the decoder ignores the reserved bytes
  that the encoder writes as zero).
\<close>

theorem decode_reencodes:
  assumes "decode data = Some r" and "dr_code r = Err_kOk"
  shows "encode now (dr_envelope r) False \<noteq> [] \<and>
    length (encode now (dr_envelope r) False) = dr_consumed r \<and>
    (\<exists>sum. decode (encode now (dr_envelope r) False) =
      Some (r\<lparr>dr_envelope := (dr_envelope r)\<lparr>checksum := sum\<rparr>\<rparr>))"
  using assms by (rule decode_reencode)

theorem decode_reencodes_witness:
  "\<exists>data r. decode data = Some r \<and> dr_code r = Err_kOk \<and> encode 0 (dr_envelope r) False \<noteq> []"
proof -
  have ne: "encode 5 sample_envelope True \<noteq> []"
    using sample_envelope_accepted by (simp add: encode_nonempty_iff)
  obtain r where r: "decode (encode 5 sample_envelope True @ []) = Some r" "dr_code r = Err_kOk"
    using decode_encode[OF ne, of "[]"] by simp
  from decode_reencodes[OF r, of 0] r show ?thesis by blast
qed

text \<open>
  C27. A frame that decodes successfully no longer does after any one of its bytes is changed, except
  possibly in the two length fields at offsets 8 to 13: FNV-1a is injective in each single byte.
\<close>

theorem corrupted_byte_rejected:
  assumes "decode data = Some r" and "dr_code r = Err_kOk" and "i < dr_consumed r"
    and "i < 8 \<or> 14 \<le> i" and "b \<noteq> data ! i" and "decode (data[i := b]) = Some r'"
  shows "dr_code r' \<noteq> Err_kOk"
  using assms by (rule corrupted_byte_noticed)

theorem corrupted_byte_rejected_witness:
  "\<exists>data r r'. decode data = Some r \<and> dr_code r = Err_kOk \<and>
     decode (data[0 := 0]) = Some r' \<and> dr_code r' \<noteq> Err_kOk"
proof -
  let ?f = "encode 5 sample_envelope True"
  have ne: "?f \<noteq> []"
    using sample_envelope_accepted by (simp add: encode_nonempty_iff)
  then have first: "0 \<noteq> ?f ! 0"
    by (rule encode_cases)
      (simp add: frame_body_def fixed_header_def kMagic_def byte_of_char_def)
  obtain r where r: "decode ?f = Some r" "dr_code r = Err_kOk" "dr_consumed r = length ?f"
    using decode_encode[OF ne, of "[]"] by simp
  obtain r' where r': "decode (?f[0 := 0]) = Some r'" using decode_never_undefined by blast
  have "dr_code r' \<noteq> Err_kOk"
    using corrupted_byte_rejected[OF r(1,2) _ _ first r'] r(3) ne by simp
  with r r' show ?thesis by blast
qed

end
