(* ===== verification/Codec.thy ===== *)
theory Codec
  imports StdMap
begin

text \<open>
  The contract between a field writer and a field reader, shared by the three binary codecs of the
  sources (Core payloads, configuration payloads, discovery packets). A byte stream is given by
  \<open>emit\<close>, which appends bytes to a writer, and \<open>at\<close>, the reader that has consumed \<open>pre\<close> and has
  \<open>post\<close> in front of it. A \<open>field_codec\<close> writes the bytes \<open>enc x\<close> and reads \<open>x\<close> back from them
  wherever they stand; a \<open>canonical_codec\<close> moreover accepts no other bytes. Repetition is proved
  once, inside the locales.
\<close>

fun read_n :: "nat \<Rightarrow> ('r \<Rightarrow> ('a \<times> 'r) option) \<Rightarrow> 'r \<Rightarrow> ('a list \<times> 'r) option" where
  "read_n 0 rd r = Some ([], r)"
| "read_n (Suc n) rd r = do {
     (x, r) \<leftarrow> rd r;
     (xs, r) \<leftarrow> read_n n rd r;
     Some (x # xs, r) }"

text \<open>Writing several fields one after the other.\<close>

definition in_order :: "('w \<Rightarrow> 'w) list \<Rightarrow> 'w \<Rightarrow> 'w" where
  "in_order fs w = fold (\<lambda>f. f) fs w"

lemma in_order_simps [codec_laws]: "in_order [] w = w" "in_order (f # fs) w = in_order fs (f w)"
  by (simp_all add: in_order_def)

locale byte_stream =
  fixes emit :: "bytes \<Rightarrow> 'w \<Rightarrow> 'w"
    and at :: "bytes \<Rightarrow> bytes \<Rightarrow> 'r"
  assumes emit_Nil: "emit [] w = w"
    and emit_emit: "emit ys (emit xs w) = emit (xs @ ys) w"

locale field_codec = byte_stream emit at
  for emit :: "bytes \<Rightarrow> 'w \<Rightarrow> 'w" and at :: "bytes \<Rightarrow> bytes \<Rightarrow> 'r" +
  fixes wr :: "'a \<Rightarrow> 'w \<Rightarrow> 'w"
    and rd :: "'r \<Rightarrow> ('a \<times> 'r) option"
    and enc :: "'a \<Rightarrow> bytes"
    and ok :: "'a \<Rightarrow> bool"
  assumes wr_ok: "ok x \<Longrightarrow> wr x w = emit (enc x) w"
    and rd_enc: "ok x \<Longrightarrow> rd (at pre (enc x @ post)) = Some (x, at (pre @ enc x) post)"
begin

lemma rd_enc_end: "ok x \<Longrightarrow> rd (at pre (enc x)) = Some (x, at (pre @ enc x) [])"
  using rd_enc[of x pre "[]"] by simp

lemma fold_wr: "list_all ok xs \<Longrightarrow> fold wr xs w = emit (concat (map enc xs)) w"
  by (induction xs arbitrary: w) (simp_all add: emit_Nil wr_ok emit_emit)

lemma read_n_enc:
  "list_all ok xs \<Longrightarrow>
     read_n (length xs) rd (at pre (concat (map enc xs) @ post)) =
       Some (xs, at (pre @ concat (map enc xs)) post)"
  by (induction xs arbitrary: pre) (simp_all add: rd_enc)

text \<open>Encodings are prefix free: two values are told apart wherever their bytes start a stream.\<close>

lemma enc_prefix_free:
  assumes "ok x" and "ok y" and "enc x @ s = enc y @ t"
  shows "x = y \<and> s = t"
proof -
  have "Some (x, at (p @ enc x) s) = Some (y, at (p @ enc y) t)" for p
    using rd_enc[OF assms(1), of p s] rd_enc[OF assms(2), of p t] assms(3) by simp
  then have "x = y" by simp
  with assms(3) show ?thesis by simp
qed

end

locale canonical_codec = field_codec +
  assumes rd_sound: "rd (at pre rest) = Some (x, r') \<Longrightarrow>
    ok x \<and> (\<exists>post. rest = enc x @ post \<and> r' = at (pre @ enc x) post)"
begin

lemma read_n_sound:
  "read_n n rd (at pre rest) = Some (xs, r') \<Longrightarrow>
     list_all ok xs \<and> length xs = n \<and>
     (\<exists>post. rest = concat (map enc xs) @ post \<and> r' = at (pre @ concat (map enc xs)) post)"
proof (induction n arbitrary: pre rest xs)
  case (Suc n)
  from Suc.prems obtain x r1 ys where
      x: "rd (at pre rest) = Some (x, r1)" and ys: "read_n n rd r1 = Some (ys, r')"
      and xs: "xs = x # ys"
    by (auto simp: bind_eq_Some_conv)
  from rd_sound[OF x] obtain post where
      "ok x" "rest = enc x @ post" "r1 = at (pre @ enc x) post" by blast
  with Suc.IH[of "pre @ enc x" post ys] ys xs show ?case by auto
qed simp

end

text \<open>
  A whole payload: what is encoded within the bounds \<open>ok\<close> is decoded to itself; a canonical payload
  decoder accepts nothing else.
\<close>

locale payload_codec =
  fixes encode :: "'a \<Rightarrow> bytes" and decode :: "bytes \<Rightarrow> 'a option" and ok :: "'a \<Rightarrow> bool"
  assumes decodes_encoded: "ok v \<Longrightarrow> decode (encode v) = Some v"
begin

lemma encode_inj: "ok v \<Longrightarrow> ok v' \<Longrightarrow> encode v = encode v' \<Longrightarrow> v = v'"
  by (metis decodes_encoded option.inject)

end

locale canonical_payload = payload_codec +
  assumes decode_sound: "decode bs = Some v \<Longrightarrow> ok v \<and> encode v = bs"
begin

lemma decode_iff: "decode bs = Some v \<longleftrightarrow> ok v \<and> encode v = bs"
  using decodes_encoded decode_sound by blast

end

end
