(* ===== verification/RuntimeCommon.thy ===== *)
theory RuntimeCommon
  imports WireCodec Codec
begin

text \<open>
  The session payloads of \<open>src/runtime/v2/runtime_common.cpp\<close>: a single text (the endpoint
  identifier of Hello, the secret of Authenticate and LaneBind) and the profile list of Profiles. The
  input is read through a cursor; \<open>take_u16\<close> and \<open>take_text\<close> give \<open>None\<close> where the code returns
  false, and no caller looks at the cursor or the output afterwards. The early \<open>return {}\<close> of
  \<open>encode_profile_list\<close> is the \<open>None\<close> of its output buffer.
\<close>

type_synonym cursor = "bytes \<times> nat"

definition append_u16 :: "u16 \<Rightarrow> bytes \<Rightarrow> bytes" where
  "append_u16 value out = out @ le_bytes 2 value"

definition take_u16 :: "cursor \<Rightarrow> (u16 \<times> cursor) option" where
  "take_u16 c = (case c of (input, cursor) \<Rightarrow>
     if cursor + 2 > length input then None
     else Some (le_word (take 2 (drop cursor input)), (input, cursor + 2)))"

definition append_text :: "string \<Rightarrow> bytes \<Rightarrow> bytes" where
  "append_text value out = append_u16 (word_of_nat (length value)) out @ bytes_of_string value"

definition take_text :: "cursor \<Rightarrow> (string \<times> cursor) option" where
  "take_text c = do {
     (len, input, cursor) \<leftarrow> take_u16 c;
     if cursor + unat len > length input then None
     else Some (string_of_bytes (take (unat len) (drop cursor input)), (input, cursor + unat len)) }"

definition encode_text :: "string \<Rightarrow> bytes" where
  "encode_text value = (if length value > 65535 then [] else append_text value [])"

definition decode_text :: "bytes \<Rightarrow> string option" where
  "decode_text data = do {
     (value, input, cursor) \<leftarrow> take_text (data, 0);
     if cursor = length data then Some value else None }"

definition append_profile :: "ProfileDescriptor \<Rightarrow> bytes option \<Rightarrow> bytes option" where
  "append_profile profile out = do {
     out \<leftarrow> out;
     if \<not> valid_profile_id (pd_profile_id profile) \<or> length (pd_schema_digest profile) > 65535
     then None
     else Some (append_text (pd_schema_digest profile) (append_u16 (pd_minor profile)
            (append_u16 (pd_major profile) (append_text (pd_profile_id profile) out)))) }"

definition encode_profile_list :: "ProfileDescriptor list \<Rightarrow> bytes" where
  "encode_profile_list profiles =
     (if length profiles > 65535 then []
      else case fold append_profile profiles (Some (append_u16 (word_of_nat (length profiles)) [])) of
        None \<Rightarrow> [] | Some out \<Rightarrow> out)"

definition take_profile :: "cursor \<Rightarrow> (ProfileDescriptor \<times> cursor) option" where
  "take_profile c = do {
     (profile_id, c) \<leftarrow> take_text c;
     (major, c) \<leftarrow> take_u16 c;
     (minor, c) \<leftarrow> take_u16 c;
     (digest, c) \<leftarrow> take_text c;
     if \<not> valid_profile_id profile_id \<or> major = 0 then None
     else Some (\<lparr>pd_profile_id = profile_id, pd_major = major, pd_minor = minor,
                 pd_schema_digest = digest\<rparr>, c) }"

definition decode_profile_list :: "bytes \<Rightarrow> ProfileDescriptor list option" where
  "decode_profile_list data = do {
     (count, c) \<leftarrow> take_u16 (data, 0);
     (parsed, input, cursor) \<leftarrow> read_n (unat count) take_profile c;
     if cursor \<noteq> length data then None else Some parsed }"

section \<open>The texts and profiles are field codecs\<close>

text \<open>The output buffer with its early return, and the cursor in front of \<open>post\<close>.\<close>

definition out_emit :: "bytes \<Rightarrow> bytes option \<Rightarrow> bytes option" where
  "out_emit bs out = map_option (\<lambda>out. out @ bs) out"

definition cursor_at :: "bytes \<Rightarrow> bytes \<Rightarrow> cursor" where
  "cursor_at pre post = (pre @ post, length pre)"

definition enc_short_text :: "string \<Rightarrow> bytes" where
  "enc_short_text s = le_bytes 2 (word_of_nat (length s) :: u16) @ bytes_of_string s"

definition enc_profile :: "ProfileDescriptor \<Rightarrow> bytes" where
  "enc_profile p = enc_short_text (pd_profile_id p) @ le_bytes 2 (pd_major p) @
     le_bytes 2 (pd_minor p) @ enc_short_text (pd_schema_digest p)"

definition profile_ok :: "ProfileDescriptor \<Rightarrow> bool" where
  "profile_ok p \<longleftrightarrow> valid_profile_id (pd_profile_id p) \<and> pd_major p \<noteq> 0 \<and>
     length (pd_schema_digest p) \<le> 65535"

definition profiles_ok :: "ProfileDescriptor list \<Rightarrow> bool" where
  "profiles_ok ps \<longleftrightarrow> length ps \<le> 65535 \<and> list_all profile_ok ps"

lemma append_text_enc: "append_text s out = out @ enc_short_text s"
  by (simp add: append_text_def append_u16_def enc_short_text_def)

lemma append_u16_emit: "map_option (append_u16 v) out = out_emit (le_bytes 2 v) out"
  by (cases out) (simp_all add: append_u16_def out_emit_def)

lemma append_text_emit: "map_option (append_text s) out = out_emit (enc_short_text s) out"
  by (cases out) (simp_all add: append_text_enc out_emit_def)

interpretation out_stream: byte_stream out_emit cursor_at
proof
  show "out_emit [] w = w" for w by (cases w) (simp_all add: out_emit_def)
  show "out_emit ys (out_emit xs w) = out_emit (xs @ ys) w" for xs ys w
    by (cases w) (simp_all add: out_emit_def)
qed

interpretation k_u16: canonical_codec out_emit cursor_at "\<lambda>v. map_option (append_u16 v)" take_u16
  "le_bytes 2" "\<lambda>_. True"
proof unfold_locales
  fix pre rest x r'
  assume "take_u16 (cursor_at pre rest) = Some (x, r')"
  then show "True \<and> (\<exists>post. rest = le_bytes 2 x @ post \<and> r' = cursor_at (pre @ le_bytes 2 x) post)"
    by (auto simp: take_u16_def cursor_at_def le_bytes_word split: if_splits
        intro: exI[of _ "drop 2 rest"])
qed (auto simp: append_u16_emit take_u16_def cursor_at_def)

interpretation k_text: canonical_codec out_emit cursor_at "\<lambda>v. map_option (append_text v)" take_text
  enc_short_text "\<lambda>s. length s \<le> 65535"
proof unfold_locales
  fix x pre post
  assume "length (x :: string) \<le> 65535"
  then show "take_text (cursor_at pre (enc_short_text x @ post)) =
      Some (x, cursor_at (pre @ enc_short_text x) post)"
    by (simp add: take_text_def enc_short_text_def k_u16.rd_enc) (simp add: cursor_at_def)
next
  fix pre rest x r'
  assume "take_text (cursor_at pre rest) = Some (x, r')"
  then obtain size input cursor where
      1: "take_u16 (cursor_at pre rest) = Some (size, input, cursor)"
      and 2: "cursor + unat size \<le> length input"
        "x = string_of_bytes (take (unat size) (drop cursor input))" "r' = (input, cursor + unat size)"
    by (auto simp: take_text_def bind_eq_Some_conv split: if_splits)
  from k_u16.rd_sound[OF 1] obtain post where
      p: "rest = le_bytes 2 size @ post" "(input, cursor) = cursor_at (pre @ le_bytes 2 size) post"
    by blast
  with 2 unat_u16_less[of size] show
    "length x \<le> 65535 \<and> (\<exists>post. rest = enc_short_text x @ post \<and>
       r' = cursor_at (pre @ enc_short_text x) post)"
    by (auto simp: cursor_at_def enc_short_text_def intro: exI[of _ "drop (unat size) post"])
qed (simp add: append_text_emit)

interpretation k_profile: canonical_codec out_emit cursor_at append_profile take_profile
  enc_profile profile_ok
proof unfold_locales
  fix x w assume "profile_ok x"
  then show "append_profile x w = out_emit (enc_profile x) w"
    by (cases w) (simp_all add: append_profile_def out_emit_def enc_profile_def profile_ok_def
        append_text_enc append_u16_def)
next
  fix x pre post assume ok: "profile_ok x"
  then have "length (pd_profile_id x) \<le> 65535"
    by (auto simp: profile_ok_def valid_profile_id_uid dest: valid_uid_length)
  with ok show "take_profile (cursor_at pre (enc_profile x @ post)) =
      Some (x, cursor_at (pre @ enc_profile x) post)"
    by (simp add: take_profile_def enc_profile_def profile_ok_def k_text.rd_enc k_u16.rd_enc)
next
  fix pre rest x r'
  assume "take_profile (cursor_at pre rest) = Some (x, r')"
  then show "profile_ok x \<and>
      (\<exists>post. rest = enc_profile x @ post \<and> r' = cursor_at (pre @ enc_profile x) post)"
    by (auto simp: take_profile_def enc_profile_def profile_ok_def bind_eq_Some_conv
        split: if_splits dest!: k_text.rd_sound k_u16.rd_sound)
qed

interpretation p_text: canonical_payload encode_text decode_text "\<lambda>s. length s \<le> 65535"
proof unfold_locales
  fix v assume "length (v :: string) \<le> 65535"
  then show "decode_text (encode_text v) = Some v"
    using k_text.rd_enc[of v "[]" "[]"]
    by (simp add: encode_text_def decode_text_def append_text_enc cursor_at_def)
next
  fix bs v assume "decode_text bs = Some v"
  then obtain c where "take_text (cursor_at [] bs) = Some (v, c)" "snd c = length bs"
    by (auto simp: decode_text_def cursor_at_def bind_eq_Some_conv split: if_splits)
  with k_text.rd_sound[of "[]" bs v c] show "length v \<le> 65535 \<and> encode_text v = bs"
    by (auto simp: cursor_at_def encode_text_def append_text_enc)
qed

lemma encode_profiles_ok:
  "profiles_ok ps \<Longrightarrow> encode_profile_list ps =
     le_bytes 2 (word_of_nat (length ps) :: u16) @ concat (map enc_profile ps)"
  by (simp add: profiles_ok_def encode_profile_list_def k_profile.fold_wr)
    (simp add: out_emit_def append_u16_def)

interpretation p_profiles: canonical_payload encode_profile_list decode_profile_list profiles_ok
proof unfold_locales
  fix ps assume ok: "profiles_ok ps"
  have "take_u16 (encode_profile_list ps, 0) =
      Some (word_of_nat (length ps), cursor_at (le_bytes 2 (word_of_nat (length ps) :: u16))
        (concat (map enc_profile ps)))"
    using k_u16.rd_enc[where x="word_of_nat (length ps)" and pre="[]"
        and post="concat (map enc_profile ps)"]
    by (simp add: encode_profiles_ok[OF ok] cursor_at_def)
  with ok show "decode_profile_list (encode_profile_list ps) = Some ps"
    using k_profile.read_n_enc[of ps _ "[]"]
    by (simp add: decode_profile_list_def profiles_ok_def)
      (simp add: cursor_at_def encode_profiles_ok[OF ok])
next
  fix bs ps assume "decode_profile_list bs = Some ps"
  then obtain count c c' where 1: "take_u16 (cursor_at [] bs) = Some (count, c)"
      and 2: "read_n (unat count) take_profile c = Some (ps, c')" and 3: "snd c' = length bs"
    by (auto simp: decode_profile_list_def cursor_at_def bind_eq_Some_conv split: if_splits)
  from k_u16.rd_sound[OF 1] obtain post where
    p: "bs = le_bytes 2 count @ post" "c = cursor_at (le_bytes 2 count) post" by auto
  from k_profile.read_n_sound[OF 2[unfolded p(2)]] 3 p(1) unat_u16_less[of count]
  show "profiles_ok ps \<and> encode_profile_list ps = bs"
    by (auto simp: profiles_ok_def cursor_at_def encode_profiles_ok)
qed

end
