(* ===== verification/RuntimeTypes.thy ===== *)
theory RuntimeTypes
  imports RuntimeCommon
begin

text \<open>
  The public data types of \<open>include/yunlink/runtime/runtime_v2.hpp\<close> and the connection type of
  \<open>src/runtime/v2/runtime_internal.hpp\<close>. An operation travels as one byte whose meaning depends on
  the message family; the byte may hold any value, so the handlers compare it with the codes below.
\<close>

section \<open>Operations\<close>

datatype SessionOperation = SOp_kHello | SOp_kAuthenticate | SOp_kProfiles | SOp_kReady
  | SOp_kLaneBind | SOp_kLaneReady

fun session_op :: "SessionOperation \<Rightarrow> u8" where
  "session_op SOp_kHello = 1"
| "session_op SOp_kAuthenticate = 2"
| "session_op SOp_kProfiles = 3"
| "session_op SOp_kReady = 4"
| "session_op SOp_kLaneBind = 5"
| "session_op SOp_kLaneReady = 6"

datatype AuthorityOperation = AOp_kClaim | AOp_kRenew | AOp_kRelease | AOp_kStatus

fun authority_op :: "AuthorityOperation \<Rightarrow> u8" where
  "authority_op AOp_kClaim = 1"
| "authority_op AOp_kRenew = 2"
| "authority_op AOp_kRelease = 3"
| "authority_op AOp_kStatus = 4"

datatype ActionOperation = ActOp_kGoal | ActOp_kUpdate | ActOp_kCancel

fun action_op :: "ActionOperation \<Rightarrow> u8" where
  "action_op ActOp_kGoal = 1"
| "action_op ActOp_kUpdate = 2"
| "action_op ActOp_kCancel = 3"

text \<open>The operations of the families the runtime only carries.\<close>

datatype DirectoryOperation = DOp_kListRequest | DOp_kListResponse | DOp_kChanged
  | DOp_kAttachRequest | DOp_kAttachResponse | DOp_kDetachRequest | DOp_kDetachResponse

fun directory_op :: "DirectoryOperation \<Rightarrow> u8" where
  "directory_op DOp_kListRequest = 1"
| "directory_op DOp_kListResponse = 2"
| "directory_op DOp_kChanged = 3"
| "directory_op DOp_kAttachRequest = 4"
| "directory_op DOp_kAttachResponse = 5"
| "directory_op DOp_kDetachRequest = 6"
| "directory_op DOp_kDetachResponse = 7"

datatype StreamOperation = StrOp_kCatalogRequest | StrOp_kCatalogResponse | StrOp_kSubscribe
  | StrOp_kSample | StrOp_kUnsubscribe | StrOp_kSubscriptionStatus

fun stream_op :: "StreamOperation \<Rightarrow> u8" where
  "stream_op StrOp_kCatalogRequest = 1"
| "stream_op StrOp_kCatalogResponse = 2"
| "stream_op StrOp_kSubscribe = 3"
| "stream_op StrOp_kSample = 4"
| "stream_op StrOp_kUnsubscribe = 5"
| "stream_op StrOp_kSubscriptionStatus = 6"

datatype RpcOperation = ROp_kRequest | ROp_kResponse

fun rpc_op :: "RpcOperation \<Rightarrow> u8" where
  "rpc_op ROp_kRequest = 1"
| "rpc_op ROp_kResponse = 2"

datatype ConfigurationOperation = COp_kListRequest | COp_kListResponse | COp_kDescribeRequest
  | COp_kDescribeResponse | COp_kGetRequest | COp_kGetResponse | COp_kPatchRequest
  | COp_kPatchResponse | COp_kApplyRequest | COp_kApplyResponse | COp_kVariantListRequest
  | COp_kVariantListResponse | COp_kVariantCreateRequest | COp_kVariantCreateResponse
  | COp_kVariantSaveCurrentRequest | COp_kVariantSaveCurrentResponse | COp_kVariantActivateRequest
  | COp_kVariantActivateResponse | COp_kVariantDeleteRequest | COp_kVariantDeleteResponse

fun configuration_op :: "ConfigurationOperation \<Rightarrow> u8" where
  "configuration_op COp_kListRequest = 1"
| "configuration_op COp_kListResponse = 2"
| "configuration_op COp_kDescribeRequest = 3"
| "configuration_op COp_kDescribeResponse = 4"
| "configuration_op COp_kGetRequest = 5"
| "configuration_op COp_kGetResponse = 6"
| "configuration_op COp_kPatchRequest = 7"
| "configuration_op COp_kPatchResponse = 8"
| "configuration_op COp_kApplyRequest = 9"
| "configuration_op COp_kApplyResponse = 10"
| "configuration_op COp_kVariantListRequest = 11"
| "configuration_op COp_kVariantListResponse = 12"
| "configuration_op COp_kVariantCreateRequest = 13"
| "configuration_op COp_kVariantCreateResponse = 14"
| "configuration_op COp_kVariantSaveCurrentRequest = 15"
| "configuration_op COp_kVariantSaveCurrentResponse = 16"
| "configuration_op COp_kVariantActivateRequest = 17"
| "configuration_op COp_kVariantActivateResponse = 18"
| "configuration_op COp_kVariantDeleteRequest = 19"
| "configuration_op COp_kVariantDeleteResponse = 20"

datatype LogOperation = LOp_kListRequest | LOp_kListResponse | LOp_kReadRequest
  | LOp_kReadResponse

fun log_op :: "LogOperation \<Rightarrow> u8" where
  "log_op LOp_kListRequest = 1"
| "log_op LOp_kListResponse = 2"
| "log_op LOp_kReadRequest = 3"
| "log_op LOp_kReadResponse = 4"

datatype BulkOperation = BOp_kOpen | BOp_kChunk | BOp_kClose | BOp_kStatus

fun bulk_op :: "BulkOperation \<Rightarrow> u8" where
  "bulk_op BOp_kOpen = 1"
| "bulk_op BOp_kChunk = 2"
| "bulk_op BOp_kClose = 3"
| "bulk_op BOp_kStatus = 4"

section \<open>Sessions, events and configuration\<close>

record Peer =
  peer_id :: string
  peer_ip :: string
  peer_port :: u16

datatype SessionState = Ses_kHandshaking | Ses_kAuthenticated | Ses_kNegotiated | Ses_kActive
  | Ses_kInvalid | Ses_kLost

fun session_state_code :: "SessionState \<Rightarrow> u8" where
  "session_state_code Ses_kHandshaking = 1"
| "session_state_code Ses_kAuthenticated = 2"
| "session_state_code Ses_kNegotiated = 3"
| "session_state_code Ses_kActive = 4"
| "session_state_code Ses_kInvalid = 5"
| "session_state_code Ses_kLost = 6"

record SessionInfo =
  si_session_id :: u64
  si_peer_id :: string
  remote_endpoint_uid :: string
  session_state :: SessionState
  authenticated :: bool
  negotiated_profiles :: "(string, ProfileDescriptor) omap"
  rejected_profiles :: "string list"
  lossy_peer_id :: string

definition empty_session :: SessionInfo where
  "empty_session = \<lparr>si_session_id = 0, si_peer_id = [], remote_endpoint_uid = [],
     session_state = Ses_kHandshaking, authenticated = False, negotiated_profiles = [],
     rejected_profiles = [], lossy_peer_id = []\<rparr>"

definition supports_profile :: "SessionInfo \<Rightarrow> string \<Rightarrow> u16 \<Rightarrow> u16 \<Rightarrow> bool" where
  "supports_profile s profile_id major minimum_minor \<longleftrightarrow>
     (case om_find (negotiated_profiles s) profile_id of
        None \<Rightarrow> False
      | Some p \<Rightarrow> pd_major p = major \<and> pd_minor p \<ge> minimum_minor)"

definition has_profile :: "SessionInfo \<Rightarrow> string \<Rightarrow> u16 \<Rightarrow> bool" where
  "has_profile s profile_id major = supports_profile s profile_id major 0"

datatype RuntimeEventKind = Ev_kEnvelope | Ev_kLink | Ev_kSession | Ev_kError

fun event_kind_code :: "RuntimeEventKind \<Rightarrow> u8" where
  "event_kind_code Ev_kEnvelope = 1"
| "event_kind_code Ev_kLink = 2"
| "event_kind_code Ev_kSession = 3"
| "event_kind_code Ev_kError = 4"

record RuntimeEvent =
  ev_kind :: RuntimeEventKind
  ev_peer :: Peer
  ev_envelope :: Envelope
  ev_session :: SessionInfo
  ev_error :: ErrorCode
  ev_message :: string
  ev_link_up :: bool

record MessageHandle =
  mh_session_id :: u64
  mh_message_id :: u64
  mh_correlation_id :: u64

record QosChannelPolicy =
  qp_family :: MessageFamily
  qp_profile_id :: string
  qp_type_name :: string
  qp_qos_class :: QosClass

text \<open>
  \<open>action_authority_scope_resolver\<close> is a function of the application, absent when empty. An \<open>int\<close> of
  the program is an \<open>int\<close> here; the two only reach timers. \<open>required_profiles\<close>, \<open>display_name\<close>,
  \<open>capabilities\<close> and \<open>qos_policies\<close> are read nowhere in the runtime.
\<close>

record RuntimeConfig =
  endpoint_uid :: string
  config_display_name :: string
  config_entities :: "EntityDescriptor list"
  config_capabilities :: "string list"
  config_profiles :: "ProfileDescriptor list"
  required_profiles :: "ProfileDescriptor list"
  group_uids :: "string list"
  qos_policies :: "QosChannelPolicy list"
  action_authority_scope_resolver :: "(TypeRef \<Rightarrow> string) option"
  shared_secret :: string
  tcp_listen_port :: u16
  connect_timeout_ms :: int
  io_poll_interval_ms :: int
  max_buffer_bytes_per_peer :: u64

text \<open>The member initialisers, what a \<open>Runtime\<close> is constructed with.\<close>

definition default_runtime_config :: RuntimeConfig where
  "default_runtime_config = \<lparr>endpoint_uid = ''yunlink-endpoint'', config_display_name = ''yunlink-endpoint'',
     config_entities = [], config_capabilities = [], config_profiles = [], required_profiles = [],
     group_uids = [], qos_policies = [], action_authority_scope_resolver = None,
     shared_secret = ''yunlink-default-secret'', tcp_listen_port = 9696, connect_timeout_ms = 5000,
     io_poll_interval_ms = 5, max_buffer_bytes_per_peer = 16 * 1024 * 1024 + 65536\<rparr>"

section \<open>Connections\<close>

record OutboundFrame =
  fr_bytes :: bytes
  fr_qos :: QosClass
  fr_latest_key :: string

record RuntimeConnection =
  conn_peer :: Peer
  conn_running :: bool
  send_queues :: "nat \<Rightarrow> OutboundFrame list"
  queued_bytes :: u64
  max_queued_bytes :: u64
  receive_buffer :: bytes

definition runtime_peer_id :: "string \<Rightarrow> u16 \<Rightarrow> string" where
  "runtime_peer_id ip port = ''tcp://'' @ ip @ '':'' @ to_string (unat port)"

text \<open>A connection as it is put into the table of connections, running and with empty queues.\<close>

definition new_connection :: "Peer \<Rightarrow> u64 \<Rightarrow> RuntimeConnection" where
  "new_connection peer limit = \<lparr>conn_peer = peer, conn_running = True, send_queues = (\<lambda>_. []),
     queued_bytes = 0, max_queued_bytes = limit, receive_buffer = []\<rparr>"

text \<open>The aggregate initialisations of \<open>RuntimeEvent\<close> in the sources.\<close>

definition error_event :: "Peer \<Rightarrow> Envelope \<Rightarrow> ErrorCode \<Rightarrow> string \<Rightarrow> RuntimeEvent" where
  "error_event peer e code message = \<lparr>ev_kind = Ev_kError, ev_peer = peer, ev_envelope = e,
     ev_session = empty_session, ev_error = code, ev_message = message, ev_link_up = False\<rparr>"

definition session_event :: "Peer \<Rightarrow> SessionInfo \<Rightarrow> RuntimeEvent" where
  "session_event peer s = \<lparr>ev_kind = Ev_kSession, ev_peer = peer, ev_envelope = empty_envelope,
     ev_session = s, ev_error = Err_kOk, ev_message = [], ev_link_up = False\<rparr>"

definition link_event :: "Peer \<Rightarrow> bool \<Rightarrow> RuntimeEvent" where
  "link_event peer up = \<lparr>ev_kind = Ev_kLink, ev_peer = peer, ev_envelope = empty_envelope,
     ev_session = empty_session, ev_error = Err_kOk, ev_message = [], ev_link_up = up\<rparr>"

definition envelope_event :: "Peer \<Rightarrow> Envelope \<Rightarrow> RuntimeEvent" where
  "envelope_event peer e = \<lparr>ev_kind = Ev_kEnvelope, ev_peer = peer, ev_envelope = e,
     ev_session = empty_session, ev_error = Err_kOk, ev_message = [], ev_link_up = False\<rparr>"

end
