(* ===== verification/SendQueue.thy ===== *)
theory SendQueue
  imports RuntimeTypes "HOL-Library.Sublist"
begin

text \<open>
  The outbound side of a connection: the queueing code of
  \<open>src/runtime/v2/runtime_network.cpp\<close>. A connection holds four
  queues, one per QoS class, and counts the bytes in them in a \<open>size_t\<close>, a 64-bit word that wraps.
  Threads, condition variables and the socket object are not part of the state: each operation below
  runs under \<open>send_mutex\<close> in the source and is one atomic step here. Writing
  to the socket is in theory \<open>SendLoop\<close>.
\<close>

definition size_of :: "bytes \<Rightarrow> u64" where
  "size_of bs = word_of_nat (length bs)"

section \<open>Queueing\<close>

definition kReliableOrderedReserveFraction :: u64 where
  "kReliableOrderedReserveFraction = 4"

fun qos_may_drop :: "QosClass \<Rightarrow> bool" where
  "qos_may_drop qos \<longleftrightarrow> qos = Qos_kBestEffort \<or> qos = Qos_kBulk"

definition may_drop_congested_frame :: "QosClass \<Rightarrow> nat \<Rightarrow> bool" where
  "may_drop_congested_frame qos bytes_written \<longleftrightarrow> bytes_written = 0 \<and> qos_may_drop qos"

fun qos_index :: "QosClass \<Rightarrow> nat" where
  "qos_index Qos_kReliableOrdered = 0"
| "qos_index Qos_kReliableLatest = 1"
| "qos_index Qos_kBestEffort = 2"
| "qos_index Qos_kBulk = 3"

text \<open>\<open>None\<close> is the \<open>return false\<close> on an empty queue.\<close>

definition drop_oldest :: "RuntimeConnection \<Rightarrow> nat \<Rightarrow> RuntimeConnection option" where
  "drop_oldest c queue_index = (case send_queues c queue_index of
     [] \<Rightarrow> None
   | front # rest \<Rightarrow> Some (c\<lparr>queued_bytes := queued_bytes c - size_of (fr_bytes front),
                          send_queues := (send_queues c)(queue_index := rest)\<rparr>))"

definition enqueue_limit :: "RuntimeConnection \<Rightarrow> QosClass \<Rightarrow> u64" where
  "enqueue_limit c qos =
     (if qos = Qos_kReliableOrdered then max_queued_bytes c
      else let reserve = max_queued_bytes c div kReliableOrderedReserveFraction
           in max_queued_bytes c - reserve)"

text \<open>\<open>drop_oldest(3) || drop_oldest(2)\<close>.\<close>

definition drop_lossy :: "RuntimeConnection \<Rightarrow> RuntimeConnection option" where
  "drop_lossy c = (case drop_oldest c 3 of Some c' \<Rightarrow> Some c' | None \<Rightarrow> drop_oldest c 2)"

lemma drop_oldest_measure:
  "drop_oldest c 3 = Some c' \<Longrightarrow>
     length (send_queues c' 3) + length (send_queues c' 2) <
     length (send_queues c 3) + length (send_queues c 2)"
  "drop_oldest c 2 = Some c' \<Longrightarrow>
     length (send_queues c' 3) + length (send_queues c' 2) <
     length (send_queues c 3) + length (send_queues c 2)"
  by (auto simp: drop_oldest_def split: list.splits)

lemma drop_lossy_measure:
  "drop_lossy c = Some c' \<Longrightarrow>
     length (send_queues c' 3) + length (send_queues c' 2) <
     length (send_queues c 3) + length (send_queues c 2)"
  by (auto simp: drop_lossy_def dest: drop_oldest_measure split: option.splits)

function make_room :: "RuntimeConnection \<Rightarrow> u64 \<Rightarrow> QosClass \<Rightarrow> bool \<times> RuntimeConnection" where
  "make_room c n qos =
     (if queued_bytes c + n > enqueue_limit c qos
      then (case drop_lossy c of
              Some c' \<Rightarrow> make_room c' n qos
            | None \<Rightarrow> (False, c))
      else (True, c))"
  by pat_completeness auto
termination
  by (relation "measure (\<lambda>(c, n, qos). length (send_queues c 3) + length (send_queues c 2))")
    (auto dest: drop_lossy_measure)

declare make_room.simps [simp del]

text \<open>The position of the first queued frame with a given key: the loop over the queue.\<close>

fun find_key :: "string \<Rightarrow> OutboundFrame list \<Rightarrow> nat option" where
  "find_key k [] = None"
| "find_key k (f # fs) = (if fr_latest_key f = k then Some 0 else map_option Suc (find_key k fs))"

definition replace_latest ::
  "RuntimeConnection \<Rightarrow> bytes \<Rightarrow> QosClass \<Rightarrow> nat \<Rightarrow> bool \<times> RuntimeConnection" where
  "replace_latest c bs qos i =
     (let frame = send_queues c (qos_index qos) ! i in
      case make_room (c\<lparr>queued_bytes := queued_bytes c - size_of (fr_bytes frame)\<rparr>) (size_of bs) qos of
        (False, c) \<Rightarrow> (False, c\<lparr>queued_bytes := queued_bytes c + size_of (fr_bytes frame)\<rparr>)
      | (True, c) \<Rightarrow>
          (True, c\<lparr>send_queues := (send_queues c)(qos_index qos :=
                      (send_queues c (qos_index qos))[i := frame\<lparr>fr_bytes := bs\<rparr>]),
                   queued_bytes := queued_bytes c + size_of bs\<rparr>))"

definition push_frame ::
  "RuntimeConnection \<Rightarrow> bytes \<Rightarrow> QosClass \<Rightarrow> string \<Rightarrow> bool \<times> RuntimeConnection" where
  "push_frame c bs qos key =
     (case make_room c (size_of bs) qos of
        (False, c) \<Rightarrow> (False, c)
      | (True, c) \<Rightarrow>
          (True, c\<lparr>queued_bytes := queued_bytes c + size_of bs,
                   send_queues := (send_queues c)(qos_index qos := send_queues c (qos_index qos) @
                      [\<lparr>fr_bytes = bs, fr_qos = qos, fr_latest_key = key\<rparr>])\<rparr>))"

definition runtime_enqueue ::
  "RuntimeConnection \<Rightarrow> bytes \<Rightarrow> QosClass \<Rightarrow> string \<Rightarrow> bool \<times> RuntimeConnection" where
  "runtime_enqueue c bs qos key =
     (if bs = [] \<or> \<not> conn_running c then (False, c)
      else if size_of bs > enqueue_limit c qos then (False, c)
      else case (if qos = Qos_kReliableLatest \<and> key \<noteq> []
                 then find_key key (send_queues c (qos_index qos)) else None) of
        Some i \<Rightarrow> replace_latest c bs qos i
      | None \<Rightarrow> push_frame c bs qos key)"

definition runtime_write :: "RuntimeConnection \<Rightarrow> bytes \<Rightarrow> bool \<times> RuntimeConnection" where
  "runtime_write c bs = runtime_enqueue c bs Qos_kReliableOrdered []"

text \<open>The index search of \<open>take_next_frame\<close>, then the front of that queue.\<close>

definition first_queue :: "RuntimeConnection \<Rightarrow> nat option" where
  "first_queue c = List.find (\<lambda>i. send_queues c i \<noteq> []) [0, 1, 2, 3]"

definition take_next_frame :: "RuntimeConnection \<Rightarrow> (OutboundFrame \<times> RuntimeConnection) option" where
  "take_next_frame c = do {
     i \<leftarrow> first_queue c;
     let frame = hd (send_queues c i);
     Some (frame, c\<lparr>send_queues := (send_queues c)(i := tl (send_queues c i)),
                    queued_bytes := queued_bytes c - size_of (fr_bytes frame)\<rparr>) }"

section \<open>Accounting\<close>

definition qbytes :: "OutboundFrame list \<Rightarrow> nat" where
  "qbytes fs = sum_list (map (\<lambda>f. length (fr_bytes f)) fs)"

definition lossy_bytes :: "RuntimeConnection \<Rightarrow> nat" where
  "lossy_bytes c = qbytes (send_queues c 2) + qbytes (send_queues c 3)"

definition backlog :: "RuntimeConnection \<Rightarrow> nat" where
  "backlog c = qbytes (send_queues c 0) + qbytes (send_queues c 1) + lossy_bytes c"

definition limit_of :: "RuntimeConnection \<Rightarrow> QosClass \<Rightarrow> nat" where
  "limit_of c qos = (if qos = Qos_kReliableOrdered then unat (max_queued_bytes c)
     else unat (max_queued_bytes c) - unat (max_queued_bytes c) div 4)"

lemma qbytes_simps [simp]:
  "qbytes [] = 0" "qbytes (f # fs) = length (fr_bytes f) + qbytes fs"
  "qbytes (fs @ gs) = qbytes fs + qbytes gs"
  by (simp_all add: qbytes_def)

lemma qbytes_nth: "i < length fs \<Longrightarrow> length (fr_bytes (fs ! i)) \<le> qbytes fs"
  by (induction fs arbitrary: i) (auto simp: nth_Cons trans_le_add2 split: nat.splits)

lemma qbytes_update:
  "i < length fs \<Longrightarrow>
     qbytes (fs[i := f]) = qbytes fs - length (fr_bytes (fs ! i)) + length (fr_bytes f)"
proof (induction fs arbitrary: i)
  case (Cons g fs)
  then show ?case using qbytes_nth[of "i - 1" fs] by (cases i) auto
qed simp

lemma unat_enqueue_limit: "unat (enqueue_limit c qos) = limit_of c qos"
proof -
  have "max_queued_bytes c div 4 \<le> max_queued_bytes c"
    by (simp add: word_le_nat_alt unat_div)
  then show ?thesis
    by (simp add: enqueue_limit_def limit_of_def kReliableOrderedReserveFraction_def Let_def
        unat_sub unat_div)
qed

lemma limit_of_le: "limit_of c qos \<le> unat (max_queued_bytes c)"
  by (simp add: limit_of_def)

lemma unat_size_of: "length bs < 2 ^ 64 \<Longrightarrow> unat (size_of bs) = length bs"
  by (simp add: size_of_def unat_of_nat)

text \<open>
  What a connection keeps while its lossy queues are trimmed, with \<open>d\<close> bytes taken out of the count
  but still in a reliable queue.
\<close>

definition trims :: "RuntimeConnection \<Rightarrow> RuntimeConnection \<Rightarrow> bool" where
  "trims c c' \<longleftrightarrow> conn_peer c' = conn_peer c \<and> conn_running c' = conn_running c \<and>
     max_queued_bytes c' = max_queued_bytes c \<and> receive_buffer c' = receive_buffer c \<and>
     (\<forall>i. i \<noteq> 2 \<longrightarrow> i \<noteq> 3 \<longrightarrow> send_queues c' i = send_queues c i) \<and>
     suffix (send_queues c' 2) (send_queues c 2) \<and> suffix (send_queues c' 3) (send_queues c 3) \<and>
     (send_queues c' 2 \<noteq> send_queues c 2 \<longrightarrow> send_queues c' 3 = [])"

definition counts :: "nat \<Rightarrow> RuntimeConnection \<Rightarrow> bool" where
  "counts d c \<longleftrightarrow> backlog c = unat (queued_bytes c) + d \<and>
     d \<le> qbytes (send_queues c 0) + qbytes (send_queues c 1)"

lemma trims_refl [simp]: "trims c c"
  by (simp add: trims_def)

lemma trims_trans: "trims a b \<Longrightarrow> trims b c \<Longrightarrow> trims a c"
  unfolding trims_def by (auto intro: suffix_order.trans)

lemma trims_limit: "trims c c' \<Longrightarrow> enqueue_limit c' qos = enqueue_limit c qos"
  by (simp add: trims_def enqueue_limit_def)

lemma drop_lossy_trims: "drop_lossy c = Some c' \<Longrightarrow> trims c c'"
  by (auto simp: drop_lossy_def drop_oldest_def trims_def suffix_Cons split: list.splits option.splits)

lemma drop_lossy_None: "drop_lossy c = None \<longleftrightarrow> send_queues c 2 = [] \<and> send_queues c 3 = []"
  by (auto simp: drop_lossy_def drop_oldest_def split: list.splits option.splits)

lemma drop_count:
  assumes "q = unat (queued_bytes c)" and "length bs \<le> q"
  shows "unat (queued_bytes c - size_of bs) = q - length bs"
proof -
  have "length bs < 2 ^ 64" using assms unat_u64_less[of "queued_bytes c"] by simp
  then have s: "unat (size_of bs) = length bs" by (rule unat_size_of)
  with assms have "size_of bs \<le> queued_bytes c" by (simp add: word_le_nat_alt)
  with s assms show ?thesis by (simp add: unat_sub)
qed

lemma drop_lossy_counts: "drop_lossy c = Some c' \<Longrightarrow> counts d c \<Longrightarrow> counts d c'"
  by (auto simp: drop_lossy_def drop_oldest_def counts_def backlog_def lossy_bytes_def drop_count
      split: list.splits option.splits)


lemma make_room_facts:
  assumes "counts d c" and "unat (queued_bytes c) + unat n < 2 ^ 64"
  shows "trims c (snd (make_room c n qos)) \<and> counts d (snd (make_room c n qos)) \<and>
     (if fst (make_room c n qos)
      then unat (queued_bytes (snd (make_room c n qos))) + unat n \<le> limit_of c qos
      else unat (queued_bytes (snd (make_room c n qos))) + unat n > limit_of c qos \<and>
        send_queues (snd (make_room c n qos)) 2 = [] \<and> send_queues (snd (make_room c n qos)) 3 = [])"
  using assms
proof (induction c n qos rule: make_room.induct)
  case (1 c n qos)
  have sum: "unat (queued_bytes c + n) = unat (queued_bytes c) + unat n"
    using 1(3) by (simp add: unat_word_ariths)
  show ?case
  proof (cases "queued_bytes c + n > enqueue_limit c qos")
    case False
    then have "make_room c n qos = (True, c)" by (simp add: make_room.simps[of c n qos])
    with False 1(2) sum show ?thesis by (simp add: word_less_nat_alt unat_enqueue_limit)
  next
    case over: True
    show ?thesis
    proof (cases "drop_lossy c")
      case None
      with over have "make_room c n qos = (False, c)" by (simp add: make_room.simps[of c n qos])
      with over None 1(2) sum show ?thesis
        by (simp add: word_less_nat_alt unat_enqueue_limit drop_lossy_None)
    next
      case (Some c')
      have step: "make_room c n qos = make_room c' n qos"
        using over Some by (simp add: make_room.simps[of c n qos])
      have t: "trims c c'" and k: "counts d c'"
        using Some 1(2) drop_lossy_trims drop_lossy_counts by blast+
      have "backlog c' \<le> backlog c"
        using t by (auto simp: trims_def backlog_def lossy_bytes_def suffix_def)
      with k 1(2,3) have "unat (queued_bytes c') + unat n < 2 ^ 64"
        by (simp add: counts_def)
      from 1(1)[OF over Some k this] t trims_limit[OF t, of qos] show ?thesis
        unfolding step by (auto simp flip: unat_enqueue_limit intro: trims_trans)
    qed
  qed
qed

text \<open>
  Room is made for \<open>n\<close> bytes exactly when the reliable frames leave it, and no lossy frame is dropped
  unless it must be.
\<close>

lemma make_room_iff:
  assumes "counts d c" and "unat (queued_bytes c) + unat n < 2 ^ 64"
  shows "fst (make_room c n qos) \<longleftrightarrow>
    unat (queued_bytes c) - lossy_bytes c + unat n \<le> limit_of c qos"
proof -
  obtain ok c' where r: "make_room c n qos = (ok, c')" by fastforce
  note f = make_room_facts[OF assms, of qos, unfolded r, simplified]
  from f have "qbytes (send_queues c' 0) = qbytes (send_queues c 0)"
      "qbytes (send_queues c' 1) = qbytes (send_queues c 1)"
    by (simp_all add: trims_def)
  moreover from f assms(1) have "backlog c' = unat (queued_bytes c') + d"
      "backlog c = unat (queued_bytes c) + d" by (simp_all add: counts_def)
  ultimately have "unat (queued_bytes c') - lossy_bytes c' = unat (queued_bytes c) - lossy_bytes c"
    by (simp add: backlog_def)
  with f r show ?thesis by (auto simp: lossy_bytes_def split: if_splits)
qed

lemma make_room_enough:
  assumes "unat (queued_bytes c) + unat n \<le> limit_of c qos"
  shows "make_room c n qos = (True, c)"
proof -
  have "unat (queued_bytes c) + unat n < 2 ^ 64"
    using assms limit_of_le[of c qos] unat_u64_less[of "max_queued_bytes c"] by simp
  then have "unat (queued_bytes c + n) = unat (queued_bytes c) + unat n"
    by (simp add: unat_word_ariths)
  with assms show ?thesis
    by (simp add: make_room.simps[of c n qos] word_less_nat_alt unat_enqueue_limit)
qed

section \<open>The connection invariant\<close>

text \<open>
  The byte counter is exact and within the limit, the traffic other than ReliableOrdered leaves the
  reserve free, every frame is in the queue of its class and not empty, and no two frames of the
  latest-value queue have the same key. Limits of $2^{63}$ bytes and more, which no allocation can
  fill, are excluded.
\<close>

definition latest_keys :: "RuntimeConnection \<Rightarrow> string list" where
  "latest_keys c = filter (\<lambda>k. k \<noteq> []) (map fr_latest_key (send_queues c 1))"

definition frames_ok :: "RuntimeConnection \<Rightarrow> bool" where
  "frames_ok c \<longleftrightarrow> (\<forall>i f. f \<in> set (send_queues c i) \<longrightarrow> fr_bytes f \<noteq> [] \<and> qos_index (fr_qos f) = i)"

definition conn_ok :: "RuntimeConnection \<Rightarrow> bool" where
  "conn_ok c \<longleftrightarrow> counts 0 c \<and> backlog c \<le> unat (max_queued_bytes c) \<and>
     unat (max_queued_bytes c) < 2 ^ 63 \<and>
     qbytes (send_queues c 1) + lossy_bytes c \<le> limit_of c Qos_kBestEffort \<and>
     frames_ok c \<and> distinct (latest_keys c)"

definition superseded :: "RuntimeConnection \<Rightarrow> QosClass \<Rightarrow> string \<Rightarrow> nat option" where
  "superseded c qos key = (if qos = Qos_kReliableLatest \<and> key \<noteq> []
     then find_key key (send_queues c (qos_index qos)) else None)"

definition superseded_bytes :: "RuntimeConnection \<Rightarrow> QosClass \<Rightarrow> string \<Rightarrow> nat" where
  "superseded_bytes c qos key = (case superseded c qos key of
     Some i \<Rightarrow> length (fr_bytes (send_queues c 1 ! i)) | None \<Rightarrow> 0)"

definition reliable_bytes :: "RuntimeConnection \<Rightarrow> nat" where
  "reliable_bytes c = qbytes (send_queues c 0) + qbytes (send_queues c 1)"

lemma find_key_Some:
  "find_key k fs = Some i \<Longrightarrow> i < length fs \<and> fr_latest_key (fs ! i) = k"
  by (induction fs arbitrary: i) (auto split: if_splits)

lemma find_key_None: "find_key k fs = None \<longleftrightarrow> k \<notin> fr_latest_key ` set fs"
  by (induction fs) auto

lemma superseded_Some:
  "superseded c qos key = Some i \<Longrightarrow> qos = Qos_kReliableLatest \<and> key \<noteq> [] \<and>
     i < length (send_queues c 1) \<and> fr_latest_key (send_queues c 1 ! i) = key"
  by (auto simp: superseded_def dest: find_key_Some split: if_splits)

lemma runtime_enqueue_cases:
  "runtime_enqueue c bs qos key =
     (if bs = [] \<or> \<not> conn_running c \<or> size_of bs > enqueue_limit c qos then (False, c)
      else case superseded c qos key of
        Some i \<Rightarrow> replace_latest c bs qos i | None \<Rightarrow> push_frame c bs qos key)"
  by (simp add: runtime_enqueue_def superseded_def)

lemma frames_ok_mono:
  "frames_ok c \<Longrightarrow> (\<And>i. set (send_queues c' i) \<subseteq> set (send_queues c i)) \<Longrightarrow> frames_ok c'"
  unfolding frames_ok_def by blast

lemma trims_frames_ok: "trims c c' \<Longrightarrow> frames_ok c \<Longrightarrow> frames_ok c'"
proof (erule frames_ok_mono)
  show "set (send_queues c' i) \<subseteq> set (send_queues c i)" if "trims c c'" for i
    using that by (cases "i = 2 \<or> i = 3") (auto simp: trims_def dest: set_mono_suffix)
qed

lemma trims_lossy: "trims c c' \<Longrightarrow> lossy_bytes c' \<le> lossy_bytes c"
  by (auto simp: trims_def lossy_bytes_def suffix_def)

lemma add_count:
  "unat (queued_bytes c) + length bs < 2 ^ 64 \<Longrightarrow>
     unat (queued_bytes c + size_of bs) = unat (queued_bytes c) + length bs"
  by (simp add: unat_word_ariths unat_size_of)

lemma conn_ok_room:
  assumes "conn_ok c" and "length bs \<le> limit_of c qos"
  shows "length bs < 2 ^ 64" and "unat (queued_bytes c) + unat (size_of bs) < 2 ^ 64"
proof -
  have "length bs < 2 ^ 63" using assms limit_of_le[of c qos] by (simp add: conn_ok_def)
  then show "length bs < 2 ^ 64" by simp
  then have "unat (size_of bs) = length bs" by (rule unat_size_of)
  with assms \<open>length bs < 2 ^ 63\<close> show "unat (queued_bytes c) + unat (size_of bs) < 2 ^ 64"
    by (simp add: conn_ok_def counts_def)
qed

text \<open>Appending a frame to its queue.\<close>

definition with_frame :: "RuntimeConnection \<Rightarrow> bytes \<Rightarrow> QosClass \<Rightarrow> string \<Rightarrow> RuntimeConnection" where
  "with_frame m bs qos key = m\<lparr>queued_bytes := queued_bytes m + size_of bs,
     send_queues := (send_queues m)(qos_index qos := send_queues m (qos_index qos) @
       [\<lparr>fr_bytes = bs, fr_qos = qos, fr_latest_key = key\<rparr>])\<rparr>"

lemma push_frame_alt:
  "push_frame c bs qos key = (case make_room c (size_of bs) qos of
     (b, m) \<Rightarrow> (b, if b then with_frame m bs qos key else m))"
  by (simp add: push_frame_def with_frame_def split: prod.splits bool.splits)

lemma trims_same:
  assumes "trims c m"
  shows "send_queues m 0 = send_queues c 0" "send_queues m 1 = send_queues c 1"
    "limit_of m = limit_of c" "max_queued_bytes m = max_queued_bytes c"
    "conn_running m = conn_running c" "conn_peer m = conn_peer c"
    "receive_buffer m = receive_buffer c" "superseded m = superseded c"
  using assms
  by (auto simp: trims_def limit_of_def superseded_def fun_eq_iff)

lemma trims_conn_ok: "trims c m \<Longrightarrow> counts 0 m \<Longrightarrow> conn_ok c \<Longrightarrow> conn_ok m"
  using trims_same[of c m] trims_lossy[of c m] trims_frames_ok[of c m]
  by (simp add: conn_ok_def backlog_def latest_keys_def)

lemma counts_with_frame:
  assumes "counts 0 m" and "unat (queued_bytes m) + length bs < 2 ^ 64"
  shows "counts 0 (with_frame m bs qos key) \<and>
    backlog (with_frame m bs qos key) = backlog m + length bs"
proof -
  have "backlog (with_frame m bs qos key) = backlog m + length bs"
    by (cases qos) (simp_all add: with_frame_def backlog_def lossy_bytes_def)
  with assms add_count[OF assms(2)] show ?thesis
    by (simp add: counts_def) (simp add: with_frame_def)
qed

lemma conn_ok_with_frame:
  assumes ok: "conn_ok m" and ne: "bs \<noteq> []" and fresh: "superseded m qos key = None"
    and fits: "unat (queued_bytes m) + length bs \<le> limit_of m qos"
  shows "conn_ok (with_frame m bs qos key)"
proof -
  let ?c = "with_frame m bs qos key"
  have "unat (queued_bytes m) + length bs < 2 ^ 64"
    using fits limit_of_le[of m qos] unat_u64_less[of "max_queued_bytes m"] by simp
  with ok have k: "counts 0 ?c" "backlog ?c = backlog m + length bs"
    using counts_with_frame by (auto simp: conn_ok_def)
  have "qbytes (send_queues ?c 1) + lossy_bytes ?c \<le> limit_of ?c Qos_kBestEffort"
    using ok fits by (cases qos)
      (simp_all add: with_frame_def conn_ok_def lossy_bytes_def counts_def backlog_def limit_of_def)
  moreover have "frames_ok ?c"
    using ok ne by (auto simp: with_frame_def conn_ok_def frames_ok_def)
  moreover have "distinct (latest_keys ?c)"
    using ok fresh by (cases qos)
      (auto simp: with_frame_def conn_ok_def latest_keys_def superseded_def find_key_None)
  ultimately show ?thesis
    using k fits limit_of_le[of m qos] ok by (simp add: conn_ok_def counts_def with_frame_def)
qed

lemma push_frame_facts:
  assumes ok: "conn_ok c" and len: "length bs \<le> limit_of c qos" and ne: "bs \<noteq> []"
    and fresh: "superseded c qos key = None"
    and r: "push_frame c bs qos key = (b, c')"
  shows "conn_ok c' \<and> (b \<longleftrightarrow> reliable_bytes c + length bs \<le> limit_of c qos) \<and>
    (\<exists>m. trims c m \<and> c' = (if b then with_frame m bs qos key else m))"
proof -
  obtain m where mk: "make_room c (size_of bs) qos = (b, m)"
      and c': "c' = (if b then with_frame m bs qos key else m)"
    using r by (auto simp: push_frame_alt split: prod.splits)
  note room = conn_ok_room[OF ok len]
  have size: "unat (size_of bs) = length bs" using room(1) by (rule unat_size_of)
  from ok have c0: "counts 0 c" by (simp add: conn_ok_def)
  note f = make_room_facts[OF c0 room(2), of qos, unfolded mk size, simplified]
  note iff = make_room_iff[OF c0 room(2), of qos, unfolded mk size, simplified]
  have t: "trims c m" and m_ok: "conn_ok m" using f trims_conn_ok[OF _ _ ok] by simp_all
  have "unat (queued_bytes c) - lossy_bytes c = reliable_bytes c"
    using c0 by (simp add: counts_def backlog_def reliable_bytes_def)
  moreover have "conn_ok c'"
    using f m_ok fresh ne trims_same[OF t] by (auto simp: c' intro!: conn_ok_with_frame)
  ultimately show ?thesis using iff t c' by auto
qed

text \<open>Replacing the queued value of a key.\<close>

definition with_value :: "RuntimeConnection \<Rightarrow> nat \<Rightarrow> bytes \<Rightarrow> RuntimeConnection" where
  "with_value m i bs = m\<lparr>send_queues := (send_queues m)(1 :=
       (send_queues m 1)[i := (send_queues m 1 ! i)\<lparr>fr_bytes := bs\<rparr>]),
     queued_bytes := queued_bytes m + size_of bs\<rparr>"

lemma replace_latest_alt:
  assumes "trims c1 (snd (make_room c1 (size_of bs) Qos_kReliableLatest))"
    and "c1 = c\<lparr>queued_bytes := queued_bytes c - size_of (fr_bytes (send_queues c 1 ! i))\<rparr>"
  shows "replace_latest c bs Qos_kReliableLatest i =
    (case make_room c1 (size_of bs) Qos_kReliableLatest of (b, m) \<Rightarrow>
       (b, if b then with_value m i bs
           else m\<lparr>queued_bytes := queued_bytes m + size_of (fr_bytes (send_queues c 1 ! i))\<rparr>))"
  using assms
  by (auto simp: replace_latest_def with_value_def Let_def trims_def split: prod.splits bool.splits)

lemma limit_of_queued [simp]: "limit_of (c\<lparr>queued_bytes := q\<rparr>) = limit_of c"
  by (simp add: limit_of_def fun_eq_iff)

lemma trims_queued [simp]:
  "trims (c\<lparr>queued_bytes := q\<rparr>) m = trims c m" "trims c (m\<lparr>queued_bytes := q\<rparr>) = trims c m"
  by (simp_all add: trims_def)

lemma frames_ok_with_value:
  assumes f: "frames_ok m" and ne: "bs \<noteq> []" and i: "i < length (send_queues m 1)"
  shows "frames_ok (with_value m i bs)"
proof -
  have "fr_bytes g \<noteq> [] \<and> qos_index (fr_qos g) = 1"
    if "g \<in> set ((send_queues m 1)[i := (send_queues m 1 ! i)\<lparr>fr_bytes := bs\<rparr>])" for g
  proof -
    from that have "g \<in> set (send_queues m 1) \<or> g = (send_queues m 1 ! i)\<lparr>fr_bytes := bs\<rparr>"
      using set_update_subset_insert by fast
    with f ne nth_mem[OF i] show ?thesis by (auto simp: frames_ok_def)
  qed
  with f show ?thesis by (auto simp: frames_ok_def with_value_def)
qed

lemma conn_ok_with_value:
  assumes t: "trims c m" and ok: "conn_ok c" and ne: "bs \<noteq> []" and i: "i < length (send_queues c 1)"
    and k: "counts (length (fr_bytes (send_queues c 1 ! i))) m"
    and fits: "unat (queued_bytes m) + length bs \<le> limit_of c Qos_kReliableLatest"
  shows "conn_ok (with_value m i bs)"
proof -
  let ?c = "with_value m i bs" and ?old = "length (fr_bytes (send_queues c 1 ! i))"
  note same = trims_same[OF t]
  have old: "?old \<le> qbytes (send_queues m 1)" using qbytes_nth[OF i] same by simp
  have fit64: "unat (queued_bytes m) + length bs < 2 ^ 64"
    using fits limit_of_le[of c Qos_kReliableLatest] unat_u64_less[of "max_queued_bytes c"] by simp
  have q1: "qbytes (send_queues ?c 1) = qbytes (send_queues m 1) - ?old + length bs"
    using i same by (simp add: with_value_def qbytes_update)
  have rest: "send_queues ?c 0 = send_queues m 0" "lossy_bytes ?c = lossy_bytes m"
      "max_queued_bytes ?c = max_queued_bytes m" "limit_of ?c = limit_of m"
    by (simp_all add: with_value_def lossy_bytes_def limit_of_def fun_eq_iff)
  have k0: "counts 0 ?c"
    using k q1 rest old add_count[OF fit64] by (simp add: counts_def backlog_def) (simp add: with_value_def)
  moreover have bl: "backlog ?c = unat (queued_bytes m) + length bs"
    using k q1 rest old by (simp add: counts_def backlog_def)
  moreover have "frames_ok ?c"
    using trims_frames_ok[OF t] ok ne i same by (intro frames_ok_with_value) (simp_all add: conn_ok_def)
  moreover have "map fr_latest_key ((send_queues m 1)[i := (send_queues m 1 ! i)\<lparr>fr_bytes := bs\<rparr>]) =
      map fr_latest_key (send_queues m 1)"
    using i same by (simp add: map_update list_update_same_conv)
  then have "latest_keys ?c = latest_keys c"
    using same by (simp add: latest_keys_def with_value_def)
  moreover have "qbytes (send_queues ?c 1) + lossy_bytes ?c \<le> limit_of ?c Qos_kBestEffort"
    using bl fits rest same by (simp add: backlog_def limit_of_def)
  ultimately show ?thesis
    using ok fits limit_of_le[of c Qos_kReliableLatest] rest same by (simp add: conn_ok_def)
qed

lemma replace_facts:
  assumes ok: "conn_ok c" and len: "length bs \<le> limit_of c qos" and ne: "bs \<noteq> []"
    and sup: "superseded c qos key = Some i" and r: "replace_latest c bs qos i = (b, c')"
  shows "conn_ok c' \<and>
    (b \<longleftrightarrow> reliable_bytes c - superseded_bytes c qos key + length bs \<le> limit_of c qos) \<and>
    (\<exists>m. trims c m \<and> c' = (if b then with_value m i bs else m))"
proof -
  from superseded_Some[OF sup] have qos: "qos = Qos_kReliableLatest" and i: "i < length (send_queues c 1)"
    by simp_all
  let ?old = "fr_bytes (send_queues c 1 ! i)"
  let ?c1 = "c\<lparr>queued_bytes := queued_bytes c - size_of ?old\<rparr>"
  from ok have c0: "counts 0 c" by (simp add: conn_ok_def)
  have old: "length ?old \<le> qbytes (send_queues c 1)" by (rule qbytes_nth[OF i])
  with c0 have oldq: "length ?old \<le> unat (queued_bytes c)" by (simp add: counts_def backlog_def)
  have q1: "unat (queued_bytes ?c1) = unat (queued_bytes c) - length ?old"
    using drop_count[OF refl oldq] by simp
  with c0 old oldq have k: "counts (length ?old) ?c1"
    by (simp add: counts_def backlog_def lossy_bytes_def)
  note room = conn_ok_room[OF ok len]
  have size: "unat (size_of bs) = length bs" using room(1) by (rule unat_size_of)
  from room(2) q1 have room1: "unat (queued_bytes ?c1) + unat (size_of bs) < 2 ^ 64" by simp
  obtain m where mk: "make_room ?c1 (size_of bs) Qos_kReliableLatest = (b, m)"
    using replace_latest_alt[OF _ refl, of c i bs] make_room_facts[OF k room1] r qos
    by (auto simp: split: prod.splits)
  note f = make_room_facts[OF k room1, of qos, unfolded mk size qos, simplified]
  note iff = make_room_iff[OF k room1, of qos, unfolded mk size qos, simplified]
  have c': "c' = (if b then with_value m i bs
      else m\<lparr>queued_bytes := queued_bytes m + size_of ?old\<rparr>)"
    using r replace_latest_alt[of ?c1 bs c i] f mk qos by simp
  have t: "trims c m" using f by simp
  have "unat (queued_bytes ?c1) - lossy_bytes c = reliable_bytes c - length ?old"
    using c0 q1 old by (simp add: counts_def backlog_def reliable_bytes_def)
  moreover have "superseded_bytes c qos key = length ?old"
    using sup by (simp add: superseded_bytes_def)
  moreover have "conn_ok c' \<and> (\<exists>m. trims c m \<and> c' = (if b then with_value m i bs else m))"
  proof (cases b)
    case True
    with f have "conn_ok (with_value m i bs)"
      by (intro conn_ok_with_value[OF t ok ne i]) (simp_all add: qos)
    with True t c' show ?thesis by auto
  next
    case False
    have "unat (queued_bytes m) + length ?old < 2 ^ 64"
      using f trims_lossy[OF t] trims_same[OF t] c0 unat_u64_less[of "queued_bytes c"]
      by (simp add: counts_def backlog_def)
    then have "counts 0 c'" using False f c' add_count[of m ?old]
      by (auto simp: counts_def backlog_def lossy_bytes_def)
    moreover have "trims c c'" using False t c' by simp
    ultimately show ?thesis using trims_conn_ok[OF _ _ ok] False by auto
  qed
  ultimately show ?thesis using iff by (auto simp: lossy_bytes_def qos)
qed

text \<open>The whole of \<open>runtime_enqueue\<close>.\<close>

definition put_frame :: "OutboundFrame list \<Rightarrow> bytes \<Rightarrow> QosClass \<Rightarrow> string \<Rightarrow> OutboundFrame list" where
  "put_frame fs bs qos key =
     (case if qos = Qos_kReliableLatest \<and> key \<noteq> [] then find_key key fs else None of
        Some i \<Rightarrow> fs[i := (fs ! i)\<lparr>fr_bytes := bs\<rparr>]
      | None \<Rightarrow> fs @ [\<lparr>fr_bytes = bs, fr_qos = qos, fr_latest_key = key\<rparr>])"

definition accepts :: "RuntimeConnection \<Rightarrow> bytes \<Rightarrow> QosClass \<Rightarrow> string \<Rightarrow> bool" where
  "accepts c bs qos key \<longleftrightarrow> conn_running c \<and> bs \<noteq> [] \<and>
     reliable_bytes c - superseded_bytes c qos key + length bs \<le> limit_of c qos"

lemma size_check:
  assumes "length bs < 2 ^ 64"
  shows "size_of bs > enqueue_limit c qos \<longleftrightarrow> length bs > limit_of c qos"
  using unat_size_of[OF assms] by (simp add: word_less_nat_alt unat_enqueue_limit)

lemma put_frame_fresh:
  "superseded m qos key = None \<Longrightarrow> put_frame (send_queues m (qos_index qos)) bs qos key =
     send_queues m (qos_index qos) @ [\<lparr>fr_bytes = bs, fr_qos = qos, fr_latest_key = key\<rparr>]"
  by (simp add: put_frame_def superseded_def)

lemma put_frame_replaced:
  "superseded m Qos_kReliableLatest key = Some i \<Longrightarrow>
     put_frame (send_queues m (Suc 0)) bs Qos_kReliableLatest key =
       (send_queues m (Suc 0))[i := (send_queues m (Suc 0) ! i)\<lparr>fr_bytes := bs\<rparr>]"
  by (simp add: put_frame_def superseded_def split: if_splits)

lemma enqueue_facts:
  assumes ok: "conn_ok c" and len: "length bs < 2 ^ 64"
  shows "conn_ok (snd (runtime_enqueue c bs qos key)) \<and>
    fst (runtime_enqueue c bs qos key) = accepts c bs qos key \<and>
    (\<exists>m. trims c m \<and> conn_running (snd (runtime_enqueue c bs qos key)) = conn_running c \<and>
       conn_peer (snd (runtime_enqueue c bs qos key)) = conn_peer c \<and>
       max_queued_bytes (snd (runtime_enqueue c bs qos key)) = max_queued_bytes c \<and>
       send_queues (snd (runtime_enqueue c bs qos key)) =
       (if accepts c bs qos key
        then (send_queues m)(qos_index qos := put_frame (send_queues m (qos_index qos)) bs qos key)
        else send_queues m))"
proof (cases "bs = [] \<or> \<not> conn_running c \<or> limit_of c qos < length bs")
  case True
  then show ?thesis using ok size_check[OF len]
    by (auto simp: runtime_enqueue_cases accepts_def intro!: exI[of _ c])
next
  case False
  then have ne: "bs \<noteq> []" and run: "conn_running c" and lim: "length bs \<le> limit_of c qos" by auto
  obtain b c' where r: "runtime_enqueue c bs qos key = (b, c')" by fastforce
  have eq: "runtime_enqueue c bs qos key = (case superseded c qos key of
      Some i \<Rightarrow> replace_latest c bs qos i | None \<Rightarrow> push_frame c bs qos key)"
    using False size_check[OF len] by (simp add: runtime_enqueue_cases)
  show ?thesis
  proof (cases "superseded c qos key")
    case None
    with eq r have "push_frame c bs qos key = (b, c')" by simp
    from push_frame_facts[OF ok lim ne None this] obtain m where
      "conn_ok c'" "b \<longleftrightarrow> accepts c bs qos key" "trims c m" "c' = (if b then with_frame m bs qos key else m)"
      using run ne None by (simp add: accepts_def superseded_bytes_def) blast
    moreover from this have "superseded m qos key = None" using None trims_same[of c m] by simp
    ultimately show ?thesis using r trims_same[of c m]
      by (intro conjI exI[of _ m]) (simp_all add: with_frame_def put_frame_fresh)
  next
    case (Some i)
    with eq r have "replace_latest c bs qos i = (b, c')" by simp
    from replace_facts[OF ok lim ne Some this] obtain m where
      "conn_ok c'" "b \<longleftrightarrow> accepts c bs qos key" "trims c m" "c' = (if b then with_value m i bs else m)"
      using run ne by (simp add: accepts_def) blast
    moreover from this have "superseded m qos key = Some i" "qos = Qos_kReliableLatest"
      using Some trims_same[of c m] superseded_Some[OF Some] by simp_all
    ultimately show ?thesis using r trims_same[of c m]
      by (intro conjI exI[of _ m]) (simp_all add: with_value_def put_frame_replaced)
  qed
qed

section \<open>Taking frames\<close>

lemma first_queue_Some:
  "first_queue c = Some i \<Longrightarrow> i < 4 \<and> send_queues c i \<noteq> [] \<and> (\<forall>j < i. send_queues c j = [])"
  by (auto simp: first_queue_def less_Suc_eq numeral_eq_Suc split: if_splits)

lemma first_queue_None: "first_queue c = None \<longleftrightarrow> (\<forall>i < 4. send_queues c i = [])"
  by (auto simp: first_queue_def less_Suc_eq numeral_eq_Suc split: if_splits)

lemma queues_empty_iff:
  assumes "conn_ok c"
  shows "(\<forall>i < 4. send_queues c i = []) \<longleftrightarrow> queued_bytes c = 0"
proof -
  have z: "qbytes (send_queues c i) = 0 \<longleftrightarrow> send_queues c i = []" for i
    using assms by (cases "send_queues c i") (auto simp: conn_ok_def frames_ok_def dest: spec[of _ i])
  have "queued_bytes c = 0 \<longleftrightarrow> backlog c = 0"
    using assms by (simp add: conn_ok_def counts_def unat_eq_0)
  with z show ?thesis
    by (auto simp: backlog_def lossy_bytes_def less_Suc_eq numeral_eq_Suc)
qed

lemma less_4_cases: "(i :: nat) < 4 \<Longrightarrow> i = 0 \<or> i = 1 \<or> i = 2 \<or> i = 3"
  by auto

lemma take_next_conn_ok:
  assumes ok: "conn_ok c" and r: "take_next_frame c = Some (f, c')"
  shows "conn_ok c'"
proof -
  obtain i fs where i: "first_queue c = Some i" and q: "send_queues c i = f # fs"
      and c': "c' = c\<lparr>send_queues := (send_queues c)(i := fs),
                     queued_bytes := queued_bytes c - size_of (fr_bytes f)\<rparr>"
    using r first_queue_Some by (fastforce simp: take_next_frame_def bind_eq_Some_conv Let_def neq_Nil_conv)
  have i4: "i = 0 \<or> i = 1 \<or> i = 2 \<or> i = 3" using first_queue_Some[OF i] less_4_cases by blast
  have bl: "backlog c = backlog c' + length (fr_bytes f)"
    using i4 q by (auto simp: c' backlog_def lossy_bytes_def)
  have "counts 0 c'"
    using ok bl drop_count[of _ c "fr_bytes f"] by (auto simp: conn_ok_def counts_def c')
  moreover have "qbytes (send_queues c' 1) + lossy_bytes c' \<le> qbytes (send_queues c 1) + lossy_bytes c"
    using i4 q by (auto simp: c' lossy_bytes_def)
  moreover have "frames_ok c'"
    by (rule frames_ok_mono[of c]) (use ok q in \<open>auto simp: conn_ok_def c'\<close>)
  moreover have "distinct (latest_keys c')"
    using ok q by (auto simp: c' conn_ok_def latest_keys_def split: if_splits)
  moreover have "max_queued_bytes c' = max_queued_bytes c" "limit_of c' = limit_of c"
    by (simp_all add: c' limit_of_def fun_eq_iff)
  ultimately show ?thesis using ok bl by (simp add: conn_ok_def)
qed

lemma take_next_Some:
  assumes "take_next_frame c = Some (f, c')"
  shows "\<exists>i < 4. send_queues c i = f # send_queues c' i \<and> (\<forall>j < i. send_queues c j = []) \<and>
     (\<forall>j. j \<noteq> i \<longrightarrow> send_queues c' j = send_queues c j)"
  using assms by (auto simp: take_next_frame_def bind_eq_Some_conv Let_def dest!: first_queue_Some)

lemma take_next_None: "take_next_frame c = None \<longleftrightarrow> first_queue c = None"
  by (cases "first_queue c") (simp_all add: take_next_frame_def Let_def)

lemma new_connection_ok: "unat limit < 2 ^ 63 \<Longrightarrow> conn_ok (new_connection peer limit)"
  by (simp add: conn_ok_def new_connection_def counts_def backlog_def lossy_bytes_def frames_ok_def
      latest_keys_def)

lemma qos_index_0: "qos_index q = 0 \<longleftrightarrow> q = Qos_kReliableOrdered"
  by (cases q) simp_all

lemma enqueue_queue0:
  assumes "conn_ok c" and "length bs < 2 ^ 64" and "runtime_enqueue c bs qos key = (b, c')"
  shows "conn_ok c' \<and> conn_running c' = conn_running c \<and>
    map fr_bytes (send_queues c' 0) = map fr_bytes (send_queues c 0) @
      (if b \<and> qos = Qos_kReliableOrdered then [bs] else [])"
  using enqueue_facts[OF assms(1,2), of qos key] assms(3)
  by (auto simp: put_frame_def qos_index_0 dest: trims_same)

section \<open>The interface to the session layer\<close>

text \<open>
  What the session and authority layers rely on when they write control frames: a write appends the
  frame to the pending control frames or leaves them alone.
\<close>

locale outbox =
  fixes put :: "'c \<Rightarrow> bytes \<Rightarrow> bool \<times> 'c"
    and pending :: "'c \<Rightarrow> bytes list"
    and usable :: "'c \<Rightarrow> bool"
  assumes put_pending: "usable c \<Longrightarrow> length b < 2 ^ 64 \<Longrightarrow>
      pending (snd (put c b)) = pending c @ (if fst (put c b) then [b] else [])"
    and put_usable: "usable c \<Longrightarrow> length b < 2 ^ 64 \<Longrightarrow> usable (snd (put c b))"
begin

lemma put_all:
  assumes "usable c" and "\<forall>b \<in> set bs. length b < 2 ^ 64"
  shows "usable (fold (\<lambda>b c. snd (put c b)) bs c) \<and>
    (\<exists>acc. subseq acc bs \<and> pending (fold (\<lambda>b c. snd (put c b)) bs c) = pending c @ acc)"
  using assms
proof (induction bs arbitrary: c)
  case (Cons b bs)
  from Cons.IH[of "snd (put c b)"] Cons.prems put_usable obtain acc where
    "usable (fold (\<lambda>b c. snd (put c b)) (b # bs) c)" "subseq acc bs"
    "pending (fold (\<lambda>b c. snd (put c b)) (b # bs) c) = pending (snd (put c b)) @ acc"
    by auto
  with put_pending[of c b] Cons.prems show ?case
    by (intro conjI exI[of _ "(if fst (put c b) then [b] else []) @ acc"]) auto
qed simp

end

definition control_pending :: "RuntimeConnection \<Rightarrow> bytes list" where
  "control_pending c = map fr_bytes (send_queues c 0)"

interpretation control: outbox runtime_write control_pending conn_ok
proof
  fix c and b :: bytes assume a: "conn_ok c" "length b < 2 ^ 64"
  from enqueue_queue0[OF this, of Qos_kReliableOrdered "[]"] show
    "control_pending (snd (runtime_write c b)) =
       control_pending c @ (if fst (runtime_write c b) then [b] else [])"
    "conn_ok (snd (runtime_write c b))"
    by (auto simp: control_pending_def runtime_write_def split: prod.splits)
      (metis prod.collapse)+
qed

section \<open>Properties\<close>

text \<open>
  C15. Queue accounting. On a connection in its invariant (the 64-bit byte counter equals the bytes
  queued and is within the limit, the latest-value queue has one frame per key, everything but
  ReliableOrdered traffic leaves a quarter of the limit free), \<open>runtime_enqueue\<close> keeps the invariant
  and accepts a frame exactly when the connection runs, the frame is not empty and it fits beside the
  reliable frames that are not superseded by it. \<open>take_next_frame\<close> finds a frame exactly when the byte
  counter is not zero; it is the front of the first nonempty queue in the order ReliableOrdered,
  ReliableLatest, BestEffort, Bulk, the other queues are untouched and the invariant is kept.
\<close>

theorem queue_accounting:
  assumes "conn_ok c" and "length bs < 2 ^ 64"
  shows "conn_ok (snd (runtime_enqueue c bs qos key)) \<and>
    (fst (runtime_enqueue c bs qos key) \<longleftrightarrow> conn_running c \<and> bs \<noteq> [] \<and>
       reliable_bytes c - superseded_bytes c qos key + length bs \<le> limit_of c qos) \<and>
    (take_next_frame c = None \<longleftrightarrow> queued_bytes c = 0) \<and>
    (\<forall>f c'. take_next_frame c = Some (f, c') \<longrightarrow> conn_ok c' \<and>
       (\<exists>i < 4. send_queues c i = f # send_queues c' i \<and> (\<forall>j < i. send_queues c j = []) \<and>
          (\<forall>j. j \<noteq> i \<longrightarrow> send_queues c' j = send_queues c j)))"
  using enqueue_facts[OF assms, of qos key] take_next_None[of c] first_queue_None[of c]
    queues_empty_iff[OF assms(1)] take_next_conn_ok[OF assms(1)] take_next_Some
  by (simp add: accepts_def)

definition sample_peer :: Peer where
  "sample_peer = \<lparr>peer_id = ''tcp://h:1'', peer_ip = ''h'', peer_port = 1\<rparr>"

theorem queue_accounting_witness:
  "conn_ok (snd (runtime_enqueue (new_connection sample_peer 8) [1, 2, 3] Qos_kBulk [])) \<and>
   take_next_frame (new_connection sample_peer 8) = None"
  using queue_accounting[of "new_connection sample_peer 8" "[1, 2, 3]" Qos_kBulk "[]"]
  by (simp add: new_connection_ok) (simp add: new_connection_def)

text \<open>
  C16. Reliable traffic is never dropped by the queue. Whatever is enqueued, accepted or not, the
  ReliableOrdered queue keeps all its frames and gains exactly the accepted ReliableOrdered frame at
  its end; the ReliableLatest queue keeps its frames, where an accepted frame replaces the value of
  its key in place or is appended; the two lossy queues may only lose frames from their front.
\<close>

theorem enqueue_keeps_reliable:
  assumes "conn_ok c" and "length bs < 2 ^ 64" and "runtime_enqueue c bs qos key = (b, c')"
  shows "send_queues c' 0 = (if b \<and> qos = Qos_kReliableOrdered
           then send_queues c 0 @ [\<lparr>fr_bytes = bs, fr_qos = qos, fr_latest_key = key\<rparr>]
           else send_queues c 0) \<and>
    send_queues c' 1 = (if b \<and> qos = Qos_kReliableLatest
           then put_frame (send_queues c 1) bs qos key else send_queues c 1) \<and>
    (\<forall>i. i = 2 \<or> i = 3 \<longrightarrow> (\<exists>kept. suffix kept (send_queues c i) \<and> send_queues c' i =
           (if b \<and> qos_index qos = i
            then kept @ [\<lparr>fr_bytes = bs, fr_qos = qos, fr_latest_key = key\<rparr>] else kept)))"
proof -
  obtain m where t: "trims c m" and b: "b = accepts c bs qos key" and q: "send_queues c' = (if b
      then (send_queues m)(qos_index qos := put_frame (send_queues m (qos_index qos)) bs qos key)
      else send_queues m)"
    using enqueue_facts[OF assms(1,2), of qos key] assms(3) by auto
  have fresh: "put_frame fs bs qos key = fs @ [\<lparr>fr_bytes = bs, fr_qos = qos, fr_latest_key = key\<rparr>]"
    if "qos \<noteq> Qos_kReliableLatest" for fs using that by (simp add: put_frame_def)
  have "suffix (send_queues m 2) (send_queues c 2)" "suffix (send_queues m 3) (send_queues c 3)"
    using t by (simp_all add: trims_def)
  then show ?thesis
    using q trims_same[OF t] fresh by (cases qos) auto
qed

theorem enqueue_keeps_reliable_witness:
  "\<exists>b c'. runtime_enqueue (new_connection sample_peer 8) [1] Qos_kReliableOrdered [] = (b, c') \<and>
     send_queues c' 1 = []"
proof -
  let ?c = "new_connection sample_peer 8"
  obtain b c' where r: "runtime_enqueue ?c [1] Qos_kReliableOrdered [] = (b, c')" by fastforce
  have "conn_ok ?c" by (simp add: new_connection_ok)
  from enqueue_keeps_reliable[OF this _ r] r show ?thesis by (auto simp: new_connection_def)
qed

text \<open>
  C17. The control reserve. However much other traffic is queued, a ReliableOrdered frame of at most a
  quarter of the limit is accepted by a running connection that has no ReliableOrdered frame queued,
  and nothing is dropped for it.
\<close>

theorem control_reserve:
  assumes "conn_ok c" and "conn_running c" and "send_queues c 0 = []" and "bs \<noteq> []"
    and "length bs \<le> unat (max_queued_bytes c) div 4"
  shows "runtime_enqueue c bs Qos_kReliableOrdered key =
    (True, c\<lparr>queued_bytes := queued_bytes c + size_of bs,
       send_queues := (send_queues c)(0 :=
         [\<lparr>fr_bytes = bs, fr_qos = Qos_kReliableOrdered, fr_latest_key = key\<rparr>])\<rparr>)"
proof -
  have len: "length bs < 2 ^ 64" "length bs \<le> limit_of c Qos_kReliableOrdered"
    using assms(5) unat_u64_less[of "max_queued_bytes c"] by (simp_all add: limit_of_def)
  have "unat (queued_bytes c) + unat (size_of bs) \<le> limit_of c Qos_kReliableOrdered"
    using assms unat_size_of[OF len(1)]
    by (auto simp: conn_ok_def counts_def backlog_def limit_of_def)
  then have "make_room c (size_of bs) Qos_kReliableOrdered = (True, c)" by (rule make_room_enough)
  with assms len size_check[OF len(1), of c Qos_kReliableOrdered] show ?thesis
    by (simp add: runtime_enqueue_cases superseded_def push_frame_def)
qed

theorem control_reserve_witness:
  "fst (runtime_enqueue (new_connection sample_peer 8) [1, 2] Qos_kReliableOrdered [])"
  using control_reserve[of "new_connection sample_peer 8" "[1, 2]" "[]"]
  by (simp add: new_connection_ok) (simp add: new_connection_def)

end
