(* ===== verification/CoreIO.thy ===== *)
theory CoreIO
  imports Codec
begin

text \<open>
  The \<open>Writer\<close> and \<open>Reader\<close> of \<open>src/core/core_messages_v2_internal.hpp\<close>. A writer collects bytes and
  remembers in \<open>valid_\<close> whether every length fitted its field; \<open>take\<close> gives up the whole payload
  otherwise. The booleans the C++ writer methods return are discarded by every caller and are not
  part of the model. A reader is the byte vector with a cursor; a failing read is \<open>None\<close>, and since
  every caller gives up on the first failure the cursor it leaves behind is not observable. Pointers
  that receive results are never null at the call sites. Sizes are \<open>size_t\<close> values far below
  $2^{64}$, so cursor sums do not wrap and are natural numbers here.
\<close>

record Writer =
  w_data :: bytes
  w_valid :: bool

definition writer_init :: Writer where
  "writer_init = \<lparr>w_data = [], w_valid = True\<rparr>"

definition w_emit :: "bytes \<Rightarrow> Writer \<Rightarrow> Writer" where
  "w_emit bs w = w\<lparr>w_data := w_data w @ bs\<rparr>"

definition w_invalid :: "Writer \<Rightarrow> Writer" where
  "w_invalid w = w\<lparr>w_valid := False\<rparr>"

definition w_u8 :: "u8 \<Rightarrow> Writer \<Rightarrow> Writer" where
  "w_u8 v w = w_emit [v] w"

definition w_u16 :: "u16 \<Rightarrow> Writer \<Rightarrow> Writer" where
  "w_u16 v w = w_emit (le_bytes 2 v) w"

definition w_u32 :: "u32 \<Rightarrow> Writer \<Rightarrow> Writer" where
  "w_u32 v w = w_emit (le_bytes 4 v) w"

definition w_u64 :: "u64 \<Rightarrow> Writer \<Rightarrow> Writer" where
  "w_u64 v w = w_emit (le_bytes 8 v) w"

text \<open>A \<open>float\<close> is carried as its 32 bits, which is what the \<open>memcpy\<close> of the source does.\<close>

definition w_f32 :: "u32 \<Rightarrow> Writer \<Rightarrow> Writer" where
  "w_f32 bits w = w_u32 bits w"

definition w_text :: "string \<Rightarrow> Writer \<Rightarrow> Writer" where
  "w_text s w =
     (if length s > 65535 then w_invalid w
      else w_emit (bytes_of_string s) (w_u16 (word_of_nat (length s)) w))"

definition w_list :: "('a \<Rightarrow> Writer \<Rightarrow> Writer) \<Rightarrow> 'a list \<Rightarrow> Writer \<Rightarrow> Writer" where
  "w_list callback values w =
     (if length values > 65535 then w_invalid w
      else fold callback values (w_u16 (word_of_nat (length values)) w))"

definition w_map_entry :: "string \<times> string \<Rightarrow> Writer \<Rightarrow> Writer" where
  "w_map_entry entry w = w_text (snd entry) (w_text (fst entry) w)"

definition w_map :: "(string, string) omap \<Rightarrow> Writer \<Rightarrow> Writer" where
  "w_map values w =
     (if length values > 65535 then w_invalid w
      else fold w_map_entry values (w_u16 (word_of_nat (length values)) w))"

definition w_bytes :: "bytes \<Rightarrow> Writer \<Rightarrow> Writer" where
  "w_bytes value w =
     (if length value > 4294967295 then w_invalid w
      else w_emit value (w_u32 (word_of_nat (length value)) w))"

definition w_take :: "Writer \<Rightarrow> bytes" where
  "w_take w = (if w_valid w then w_data w else [])"

record Reader =
  r_bytes :: bytes
  r_cursor :: nat

definition reader_init :: "bytes \<Rightarrow> Reader" where
  "reader_init bs = \<lparr>r_bytes = bs, r_cursor = 0\<rparr>"

text \<open>The bounds check, the bytes at the cursor, and the cursor moved past them.\<close>

definition r_bytes_n :: "nat \<Rightarrow> Reader \<Rightarrow> (bytes \<times> Reader) option" where
  "r_bytes_n n r =
     (if r_cursor r + n > length (r_bytes r) then None
      else Some (take n (drop (r_cursor r) (r_bytes r)), r\<lparr>r_cursor := r_cursor r + n\<rparr>))"

definition r_u8 :: "Reader \<Rightarrow> (u8 \<times> Reader) option" where
  "r_u8 r = do { (bs, r) \<leftarrow> r_bytes_n 1 r; Some (hd bs, r) }"

definition r_u16 :: "Reader \<Rightarrow> (u16 \<times> Reader) option" where
  "r_u16 r = do { (bs, r) \<leftarrow> r_bytes_n 2 r; Some (le_word bs, r) }"

definition r_u32 :: "Reader \<Rightarrow> (u32 \<times> Reader) option" where
  "r_u32 r = do { (bs, r) \<leftarrow> r_bytes_n 4 r; Some (le_word bs, r) }"

definition r_u64 :: "Reader \<Rightarrow> (u64 \<times> Reader) option" where
  "r_u64 r = do { (bs, r) \<leftarrow> r_bytes_n 8 r; Some (le_word bs, r) }"

definition r_f32 :: "Reader \<Rightarrow> (u32 \<times> Reader) option" where
  "r_f32 r = r_u32 r"

definition r_text :: "Reader \<Rightarrow> (string \<times> Reader) option" where
  "r_text r = do {
     (size, r) \<leftarrow> r_u16 r;
     (bs, r) \<leftarrow> r_bytes_n (unat size) r;
     Some (string_of_bytes bs, r) }"

definition r_list :: "(Reader \<Rightarrow> ('a \<times> Reader) option) \<Rightarrow> Reader \<Rightarrow> ('a list \<times> Reader) option" where
  "r_list callback r = do {
     (count, r) \<leftarrow> r_u16 r;
     read_n (unat count) callback r }"

text \<open>
  One text, one u8 flag, a size-prefixed blob. \<open>r_flag\<close> is the \<open>u8(&x) && x <= 1\<close> idiom that every
  boolean field of the payloads uses.
\<close>

definition r_flag :: "Reader \<Rightarrow> (bool \<times> Reader) option" where
  "r_flag r = do { (b, r) \<leftarrow> r_u8 r; if b \<le> 1 then Some (b \<noteq> 0, r) else None }"

fun r_map_entries :: "nat \<Rightarrow> (string, string) omap \<Rightarrow> Reader \<Rightarrow> ((string, string) omap \<times> Reader) option" where
  "r_map_entries 0 values r = Some (values, r)"
| "r_map_entries (Suc n) values r = do {
     (key, r) \<leftarrow> r_text r;
     (value, r) \<leftarrow> r_text r;
     values \<leftarrow> om_emplace key value values;
     r_map_entries n values r }"

definition r_string_map :: "Reader \<Rightarrow> ((string, string) omap \<times> Reader) option" where
  "r_string_map r = do {
     (count, r) \<leftarrow> r_u16 r;
     r_map_entries (unat count) [] r }"

definition r_blob :: "Reader \<Rightarrow> (bytes \<times> Reader) option" where
  "r_blob r = do {
     (size, r) \<leftarrow> r_u32 r;
     r_bytes_n (unat size) r }"

definition r_done :: "Reader \<Rightarrow> bool" where
  "r_done r \<longleftrightarrow> r_cursor r = length (r_bytes r)"

definition decode_all :: "bytes \<Rightarrow> (Reader \<Rightarrow> ('a \<times> Reader) option) \<Rightarrow> 'a option" where
  "decode_all bs cb = do {
     (parsed, r) \<leftarrow> cb (reader_init bs);
     if r_done r then Some parsed else None }"

section \<open>The streams and their field codecs\<close>

definition reader_at :: "bytes \<Rightarrow> bytes \<Rightarrow> Reader" where
  "reader_at pre post = \<lparr>r_bytes = pre @ post, r_cursor = length pre\<rparr>"

definition enc_flag :: "bool \<Rightarrow> bytes" where
  "enc_flag b = [if b then 1 else 0]"

definition w_flag :: "bool \<Rightarrow> Writer \<Rightarrow> Writer" where
  "w_flag b w = w_u8 (if b then 1 else 0) w"

definition enc_text :: "string \<Rightarrow> bytes" where
  "enc_text s = le_bytes 2 (word_of_nat (length s) :: u16) @ bytes_of_string s"

definition text_ok :: "string \<Rightarrow> bool" where
  "text_ok s \<longleftrightarrow> length s \<le> 65535"

definition enc_list :: "('a \<Rightarrow> bytes) \<Rightarrow> 'a list \<Rightarrow> bytes" where
  "enc_list enc xs = le_bytes 2 (word_of_nat (length xs) :: u16) @ concat (map enc xs)"

definition list_ok :: "('a \<Rightarrow> bool) \<Rightarrow> 'a list \<Rightarrow> bool" where
  "list_ok ok xs \<longleftrightarrow> length xs \<le> 65535 \<and> list_all ok xs"

definition enc_entry :: "string \<times> string \<Rightarrow> bytes" where
  "enc_entry e = enc_text (fst e) @ enc_text (snd e)"

definition enc_map :: "(string, string) omap \<Rightarrow> bytes" where
  "enc_map m = enc_list enc_entry m"

definition entry_ok :: "string \<times> string \<Rightarrow> bool" where
  "entry_ok e \<longleftrightarrow> text_ok (fst e) \<and> text_ok (snd e)"

definition map_ok :: "(string, string) omap \<Rightarrow> bool" where
  "map_ok m \<longleftrightarrow> omap_ok m \<and> list_ok entry_ok m"

definition enc_blob :: "bytes \<Rightarrow> bytes" where
  "enc_blob bs = le_bytes 4 (word_of_nat (length bs) :: u32) @ bs"

definition blob_ok :: "bytes \<Rightarrow> bool" where
  "blob_ok bs \<longleftrightarrow> length bs \<le> 4294967295"

lemma reader_init_at: "reader_init bs = reader_at [] bs"
  by (simp add: reader_init_def reader_at_def)

lemma r_done_at [simp]: "r_done (reader_at pre post) \<longleftrightarrow> post = []"
  by (simp add: r_done_def reader_at_def)

lemma r_bytes_n_at:
  "length bs = n \<Longrightarrow> r_bytes_n n (reader_at pre (bs @ post)) = Some (bs, reader_at (pre @ bs) post)"
  by (simp add: r_bytes_n_def reader_at_def)

lemma r_bytes_n_sound:
  "r_bytes_n n (reader_at pre rest) = Some (bs, r') \<Longrightarrow>
     length bs = n \<and> (\<exists>post. rest = bs @ post \<and> r' = reader_at (pre @ bs) post)"
  by (auto simp: r_bytes_n_def reader_at_def split: if_splits intro: exI[of _ "drop n rest"])

interpretation core_stream: byte_stream w_emit reader_at
  by unfold_locales (simp_all add: w_emit_def)

interpretation c_u8: canonical_codec w_emit reader_at w_u8 r_u8 "\<lambda>v. [v]" "\<lambda>_. True"
proof unfold_locales
  fix x :: u8 and pre post
  show "r_u8 (reader_at pre ([x] @ post)) = Some (x, reader_at (pre @ [x]) post)"
    unfolding r_u8_def by (simp only: r_bytes_n_at[of "[x]" 1] length_Cons list.size) simp
next
  fix pre rest x r'
  assume "r_u8 (reader_at pre rest) = Some (x, r')"
  then obtain bs where "r_bytes_n 1 (reader_at pre rest) = Some (bs, r')" "x = hd bs"
    by (auto simp: r_u8_def bind_eq_Some_conv)
  with r_bytes_n_sound[of 1 pre rest bs r'] show
    "True \<and> (\<exists>post. rest = [x] @ post \<and> r' = reader_at (pre @ [x]) post)"
    by (auto simp: length_Suc_conv)
qed (simp_all add: w_u8_def)

interpretation c_u16: canonical_codec w_emit reader_at w_u16 r_u16 "le_bytes 2" "\<lambda>_. True"
  by unfold_locales
    (auto simp: w_u16_def r_u16_def r_bytes_n_at bind_eq_Some_conv le_bytes_word dest!: r_bytes_n_sound)

interpretation c_u32: canonical_codec w_emit reader_at w_u32 r_u32 "le_bytes 4" "\<lambda>_. True"
  by unfold_locales
    (auto simp: w_u32_def r_u32_def r_bytes_n_at bind_eq_Some_conv le_bytes_word dest!: r_bytes_n_sound)

interpretation c_u64: canonical_codec w_emit reader_at w_u64 r_u64 "le_bytes 8" "\<lambda>_. True"
  by unfold_locales
    (auto simp: w_u64_def r_u64_def r_bytes_n_at bind_eq_Some_conv le_bytes_word dest!: r_bytes_n_sound)

interpretation c_f32: canonical_codec w_emit reader_at w_f32 r_f32 "le_bytes 4" "\<lambda>_. True"
  by unfold_locales (auto simp: w_f32_def r_f32_def c_u32.wr_ok c_u32.rd_enc dest!: c_u32.rd_sound)

interpretation c_flag: canonical_codec w_emit reader_at w_flag r_flag enc_flag "\<lambda>_. True"
proof unfold_locales
  fix x pre post
  show "r_flag (reader_at pre (enc_flag x @ post)) = Some (x, reader_at (pre @ enc_flag x) post)"
    by (simp only: r_flag_def enc_flag_def c_u8.rd_enc) simp
next
  fix pre rest x r'
  assume "r_flag (reader_at pre rest) = Some (x, r')"
  then obtain b where b: "r_u8 (reader_at pre rest) = Some (b, r')" "b \<le> 1" "x = (b \<noteq> 0)"
    by (auto simp: r_flag_def bind_eq_Some_conv split: if_splits)
  from b(2) have "unat b \<le> 1" by (simp add: word_le_nat_alt)
  then have "b = 0 \<or> b = 1" by (auto simp: word_unat_eq_iff le_Suc_eq)
  with c_u8.rd_sound[OF b(1)] b(3) show
    "True \<and> (\<exists>post. rest = enc_flag x @ post \<and> r' = reader_at (pre @ enc_flag x) post)"
    by (auto simp: enc_flag_def)
qed (simp add: w_flag_def enc_flag_def c_u8.wr_ok)

interpretation c_text: canonical_codec w_emit reader_at w_text r_text enc_text text_ok
proof unfold_locales
  fix x pre post
  assume "text_ok x"
  then show "r_text (reader_at pre (enc_text x @ post)) = Some (x, reader_at (pre @ enc_text x) post)"
    by (simp add: r_text_def enc_text_def text_ok_def c_u16.rd_enc r_bytes_n_at)
next
  fix pre rest x r'
  assume "r_text (reader_at pre rest) = Some (x, r')"
  then obtain size r1 bs where
      1: "r_u16 (reader_at pre rest) = Some (size, r1)"
      and 2: "r_bytes_n (unat size) r1 = Some (bs, r')" and x: "x = string_of_bytes bs"
    by (auto simp: r_text_def bind_eq_Some_conv)
  from c_u16.rd_sound[OF 1] obtain post where
      p: "rest = le_bytes 2 size @ post" "r1 = reader_at (pre @ le_bytes 2 size) post" by blast
  with 2 r_bytes_n_sound obtain post' where
      "length bs = unat size" "post = bs @ post'" "r' = reader_at ((pre @ le_bytes 2 size) @ bs) post'"
    by blast
  with p x unat_u16_less[of size] show
    "text_ok x \<and> (\<exists>post. rest = enc_text x @ post \<and> r' = reader_at (pre @ enc_text x) post)"
    by (auto simp: text_ok_def enc_text_def)
qed (simp add: w_text_def text_ok_def enc_text_def c_u16.wr_ok core_stream.emit_emit)

interpretation c_blob: canonical_codec w_emit reader_at w_bytes r_blob enc_blob blob_ok
proof unfold_locales
  fix x pre post
  assume "blob_ok x"
  then show "r_blob (reader_at pre (enc_blob x @ post)) = Some (x, reader_at (pre @ enc_blob x) post)"
    by (simp add: r_blob_def enc_blob_def blob_ok_def c_u32.rd_enc r_bytes_n_at)
next
  fix pre rest x r'
  assume "r_blob (reader_at pre rest) = Some (x, r')"
  then obtain size r1 where
      1: "r_u32 (reader_at pre rest) = Some (size, r1)" and 2: "r_bytes_n (unat size) r1 = Some (x, r')"
    by (auto simp: r_blob_def bind_eq_Some_conv)
  from c_u32.rd_sound[OF 1] obtain post where
      p: "rest = le_bytes 4 size @ post" "r1 = reader_at (pre @ le_bytes 4 size) post" by blast
  with 2 r_bytes_n_sound obtain post' where
      "length x = unat size" "post = x @ post'" "r' = reader_at ((pre @ le_bytes 4 size) @ x) post'"
    by blast
  with p unat_u32_less[of size] show
    "blob_ok x \<and> (\<exists>post. rest = enc_blob x @ post \<and> r' = reader_at (pre @ enc_blob x) post)"
    by (auto simp: blob_ok_def enc_blob_def)
qed (simp add: w_bytes_def blob_ok_def enc_blob_def c_u32.wr_ok core_stream.emit_emit)

text \<open>Counted lists of any field.\<close>

lemma list_codec:
  assumes "field_codec w_emit reader_at wr rd enc ok"
  shows "field_codec w_emit reader_at (w_list wr) (r_list rd) (enc_list enc) (list_ok ok)"
proof unfold_locales
  show "w_list wr x w = w_emit (enc_list enc x) w" if "list_ok ok x" for x w
    using that by (simp add: w_list_def list_ok_def enc_list_def c_u16.wr_ok
        field_codec.fold_wr[OF assms] core_stream.emit_emit)
  show "r_list rd (reader_at pre (enc_list enc x @ post)) =
          Some (x, reader_at (pre @ enc_list enc x) post)" if "list_ok ok x" for x pre post
    using that by (simp add: r_list_def list_ok_def enc_list_def c_u16.rd_enc
        field_codec.read_n_enc[OF assms])
qed

lemma list_canonical:
  assumes "canonical_codec w_emit reader_at wr rd enc ok"
  shows "canonical_codec w_emit reader_at (w_list wr) (r_list rd) (enc_list enc) (list_ok ok)"
proof (rule canonical_codec.intro)
  show "field_codec w_emit reader_at (w_list wr) (r_list rd) (enc_list enc) (list_ok ok)"
    by (rule list_codec[OF canonical_codec.axioms(1)[OF assms]])
  show "canonical_codec_axioms reader_at (r_list rd) (enc_list enc) (list_ok ok)"
  proof
    fix pre rest xs r'
    assume "r_list rd (reader_at pre rest) = Some (xs, r')"
    then obtain count r1 where
        1: "r_u16 (reader_at pre rest) = Some (count, r1)"
        and 2: "read_n (unat count) rd r1 = Some (xs, r')"
      by (auto simp: r_list_def bind_eq_Some_conv)
    from c_u16.rd_sound[OF 1] obtain post where
        p: "rest = le_bytes 2 count @ post" "r1 = reader_at (pre @ le_bytes 2 count) post" by blast
    with canonical_codec.read_n_sound[OF assms] 2 p unat_u16_less[of count] show
      "list_ok ok xs \<and>
         (\<exists>post. rest = enc_list enc xs @ post \<and> r' = reader_at (pre @ enc_list enc xs) post)"
      by (fastforce simp: list_ok_def enc_list_def)
  qed
qed

interpretation c_texts: canonical_codec w_emit reader_at "w_list w_text" "r_list r_text"
  "enc_list enc_text" "list_ok text_ok"
  by (rule list_canonical) (rule c_text.canonical_codec_axioms)

text \<open>
  String maps. The writer emits the entries in key order; the reader accepts them in any order
  without a repeated key, so this codec reads back what was written but is not canonical.
\<close>

lemma w_map_entry_ok: "entry_ok e \<Longrightarrow> w_map_entry e w = w_emit (enc_entry e) w"
  by (simp add: w_map_entry_def entry_ok_def enc_entry_def c_text.wr_ok core_stream.emit_emit)

lemma r_map_entries_enc:
  assumes "list_all entry_ok es" and "omap_ok (m @ es)"
  shows "r_map_entries (length es) m (reader_at pre (concat (map enc_entry es) @ post)) =
           Some (m @ es, reader_at (pre @ concat (map enc_entry es)) post)"
  using assms
proof (induction es arbitrary: m pre)
  case (Cons e es)
  obtain k v where e: "e = (k, v)" by (cases e)
  from Cons.prems(2) e have "om_emplace k v m = Some (m @ [(k, v)])"
    by (intro om_emplace_snoc) (simp add: omap_ok_def sorted_wrt_append)
  with Cons e show ?case by (simp add: enc_entry_def entry_ok_def c_text.rd_enc)
qed simp

interpretation c_map: field_codec w_emit reader_at w_map r_string_map enc_map map_ok
proof unfold_locales
  fix m w assume "map_ok m"
  then have "fold w_map_entry m w' = w_emit (concat (map enc_entry m)) w'" for w'
    by (induction m arbitrary: w')
      (auto simp: map_ok_def list_ok_def omap_ok_def w_map_entry_ok core_stream.emit_emit
        core_stream.emit_Nil)
  with \<open>map_ok m\<close> show "w_map m w = w_emit (enc_map m) w"
    by (simp add: w_map_def enc_map_def enc_list_def map_ok_def list_ok_def c_u16.wr_ok
        core_stream.emit_emit)
next
  fix m pre post assume "map_ok m"
  then show "r_string_map (reader_at pre (enc_map m @ post)) = Some (m, reader_at (pre @ enc_map m) post)"
    using r_map_entries_enc[of m "[]"]
    by (simp add: r_string_map_def enc_map_def enc_list_def map_ok_def list_ok_def c_u16.rd_enc)
qed

text \<open>Whatever the reader makes of a map is an ordered map.\<close>

lemma r_map_entries_ordered:
  "omap_ok m \<Longrightarrow> r_map_entries n m r = Some (m', r') \<Longrightarrow> omap_ok m'"
  by (induction n arbitrary: m r) (auto simp: bind_eq_Some_conv dest: omap_ok_emplace)

lemma r_string_map_ordered: "r_string_map r = Some (m, r') \<Longrightarrow> omap_ok m"
  by (auto simp: r_string_map_def bind_eq_Some_conv intro: r_map_entries_ordered[of "[]"])

lemmas core_wr = c_u8.wr_ok c_u16.wr_ok c_u32.wr_ok c_u64.wr_ok c_f32.wr_ok c_flag.wr_ok
  c_text.wr_ok c_blob.wr_ok c_texts.wr_ok c_map.wr_ok

lemmas core_rd = c_u8.rd_enc c_u16.rd_enc c_u32.rd_enc c_u64.rd_enc c_f32.rd_enc c_flag.rd_enc
  c_text.rd_enc c_blob.rd_enc c_texts.rd_enc c_map.rd_enc

lemmas core_rd_end = c_u16.rd_enc_end c_u32.rd_enc_end c_u64.rd_enc_end c_f32.rd_enc_end
  c_flag.rd_enc_end c_text.rd_enc_end c_blob.rd_enc_end c_texts.rd_enc_end c_map.rd_enc_end

lemma r_u8_Cons: "r_u8 (reader_at pre (x # post)) = Some (x, reader_at (pre @ [x]) post)"
  using c_u8.rd_enc[where x=x and pre=pre and post=post] by simp

declare core_wr [codec_laws] core_rd [codec_laws] core_rd_end [codec_laws] r_u8_Cons [codec_laws]

text \<open>A payload whose fields are all encodable is the concatenation of their encodings.\<close>

lemma w_take_emit [codec_laws]: "w_take (w_emit bs writer_init) = bs"
  by (simp add: w_take_def w_emit_def writer_init_def)

lemma w_emit_emit [codec_laws]: "w_emit ys (w_emit xs w) = w_emit (xs @ ys) w"
  by (rule core_stream.emit_emit)

lemma decode_all_at: "decode_all bs cb = do {
     (parsed, r) \<leftarrow> cb (reader_at [] bs);
     if r_done r then Some parsed else None }"
  by (simp add: decode_all_def reader_init_at)

lemma decode_all_sound:
  assumes "decode_all bs cb = Some x"
  obtains r where "cb (reader_at [] bs) = Some (x, r)" and "r_done r"
  using assms by (auto simp: decode_all_def reader_init_at bind_eq_Some_conv split: if_splits)

end
