(* ===== verification/CoreMessages.thy ===== *)
theory CoreMessages
  imports CoreIO Wire
begin

text \<open>
  The payloads owned by Core: \<open>include/yunlink/core/core_messages_v2.hpp\<close> and
  \<open>src/core/core_messages_v2.cpp\<close>, with the shared \<open>write_*\<close> and \<open>read_*\<close> helpers of
  \<open>src/core/core_messages_v2_internal.hpp\<close>. Each payload has its record, its encoder over the
  \<open>Writer\<close> and its decoder over the \<open>Reader\<close>. A payload with its length bounds is an instance of the
  locale \<open>payload_codec\<close> (decoding gives back what was encoded) and, when it carries no string map,
  of \<open>canonical_payload\<close> (the decoder accepts exactly the encoder's outputs).
\<close>

section \<open>Shared structures\<close>

definition write_type :: "TypeRef \<Rightarrow> Writer \<Rightarrow> Writer" where
  "write_type t =
     in_order [w_text (tr_profile_id t), w_u16 (tr_major t), w_u16 (tr_minor t), w_text (tr_type_name t)]"

definition read_type :: "Reader \<Rightarrow> (TypeRef \<times> Reader) option" where
  "read_type r = do {
     (profile_id, r) \<leftarrow> r_text r;
     (major, r) \<leftarrow> r_u16 r;
     (minor, r) \<leftarrow> r_u16 r;
     (type_name, r) \<leftarrow> r_text r;
     let t = \<lparr>tr_profile_id = profile_id, tr_major = major, tr_minor = minor, tr_type_name = type_name\<rparr>;
     if valid_type_ref t then Some (t, r) else None }"

definition write_entity :: "EntityDescriptor \<Rightarrow> Writer \<Rightarrow> Writer" where
  "write_entity e =
     in_order [w_text (ed_entity_uid e), w_text (ed_kind e), w_text (ed_display_name e),
     w_text (ed_hardware_id e), w_map (ed_attributes e), w_list w_text (ed_capabilities e),
     w_u8 (availability_code (ed_availability e))]"

definition read_entity :: "Reader \<Rightarrow> (EntityDescriptor \<times> Reader) option" where
  "read_entity r = do {
     (uid, r) \<leftarrow> r_text r;
     if \<not> valid_uid uid then None else do {
     (kind, r) \<leftarrow> r_text r;
     (display_name, r) \<leftarrow> r_text r;
     (hardware_id, r) \<leftarrow> r_text r;
     (attributes, r) \<leftarrow> r_string_map r;
     (capabilities, r) \<leftarrow> r_list r_text r;
     (code, r) \<leftarrow> r_u8 r;
     if code > availability_code Av_kOffline then None else do {
     availability \<leftarrow> availability_of code;
     Some (\<lparr>ed_entity_uid = uid, ed_kind = kind, ed_display_name = display_name,
            ed_hardware_id = hardware_id, ed_attributes = attributes,
            ed_capabilities = capabilities, ed_availability = availability\<rparr>, r) } } }"

section \<open>The payloads\<close>

record EntityDirectory =
  dir_endpoint_uid :: string
  dir_revision :: string
  dir_entities :: "EntityDescriptor list"

record AttachmentRequest =
  areq_expected_revision :: string
  areq_entity_uids :: "string list"

record AttachmentResponse =
  aresp_success :: bool
  aresp_revision :: string
  aresp_attached_entity_uids :: "string list"
  aresp_message :: string

record AuthorityRequest =
  authority_scope :: string
  lease_ttl_ms :: u32
  allow_preempt :: bool

record AuthorityStatus =
  st_authority_scope :: string
  st_state :: string
  st_lease_ttl_ms :: u32
  st_reason_code :: u16
  st_detail :: string

record StreamDescriptor =
  sd_stream_uid :: string
  sd_type :: TypeRef
  sd_encoding :: string
  sd_metadata :: "(string, string) omap"

record StreamCatalog =
  cat_revision :: string
  cat_streams :: "StreamDescriptor list"

record StreamSubscription =
  sub_stream_uid :: string
  sub_max_rate_hz :: u32
  sub_max_payload_bytes :: u32

record StreamSubscriptionStatus =
  sst_success :: bool
  sst_subscribed :: bool
  sst_stream_uid :: string
  sst_max_rate_hz :: u32
  sst_max_payload_bytes :: u32
  sst_message :: string

record StreamSample =
  sam_stream_uid :: string
  sam_encoding :: string
  sam_metadata :: "(string, string) omap"
  sam_source_timestamp_ns :: u64
  sam_sequence :: u64
  sam_data :: bytes

record ActionUpdate =
  au_phase :: ActionPhase
  au_result_code :: u16
  au_progress_percent :: u8
  au_detail :: string

record BulkDescriptor =
  bd_media_type :: string
  bd_encoding :: string
  bd_metadata :: "(string, string) omap"
  bd_total_bytes :: u64

record LogSummary =
  ls_log_uid :: string
  ls_owner_uid :: string
  ls_title :: string
  ls_state :: string
  ls_started_at_ns :: u64
  ls_finished_at_ns :: u64
  ls_has_exit_code :: bool
  ls_exit_code :: u32
  ls_labels :: "(string, string) omap"
  ls_message :: string

record LogListResponse =
  ll_success :: bool
  ll_message :: string
  ll_logs :: "LogSummary list"

record LogReadRequest =
  lr_log_uid :: string
  lr_cursor :: u64
  lr_max_bytes :: u32

record LogReadResponse =
  lrr_success :: bool
  lrr_message :: string
  lrr_log_uid :: string
  lrr_chunk :: string
  lrr_next_cursor :: u64
  lrr_truncated :: bool
  lrr_eof :: bool

section \<open>Encoders\<close>

definition encode_EntityDirectory :: "EntityDirectory \<Rightarrow> bytes" where
  "encode_EntityDirectory v = w_take
     (in_order [w_text (dir_endpoint_uid v), w_text (dir_revision v),
       w_list write_entity (dir_entities v)] writer_init)"

definition encode_AttachmentRequest :: "AttachmentRequest \<Rightarrow> bytes" where
  "encode_AttachmentRequest v = w_take
     (in_order [w_text (areq_expected_revision v), w_list w_text (areq_entity_uids v)] writer_init)"

definition encode_AttachmentResponse :: "AttachmentResponse \<Rightarrow> bytes" where
  "encode_AttachmentResponse v = w_take
     (in_order [w_flag (aresp_success v), w_text (aresp_revision v),
       w_list w_text (aresp_attached_entity_uids v), w_text (aresp_message v)] writer_init)"

definition encode_AuthorityRequest :: "AuthorityRequest \<Rightarrow> bytes" where
  "encode_AuthorityRequest v = w_take
     (in_order [w_text (authority_scope v), w_u32 (lease_ttl_ms v), w_flag (allow_preempt v)] writer_init)"

definition encode_AuthorityStatus :: "AuthorityStatus \<Rightarrow> bytes" where
  "encode_AuthorityStatus v = w_take
     (in_order [w_text (st_authority_scope v), w_text (st_state v), w_u32 (st_lease_ttl_ms v),
       w_u16 (st_reason_code v), w_text (st_detail v)] writer_init)"

definition write_stream :: "StreamDescriptor \<Rightarrow> Writer \<Rightarrow> Writer" where
  "write_stream s = in_order [w_text (sd_stream_uid s), write_type (sd_type s), w_text (sd_encoding s),
     w_map (sd_metadata s)]"

definition encode_StreamCatalog :: "StreamCatalog \<Rightarrow> bytes" where
  "encode_StreamCatalog v = w_take
     (in_order [w_text (cat_revision v), w_list write_stream (cat_streams v)] writer_init)"

definition encode_StreamSubscription :: "StreamSubscription \<Rightarrow> bytes" where
  "encode_StreamSubscription v = w_take
     (in_order [w_text (sub_stream_uid v), w_f32 (sub_max_rate_hz v),
       w_u32 (sub_max_payload_bytes v)] writer_init)"

definition encode_StreamSubscriptionStatus :: "StreamSubscriptionStatus \<Rightarrow> bytes" where
  "encode_StreamSubscriptionStatus v = w_take
     (in_order [w_flag (sst_success v), w_flag (sst_subscribed v), w_text (sst_stream_uid v),
       w_f32 (sst_max_rate_hz v), w_u32 (sst_max_payload_bytes v),
       w_text (sst_message v)] writer_init)"

definition encode_StreamSample :: "StreamSample \<Rightarrow> bytes" where
  "encode_StreamSample v = w_take
     (in_order [w_text (sam_stream_uid v), w_text (sam_encoding v), w_map (sam_metadata v),
       w_u64 (sam_source_timestamp_ns v), w_u64 (sam_sequence v), w_bytes (sam_data v)] writer_init)"

definition encode_ActionUpdate :: "ActionUpdate \<Rightarrow> bytes" where
  "encode_ActionUpdate v = w_take
     (in_order [w_u8 (phase_code (au_phase v)), w_u16 (au_result_code v), w_u8 (au_progress_percent v),
       w_text (au_detail v)] writer_init)"

definition encode_BulkDescriptor :: "BulkDescriptor \<Rightarrow> bytes" where
  "encode_BulkDescriptor v = w_take
     (in_order [w_text (bd_media_type v), w_text (bd_encoding v), w_map (bd_metadata v),
       w_u64 (bd_total_bytes v)] writer_init)"

text \<open>\<open>exit_code\<close> is an \<open>int32_t\<close> that travels as its 32 bits.\<close>

definition write_log_summary :: "LogSummary \<Rightarrow> Writer \<Rightarrow> Writer" where
  "write_log_summary v =
     in_order [w_text (ls_log_uid v), w_text (ls_owner_uid v), w_text (ls_title v), w_text (ls_state v),
     w_u64 (ls_started_at_ns v), w_u64 (ls_finished_at_ns v), w_flag (ls_has_exit_code v),
     w_u32 (ls_exit_code v), w_map (ls_labels v), w_text (ls_message v)]"

definition encode_LogListResponse :: "LogListResponse \<Rightarrow> bytes" where
  "encode_LogListResponse v = w_take
     (in_order [w_flag (ll_success v), w_text (ll_message v),
       w_list write_log_summary (ll_logs v)] writer_init)"

definition encode_LogReadRequest :: "LogReadRequest \<Rightarrow> bytes" where
  "encode_LogReadRequest v = w_take
     (in_order [w_text (lr_log_uid v), w_u64 (lr_cursor v), w_u32 (lr_max_bytes v)] writer_init)"

definition encode_LogReadResponse :: "LogReadResponse \<Rightarrow> bytes" where
  "encode_LogReadResponse v = w_take
     (in_order [w_flag (lrr_success v), w_text (lrr_message v), w_text (lrr_log_uid v),
       w_text (lrr_chunk v), w_u64 (lrr_next_cursor v), w_flag (lrr_truncated v),
       w_flag (lrr_eof v)] writer_init)"

section \<open>Decoders\<close>

text \<open>\<open>reader.text(&uid) && valid_uid(uid)\<close>.\<close>

definition r_uid :: "Reader \<Rightarrow> (string \<times> Reader) option" where
  "r_uid r = do { (uid, r) \<leftarrow> r_text r; if valid_uid uid then Some (uid, r) else None }"

definition decode_EntityDirectory :: "bytes \<Rightarrow> EntityDirectory option" where
  "decode_EntityDirectory bs = decode_all bs (\<lambda>r. do {
     (endpoint_uid, r) \<leftarrow> r_uid r;
     (revision, r) \<leftarrow> r_text r;
     (entities, r) \<leftarrow> r_list read_entity r;
     Some (\<lparr>dir_endpoint_uid = endpoint_uid, dir_revision = revision, dir_entities = entities\<rparr>, r) })"

definition decode_AttachmentRequest :: "bytes \<Rightarrow> AttachmentRequest option" where
  "decode_AttachmentRequest bs = decode_all bs (\<lambda>r. do {
     (expected_revision, r) \<leftarrow> r_text r;
     (uids, r) \<leftarrow> r_list r_uid r;
     Some (\<lparr>areq_expected_revision = expected_revision, areq_entity_uids = uids\<rparr>, r) })"

definition decode_AttachmentResponse :: "bytes \<Rightarrow> AttachmentResponse option" where
  "decode_AttachmentResponse bs = decode_all bs (\<lambda>r. do {
     (success, r) \<leftarrow> r_flag r;
     (revision, r) \<leftarrow> r_text r;
     (uids, r) \<leftarrow> r_list r_uid r;
     (message, r) \<leftarrow> r_text r;
     Some (\<lparr>aresp_success = success, aresp_revision = revision,
            aresp_attached_entity_uids = uids, aresp_message = message\<rparr>, r) })"

definition decode_AuthorityRequest :: "bytes \<Rightarrow> AuthorityRequest option" where
  "decode_AuthorityRequest bs = decode_all bs (\<lambda>r. do {
     (scope, r) \<leftarrow> r_text r;
     (ttl, r) \<leftarrow> r_u32 r;
     (preempt, r) \<leftarrow> r_flag r;
     Some (\<lparr>authority_scope = scope, lease_ttl_ms = ttl, allow_preempt = preempt\<rparr>, r) })"

definition decode_AuthorityStatus :: "bytes \<Rightarrow> AuthorityStatus option" where
  "decode_AuthorityStatus bs = decode_all bs (\<lambda>r. do {
     (scope, r) \<leftarrow> r_text r;
     (state, r) \<leftarrow> r_text r;
     (ttl, r) \<leftarrow> r_u32 r;
     (reason, r) \<leftarrow> r_u16 r;
     (detail, r) \<leftarrow> r_text r;
     Some (\<lparr>st_authority_scope = scope, st_state = state, st_lease_ttl_ms = ttl,
            st_reason_code = reason, st_detail = detail\<rparr>, r) })"

definition read_stream :: "Reader \<Rightarrow> (StreamDescriptor \<times> Reader) option" where
  "read_stream r = do {
     (uid, r) \<leftarrow> r_uid r;
     (ty, r) \<leftarrow> read_type r;
     (encoding, r) \<leftarrow> r_text r;
     (metadata, r) \<leftarrow> r_string_map r;
     Some (\<lparr>sd_stream_uid = uid, sd_type = ty, sd_encoding = encoding, sd_metadata = metadata\<rparr>, r) }"

definition decode_StreamCatalog :: "bytes \<Rightarrow> StreamCatalog option" where
  "decode_StreamCatalog bs = decode_all bs (\<lambda>r. do {
     (revision, r) \<leftarrow> r_text r;
     (streams, r) \<leftarrow> r_list read_stream r;
     Some (\<lparr>cat_revision = revision, cat_streams = streams\<rparr>, r) })"

definition decode_StreamSubscription :: "bytes \<Rightarrow> StreamSubscription option" where
  "decode_StreamSubscription bs = decode_all bs (\<lambda>r. do {
     (uid, r) \<leftarrow> r_uid r;
     (rate, r) \<leftarrow> r_f32 r;
     (limit, r) \<leftarrow> r_u32 r;
     Some (\<lparr>sub_stream_uid = uid, sub_max_rate_hz = rate, sub_max_payload_bytes = limit\<rparr>, r) })"

definition decode_StreamSubscriptionStatus :: "bytes \<Rightarrow> StreamSubscriptionStatus option" where
  "decode_StreamSubscriptionStatus bs = decode_all bs (\<lambda>r. do {
     (success, r) \<leftarrow> r_flag r;
     (subscribed, r) \<leftarrow> r_flag r;
     (uid, r) \<leftarrow> r_uid r;
     (rate, r) \<leftarrow> r_f32 r;
     (limit, r) \<leftarrow> r_u32 r;
     (message, r) \<leftarrow> r_text r;
     Some (\<lparr>sst_success = success, sst_subscribed = subscribed, sst_stream_uid = uid,
            sst_max_rate_hz = rate, sst_max_payload_bytes = limit, sst_message = message\<rparr>, r) })"

definition decode_StreamSample :: "bytes \<Rightarrow> StreamSample option" where
  "decode_StreamSample bs = decode_all bs (\<lambda>r. do {
     (uid, r) \<leftarrow> r_uid r;
     (encoding, r) \<leftarrow> r_text r;
     (metadata, r) \<leftarrow> r_string_map r;
     (timestamp, r) \<leftarrow> r_u64 r;
     (sequence, r) \<leftarrow> r_u64 r;
     (data, r) \<leftarrow> r_blob r;
     Some (\<lparr>sam_stream_uid = uid, sam_encoding = encoding, sam_metadata = metadata,
            sam_source_timestamp_ns = timestamp, sam_sequence = sequence, sam_data = data\<rparr>, r) })"

definition decode_ActionUpdate :: "bytes \<Rightarrow> ActionUpdate option" where
  "decode_ActionUpdate bs = decode_all bs (\<lambda>r. do {
     (code, r) \<leftarrow> r_u8 r;
     if code < phase_code Phase_kReceived \<or> code > phase_code Phase_kExpired then None else do {
     phase \<leftarrow> phase_of code;
     (result, r) \<leftarrow> r_u16 r;
     (progress, r) \<leftarrow> r_u8 r;
     if progress > 100 then None else do {
     (detail, r) \<leftarrow> r_text r;
     Some (\<lparr>au_phase = phase, au_result_code = result, au_progress_percent = progress,
            au_detail = detail\<rparr>, r) } } })"

definition decode_BulkDescriptor :: "bytes \<Rightarrow> BulkDescriptor option" where
  "decode_BulkDescriptor bs = decode_all bs (\<lambda>r. do {
     (media_type, r) \<leftarrow> r_text r;
     (encoding, r) \<leftarrow> r_text r;
     (metadata, r) \<leftarrow> r_string_map r;
     (total, r) \<leftarrow> r_u64 r;
     Some (\<lparr>bd_media_type = media_type, bd_encoding = encoding, bd_metadata = metadata,
            bd_total_bytes = total\<rparr>, r) })"

definition read_log_summary :: "Reader \<Rightarrow> (LogSummary \<times> Reader) option" where
  "read_log_summary r = do {
     (log_uid, r) \<leftarrow> r_uid r;
     (owner_uid, r) \<leftarrow> r_uid r;
     (title, r) \<leftarrow> r_text r;
     (state, r) \<leftarrow> r_text r;
     (started, r) \<leftarrow> r_u64 r;
     (finished, r) \<leftarrow> r_u64 r;
     (has_exit, r) \<leftarrow> r_flag r;
     (exit_code, r) \<leftarrow> r_u32 r;
     (labels, r) \<leftarrow> r_string_map r;
     (message, r) \<leftarrow> r_text r;
     Some (\<lparr>ls_log_uid = log_uid, ls_owner_uid = owner_uid, ls_title = title, ls_state = state,
            ls_started_at_ns = started, ls_finished_at_ns = finished, ls_has_exit_code = has_exit,
            ls_exit_code = exit_code, ls_labels = labels, ls_message = message\<rparr>, r) }"

definition decode_LogListResponse :: "bytes \<Rightarrow> LogListResponse option" where
  "decode_LogListResponse bs = decode_all bs (\<lambda>r. do {
     (success, r) \<leftarrow> r_flag r;
     (message, r) \<leftarrow> r_text r;
     (logs, r) \<leftarrow> r_list read_log_summary r;
     Some (\<lparr>ll_success = success, ll_message = message, ll_logs = logs\<rparr>, r) })"

definition decode_LogReadRequest :: "bytes \<Rightarrow> LogReadRequest option" where
  "decode_LogReadRequest bs = decode_all bs (\<lambda>r. do {
     (uid, r) \<leftarrow> r_uid r;
     (cursor, r) \<leftarrow> r_u64 r;
     (max_bytes, r) \<leftarrow> r_u32 r;
     if max_bytes > 0
     then Some (\<lparr>lr_log_uid = uid, lr_cursor = cursor, lr_max_bytes = max_bytes\<rparr>, r)
     else None })"

definition decode_LogReadResponse :: "bytes \<Rightarrow> LogReadResponse option" where
  "decode_LogReadResponse bs = decode_all bs (\<lambda>r. do {
     (success, r) \<leftarrow> r_flag r;
     (message, r) \<leftarrow> r_text r;
     (uid, r) \<leftarrow> r_uid r;
     (chunk, r) \<leftarrow> r_text r;
     (next_cursor, r) \<leftarrow> r_u64 r;
     (truncated, r) \<leftarrow> r_flag r;
     (eof, r) \<leftarrow> r_flag r;
     Some (\<lparr>lrr_success = success, lrr_message = message, lrr_log_uid = uid, lrr_chunk = chunk,
            lrr_next_cursor = next_cursor, lrr_truncated = truncated, lrr_eof = eof\<rparr>, r) })"

section \<open>The shared structures are field codecs\<close>

definition uid_ok :: "string \<Rightarrow> bool" where
  "uid_ok s \<longleftrightarrow> valid_uid s"

lemma uid_text_ok: "uid_ok s \<Longrightarrow> text_ok s"
  by (auto simp: uid_ok_def text_ok_def dest: valid_uid_length)

interpretation c_uid: canonical_codec w_emit reader_at w_text r_uid enc_text uid_ok
  by unfold_locales
    (auto simp: r_uid_def codec_laws uid_text_ok bind_eq_Some_conv uid_ok_def[symmetric]
      split: if_splits dest!: c_text.rd_sound)

definition enc_type :: "TypeRef \<Rightarrow> bytes" where
  "enc_type t = enc_text (tr_profile_id t) @ le_bytes 2 (tr_major t) @ le_bytes 2 (tr_minor t) @
     enc_text (tr_type_name t)"

lemma type_texts_ok: "valid_type_ref t \<Longrightarrow> text_ok (tr_profile_id t) \<and> text_ok (tr_type_name t)"
  by (auto simp: text_ok_def dest: valid_type_ref_lengths)

lemma type_ref_eta [simp]:
  "\<lparr>tr_profile_id = tr_profile_id t, tr_major = tr_major t, tr_minor = tr_minor t,
     tr_type_name = tr_type_name t\<rparr> = t"
  by simp

interpretation c_type: canonical_codec w_emit reader_at write_type read_type enc_type valid_type_ref
  by unfold_locales
    (auto simp: write_type_def read_type_def enc_type_def in_order_simps codec_laws type_texts_ok
      bind_eq_Some_conv Let_def split: if_splits
      dest!: c_text.rd_sound c_u16.rd_sound)


definition enc_entity :: "EntityDescriptor \<Rightarrow> bytes" where
  "enc_entity e = enc_text (ed_entity_uid e) @ enc_text (ed_kind e) @ enc_text (ed_display_name e) @
     enc_text (ed_hardware_id e) @ enc_map (ed_attributes e) @
     enc_list enc_text (ed_capabilities e) @ [availability_code (ed_availability e)]"

definition entity_ok :: "EntityDescriptor \<Rightarrow> bool" where
  "entity_ok e \<longleftrightarrow> uid_ok (ed_entity_uid e) \<and> text_ok (ed_kind e) \<and> text_ok (ed_display_name e) \<and>
     text_ok (ed_hardware_id e) \<and> map_ok (ed_attributes e) \<and> list_ok text_ok (ed_capabilities e)"

lemma availability_round: "availability_of (availability_code a) = Some a \<and> \<not> 3 < availability_code a"
  by (cases a) (simp_all add: availability_of_def)

interpretation c_entity: field_codec w_emit reader_at write_entity read_entity enc_entity entity_ok
  by unfold_locales
    (auto simp: write_entity_def read_entity_def enc_entity_def entity_ok_def in_order_simps codec_laws
      uid_text_ok uid_ok_def[symmetric] availability_round)

definition enc_stream :: "StreamDescriptor \<Rightarrow> bytes" where
  "enc_stream s = enc_text (sd_stream_uid s) @ enc_type (sd_type s) @ enc_text (sd_encoding s) @
     enc_map (sd_metadata s)"

definition stream_ok :: "StreamDescriptor \<Rightarrow> bool" where
  "stream_ok s \<longleftrightarrow> uid_ok (sd_stream_uid s) \<and> valid_type_ref (sd_type s) \<and>
     text_ok (sd_encoding s) \<and> map_ok (sd_metadata s)"

declare c_uid.wr_ok [codec_laws] c_uid.rd_enc [codec_laws] c_uid.rd_enc_end [codec_laws]
  c_type.wr_ok [codec_laws] c_type.rd_enc [codec_laws]

interpretation c_stream: field_codec w_emit reader_at write_stream read_stream enc_stream stream_ok
  by unfold_locales
    (auto simp: write_stream_def read_stream_def enc_stream_def stream_ok_def in_order_simps codec_laws)

definition enc_log_summary :: "LogSummary \<Rightarrow> bytes" where
  "enc_log_summary v = enc_text (ls_log_uid v) @ enc_text (ls_owner_uid v) @ enc_text (ls_title v) @
     enc_text (ls_state v) @ le_bytes 8 (ls_started_at_ns v) @ le_bytes 8 (ls_finished_at_ns v) @
     enc_flag (ls_has_exit_code v) @ le_bytes 4 (ls_exit_code v) @ enc_map (ls_labels v) @
     enc_text (ls_message v)"

definition log_summary_ok :: "LogSummary \<Rightarrow> bool" where
  "log_summary_ok v \<longleftrightarrow> uid_ok (ls_log_uid v) \<and> uid_ok (ls_owner_uid v) \<and> text_ok (ls_title v) \<and>
     text_ok (ls_state v) \<and> map_ok (ls_labels v) \<and> text_ok (ls_message v)"

interpretation c_log: field_codec w_emit reader_at write_log_summary read_log_summary
  enc_log_summary log_summary_ok
  by unfold_locales
    (auto simp: write_log_summary_def read_log_summary_def enc_log_summary_def log_summary_ok_def
      in_order_simps codec_laws)

interpretation c_uids: canonical_codec w_emit reader_at "w_list w_text" "r_list r_uid"
  "enc_list enc_text" "list_ok uid_ok"
  by (rule list_canonical) (rule c_uid.canonical_codec_axioms)

interpretation c_entities: field_codec w_emit reader_at "w_list write_entity" "r_list read_entity"
  "enc_list enc_entity" "list_ok entity_ok"
  by (rule list_codec) (rule c_entity.field_codec_axioms)

interpretation c_streams: field_codec w_emit reader_at "w_list write_stream" "r_list read_stream"
  "enc_list enc_stream" "list_ok stream_ok"
  by (rule list_codec) (rule c_stream.field_codec_axioms)

interpretation c_logs: field_codec w_emit reader_at "w_list write_log_summary"
  "r_list read_log_summary" "enc_list enc_log_summary" "list_ok log_summary_ok"
  by (rule list_codec) (rule c_log.field_codec_axioms)

declare c_uids.wr_ok [codec_laws] c_uids.rd_enc [codec_laws] c_uids.rd_enc_end [codec_laws]
  c_entities.wr_ok [codec_laws] c_entities.rd_enc_end [codec_laws]
  c_streams.wr_ok [codec_laws] c_streams.rd_enc_end [codec_laws]
  c_logs.wr_ok [codec_laws] c_logs.rd_enc_end [codec_laws]

lemmas core_sound = c_u8.rd_sound c_u16.rd_sound c_u32.rd_sound c_u64.rd_sound c_f32.rd_sound
  c_flag.rd_sound c_text.rd_sound c_uid.rd_sound c_uids.rd_sound c_type.rd_sound


section \<open>Bounds of each payload, and its codec\<close>

definition directory_ok :: "EntityDirectory \<Rightarrow> bool" where
  "directory_ok v \<longleftrightarrow> uid_ok (dir_endpoint_uid v) \<and> text_ok (dir_revision v) \<and>
     list_ok entity_ok (dir_entities v)"

definition attachment_request_ok :: "AttachmentRequest \<Rightarrow> bool" where
  "attachment_request_ok v \<longleftrightarrow> text_ok (areq_expected_revision v) \<and> list_ok uid_ok (areq_entity_uids v)"

definition attachment_response_ok :: "AttachmentResponse \<Rightarrow> bool" where
  "attachment_response_ok v \<longleftrightarrow> text_ok (aresp_revision v) \<and>
     list_ok uid_ok (aresp_attached_entity_uids v) \<and> text_ok (aresp_message v)"

definition authority_request_ok :: "AuthorityRequest \<Rightarrow> bool" where
  "authority_request_ok v \<longleftrightarrow> text_ok (authority_scope v)"

definition authority_status_ok :: "AuthorityStatus \<Rightarrow> bool" where
  "authority_status_ok v \<longleftrightarrow> text_ok (st_authority_scope v) \<and> text_ok (st_state v) \<and> text_ok (st_detail v)"

definition catalog_ok :: "StreamCatalog \<Rightarrow> bool" where
  "catalog_ok v \<longleftrightarrow> text_ok (cat_revision v) \<and> list_ok stream_ok (cat_streams v)"

definition subscription_ok :: "StreamSubscription \<Rightarrow> bool" where
  "subscription_ok v \<longleftrightarrow> uid_ok (sub_stream_uid v)"

definition subscription_status_ok :: "StreamSubscriptionStatus \<Rightarrow> bool" where
  "subscription_status_ok v \<longleftrightarrow> uid_ok (sst_stream_uid v) \<and> text_ok (sst_message v)"

definition sample_ok :: "StreamSample \<Rightarrow> bool" where
  "sample_ok v \<longleftrightarrow> uid_ok (sam_stream_uid v) \<and> text_ok (sam_encoding v) \<and> map_ok (sam_metadata v) \<and>
     blob_ok (sam_data v)"

definition action_update_ok :: "ActionUpdate \<Rightarrow> bool" where
  "action_update_ok v \<longleftrightarrow> au_progress_percent v \<le> 100 \<and> text_ok (au_detail v)"

definition bulk_ok :: "BulkDescriptor \<Rightarrow> bool" where
  "bulk_ok v \<longleftrightarrow> text_ok (bd_media_type v) \<and> text_ok (bd_encoding v) \<and> map_ok (bd_metadata v)"

definition log_list_ok :: "LogListResponse \<Rightarrow> bool" where
  "log_list_ok v \<longleftrightarrow> text_ok (ll_message v) \<and> list_ok log_summary_ok (ll_logs v)"

definition log_read_request_ok :: "LogReadRequest \<Rightarrow> bool" where
  "log_read_request_ok v \<longleftrightarrow> uid_ok (lr_log_uid v) \<and> 0 < lr_max_bytes v"

definition log_read_response_ok :: "LogReadResponse \<Rightarrow> bool" where
  "log_read_response_ok v \<longleftrightarrow> text_ok (lrr_message v) \<and> uid_ok (lrr_log_uid v) \<and> text_ok (lrr_chunk v)"

interpretation p_directory: payload_codec encode_EntityDirectory decode_EntityDirectory directory_ok
  by unfold_locales
    (simp add: encode_EntityDirectory_def decode_EntityDirectory_def directory_ok_def decode_all_at
      in_order_simps codec_laws)

interpretation p_catalog: payload_codec encode_StreamCatalog decode_StreamCatalog catalog_ok
  by unfold_locales
    (simp add: encode_StreamCatalog_def decode_StreamCatalog_def catalog_ok_def decode_all_at
      in_order_simps codec_laws)

interpretation p_sample: payload_codec encode_StreamSample decode_StreamSample sample_ok
  by unfold_locales
    (simp add: encode_StreamSample_def decode_StreamSample_def sample_ok_def decode_all_at
      in_order_simps codec_laws)

interpretation p_bulk: payload_codec encode_BulkDescriptor decode_BulkDescriptor bulk_ok
  by unfold_locales
    (simp add: encode_BulkDescriptor_def decode_BulkDescriptor_def bulk_ok_def decode_all_at
      in_order_simps codec_laws)

interpretation p_log_list: payload_codec encode_LogListResponse decode_LogListResponse log_list_ok
  by unfold_locales
    (simp add: encode_LogListResponse_def decode_LogListResponse_def log_list_ok_def decode_all_at
      in_order_simps codec_laws)

interpretation p_attach_request: canonical_payload encode_AttachmentRequest
  decode_AttachmentRequest attachment_request_ok
  by unfold_locales
    (auto simp: encode_AttachmentRequest_def decode_AttachmentRequest_def attachment_request_ok_def
      decode_all_at in_order_simps codec_laws bind_eq_Some_conv split: if_splits dest!: core_sound)

interpretation p_attach_response: canonical_payload encode_AttachmentResponse
  decode_AttachmentResponse attachment_response_ok
  by unfold_locales
    (auto simp: encode_AttachmentResponse_def decode_AttachmentResponse_def
      attachment_response_ok_def decode_all_at in_order_simps codec_laws bind_eq_Some_conv
      split: if_splits dest!: core_sound)

interpretation p_authority_request: canonical_payload encode_AuthorityRequest
  decode_AuthorityRequest authority_request_ok
  by unfold_locales
    (auto simp: encode_AuthorityRequest_def decode_AuthorityRequest_def authority_request_ok_def
      decode_all_at in_order_simps codec_laws bind_eq_Some_conv split: if_splits dest!: core_sound)

interpretation p_authority_status: canonical_payload encode_AuthorityStatus
  decode_AuthorityStatus authority_status_ok
  by unfold_locales
    (auto simp: encode_AuthorityStatus_def decode_AuthorityStatus_def authority_status_ok_def
      decode_all_at in_order_simps codec_laws bind_eq_Some_conv split: if_splits dest!: core_sound)

interpretation p_subscription: canonical_payload encode_StreamSubscription
  decode_StreamSubscription subscription_ok
  by unfold_locales
    (auto simp: encode_StreamSubscription_def decode_StreamSubscription_def subscription_ok_def
      decode_all_at in_order_simps codec_laws bind_eq_Some_conv split: if_splits dest!: core_sound)

interpretation p_subscription_status: canonical_payload encode_StreamSubscriptionStatus
  decode_StreamSubscriptionStatus subscription_status_ok
  by unfold_locales
    (auto simp: encode_StreamSubscriptionStatus_def decode_StreamSubscriptionStatus_def
      subscription_status_ok_def decode_all_at in_order_simps codec_laws bind_eq_Some_conv
      split: if_splits dest!: core_sound)

interpretation p_log_read_request: canonical_payload encode_LogReadRequest
  decode_LogReadRequest log_read_request_ok
  by unfold_locales
    (auto simp: encode_LogReadRequest_def decode_LogReadRequest_def log_read_request_ok_def
      decode_all_at in_order_simps codec_laws bind_eq_Some_conv split: if_splits dest!: core_sound)

interpretation p_log_read_response: canonical_payload encode_LogReadResponse
  decode_LogReadResponse log_read_response_ok
  by unfold_locales
    (auto simp: encode_LogReadResponse_def decode_LogReadResponse_def log_read_response_ok_def
      decode_all_at in_order_simps codec_laws bind_eq_Some_conv split: if_splits dest!: core_sound)

lemma phase_code_range: "\<not> phase_code p < 1 \<and> \<not> 7 < phase_code p"
  by (cases p) (simp_all add: word_less_nat_alt)

interpretation p_action_update: canonical_payload encode_ActionUpdate
  decode_ActionUpdate action_update_ok
proof unfold_locales
  fix v assume "action_update_ok v"
  then show "decode_ActionUpdate (encode_ActionUpdate v) = Some v"
    using phase_code_range[of "au_phase v"]
    by (simp add: encode_ActionUpdate_def decode_ActionUpdate_def action_update_ok_def decode_all_at
        in_order_simps codec_laws word_less_nat_alt word_le_nat_alt)
next
  fix bs v assume "decode_ActionUpdate bs = Some v"
  then show "action_update_ok v \<and> encode_ActionUpdate v = bs"
    by (auto simp: encode_ActionUpdate_def decode_ActionUpdate_def action_update_ok_def
        decode_all_at in_order_simps codec_laws bind_eq_Some_conv not_less
        split: if_splits dest!: core_sound phase_ofD)
qed

section \<open>Properties\<close>

definition sample_directory :: EntityDirectory where
  "sample_directory = \<lparr>dir_endpoint_uid = ''agent'', dir_revision = ''r1'',
     dir_entities = [\<lparr>ed_entity_uid = ''uav:1'', ed_kind = ''uav'', ed_display_name = ''One'',
       ed_hardware_id = ''hw'', ed_attributes = [(''a'', ''x''), (''b'', '''')],
       ed_capabilities = [''fly''], ed_availability = Av_kOffline\<rparr>]\<rparr>"

definition sample_catalog :: StreamCatalog where
  "sample_catalog = \<lparr>cat_revision = ''r'', cat_streams = [\<lparr>sd_stream_uid = ''odom'',
     sd_type = \<lparr>tr_profile_id = ''p'', tr_major = 1, tr_minor = 0, tr_type_name = ''Pose''\<rparr>,
     sd_encoding = ''raw'', sd_metadata = [(''hz'', ''10'')]\<rparr>]\<rparr>"

definition sample_stream_sample :: StreamSample where
  "sample_stream_sample = \<lparr>sam_stream_uid = ''odom'', sam_encoding = ''raw'', sam_metadata = [],
     sam_source_timestamp_ns = 7, sam_sequence = 2, sam_data = [1, 2, 3]\<rparr>"

definition sample_log_list :: LogListResponse where
  "sample_log_list = \<lparr>ll_success = True, ll_message = ''m'', ll_logs = [\<lparr>ls_log_uid = ''l1'',
     ls_owner_uid = ''agent'', ls_title = ''t'', ls_state = ''exited'', ls_started_at_ns = 1,
     ls_finished_at_ns = 2, ls_has_exit_code = True, ls_exit_code = -1,
     ls_labels = [(''k'', ''v'')], ls_message = ''''\<rparr>]\<rparr>"

definition sample_bulk :: BulkDescriptor where
  "sample_bulk = \<lparr>bd_media_type = ''image'', bd_encoding = ''png'', bd_metadata = [(''a'', ''b'')],
     bd_total_bytes = 9\<rparr>"

lemma sample_directory_ok: "directory_ok sample_directory"
  by (simp add: sample_directory_def directory_ok_def uid_ok_def valid_uid_def uid_char_def
      is_alnum_def kMaxUidBytes_def text_ok_def list_ok_def entity_ok_def map_ok_def entry_ok_def
      omap_ok_def)

text \<open>
  The payloads that carry string maps survive the wire: the entity directory of an endpoint, a
  catalog of stream descriptors, a sample with its metadata and binary data, a log listing and a bulk
  descriptor are decoded to themselves, whenever their identifiers are valid and their texts, maps,
  lists and blobs fit the counts that precede them.
\<close>

theorem map_payloads_round_trip:
  assumes "directory_ok d" and "catalog_ok c" and "sample_ok s" and "log_list_ok l" and "bulk_ok b"
  shows "decode_EntityDirectory (encode_EntityDirectory d) = Some d \<and>
         decode_StreamCatalog (encode_StreamCatalog c) = Some c \<and>
         decode_StreamSample (encode_StreamSample s) = Some s \<and>
         decode_LogListResponse (encode_LogListResponse l) = Some l \<and>
         decode_BulkDescriptor (encode_BulkDescriptor b) = Some b"
  by (intro conjI p_directory.decodes_encoded p_catalog.decodes_encoded p_sample.decodes_encoded
      p_log_list.decodes_encoded p_bulk.decodes_encoded assms)

theorem map_payloads_round_trip_witness:
  "decode_EntityDirectory (encode_EntityDirectory sample_directory) = Some sample_directory \<and>
   decode_StreamCatalog (encode_StreamCatalog sample_catalog) = Some sample_catalog \<and>
   decode_StreamSample (encode_StreamSample sample_stream_sample) = Some sample_stream_sample \<and>
   decode_LogListResponse (encode_LogListResponse sample_log_list) = Some sample_log_list \<and>
   decode_BulkDescriptor (encode_BulkDescriptor sample_bulk) = Some sample_bulk"
  by (rule map_payloads_round_trip[OF sample_directory_ok])
    (simp_all add: sample_catalog_def sample_stream_sample_def catalog_ok_def sample_ok_def
      stream_ok_def uid_ok_def valid_uid_def uid_char_def is_alnum_def kMaxUidBytes_def text_ok_def
      list_ok_def map_ok_def entry_ok_def omap_ok_def blob_ok_def valid_type_ref_def
      valid_profile_id_def kMaxProfileIdBytes_def kMaxTypeNameBytes_def
      sample_log_list_def sample_bulk_def log_list_ok_def bulk_ok_def log_summary_ok_def)

end
