(* ===== verification/RuntimeState.thy ===== *)
theory RuntimeState
  imports SendQueue CoreMessages
begin

text \<open>
  \<open>Runtime::Impl\<close> of \<open>src/runtime/v2/runtime_internal.hpp\<close> and the helpers of
  \<open>src/runtime/v2/runtime_common.cpp\<close> on it. Its maps are \<open>omap\<close>s, whose order
  the code only observes for the two it declares as \<open>std::map\<close>; \<open>lane_owner\<close>, never iterated, is a
  plain map. \<open>emitted\<close> is a ghost field: every event with the subscribers it was delivered to, in
  order. The mutex has no counterpart: the code holds it around every access to the state, and each
  handler below is one step. Callers' clocks are arguments: \<open>now_ms\<close> is \<open>runtime_now_ms()\<close> (or the
  clock of the codec), \<open>steady\<close> is \<open>runtime_steady_now()\<close> in nanoseconds.
\<close>

record AuthorityLease =
  lease_peer_id :: string
  lease_session_id :: u64
  expires_at :: int

type_synonym session_key = "string \<times> u64"
type_synonym lease_key = "string \<times> string"

text \<open>An event handler is a callable of the application, named by a number here.\<close>

record Impl =
  config :: RuntimeConfig
  running :: bool
  listening_port :: u16
  next_message_id :: u64
  next_session_id :: u64
  connections :: "(string, RuntimeConnection) omap"
  sessions :: "(session_key, SessionInfo) omap"
  lane_owner :: "string \<rightharpoonup> session_key"
  authority_leases :: "(lease_key, AuthorityLease) omap"
  next_subscription :: u64
  handlers :: "(u64, nat) omap"
  emitted :: "(RuntimeEvent \<times> nat list) list"

definition runtime_emit :: "RuntimeEvent \<Rightarrow> Impl \<Rightarrow> Impl" where
  "runtime_emit event impl = impl\<lparr>emitted := emitted impl @ [(event, map snd (handlers impl))]\<rparr>"

definition runtime_is_lane_peer :: "Impl \<Rightarrow> string \<Rightarrow> bool" where
  "runtime_is_lane_peer impl pid \<longleftrightarrow> lane_owner impl pid \<noteq> None"

definition runtime_control_peer_id :: "Impl \<Rightarrow> string \<Rightarrow> string" where
  "runtime_control_peer_id impl pid =
     (case lane_owner impl pid of Some (control, sid) \<Rightarrow> control | None \<Rightarrow> pid)"

text \<open>The identifier of the connection a frame goes to, \<open>None\<close> when there is none.\<close>

definition runtime_connection_for_send ::
  "Impl \<Rightarrow> string \<Rightarrow> u64 \<Rightarrow> QosClass \<Rightarrow> string option" where
  "runtime_connection_for_send impl pid sid qos =
     (let route = (if qos_may_drop qos
        then (case om_find (sessions impl) (pid, sid) of
                Some session \<Rightarrow> if lossy_peer_id session \<noteq> [] then lossy_peer_id session else pid
              | None \<Rightarrow> pid)
        else pid)
      in case om_find (connections impl) route of None \<Rightarrow> None | Some c \<Rightarrow> Some route)"

text \<open>\<open>impl->next_message_id.fetch_add(1)\<close>.\<close>

definition take_message_id :: "Impl \<Rightarrow> u64 \<times> Impl" where
  "take_message_id impl = (next_message_id impl, impl\<lparr>next_message_id := next_message_id impl + 1\<rparr>)"

text \<open>
  The tail of \<open>send_session\<close> and \<open>send_status\<close>: the connection of the peer, when there is one, gets
  the encoded envelope; the outcome of the write is ignored.
\<close>

definition write_to_peer :: "u64 \<Rightarrow> string \<Rightarrow> Envelope \<Rightarrow> Impl \<Rightarrow> Impl" where
  "write_to_peer now_ms pid e impl =
     (case om_find (connections impl) pid of
        None \<Rightarrow> impl
      | Some c \<Rightarrow> impl\<lparr>connections :=
          om_put pid (snd (runtime_write c (encode now_ms e True))) (connections impl)\<rparr>)"

text \<open>What is not a queue of the connections is left alone by a write.\<close>

lemma write_to_peer_frame [frame_simps]:
  "config (write_to_peer now_ms pid e impl) = config impl"
  "running (write_to_peer now_ms pid e impl) = running impl"
  "listening_port (write_to_peer now_ms pid e impl) = listening_port impl"
  "next_message_id (write_to_peer now_ms pid e impl) = next_message_id impl"
  "next_session_id (write_to_peer now_ms pid e impl) = next_session_id impl"
  "sessions (write_to_peer now_ms pid e impl) = sessions impl"
  "lane_owner (write_to_peer now_ms pid e impl) = lane_owner impl"
  "authority_leases (write_to_peer now_ms pid e impl) = authority_leases impl"
  "next_subscription (write_to_peer now_ms pid e impl) = next_subscription impl"
  "handlers (write_to_peer now_ms pid e impl) = handlers impl"
  "emitted (write_to_peer now_ms pid e impl) = emitted impl"
  by (simp_all add: write_to_peer_def split: option.splits)

lemma runtime_emit_frame [frame_simps]:
  "config (runtime_emit ev impl) = config impl" "running (runtime_emit ev impl) = running impl"
  "listening_port (runtime_emit ev impl) = listening_port impl"
  "next_message_id (runtime_emit ev impl) = next_message_id impl"
  "next_session_id (runtime_emit ev impl) = next_session_id impl"
  "connections (runtime_emit ev impl) = connections impl"
  "sessions (runtime_emit ev impl) = sessions impl"
  "lane_owner (runtime_emit ev impl) = lane_owner impl"
  "authority_leases (runtime_emit ev impl) = authority_leases impl"
  "next_subscription (runtime_emit ev impl) = next_subscription impl"
  "handlers (runtime_emit ev impl) = handlers impl"
  by (simp_all add: runtime_emit_def)

text \<open>The state a \<open>Runtime\<close> is constructed with, and a configuration for examples.\<close>

definition impl_init :: "RuntimeConfig \<Rightarrow> Impl" where
  "impl_init cfg = \<lparr>config = cfg, running = False, listening_port = 0, next_message_id = 1,
     next_session_id = 1, connections = [], sessions = [], lane_owner = Map.empty,
     authority_leases = [], next_subscription = 1, handlers = [], emitted = []\<rparr>"

definition sample_config :: RuntimeConfig where
  "sample_config = \<lparr>endpoint_uid = ''gcs'', config_display_name = ''gcs'', config_entities = [],
     config_capabilities = [], config_profiles = [], required_profiles = [], group_uids = [],
     qos_policies = [], action_authority_scope_resolver = None, shared_secret = ''s'',
     tcp_listen_port = 9696, connect_timeout_ms = 5000, io_poll_interval_ms = 5,
     max_buffer_bytes_per_peer = 16842752\<rparr>"

end
