(* ===== verification/Authority.thy ===== *)
theory Authority
  imports RuntimeState
begin

text \<open>
  Control leases: \<open>src/runtime/v2/authority.cpp\<close> and \<open>Runtime::set_entities\<close> of
  \<open>src/runtime/v2/runtime_api.cpp\<close>. A lease of an entity and an authority scope names a peer, a
  session and the time it expires. An expired lease stays in the table until a request for its key
  removes it; it authorises nothing.
\<close>

definition kMaximumAuthorityLeaseMs :: u32 where
  "kMaximumAuthorityLeaseMs = 60 * 60 * 1000"

definition authority_status_type :: TypeRef where
  "authority_status_type = \<lparr>tr_profile_id = ''yunlink.core'', tr_major = 2, tr_minor = 0,
     tr_type_name = ''authority.status''\<rparr>"

definition send_status :: "u64 \<Rightarrow> Peer \<Rightarrow> Envelope \<Rightarrow> AuthorityStatus \<Rightarrow> Impl \<Rightarrow> Impl" where
  "send_status now_ms peer request status impl =
     (let (mid, impl) = take_message_id impl;
          entity = (if ts_scope (target request) = Scope_kEntity \<and> length (ts_uids (target request)) = 1
                    then hd (ts_uids (target request)) else []);
          response = empty_envelope\<lparr>
            family := MF_kAuthority, operation := authority_op AOp_kStatus,
            session_id := session_id request, message_id := mid,
            correlation_id := message_id request,
            source := \<lparr>src_endpoint_uid = endpoint_uid (config impl), src_entity_uid = entity\<rparr>,
            target := target_endpoint (src_endpoint_uid (source request)),
            env_type := authority_status_type, created_at_ms := now_ms, ttl_ms := 5000,
            payload := encode_AuthorityStatus status\<rparr>
      in write_to_peer now_ms (peer_id peer) response impl)"

text \<open>\<open>now + std::chrono::milliseconds(ttl)\<close>.\<close>

definition lease_end :: "int \<Rightarrow> u32 \<Rightarrow> int" where
  "lease_end steady ttl = steady + uint ttl * 1000000"

definition grant_lease :: "int \<Rightarrow> Peer \<Rightarrow> Envelope \<Rightarrow> u32 \<Rightarrow> AuthorityLease" where
  "grant_lease steady peer e ttl = \<lparr>lease_peer_id = peer_id peer, lease_session_id = session_id e,
     expires_at = lease_end steady ttl\<rparr>"

text \<open>
  The region of \<open>runtime_handle_authority\<close> under the mutex: the leases and the status after the
  request. The status comes in as rejected, with the scope and duration of the request filled in. An
  operation that is none of the three leaves it so.

  \<open>existing\<close> is an iterator: the entry it points to, with its key. After an expired lease was erased
  it is what \<open>erase\<close> returned, the entry of the next key, and everything that follows looks at and
  changes that entry.
\<close>

definition drop_expired ::
  "int \<Rightarrow> lease_key \<Rightarrow> (lease_key, AuthorityLease) omap \<Rightarrow>
     (lease_key \<times> AuthorityLease) option \<times> (lease_key, AuthorityLease) omap" where
  "drop_expired steady key leases = (case om_find leases key of
     Some l \<Rightarrow> if expires_at l \<le> steady then (om_after key leases, om_erase key leases)
               else (Some (key, l), leases)
   | None \<Rightarrow> (None, leases))"

definition owns :: "Peer \<Rightarrow> Envelope \<Rightarrow> AuthorityLease \<Rightarrow> bool" where
  "owns peer e l \<longleftrightarrow> lease_peer_id l = peer_id peer \<and> lease_session_id l = session_id e"

definition apply_authority ::
  "int \<Rightarrow> Peer \<Rightarrow> Envelope \<Rightarrow> AuthorityRequest \<Rightarrow> lease_key \<Rightarrow> AuthorityStatus \<Rightarrow>
     (lease_key, AuthorityLease) omap \<Rightarrow> AuthorityStatus \<times> (lease_key, AuthorityLease) omap" where
  "apply_authority steady peer e request key status leases =
     (let (existing, leases) = drop_expired steady key leases;
          owner = (case existing of Some (at, l) \<Rightarrow> owns peer e l | None \<Rightarrow> False);
          granted = (\<lambda>state detail. status\<lparr>st_state := state, st_reason_code := 0, st_detail := detail\<rparr>);
          refused = (\<lambda>code detail. status\<lparr>st_reason_code := error_code code, st_detail := detail\<rparr>)
      in if operation e = authority_op AOp_kRelease then
           (case existing of
              Some (at, l) \<Rightarrow> if owner then (granted ''released'' ''authority released'', om_erase at leases)
                else (refused Err_kUnauthorized ''authority is not owned by this session'', leases)
            | None \<Rightarrow> (refused Err_kUnauthorized ''authority is not owned by this session'', leases))
         else if operation e = authority_op AOp_kRenew then
           (case existing of
              Some (at, l) \<Rightarrow> if owner
                then (granted ''controller'' ''authority renewed'',
                      om_put at (l\<lparr>expires_at := lease_end steady (lease_ttl_ms request)\<rparr>) leases)
                else (refused Err_kUnauthorized ''authority cannot be renewed by this session'', leases)
            | None \<Rightarrow> (refused Err_kUnauthorized ''authority cannot be renewed by this session'', leases))
         else if operation e = authority_op AOp_kClaim then
           if existing = None \<or> owner \<or> allow_preempt request
           then (granted ''controller'' (if owner then ''authority refreshed'' else ''authority granted''),
                 om_put key (grant_lease steady peer e (lease_ttl_ms request)) leases)
           else (refused Err_kConflict ''authority is held by another session'', leases)
         else (status, leases))"

definition request_valid :: "Envelope \<Rightarrow> AuthorityRequest \<Rightarrow> bool" where
  "request_valid e request \<longleftrightarrow> ts_scope (target e) = Scope_kEntity \<and> length (ts_uids (target e)) = 1 \<and>
     authority_scope request \<noteq> [] \<and> lease_ttl_ms request \<noteq> 0 \<and>
     lease_ttl_ms request \<le> kMaximumAuthorityLeaseMs"

definition rejected_status :: AuthorityStatus where
  "rejected_status = \<lparr>st_authority_scope = [], st_state = ''rejected'', st_lease_ttl_ms = 0,
     st_reason_code = error_code Err_kInvalidArgument, st_detail = ''invalid authority request''\<rparr>"

text \<open>\<open>False\<close> in the first component: the envelope is not a request and is handled elsewhere.\<close>

definition runtime_handle_authority :: "u64 \<Rightarrow> int \<Rightarrow> Peer \<Rightarrow> Envelope \<Rightarrow> Impl \<Rightarrow> bool \<times> Impl" where
  "runtime_handle_authority now_ms steady peer e impl =
     (if family e \<noteq> MF_kAuthority \<or> operation e = authority_op AOp_kStatus then (False, impl)
      else (True, case decode_AuthorityRequest (payload e) of
          None \<Rightarrow> send_status now_ms peer e rejected_status impl
        | Some request \<Rightarrow>
            if \<not> request_valid e request then send_status now_ms peer e rejected_status impl
            else let key = (hd (ts_uids (target e)), authority_scope request);
                     status = rejected_status\<lparr>st_authority_scope := authority_scope request,
                                st_lease_ttl_ms := lease_ttl_ms request\<rparr>;
                     (status, leases) = apply_authority steady peer e request key status
                                          (authority_leases impl)
                 in send_status now_ms peer e status (impl\<lparr>authority_leases := leases\<rparr>)))"

text \<open>\<open>Inl\<close> is the refusal with its detail.\<close>

definition action_scope :: "Impl \<Rightarrow> Envelope \<Rightarrow> string" where
  "action_scope impl e = (case action_authority_scope_resolver (config impl) of
     Some resolver \<Rightarrow> let resolved = resolver (env_type e) in
       if resolved \<noteq> [] then resolved else tr_profile_id (env_type e)
   | None \<Rightarrow> tr_profile_id (env_type e))"

definition live_lease :: "int \<Rightarrow> Impl \<Rightarrow> lease_key \<Rightarrow> string \<Rightarrow> u64 \<Rightarrow> bool" where
  "live_lease steady impl key pid sid \<longleftrightarrow> (case om_find (authority_leases impl) key of
     None \<Rightarrow> False
   | Some l \<Rightarrow> expires_at l > steady \<and> lease_peer_id l = pid \<and> lease_session_id l = sid)"

definition is_command :: "Envelope \<Rightarrow> bool" where
  "is_command e \<longleftrightarrow> family e = MF_kAction \<and>
     (operation e = action_op ActOp_kGoal \<or> operation e = action_op ActOp_kCancel)"

definition runtime_action_authorized :: "int \<Rightarrow> Impl \<Rightarrow> Peer \<Rightarrow> Envelope \<Rightarrow> string + unit" where
  "runtime_action_authorized steady impl peer e =
     (if \<not> is_command e then Inr ()
      else if ts_scope (target e) \<noteq> Scope_kEntity \<or> length (ts_uids (target e)) \<noteq> 1
      then Inl ''actions require exactly one entity target''
      else if live_lease steady impl (hd (ts_uids (target e)), action_scope impl e)
                (peer_id peer) (session_id e)
      then Inr () else Inl ''no active authority lease for entity and profile scope'')"

definition runtime_revoke_authority :: "string \<Rightarrow> u64 \<Rightarrow> string list \<Rightarrow> Impl \<Rightarrow> Impl" where
  "runtime_revoke_authority pid sid entity_uids impl =
     impl\<lparr>authority_leases := om_erase_if (\<lambda>key l.
       (entity_uids = [] \<or> fst key \<in> set entity_uids) \<and> lease_peer_id l = pid \<and>
       lease_session_id l = sid) (authority_leases impl)\<rparr>"

definition has_authority :: "int \<Rightarrow> Impl \<Rightarrow> string \<Rightarrow> u64 \<Rightarrow> string \<Rightarrow> string \<Rightarrow> bool" where
  "has_authority steady impl pid sid entity_uid scope =
     live_lease steady impl (entity_uid, scope) pid sid"

definition set_entities :: "EntityDescriptor list \<Rightarrow> Impl \<Rightarrow> ErrorCode \<times> Impl" where
  "set_entities entities impl =
     (if list_ex (\<lambda>entity. \<not> valid_uid (ed_entity_uid entity)) entities
      then (Err_kInvalidArgument, impl)
      else (Err_kOk, impl\<lparr>
        authority_leases := om_erase_if (\<lambda>key l. fst key \<notin> ed_entity_uid ` set entities)
          (authority_leases impl),
        config := (config impl)\<lparr>config_entities := entities\<rparr>\<rparr>))"

section \<open>The abstract table\<close>

text \<open>
  The specification is a map from keys to leases. A request addresses the lease of the key it names;
  but when that lease is expired it is forgotten and the request addresses the lease of the least
  greater key, if there is one.
\<close>

definition lease_table :: "Impl \<Rightarrow> (lease_key \<rightharpoonup> AuthorityLease)" where
  "lease_table impl = om_find (authority_leases impl)"

definition following :: "('k::linorder \<rightharpoonup> 'v) \<Rightarrow> 'k \<Rightarrow> 'k option" where
  "following m k = (if {j \<in> dom m. k < j} = {} then None else Some (Min {j \<in> dom m. k < j}))"

definition stale :: "int \<Rightarrow> (lease_key \<rightharpoonup> AuthorityLease) \<Rightarrow> lease_key \<Rightarrow> bool" where
  "stale t m key \<longleftrightarrow> (\<exists>l. m key = Some l \<and> expires_at l \<le> t)"

definition addressed :: "int \<Rightarrow> (lease_key \<rightharpoonup> AuthorityLease) \<Rightarrow> lease_key \<Rightarrow> lease_key option" where
  "addressed t m key = (if stale t m key then following m key else if m key = None then None else Some key)"

definition spec_table ::
  "int \<Rightarrow> Peer \<Rightarrow> Envelope \<Rightarrow> AuthorityRequest \<Rightarrow> lease_key \<Rightarrow>
     (lease_key \<rightharpoonup> AuthorityLease) \<Rightarrow> (lease_key \<rightharpoonup> AuthorityLease)" where
  "spec_table t peer e request key m =
     (let at = addressed t m key;
          mine = (case at of None \<Rightarrow> False | Some k \<Rightarrow> owns peer e (the (m k)));
          new = grant_lease t peer e (lease_ttl_ms request);
          m' = (if stale t m key then m(key := None) else m)
      in if operation e = authority_op AOp_kRelease then (if mine then m'(the at := None) else m')
         else if operation e = authority_op AOp_kRenew then (if mine then m'(the at \<mapsto> new) else m')
         else if operation e = authority_op AOp_kClaim
         then (if at = None \<or> mine \<or> allow_preempt request then m'(key \<mapsto> new) else m')
         else m')"

text \<open>
  The intended view of a key: only the lease that is live now, changed by a request for that key and
  by no other.
\<close>

definition live_at :: "int \<Rightarrow> AuthorityLease option \<Rightarrow> AuthorityLease option" where
  "live_at t h = (case h of Some l \<Rightarrow> if expires_at l > t then Some l else None | None \<Rightarrow> None)"

definition spec_lease ::
  "int \<Rightarrow> Peer \<Rightarrow> Envelope \<Rightarrow> AuthorityRequest \<Rightarrow> AuthorityLease option \<Rightarrow> AuthorityLease option" where
  "spec_lease t peer e request h =
     (let mine = (case h of Some l \<Rightarrow> owns peer e l | None \<Rightarrow> False); new = Some (grant_lease t peer e (lease_ttl_ms request))
      in if operation e = authority_op AOp_kRelease then (if mine then None else h)
         else if operation e = authority_op AOp_kRenew then (if mine then new else h)
         else if operation e = authority_op AOp_kClaim
         then (if h = None \<or> mine \<or> allow_preempt request then new else h)
         else h)"

lemma lease_end_later: "ttl \<noteq> 0 \<Longrightarrow> t < lease_end t ttl"
  by (simp add: lease_end_def word_neq_0_conv word_less_def)

lemma live_at_idem [simp]: "live_at t (live_at t h) = live_at t h"
  by (simp add: live_at_def split: option.splits)

lemma live_at_None [simp]: "live_at t None = None"
  by (simp add: live_at_def)

lemma live_at_Some: "live_at t h = Some l \<Longrightarrow> live_at t (Some l) = Some l"
  using live_at_idem[of t h] by simp

lemma live_at_grant [simp]:
  "ttl \<noteq> 0 \<Longrightarrow> live_at t (Some (grant_lease t peer e ttl)) = Some (grant_lease t peer e ttl)"
  by (simp add: live_at_def grant_lease_def lease_end_later)

lemma owns_renew: "owns peer e l \<Longrightarrow> l\<lparr>expires_at := lease_end t ttl\<rparr> = grant_lease t peer e ttl"
  by (simp add: owns_def grant_lease_def)

lemma following_om_after:
  assumes "omap_ok m"
  shows "following (om_find m) k = map_option fst (om_after k m)"
proof (cases "om_after k m")
  case None
  then have "{j \<in> dom (om_find m). k < j} = {}" unfolding om_after_None om_dom by blast
  with None show ?thesis by (simp add: following_def)
next
  case (Some e)
  have e: "fst e \<in> dom (om_find m)" "k < fst e"
    using om_after_in_set[OF Some] by (simp_all flip: om_dom)
  have "finite (dom (om_find m))" by (simp flip: om_dom)
  then have "Min {j \<in> dom (om_find m). k < j} = fst e"
    using e om_after_least[OF assms Some] by (intro Min_eqI) (auto simp flip: om_dom)
  with e Some show ?thesis by (auto simp: following_def)
qed

lemma drop_expired_spec:
  assumes "omap_ok leases" and "drop_expired t key leases = (existing, rest)"
  shows "om_find rest = (if stale t (om_find leases) key then (om_find leases)(key := None) else om_find leases)"
    and "addressed t (om_find leases) key = map_option fst existing"
    and "existing = Some (at, l) \<Longrightarrow> om_find leases at = Some l"
proof -
  show "om_find rest = (if stale t (om_find leases) key then (om_find leases)(key := None) else om_find leases)"
    using assms(2) by (auto simp: drop_expired_def stale_def fun_eq_iff split: option.splits if_splits)
  show "addressed t (om_find leases) key = map_option fst existing"
    using assms by (auto simp: drop_expired_def addressed_def stale_def following_om_after
        split: option.splits if_splits)
  show "om_find leases at = Some l" if "existing = Some (at, l)"
    using assms that om_after_find(1)[OF assms(1), of key at l]
    by (auto simp: drop_expired_def split: option.splits if_splits)
qed

lemma apply_authority_find:
  assumes "drop_expired t key leases = (existing, rest)"
  shows "om_find (snd (apply_authority t peer e request key status leases)) =
    (let at = map_option fst existing; new = grant_lease t peer e (lease_ttl_ms request);
         mine = (case existing of None \<Rightarrow> False | Some (k, l) \<Rightarrow> owns peer e l)
     in if operation e = authority_op AOp_kRelease
        then (if mine then (om_find rest)(the at := None) else om_find rest)
        else if operation e = authority_op AOp_kRenew
        then (if mine then (om_find rest)(the at \<mapsto> new) else om_find rest)
        else if operation e = authority_op AOp_kClaim
        then (if at = None \<or> mine \<or> allow_preempt request then (om_find rest)(key \<mapsto> new) else om_find rest)
        else om_find rest)"
  using assms
  by (cases existing) (auto simp: apply_authority_def Let_def owns_renew fun_eq_iff)

lemma apply_authority_table:
  assumes "omap_ok leases"
  shows "om_find (snd (apply_authority t peer e request key status leases)) =
    spec_table t peer e request key (om_find leases)"
proof -
  obtain existing rest where d: "drop_expired t key leases = (existing, rest)" by fastforce
  note s = drop_expired_spec[OF assms d]
  have "(case existing of None \<Rightarrow> False | Some (k, l) \<Rightarrow> owns peer e l) =
      (case map_option fst existing of None \<Rightarrow> False | Some k \<Rightarrow> owns peer e (the (om_find leases k)))"
    using s(3) by (cases existing) auto
  then show ?thesis
    unfolding apply_authority_find[OF d] spec_table_def s(2) by (simp only: Let_def s(1))
qed

text \<open>Without an expired lease under its key a request does to the live leases what is intended.\<close>

lemma live_at_not_stale: "\<not> stale t m k \<Longrightarrow> live_at t (m k) = m k"
  by (auto simp: stale_def live_at_def split: option.splits)

lemma spec_table_live:
  assumes "lease_ttl_ms request \<noteq> 0" and "\<not> stale t m key"
  shows "live_at t (spec_table t peer e request key m k) =
    (if k = key then spec_lease t peer e request (live_at t (m key)) else live_at t (m k))"
  using assms live_at_not_stale[OF assms(2)]
  by (cases "m key") (simp_all add: spec_table_def spec_lease_def addressed_def Let_def)


section \<open>The handler\<close>

definition key_of :: "Envelope \<Rightarrow> AuthorityRequest \<Rightarrow> lease_key" where
  "key_of e request = (hd (ts_uids (target e)), authority_scope request)"

text \<open>The valid request an envelope carries, when it carries one.\<close>

definition request_of :: "Envelope \<Rightarrow> AuthorityRequest option" where
  "request_of e = (if family e \<noteq> MF_kAuthority \<or> operation e = authority_op AOp_kStatus then None
     else case decode_AuthorityRequest (payload e) of
       None \<Rightarrow> None | Some r \<Rightarrow> if request_valid e r then Some r else None)"

lemma send_status_frame [frame_simps]:
  "config (send_status now_ms peer q st impl) = config impl"
  "sessions (send_status now_ms peer q st impl) = sessions impl"
  "lane_owner (send_status now_ms peer q st impl) = lane_owner impl"
  "authority_leases (send_status now_ms peer q st impl) = authority_leases impl"
  "emitted (send_status now_ms peer q st impl) = emitted impl"
  "handlers (send_status now_ms peer q st impl) = handlers impl"
  "running (send_status now_ms peer q st impl) = running impl"
  "next_session_id (send_status now_ms peer q st impl) = next_session_id impl"
  by (simp_all add: send_status_def take_message_id_def Let_def frame_simps)

lemma handle_authority_frame [frame_simps]:
  "config (snd (runtime_handle_authority now_ms t peer e impl)) = config impl"
  "sessions (snd (runtime_handle_authority now_ms t peer e impl)) = sessions impl"
  "lane_owner (snd (runtime_handle_authority now_ms t peer e impl)) = lane_owner impl"
  "emitted (snd (runtime_handle_authority now_ms t peer e impl)) = emitted impl"
  "handlers (snd (runtime_handle_authority now_ms t peer e impl)) = handlers impl"
  "running (snd (runtime_handle_authority now_ms t peer e impl)) = running impl"
  "next_session_id (snd (runtime_handle_authority now_ms t peer e impl)) = next_session_id impl"
  by (auto simp: runtime_handle_authority_def Let_def frame_simps split: option.splits prod.splits)

lemma handle_authority_leases:
  "authority_leases (snd (runtime_handle_authority now_ms t peer e impl)) =
     (case request_of e of None \<Rightarrow> authority_leases impl
      | Some request \<Rightarrow> snd (apply_authority t peer e request (key_of e request)
          (rejected_status\<lparr>st_authority_scope := authority_scope request,
             st_lease_ttl_ms := lease_ttl_ms request\<rparr>) (authority_leases impl)))"
  by (auto simp: runtime_handle_authority_def request_of_def key_of_def Let_def frame_simps
      split: option.splits prod.splits)

lemma request_ofD: "request_of e = Some r \<Longrightarrow> lease_ttl_ms r \<noteq> 0"
  by (auto simp: request_of_def request_valid_def split: option.splits if_splits)

definition lease_now :: "int \<Rightarrow> Impl \<Rightarrow> lease_key \<Rightarrow> AuthorityLease option" where
  "lease_now t impl k = live_at t (om_find (authority_leases impl) k)"

definition leases_ok :: "Impl \<Rightarrow> bool" where
  "leases_ok impl \<longleftrightarrow> omap_ok (authority_leases impl)"

lemma apply_authority_ok: "omap_ok leases \<Longrightarrow> omap_ok (snd (apply_authority t peer e r key st leases))"
  by (auto simp: apply_authority_def drop_expired_def Let_def intro: omap_ok_put omap_ok_erase
      split: option.splits)

lemma handle_authority_ok: "leases_ok impl \<Longrightarrow> leases_ok (snd (runtime_handle_authority now_ms t peer e impl))"
  by (auto simp: leases_ok_def handle_authority_leases apply_authority_ok split: option.splits)

lemma lease_now_table: "lease_now t impl k = live_at t (lease_table impl k)"
  by (simp add: lease_now_def lease_table_def)

lemma handle_authority_refines:
  "leases_ok impl \<Longrightarrow> lease_table (snd (runtime_handle_authority now_ms t peer e impl)) =
     (case request_of e of
        None \<Rightarrow> lease_table impl
      | Some r \<Rightarrow> spec_table t peer e r (key_of e r) (lease_table impl))"
  by (simp add: lease_table_def handle_authority_leases apply_authority_table leases_ok_def
      split: option.splits)

text \<open>Who holds a key at time \<open>t\<close>.\<close>

definition holder :: "int \<Rightarrow> Impl \<Rightarrow> lease_key \<Rightarrow> session_key option" where
  "holder t impl k = map_option (\<lambda>l. (lease_peer_id l, lease_session_id l)) (lease_now t impl k)"

lemma live_lease_holder: "live_lease t impl k pid sid \<longleftrightarrow> holder t impl k = Some (pid, sid)"
  by (auto simp: live_lease_def holder_def lease_now_def live_at_def split: option.splits)

section \<open>The interface to the session layer\<close>

text \<open>
  What the rest of the runtime relies on: time alone never creates a holder; a request neither takes
  a key from another holder unless it asks to preempt, nor gives one to anybody but the requester.
  This holds in the states that satisfy the provider's invariant, which requests keep.
\<close>

locale lease_service =
  fixes holds :: "int \<Rightarrow> 's \<Rightarrow> 'k \<Rightarrow> 'o option"
    and handle :: "int \<Rightarrow> 'r \<Rightarrow> 's \<Rightarrow> 's"
    and requester :: "'r \<Rightarrow> 'o"
    and preempts :: "'r \<Rightarrow> bool"
    and invar :: "'s \<Rightarrow> bool"
  assumes invar_handle: "invar s \<Longrightarrow> invar (handle t r s)"
    and holds_earlier: "t \<le> t' \<Longrightarrow> holds t' s k = Some x \<Longrightarrow> holds t s k = Some x"
    and no_theft: "invar s \<Longrightarrow> t \<le> t' \<Longrightarrow> holds t' s k = Some x \<Longrightarrow> requester r \<noteq> x \<Longrightarrow> \<not> preempts r \<Longrightarrow>
      holds t' (handle t r s) k = Some x"
    and no_gift: "t \<le> t' \<Longrightarrow> holds t' (handle t r s) k = Some x \<Longrightarrow> requester r \<noteq> x \<Longrightarrow>
      holds t' s k = Some x"
begin

definition handle_all :: "(int \<times> 'r) list \<Rightarrow> 's \<Rightarrow> 's" where
  "handle_all rs s = fold (\<lambda>(t, r). handle t r) rs s"

lemma keeps_until_expiry:
  assumes "\<forall>(t, r) \<in> set rs. t \<le> t' \<and> requester r \<noteq> x \<and> \<not> preempts r"
    and "invar s" and "holds t' s k = Some x"
  shows "holds t' (handle_all rs s) k = Some x"
  using assms unfolding handle_all_def
  by (induction rs arbitrary: s) (auto intro: no_theft invar_handle)

lemma only_by_request:
  assumes "\<forall>(t, r) \<in> set rs. t \<le> t' \<and> requester r \<noteq> x"
    and "holds t' (handle_all rs s) k = Some x"
  shows "holds t' s k = Some x"
  using assms unfolding handle_all_def
  by (induction rs arbitrary: s) (auto dest: no_gift)

end

definition asks_preempt :: "Envelope \<Rightarrow> bool" where
  "asks_preempt e \<longleftrightarrow> operation e = authority_op AOp_kClaim \<and>
     (case request_of e of Some r \<Rightarrow> allow_preempt r | None \<Rightarrow> False)"

definition lease_request :: "int \<Rightarrow> u64 \<times> Peer \<times> Envelope \<Rightarrow> Impl \<Rightarrow> Impl" where
  "lease_request t r impl = (case r of (now_ms, peer, e) \<Rightarrow> snd (runtime_handle_authority now_ms t peer e impl))"

definition lease_requester :: "u64 \<times> Peer \<times> Envelope \<Rightarrow> session_key" where
  "lease_requester r = (case r of (now_ms, peer, e) \<Rightarrow> (peer_id peer, session_id e))"

lemma live_at_later: "t \<le> t' \<Longrightarrow> live_at t' h = Some l \<Longrightarrow> live_at t h = Some l"
  by (auto simp: live_at_def split: option.splits if_splits)

lemma apply_gives_requester:
  assumes "om_find (snd (apply_authority t peer e request key status leases)) k = Some l"
    and "\<not> owns peer e l"
  shows "om_find leases k = Some l"
  using assms
  by (auto simp: apply_authority_def drop_expired_def Let_def owns_def grant_lease_def
      split: if_splits option.splits)

lemma holder_Some:
  "holder t impl k = Some (pid, sid) \<longleftrightarrow> (\<exists>l. om_find (authority_leases impl) k = Some l \<and>
     t < expires_at l \<and> lease_peer_id l = pid \<and> lease_session_id l = sid)"
  by (auto simp: holder_def lease_now_def live_at_def split: option.splits)

lemma apply_no_theft:
  assumes "omap_ok leases" and "om_find leases k = Some l" and "t < expires_at l" and "\<not> owns peer e l"
    and "operation e = authority_op AOp_kClaim \<Longrightarrow> \<not> allow_preempt request"
  shows "om_find (snd (apply_authority t peer e request key status leases)) k = Some l"
proof -
  have "\<not> stale t (om_find leases) k" using assms(2,3) by (simp add: stale_def)
  then have "key \<noteq> k" if "stale t (om_find leases) key" using that by blast
  moreover have "addressed t (om_find leases) key = Some k" if "key = k"
    using that assms(2) \<open>\<not> stale t (om_find leases) k\<close> by (simp add: addressed_def)
  ultimately show ?thesis
    unfolding apply_authority_table[OF assms(1)]
    using assms(2,4,5) by (cases "addressed t (om_find leases) key") (auto simp: spec_table_def Let_def)
qed

interpretation leases: lease_service holder lease_request lease_requester
  "\<lambda>r. asks_preempt (snd (snd r))" leases_ok
proof
  fix t t' :: int and s k and x :: session_key and r :: "u64 \<times> Peer \<times> Envelope"
  show "leases_ok (lease_request t r s)" if "leases_ok s"
    using that by (simp add: lease_request_def handle_authority_ok split: prod.splits)
  assume t: "t \<le> t'"
  obtain pid sid where x: "x = (pid, sid)" by (cases x)
  obtain now_ms peer e where r: "r = (now_ms, peer, e)" by (cases r)
  show "holder t s k = Some x" if "holder t' s k = Some x"
    using that t unfolding x holder_Some by auto
  show "holder t' (lease_request t r s) k = Some x"
    if ok: "leases_ok s" and h: "holder t' s k = Some x" and req: "lease_requester r \<noteq> x"
      and pre: "\<not> asks_preempt (snd (snd r))"
  proof -
    from h obtain l where l: "om_find (authority_leases s) k = Some l" "t' < expires_at l"
        "lease_peer_id l = pid" "lease_session_id l = sid" unfolding x holder_Some by blast
    have "\<not> owns peer e l" using req l r x by (auto simp: owns_def lease_requester_def)
    with ok l t pre r have "om_find (authority_leases (lease_request t r s)) k = Some l"
      by (cases "request_of e")
        (auto simp: lease_request_def handle_authority_leases asks_preempt_def leases_ok_def
          intro!: apply_no_theft)
    with l show ?thesis unfolding x holder_Some by blast
  qed
  show "holder t' s k = Some x"
    if h: "holder t' (lease_request t r s) k = Some x" and req: "lease_requester r \<noteq> x"
  proof -
    from h obtain l where l: "om_find (authority_leases (lease_request t r s)) k = Some l"
        "t' < expires_at l" "lease_peer_id l = pid" "lease_session_id l = sid"
      unfolding x holder_Some by blast
    have "\<not> owns peer e l" using req l r x by (auto simp: owns_def lease_requester_def)
    with l r have "om_find (authority_leases s) k = Some l"
      by (auto simp: lease_request_def handle_authority_leases split: option.splits
          dest: apply_gives_requester)
    with l show ?thesis unfolding x holder_Some by blast
  qed
qed


section \<open>Lease durations and cleaning up\<close>

definition leases_bounded :: "int \<Rightarrow> Impl \<Rightarrow> bool" where
  "leases_bounded t impl \<longleftrightarrow>
     (\<forall>(k, l) \<in> set (authority_leases impl). expires_at l \<le> t + 3600 * 1000 * 1000000)"

lemma lease_end_bound: "request_of e = Some r \<Longrightarrow> lease_end t (lease_ttl_ms r) \<le> t + 3600 * 1000 * 1000000"
proof -
  assume "request_of e = Some r"
  then have "lease_ttl_ms r \<le> 3600000"
    by (auto simp: request_of_def request_valid_def kMaximumAuthorityLeaseMs_def
        split: option.splits if_splits)
  then have "uint (lease_ttl_ms r) \<le> 3600000" by (simp add: word_le_def)
  then show ?thesis by (simp add: lease_end_def)
qed

lemma set_om_put_subset: "set (om_put k v m) \<subseteq> insert (k, v) (set m)"
  by (induction m) (auto split: if_splits)

lemma set_drop_expired: "set (snd (drop_expired t key m)) \<subseteq> set m"
  by (auto simp: drop_expired_def om_erase_def split: option.splits)

lemma apply_authority_entries:
  assumes "(k, l) \<in> set (snd (apply_authority t peer e r key st leases))"
  shows "(k, l) \<in> set leases \<or> expires_at l = lease_end t (lease_ttl_ms r)"
  using assms set_drop_expired[of t key leases]
  by (auto simp: apply_authority_def case_prod_unfold Let_def grant_lease_def om_erase_def
      split: option.splits if_splits dest!: set_om_put_subset[THEN subsetD])

lemma handle_authority_bounded:
  assumes "leases_bounded t impl" and "t \<le> t'"
  shows "leases_bounded t' (snd (runtime_handle_authority now_ms t' peer e impl))"
proof (cases "request_of e")
  case None
  with assms show ?thesis by (auto simp: leases_bounded_def handle_authority_leases)
next
  case (Some r)
  show ?thesis
    unfolding leases_bounded_def handle_authority_leases Some
    using assms lease_end_bound[OF Some, of t']
    by (fastforce simp: leases_bounded_def dest: apply_authority_entries)
qed

section \<open>Properties\<close>

definition sample_request :: AuthorityRequest where
  "sample_request = \<lparr>authority_scope = ''p'', lease_ttl_ms = 5, allow_preempt = False\<rparr>"

definition sample_claim :: Envelope where
  "sample_claim = empty_envelope\<lparr>family := MF_kAuthority, operation := 1, session_id := 2,
     target := target_entity ''uav'', payload := encode_AuthorityRequest sample_request\<rparr>"

definition sample_goal :: Envelope where
  "sample_goal = empty_envelope\<lparr>family := MF_kAction, operation := 1, session_id := 1,
     target := target_entity ''uav'',
     env_type := \<lparr>tr_profile_id = ''p'', tr_major = 1, tr_minor = 0, tr_type_name = ''goto''\<rparr>\<rparr>"

definition sample_leases :: Impl where
  "sample_leases = (impl_init sample_config)\<lparr>authority_leases :=
     [((''uav'', ''p''), \<lparr>lease_peer_id = ''tcp://h:1'', lease_session_id = 1, expires_at = 100\<rparr>)]\<rparr>"

lemma sample_claim_request: "request_of sample_claim = Some sample_request"
  by (simp add: request_of_def sample_claim_def p_authority_request.decodes_encoded
      authority_request_ok_def sample_request_def text_ok_def request_valid_def target_entity_def
      target_of_def kMaximumAuthorityLeaseMs_def)

lemma sample_lease_held: "holder 50 sample_leases (''uav'', ''p'') = Some (''tcp://h:1'', 1)"
  by (simp add: holder_Some sample_leases_def om_find_def)

lemma sample_leases_ok: "leases_ok sample_leases"
  by (simp add: leases_ok_def sample_leases_def omap_ok_def)

text \<open>
  C5. The lease table implements its specification. Seen as a map from keys to leases, what
  \<open>runtime_handle_authority\<close> does to the table is \<open>spec_table\<close> of the valid request an envelope carries,
  and nothing when it carries none. As long as the table has no expired lease under the key the
  request names, this is what leases are meant to be: of the leases that are live at the time of the
  request only that of the named key changes, a claim succeeds on a free key, for the owner, or with
  preemption, a renewal and a release only for the owner, and anything else changes nothing. With an
  expired lease there, the request acts on the lease of the next key instead.
\<close>

theorem authority_refines_spec:
  assumes "leases_ok impl" and "impl' = snd (runtime_handle_authority now_ms t peer e impl)"
  shows "lease_table impl' = (case request_of e of
      None \<Rightarrow> lease_table impl
    | Some r \<Rightarrow> spec_table t peer e r (key_of e r) (lease_table impl)) \<and>
    (\<forall>r. request_of e = Some r \<longrightarrow> \<not> stale t (lease_table impl) (key_of e r) \<longrightarrow>
      lease_now t impl' k =
        (if k = key_of e r then spec_lease t peer e r (lease_now t impl k) else lease_now t impl k))"
  using handle_authority_refines[OF assms(1), of now_ms t peer e]
  by (auto simp: assms(2) lease_now_table spec_table_live request_ofD)

theorem authority_refines_spec_witness:
  "lease_now 50 (snd (runtime_handle_authority 0 50 sample_peer sample_claim sample_leases)) (''uav'', ''p'') =
   lease_now 50 sample_leases (''uav'', ''p'')"
proof -
  let ?l = "\<lparr>lease_peer_id = ''tcp://h:1'', lease_session_id = 1, expires_at = 100\<rparr>"
  have k: "key_of sample_claim sample_request = (''uav'', ''p'')"
    by (simp add: key_of_def sample_claim_def sample_request_def target_entity_def target_of_def)
  have l: "lease_table sample_leases (''uav'', ''p'') = Some ?l"
    by (simp add: lease_table_def sample_leases_def om_find_def)
  then have "\<not> stale 50 (lease_table sample_leases) (''uav'', ''p'')" by (simp add: stale_def)
  with authority_refines_spec[OF sample_leases_ok refl, of 0 50 sample_peer sample_claim] k
  have "lease_now 50 (snd (runtime_handle_authority 0 50 sample_peer sample_claim sample_leases)) (''uav'', ''p'') =
      spec_lease 50 sample_peer sample_claim sample_request (lease_now 50 sample_leases (''uav'', ''p''))"
    by (simp add: sample_claim_request)
  moreover have "lease_now 50 sample_leases (''uav'', ''p'') = Some ?l"
    using l by (simp add: lease_now_def lease_table_def live_at_def)
  ultimately show ?thesis
    by (simp add: spec_lease_def owns_def sample_peer_def sample_claim_def sample_request_def)
qed

text \<open>
  What goes wrong with an expired lease under the named key. If the lease of the next key belongs to
  the requesting session, a release that names the expired key takes that other lease away; if it
  belongs to another session, a claim of the expired key without preemption is refused although nobody
  holds the key.
\<close>

theorem expired_lease_misdirects:
  assumes "leases_ok impl" and "request_of e = Some r"
    and "stale t (lease_table impl) (key_of e r)"
    and "om_after (key_of e r) (authority_leases impl) = Some (at, l)"
    and "impl' = snd (runtime_handle_authority now_ms t peer e impl)"
  shows "(operation e = authority_op AOp_kRelease \<and> owns peer e l \<longrightarrow> lease_table impl' at = None) \<and>
    (operation e = authority_op AOp_kClaim \<and> \<not> owns peer e l \<and> \<not> allow_preempt r \<longrightarrow>
      lease_table impl' (key_of e r) = None)"
proof -
  have ok: "omap_ok (authority_leases impl)" using assms(1) by (simp add: leases_ok_def)
  have "addressed t (lease_table impl) (key_of e r) = Some at"
    using assms(3,4) by (simp add: addressed_def lease_table_def following_om_after[OF ok])
  moreover have "lease_table impl at = Some l"
    using om_after_find(1)[OF ok assms(4)] by (simp add: lease_table_def)
  ultimately show ?thesis
    using handle_authority_refines[OF assms(1), of now_ms t peer e] assms(2,3)
    by (simp add: assms(5) spec_table_def Let_def)
qed

text \<open>
  C18. A lease cannot be stolen. If a session holds a key at time \<open>t'\<close> in some state, it still holds
  it at \<open>t'\<close> after any sequence of authority requests made up to then by other sessions, as long as
  none of them is a claim with preemption: whatever they claim, renew or release, and whether or not
  their own requests are misdirected by expired leases. The table has one entry per key in key order,
  as in every reachable state.
\<close>

theorem lease_not_stolen:
  assumes "leases_ok impl"
    and "\<forall>(t, r) \<in> set rs. t \<le> t' \<and> lease_requester r \<noteq> (pid, sid) \<and> \<not> asks_preempt (snd (snd r))"
    and "holder t' impl k = Some (pid, sid)"
  shows "holder t' (fold (\<lambda>(t, r). lease_request t r) rs impl) k = Some (pid, sid)"
  using leases.keeps_until_expiry[of rs t' "(pid, sid)" impl k] assms
  by (auto simp: leases.handle_all_def)

theorem lease_not_stolen_witness:
  "holder 50 (fold (\<lambda>(t, r). lease_request t r) [(10, 0, sample_peer\<lparr>peer_id := ''tcp://x:2''\<rparr>, sample_claim)]
     sample_leases) (''uav'', ''p'') = Some (''tcp://h:1'', 1)"
  by (rule lease_not_stolen[OF sample_leases_ok])
    (simp_all add: sample_lease_held lease_requester_def asks_preempt_def sample_claim_request
      sample_request_def)

text \<open>
  C19. Action commands need a live lease. A goal or cancel is authorised exactly when it targets one
  entity and the lease of that entity and the resolved scope is held, unexpired, by the peer and
  session it came from; and \<open>has_authority\<close> answers yes exactly for the peer and session that hold the
  unexpired lease of the entity and scope it is asked about.
\<close>

theorem action_needs_lease:
  assumes "is_command e"
  shows "(runtime_action_authorized t impl peer e = Inr () \<longleftrightarrow>
      ts_scope (target e) = Scope_kEntity \<and> (\<exists>uid. ts_uids (target e) = [uid] \<and>
        holder t impl (uid, action_scope impl e) = Some (peer_id peer, session_id e))) \<and>
    (has_authority t impl pid sid uid scope \<longleftrightarrow> holder t impl (uid, scope) = Some (pid, sid))"
  using assms
  by (auto simp: runtime_action_authorized_def live_lease_holder has_authority_def length_Suc_conv)

theorem action_needs_lease_witness:
  "runtime_action_authorized 50 sample_leases sample_peer sample_goal = Inr () \<and>
   \<not> has_authority 50 sample_leases ''tcp://x:2'' 1 ''uav'' ''p''"
proof -
  have "is_command sample_goal" by (simp add: is_command_def sample_goal_def)
  from action_needs_lease[OF this, of 50 sample_leases sample_peer "''tcp://x:2''" 1 "''uav''" "''p''"]
  show ?thesis
    using sample_lease_held
    by (simp add: sample_goal_def target_entity_def target_of_def action_scope_def sample_leases_def
        impl_init_def sample_config_def sample_peer_def)
qed

text \<open>
  Leases are removed precisely. After a revocation the session holds none of the named entities
  (none at all when no entity is named) and every other holder of every key is unchanged. Replacing
  the entities of an endpoint drops exactly the leases of entities that are gone, and an invalid
  identifier among them changes nothing.
\<close>

theorem lease_removal_exact:
  assumes "leases_ok impl" and "set_entities es impl = (code, impl')"
  shows "holder t (runtime_revoke_authority pid sid uids impl) k =
      (if holder t impl k = Some (pid, sid) \<and> (uids = [] \<or> fst k \<in> set uids) then None
       else holder t impl k) \<and>
    (if list_all (\<lambda>d. valid_uid (ed_entity_uid d)) es
     then code = Err_kOk \<and> config_entities (config impl') = es \<and>
       holder t impl' k = (if fst k \<in> ed_entity_uid ` set es then holder t impl k else None)
     else code = Err_kInvalidArgument \<and> impl' = impl)"
proof
  show "holder t (runtime_revoke_authority pid sid uids impl) k =
      (if holder t impl k = Some (pid, sid) \<and> (uids = [] \<or> fst k \<in> set uids) then None
       else holder t impl k)"
    using assms(1)
    by (auto simp: runtime_revoke_authority_def holder_def lease_now_def leases_ok_def
        om_find_erase_if live_at_def split: option.splits)
  show "if list_all (\<lambda>d. valid_uid (ed_entity_uid d)) es
     then code = Err_kOk \<and> config_entities (config impl') = es \<and>
       holder t impl' k = (if fst k \<in> ed_entity_uid ` set es then holder t impl k else None)
     else code = Err_kInvalidArgument \<and> impl' = impl"
    using assms
    by (auto simp: set_entities_def holder_def lease_now_def leases_ok_def om_find_erase_if live_at_def
        list_ex_iff list_all_iff split: if_splits option.splits)
qed

theorem lease_removal_exact_witness:
  "holder 50 (runtime_revoke_authority ''tcp://h:1'' 1 [] sample_leases) (''uav'', ''p'') = None \<and>
   holder 50 (snd (set_entities [] sample_leases)) (''uav'', ''p'') = None"
proof -
  from lease_removal_exact[OF sample_leases_ok, of "[]" "fst (set_entities [] sample_leases)"
      "snd (set_entities [] sample_leases)" 50 "''tcp://h:1''" 1 "[]" "(''uav'', ''p'')"]
  show ?thesis by (simp add: sample_lease_held)
qed

end
