(* ===== verification/Session.thy ===== *)
theory Session
  imports Authority
begin

text \<open>
  Sessions: \<open>src/runtime/v2/session.cpp\<close>. A session is keyed by the peer and the session identifier.
  The initiator opens it by writing Hello, Authenticate, Profiles and Ready in a row; the other side
  walks its copy through the states as they arrive and answers Profiles and Ready. A second
  connection, the lossy lane, can be bound to an active session. \<open>runtime_handle_envelope\<close> decides
  what of the traffic reaches the application.
\<close>

section \<open>Negotiation\<close>

definition session_type :: "string \<Rightarrow> TypeRef" where
  "session_type type_name = \<lparr>tr_profile_id = ''yunlink.core'', tr_major = 2, tr_minor = 0,
     tr_type_name = type_name\<rparr>"

definition empty_profile :: ProfileDescriptor where
  "empty_profile = \<lparr>pd_profile_id = [], pd_major = 0, pd_minor = 0, pd_schema_digest = []\<rparr>"

text \<open>The result and the flag \<open>digest_conflict\<close>.\<close>

definition negotiate_profile :: "ProfileDescriptor \<Rightarrow> ProfileDescriptor \<Rightarrow> ProfileDescriptor \<times> bool" where
  "negotiate_profile local remote =
     (if pd_profile_id local \<noteq> pd_profile_id remote \<or> pd_major local \<noteq> pd_major remote
      then (empty_profile, False)
      else let negotiated_minor = min (pd_minor local) (pd_minor remote) in
        if pd_minor local = pd_minor remote \<and> pd_schema_digest local \<noteq> pd_schema_digest remote
        then (empty_profile, True)
        else ((if pd_minor local \<le> pd_minor remote then local else remote)
                \<lparr>pd_minor := negotiated_minor\<rparr>, False))"

text \<open>The body of the loop over the remote profiles.\<close>

definition negotiate_one ::
  "ProfileDescriptor list \<Rightarrow> ProfileDescriptor \<Rightarrow> SessionInfo \<Rightarrow> SessionInfo" where
  "negotiate_one locals remote session =
     (case List.find (\<lambda>v. pd_profile_id v = pd_profile_id remote) locals of
        None \<Rightarrow> session\<lparr>rejected_profiles := rejected_profiles session @ [pd_profile_id remote]\<rparr>
      | Some local \<Rightarrow>
          let negotiated = fst (negotiate_profile local remote) in
          if pd_profile_id negotiated = []
          then session\<lparr>rejected_profiles := rejected_profiles session @ [pd_profile_id remote]\<rparr>
          else session\<lparr>negotiated_profiles :=
                 om_put (pd_profile_id remote) negotiated (negotiated_profiles session)\<rparr>)"

definition negotiate_all ::
  "ProfileDescriptor list \<Rightarrow> ProfileDescriptor list \<Rightarrow> SessionInfo \<Rightarrow> SessionInfo" where
  "negotiate_all locals remotes session =
     fold (negotiate_one locals) remotes
       (session\<lparr>negotiated_profiles := [], rejected_profiles := []\<rparr>)"

section \<open>Sending session messages\<close>

definition session_envelope ::
  "Impl \<Rightarrow> u64 \<Rightarrow> u64 \<Rightarrow> u64 \<Rightarrow> SessionOperation \<Rightarrow> string \<Rightarrow> bytes \<Rightarrow> u64 \<Rightarrow> Envelope" where
  "session_envelope impl now_ms mid sid op type_name data corr =
     empty_envelope\<lparr>family := MF_kSession, operation := session_op op, session_id := sid,
       message_id := mid, correlation_id := corr,
       source := \<lparr>src_endpoint_uid = endpoint_uid (config impl), src_entity_uid = []\<rparr>,
       target := target_broadcast, env_type := session_type type_name, created_at_ms := now_ms,
       ttl_ms := 5000, payload := data\<rparr>"

definition send_session ::
  "u64 \<Rightarrow> string \<Rightarrow> u64 \<Rightarrow> SessionOperation \<Rightarrow> string \<Rightarrow> bytes \<Rightarrow> u64 \<Rightarrow> Impl \<Rightarrow> Impl" where
  "send_session now_ms pid sid op type_name data corr impl =
     (let (mid, impl) = take_message_id impl
      in write_to_peer now_ms pid (session_envelope impl now_ms mid sid op type_name data corr) impl)"

definition emit_session :: "Peer \<Rightarrow> SessionInfo \<Rightarrow> Impl \<Rightarrow> Impl" where
  "emit_session peer session = runtime_emit (session_event peer session)"

definition open_session :: "u64 \<Rightarrow> string \<Rightarrow> Impl \<Rightarrow> u64 \<times> Impl" where
  "open_session now_ms pid impl =
     (if om_find (connections impl) pid = None then (0, impl)
      else let sid = next_session_id impl;
               info = empty_session\<lparr>si_session_id := sid, si_peer_id := pid\<rparr>;
               impl = impl\<lparr>next_session_id := sid + 1, sessions := om_put (pid, sid) info (sessions impl)\<rparr>;
               impl = send_session now_ms pid sid SOp_kHello ''session.hello''
                        (encode_text (endpoint_uid (config impl))) 0 impl;
               impl = send_session now_ms pid sid SOp_kAuthenticate ''session.authenticate''
                        (encode_text (shared_secret (config impl))) 0 impl;
               impl = send_session now_ms pid sid SOp_kProfiles ''session.profiles''
                        (encode_profile_list (config_profiles (config impl))) 0 impl
           in (sid, send_session now_ms pid sid SOp_kReady ''session.ready'' [] 0 impl))"

section \<open>The lossy lane\<close>

definition lane_candidate :: "Peer \<Rightarrow> Envelope \<Rightarrow> SessionInfo \<Rightarrow> bool" where
  "lane_candidate peer e session \<longleftrightarrow> si_session_id session = session_id e \<and>
     session_state session = Ses_kActive \<and>
     remote_endpoint_uid session = src_endpoint_uid (source e) \<and>
     (lossy_peer_id session = [] \<or> lossy_peer_id session = peer_id peer)"

definition handle_lane_bind :: "u64 \<Rightarrow> Peer \<Rightarrow> Envelope \<Rightarrow> Impl \<Rightarrow> bool \<times> Impl" where
  "handle_lane_bind now_ms peer e impl =
     (case decode_text (payload e) of
        None \<Rightarrow> (False, impl)
      | Some secret \<Rightarrow>
          if secret \<noteq> shared_secret (config impl) then (False, impl)
          else if om_find (connections impl) (peer_id peer) = None then (False, impl)
          else case List.find (\<lambda>(key, session). lane_candidate peer e session) (sessions impl) of
            None \<Rightarrow> (False, impl)
          | Some (key, session) \<Rightarrow>
              let impl = impl\<lparr>
                    sessions := om_put key (session\<lparr>lossy_peer_id := peer_id peer\<rparr>) (sessions impl),
                    lane_owner := (lane_owner impl)(peer_id peer \<mapsto> (fst key, session_id e))\<rparr>
              in if fst key = [] then (False, impl)
                 else (True, send_session now_ms (peer_id peer) (session_id e) SOp_kLaneReady
                               ''session.lane_ready'' [] (message_id e) impl))"

definition handle_lane_ready :: "Peer \<Rightarrow> Envelope \<Rightarrow> Impl \<Rightarrow> bool \<times> Impl" where
  "handle_lane_ready peer e impl =
     (case lane_owner impl (peer_id peer) of
        None \<Rightarrow> (False, impl)
      | Some (control, sid) \<Rightarrow>
          if sid \<noteq> session_id e then (False, impl)
          else case om_find (sessions impl) (control, session_id e) of
            None \<Rightarrow> (False, impl)
          | Some session \<Rightarrow>
              if session_state session \<noteq> Ses_kActive then (False, impl)
              else (True, impl\<lparr>sessions := om_put (control, session_id e)
                      (session\<lparr>lossy_peer_id := peer_id peer\<rparr>) (sessions impl)\<rparr>))"

section \<open>Session messages\<close>

text \<open>
  The region under the mutex, for a session whose source matched: the new session and the two reply
  flags. \<open>uid_matches\<close> below is the check before it.
\<close>

definition session_hello :: "Envelope \<Rightarrow> SessionInfo \<Rightarrow> SessionInfo" where
  "session_hello e session =
     (case decode_text (payload e) of
        None \<Rightarrow> session\<lparr>session_state := Ses_kInvalid\<rparr>
      | Some uid \<Rightarrow>
          if uid \<noteq> src_endpoint_uid (source e) \<or> \<not> valid_uid uid
          then session\<lparr>session_state := Ses_kInvalid\<rparr> else session)"

definition session_authenticate :: "RuntimeConfig \<Rightarrow> Envelope \<Rightarrow> SessionInfo \<Rightarrow> SessionInfo" where
  "session_authenticate cfg e session =
     (let ok = (decode_text (payload e) = Some (shared_secret cfg))
      in session\<lparr>authenticated := ok, session_state := (if ok then Ses_kAuthenticated else Ses_kInvalid)\<rparr>)"

definition session_profiles :: "RuntimeConfig \<Rightarrow> Envelope \<Rightarrow> SessionInfo \<Rightarrow> SessionInfo \<times> bool" where
  "session_profiles cfg e session =
     (case decode_profile_list (payload e) of
        None \<Rightarrow> (session\<lparr>session_state := Ses_kInvalid\<rparr>, False)
      | Some remotes \<Rightarrow>
          let session = negotiate_all (config_profiles cfg) remotes session;
              session = (if session_state session \<noteq> Ses_kInvalid
                         then session\<lparr>session_state := Ses_kNegotiated\<rparr> else session)
          in (session, correlation_id e = 0))"

definition session_ready :: "Envelope \<Rightarrow> SessionInfo \<Rightarrow> SessionInfo \<times> bool" where
  "session_ready e session =
     (if session_state session = Ses_kNegotiated
      then (session\<lparr>session_state := Ses_kActive, authenticated := True\<rparr>, correlation_id e = 0)
      else if session_state session \<noteq> Ses_kActive
      then (session\<lparr>session_state := Ses_kInvalid\<rparr>, False)
      else (session, False))"

definition session_step ::
  "RuntimeConfig \<Rightarrow> Envelope \<Rightarrow> SessionInfo \<Rightarrow> SessionInfo \<times> bool \<times> bool" where
  "session_step cfg e session =
     (if operation e = session_op SOp_kHello then (session_hello e session, False, False)
      else if operation e = session_op SOp_kAuthenticate
      then (session_authenticate cfg e session, False, False)
      else if operation e = session_op SOp_kProfiles
      then (let (session, reply) = session_profiles cfg e session in (session, reply, False))
      else if operation e = session_op SOp_kReady
      then (let (session, reply) = session_ready e session in (session, False, reply))
      else (session, False, False))"

text \<open>\<open>impl->sessions[key]\<close> with its first two assignments.\<close>

definition session_entry :: "Peer \<Rightarrow> Envelope \<Rightarrow> Impl \<Rightarrow> SessionInfo" where
  "session_entry peer e impl =
     (case om_find (sessions impl) (peer_id peer, session_id e) of None \<Rightarrow> empty_session | Some s \<Rightarrow> s)
     \<lparr>si_session_id := session_id e, si_peer_id := peer_id peer\<rparr>"

definition handle_session_envelope :: "u64 \<Rightarrow> Peer \<Rightarrow> Envelope \<Rightarrow> Impl \<Rightarrow> Impl" where
  "handle_session_envelope now_ms peer e impl =
     (let session = session_entry peer e impl;
          key = (peer_id peer, session_id e);
          store = (\<lambda>s. impl\<lparr>sessions := om_put key s (sessions impl)\<rparr>)
      in if remote_endpoint_uid session \<noteq> [] \<and> remote_endpoint_uid session \<noteq> src_endpoint_uid (source e)
         then let session = session\<lparr>session_state := Ses_kInvalid\<rparr>
              in emit_session peer session (store session)
         else let session = (if remote_endpoint_uid session = []
                             then session\<lparr>remote_endpoint_uid := src_endpoint_uid (source e)\<rparr>
                             else session);
                  (session, reply_profiles, reply_ready) = session_step (config impl) e session;
                  impl = emit_session peer session (store session);
                  impl = (if reply_profiles
                    then send_session now_ms (peer_id peer) (session_id e) SOp_kProfiles ''session.profiles''
                           (encode_profile_list (config_profiles (config impl))) (message_id e) impl
                    else impl)
              in if reply_ready
                 then send_session now_ms (peer_id peer) (session_id e) SOp_kReady ''session.ready'' []
                        (message_id e) impl
                 else impl)"

section \<open>Application messages\<close>

text \<open>The peer a lane stands for.\<close>

definition logical_peer :: "Impl \<Rightarrow> Peer \<Rightarrow> Peer" where
  "logical_peer impl peer =
     (case lane_owner impl (peer_id peer) of
        None \<Rightarrow> peer
      | Some (control, sid) \<Rightarrow>
          (case om_find (connections impl) control of
             Some c \<Rightarrow> conn_peer c
           | None \<Rightarrow> peer\<lparr>peer_id := control\<rparr>))"

definition session_admits :: "Impl \<Rightarrow> Peer \<Rightarrow> Envelope \<Rightarrow> SessionInfo option" where
  "session_admits impl logical e =
     (case om_find (sessions impl) (peer_id logical, session_id e) of
        None \<Rightarrow> None
      | Some s \<Rightarrow>
          if session_state s = Ses_kActive \<and> remote_endpoint_uid s = src_endpoint_uid (source e)
          then Some s else None)"

definition handle_application_envelope :: "u64 \<Rightarrow> int \<Rightarrow> Peer \<Rightarrow> Peer \<Rightarrow> Envelope \<Rightarrow> Impl \<Rightarrow> Impl" where
  "handle_application_envelope now_ms steady peer logical e impl =
     (let admitted = session_admits impl logical e;
          authorized = (admitted \<noteq> None \<and> target_matches (target e) (endpoint_uid (config impl))
            (map ed_entity_uid (config_entities (config impl))) (group_uids (config impl)));
          profile_supported = (case admitted of None \<Rightarrow> False | Some s \<Rightarrow>
            is_core (env_type e) \<or> supports_profile s (tr_profile_id (env_type e))
              (tr_major (env_type e)) (tr_minor (env_type e)))
      in if \<not> authorized
         then runtime_emit (error_event peer e Err_kUnauthorized
                ''inactive session, source mismatch, or target mismatch'') impl
         else if \<not> profile_supported
         then runtime_emit (error_event peer e Err_kUnsupported
                ''message type exceeds the negotiated profile version'') impl
         else case runtime_handle_authority now_ms steady peer e impl of
           (True, impl) \<Rightarrow> impl
         | (False, impl) \<Rightarrow>
             (case runtime_action_authorized steady impl peer e of
                Inl authority_error \<Rightarrow>
                  runtime_emit (error_event peer e Err_kUnauthorized authority_error) impl
              | Inr _ \<Rightarrow> runtime_emit (envelope_event logical e) impl))"

definition runtime_handle_envelope :: "u64 \<Rightarrow> int \<Rightarrow> Peer \<Rightarrow> Envelope \<Rightarrow> Impl \<Rightarrow> Impl" where
  "runtime_handle_envelope now_ms steady peer e impl =
     (if family e = MF_kSession then
        if operation e = session_op SOp_kLaneBind then snd (handle_lane_bind now_ms peer e impl)
        else if operation e = session_op SOp_kLaneReady then snd (handle_lane_ready peer e impl)
        else handle_session_envelope now_ms peer e impl
      else handle_application_envelope now_ms steady peer (logical_peer impl peer) e impl)"

section \<open>Losing a peer\<close>

text \<open>The loop over the sessions: those of the peer, as lost, and the last lane among them.\<close>

definition lost_sessions :: "string \<Rightarrow> Impl \<Rightarrow> SessionInfo list" where
  "lost_sessions pid impl =
     map (\<lambda>(key, s). s\<lparr>session_state := Ses_kLost\<rparr>) (filter (\<lambda>(key, s). fst key = pid) (sessions impl))"

definition stop_connection :: "string \<Rightarrow> Impl \<Rightarrow> Impl" where
  "stop_connection pid impl = (case om_find (connections impl) pid of
     None \<Rightarrow> impl
   | Some c \<Rightarrow> impl\<lparr>connections := om_put pid (c\<lparr>conn_running := False\<rparr>) (connections impl)\<rparr>)"

definition runtime_drop_peer_state :: "Peer \<Rightarrow> Impl \<Rightarrow> Impl" where
  "runtime_drop_peer_state peer impl =
     (let pid = peer_id peer in
      case lane_owner impl pid of
        Some key \<Rightarrow>
          let impl = impl\<lparr>lane_owner := (lane_owner impl)(pid := None)\<rparr>
          in (case om_find (sessions impl) key of
                Some s \<Rightarrow> if lossy_peer_id s = pid
                  then impl\<lparr>sessions := om_put key (s\<lparr>lossy_peer_id := []\<rparr>) (sessions impl)\<rparr> else impl
              | None \<Rightarrow> impl)
      | None \<Rightarrow>
          let lost = lost_sessions pid impl;
              lanes = filter (\<lambda>l. l \<noteq> []) (map lossy_peer_id lost);
              impl = impl\<lparr>
                lane_owner := (\<lambda>l. if l \<in> set lanes then None else lane_owner impl l),
                sessions := om_erase_if (\<lambda>key s. fst key = pid) (sessions impl),
                authority_leases := om_erase_if (\<lambda>key l. lease_peer_id l = pid) (authority_leases impl)\<rparr>;
              impl = (if lanes \<noteq> [] then stop_connection (last lanes) impl else impl)
          in fold (emit_session peer) lost impl)"

text \<open>
  The end of \<open>runtime_receive_loop\<close>, after the socket is closed. The loop stops its own connection
  object; \<open>listed\<close> is whether that is still the one the table has under the identifier of the peer, and
  not removed or replaced by a later connection to the same peer.
\<close>

definition receive_loop_end :: "bool \<Rightarrow> Peer \<Rightarrow> Impl \<Rightarrow> Impl" where
  "receive_loop_end listed peer impl =
     runtime_emit (link_event peer False)
       (runtime_drop_peer_state peer (if listed then stop_connection (peer_id peer) impl else impl))"

section \<open>What the senders leave alone\<close>

lemma send_session_frame [frame_simps]:
  "config (send_session now_ms pid sid op ty data corr impl) = config impl"
  "sessions (send_session now_ms pid sid op ty data corr impl) = sessions impl"
  "lane_owner (send_session now_ms pid sid op ty data corr impl) = lane_owner impl"
  "authority_leases (send_session now_ms pid sid op ty data corr impl) = authority_leases impl"
  "emitted (send_session now_ms pid sid op ty data corr impl) = emitted impl"
  "handlers (send_session now_ms pid sid op ty data corr impl) = handlers impl"
  "running (send_session now_ms pid sid op ty data corr impl) = running impl"
  "next_session_id (send_session now_ms pid sid op ty data corr impl) = next_session_id impl"
  by (simp_all add: send_session_def take_message_id_def frame_simps)

lemma emit_session_frame [frame_simps]:
  "config (emit_session peer s impl) = config impl"
  "sessions (emit_session peer s impl) = sessions impl"
  "lane_owner (emit_session peer s impl) = lane_owner impl"
  "authority_leases (emit_session peer s impl) = authority_leases impl"
  "connections (emit_session peer s impl) = connections impl"
  "running (emit_session peer s impl) = running impl"
  "handlers (emit_session peer s impl) = handlers impl"
  "emitted (emit_session peer s impl) = emitted impl @ [(session_event peer s, map snd (handlers impl))]"
  by (simp_all add: emit_session_def frame_simps) (simp_all add: runtime_emit_def)

lemma stop_connection_frame [frame_simps]:
  "config (stop_connection pid impl) = config impl"
  "sessions (stop_connection pid impl) = sessions impl"
  "lane_owner (stop_connection pid impl) = lane_owner impl"
  "authority_leases (stop_connection pid impl) = authority_leases impl"
  "emitted (stop_connection pid impl) = emitted impl"
  "handlers (stop_connection pid impl) = handlers impl"
  "running (stop_connection pid impl) = running impl"
  by (simp_all add: stop_connection_def split: option.splits)

lemma lane_frame [frame_simps]:
  "config (snd (handle_lane_bind now_ms peer e impl)) = config impl"
  "emitted (snd (handle_lane_bind now_ms peer e impl)) = emitted impl"
  "authority_leases (snd (handle_lane_bind now_ms peer e impl)) = authority_leases impl"
  "config (snd (handle_lane_ready peer e impl)) = config impl"
  "emitted (snd (handle_lane_ready peer e impl)) = emitted impl"
  "authority_leases (snd (handle_lane_ready peer e impl)) = authority_leases impl"
  by (auto simp: handle_lane_bind_def handle_lane_ready_def Let_def frame_simps
      split: option.splits)

section \<open>Negotiation\<close>

lemma negotiate_symmetric: "fst (negotiate_profile a b) = fst (negotiate_profile b a)"
  by (auto simp: negotiate_profile_def Let_def min_def)

lemma negotiate_profile_id:
  "pd_profile_id (fst (negotiate_profile a b)) =
     (if pd_profile_id a = pd_profile_id b \<and> pd_major a = pd_major b \<and>
         (pd_minor a = pd_minor b \<longrightarrow> pd_schema_digest a = pd_schema_digest b)
      then pd_profile_id a else [])"
  by (auto simp: negotiate_profile_def Let_def empty_profile_def)

text \<open>What a remote profile contributes: the negotiated descriptor, or nothing.\<close>

definition contribution :: "ProfileDescriptor list \<Rightarrow> ProfileDescriptor \<Rightarrow> ProfileDescriptor option" where
  "contribution locals remote =
     (case List.find (\<lambda>v. pd_profile_id v = pd_profile_id remote) locals of
        None \<Rightarrow> None
      | Some local \<Rightarrow> let n = fst (negotiate_profile local remote) in
          if pd_profile_id n = [] then None else Some n)"

lemma negotiate_one_find:
  "om_find (negotiated_profiles (negotiate_one locals remote s)) k =
     (if k = pd_profile_id remote \<and> contribution locals remote \<noteq> None then contribution locals remote
      else om_find (negotiated_profiles s) k)"
  by (auto simp: negotiate_one_def contribution_def Let_def split: option.splits)

lemma negotiate_fold_untouched:
  "k \<notin> pd_profile_id ` set remotes \<Longrightarrow>
     om_find (negotiated_profiles (fold (negotiate_one locals) remotes s)) k =
     om_find (negotiated_profiles s) k"
  by (induction remotes arbitrary: s) (auto simp: negotiate_one_find)

lemma negotiate_fold_find:
  "distinct (map pd_profile_id remotes) \<Longrightarrow> r \<in> set remotes \<Longrightarrow>
     om_find (negotiated_profiles s) (pd_profile_id r) = None \<Longrightarrow>
     om_find (negotiated_profiles (fold (negotiate_one locals) remotes s)) (pd_profile_id r) =
     contribution locals r"
proof (induction remotes arbitrary: s)
  case (Cons a remotes)
  show ?case
  proof (cases "r = a")
    case True
    with Cons.prems show ?thesis
      by (cases "contribution locals a")
        (auto simp: negotiate_fold_untouched negotiate_one_find)
  next
    case False
    with Cons.prems have r: "r \<in> set remotes" by simp
    moreover from Cons.prems(1) have "pd_profile_id a \<notin> pd_profile_id ` set remotes" by simp
    ultimately have "pd_profile_id r \<noteq> pd_profile_id a" by (metis imageI)
    with r Cons show ?thesis by (simp add: negotiate_one_find)
  qed
qed simp

lemma find_distinct:
  assumes "distinct (map pd_profile_id ps)" and "p \<in> set ps"
  shows "List.find (\<lambda>v. pd_profile_id v = pd_profile_id p) ps = Some p"
  using assms by (induction ps) (auto simp: image_iff)

lemma find_id_None: "List.find (\<lambda>v. pd_profile_id v = k) ps = None \<longleftrightarrow> k \<notin> pd_profile_id ` set ps"
  by (induction ps) auto

lemma negotiate_all_find:
  assumes "distinct (map pd_profile_id remotes)"
  shows "om_find (negotiated_profiles (negotiate_all locals remotes s)) k =
    (case List.find (\<lambda>v. pd_profile_id v = k) remotes of
       None \<Rightarrow> None | Some r \<Rightarrow> contribution locals r)"
proof (cases "List.find (\<lambda>v. pd_profile_id v = k) remotes")
  case None
  then have "k \<notin> pd_profile_id ` set remotes" by (simp add: find_id_None)
  with None show ?thesis by (simp add: negotiate_all_def negotiate_fold_untouched)
next
  case (Some r)
  then have "r \<in> set remotes" "pd_profile_id r = k"
    by (auto simp: find_Some_iff)
  with negotiate_fold_find[OF assms this(1)] Some show ?thesis by (simp add: negotiate_all_def)
qed

lemma negotiation_agrees:
  assumes "distinct (map pd_profile_id as)" and "distinct (map pd_profile_id bs)"
  shows "om_find (negotiated_profiles (negotiate_all as bs s)) k =
    om_find (negotiated_profiles (negotiate_all bs as s')) k"
proof -
  have *: "om_find (negotiated_profiles (negotiate_all xs ys u)) k =
    (case (List.find (\<lambda>v. pd_profile_id v = k) xs, List.find (\<lambda>v. pd_profile_id v = k) ys) of
       (Some x, Some y) \<Rightarrow> (let n = fst (negotiate_profile x y) in
          if pd_profile_id n = [] then None else Some n)
     | _ \<Rightarrow> None)" if "distinct (map pd_profile_id ys)" for xs ys u
  proof (cases "List.find (\<lambda>v. pd_profile_id v = k) ys")
    case None
    with that show ?thesis by (simp add: negotiate_all_find split: option.split)
  next
    case (Some y)
    then have "pd_profile_id y = k" by (rule find_SomeD)
    with Some that show ?thesis
      by (simp add: negotiate_all_find contribution_def split: option.split)
  qed
  show ?thesis
    unfolding *[OF assms(1)] *[OF assms(2)]
    by (auto simp: negotiate_symmetric split: option.splits)
qed


section \<open>Delivery\<close>

definition new_events :: "Impl \<Rightarrow> Impl \<Rightarrow> RuntimeEvent list" where
  "new_events impl impl' = map fst (drop (length (emitted impl)) (emitted impl'))"

lemma new_events_simps [simp]:
  "emitted impl' = emitted impl \<Longrightarrow> new_events impl impl' = []"
  "new_events impl (runtime_emit ev impl) = [ev]"
  "emitted impl' = emitted impl \<Longrightarrow> new_events impl (runtime_emit ev impl') = [ev]"
  by (simp_all add: new_events_def runtime_emit_def)

lemma session_envelope_events:
  "\<exists>s. new_events impl (handle_session_envelope now_ms peer e impl) = [session_event peer s]"
  by (auto simp: handle_session_envelope_def Let_def new_events_def frame_simps split: prod.splits)

lemma application_events:
  "new_events impl (handle_application_envelope now_ms t peer logical e impl) =
     (case session_admits impl logical e of
        None \<Rightarrow> [error_event peer e Err_kUnauthorized ''inactive session, source mismatch, or target mismatch'']
      | Some s \<Rightarrow>
          if \<not> target_matches (target e) (endpoint_uid (config impl))
               (map ed_entity_uid (config_entities (config impl))) (group_uids (config impl))
          then [error_event peer e Err_kUnauthorized ''inactive session, source mismatch, or target mismatch'']
          else if \<not> (is_core (env_type e) \<or> supports_profile s (tr_profile_id (env_type e))
              (tr_major (env_type e)) (tr_minor (env_type e)))
          then [error_event peer e Err_kUnsupported ''message type exceeds the negotiated profile version'']
          else if family e = MF_kAuthority \<and> operation e \<noteq> authority_op AOp_kStatus then []
          else case runtime_action_authorized t impl peer e of
            Inl detail \<Rightarrow> [error_event peer e Err_kUnauthorized detail]
          | Inr _ \<Rightarrow> [envelope_event logical e])"
proof -
  obtain handled impl' where h: "runtime_handle_authority now_ms t peer e impl = (handled, impl')"
    by fastforce
  have fr: "emitted impl' = emitted impl" using handle_authority_frame(4)[of now_ms t peer e impl] h by simp
  have "handled \<longleftrightarrow> family e = MF_kAuthority \<and> operation e \<noteq> authority_op AOp_kStatus"
      "\<not> handled \<Longrightarrow> impl' = impl"
    using h by (auto simp: runtime_handle_authority_def split: if_splits)
  with h fr show ?thesis
    by (auto simp: handle_application_envelope_def Let_def split: option.splits sum.splits)
qed

lemma session_admits_Some:
  "session_admits impl logical e = Some s \<longleftrightarrow>
     om_find (sessions impl) (peer_id logical, session_id e) = Some s \<and>
     session_state s = Ses_kActive \<and> remote_endpoint_uid s = src_endpoint_uid (source e)"
  by (auto simp: session_admits_def split: option.splits)

lemma delivered_cases:
  assumes "ev \<in> set (new_events impl (runtime_handle_envelope now_ms t peer e impl))"
    and "ev_kind ev = Ev_kEnvelope"
  shows "family e \<noteq> MF_kSession \<and> ev = envelope_event (logical_peer impl peer) e \<and>
    (\<exists>s. session_admits impl (logical_peer impl peer) e = Some s \<and>
       target_matches (target e) (endpoint_uid (config impl))
         (map ed_entity_uid (config_entities (config impl))) (group_uids (config impl)) \<and>
       (is_core (env_type e) \<or> supports_profile s (tr_profile_id (env_type e))
          (tr_major (env_type e)) (tr_minor (env_type e))) \<and>
       runtime_action_authorized t impl peer e = Inr ())"
proof (cases "family e = MF_kSession")
  case True
  with assms session_envelope_events[of impl now_ms peer e] show ?thesis
    by (auto simp: runtime_handle_envelope_def frame_simps session_event_def split: if_splits)
next
  case False
  with assms show ?thesis
    by (auto simp: runtime_handle_envelope_def application_events error_event_def
        split: option.splits if_splits sum.splits)
qed

section \<open>The handshake\<close>

text \<open>
  An envelope that carries a session message of an initiator. The decoder's copy of what
  \<open>open_session\<close> wrote satisfies this, whatever the remaining header fields are.
\<close>

definition session_message :: "SessionOperation \<Rightarrow> u64 \<Rightarrow> string \<Rightarrow> bytes \<Rightarrow> Envelope \<Rightarrow> bool" where
  "session_message op sid uid data e \<longleftrightarrow> family e = MF_kSession \<and> operation e = session_op op \<and>
     session_id e = sid \<and> src_endpoint_uid (source e) = uid \<and> payload e = data"

lemma session_envelope_message:
  "session_message op sid (endpoint_uid (config impl)) data
     (session_envelope impl now_ms mid sid op ty data corr)"
  by (simp add: session_message_def session_envelope_def)

text \<open>One session message: the entry it finds, the step, and the entry it leaves.\<close>

definition entry_step :: "RuntimeConfig \<Rightarrow> Envelope \<Rightarrow> SessionInfo \<Rightarrow> SessionInfo" where
  "entry_step cfg e s =
     (if remote_endpoint_uid s \<noteq> [] \<and> remote_endpoint_uid s \<noteq> src_endpoint_uid (source e)
      then s\<lparr>session_state := Ses_kInvalid\<rparr>
      else fst (session_step cfg e (s\<lparr>remote_endpoint_uid := src_endpoint_uid (source e)\<rparr>)))"

lemma handle_session_sessions:
  "sessions (handle_session_envelope now_ms peer e impl) =
     om_put (peer_id peer, session_id e) (entry_step (config impl) e (session_entry peer e impl))
       (sessions impl)"
proof (cases "remote_endpoint_uid (session_entry peer e impl) = [] \<or>
    remote_endpoint_uid (session_entry peer e impl) = src_endpoint_uid (source e)")
  case True
  then have "(if remote_endpoint_uid (session_entry peer e impl) = []
      then (session_entry peer e impl)\<lparr>remote_endpoint_uid := src_endpoint_uid (source e)\<rparr>
      else session_entry peer e impl) =
      (session_entry peer e impl)\<lparr>remote_endpoint_uid := src_endpoint_uid (source e)\<rparr>"
    by auto
  with True show ?thesis
    by (auto simp: handle_session_envelope_def entry_step_def Let_def frame_simps split: prod.splits)
next
  case False
  then show ?thesis
    by (simp add: handle_session_envelope_def entry_step_def Let_def frame_simps)
qed

lemma handle_session_frame [frame_simps]:
  "config (handle_session_envelope now_ms peer e impl) = config impl"
  "lane_owner (handle_session_envelope now_ms peer e impl) = lane_owner impl"
  "authority_leases (handle_session_envelope now_ms peer e impl) = authority_leases impl"
  by (simp_all add: handle_session_envelope_def case_prod_unfold Let_def frame_simps)

lemma entry_step_ids [simp]:
  "si_session_id (entry_step cfg e s) = si_session_id s" "si_peer_id (entry_step cfg e s) = si_peer_id s"
  "lossy_peer_id (entry_step cfg e s) = lossy_peer_id s"
proof -
  have "si_session_id (negotiate_all ls rs s) = si_session_id s \<and>
      si_peer_id (negotiate_all ls rs s) = si_peer_id s \<and>
      lossy_peer_id (negotiate_all ls rs s) = lossy_peer_id s" for ls rs s
  proof -
    have "si_session_id (fold (negotiate_one ls) rs s) = si_session_id s \<and>
      si_peer_id (fold (negotiate_one ls) rs s) = si_peer_id s \<and>
      lossy_peer_id (fold (negotiate_one ls) rs s) = lossy_peer_id s" for s
      by (induction rs arbitrary: s) (auto simp: negotiate_one_def Let_def split: option.splits)
    then show ?thesis by (simp add: negotiate_all_def)
  qed
  then show "si_session_id (entry_step cfg e s) = si_session_id s"
    "si_peer_id (entry_step cfg e s) = si_peer_id s" "lossy_peer_id (entry_step cfg e s) = lossy_peer_id s"
    by (auto simp: entry_step_def session_step_def session_hello_def session_authenticate_def
        session_profiles_def session_ready_def Let_def split: option.splits prod.splits)
qed

text \<open>A session message on a stored session, seen from the table.\<close>

definition session_at :: "Impl \<Rightarrow> session_key \<Rightarrow> SessionInfo" where
  "session_at impl key = (case om_find (sessions impl) key of
     Some s \<Rightarrow> s | None \<Rightarrow> empty_session\<lparr>si_peer_id := fst key, si_session_id := snd key\<rparr>)"

definition entry_ids_ok :: "Impl \<Rightarrow> bool" where
  "entry_ids_ok impl \<longleftrightarrow> (\<forall>k s. om_find (sessions impl) k = Some s \<longrightarrow> k = (si_peer_id s, si_session_id s))"

lemma session_entry_at:
  "entry_ids_ok impl \<Longrightarrow> session_entry peer e impl = session_at impl (peer_id peer, session_id e)"
  by (auto simp: session_entry_def session_at_def entry_ids_ok_def split: option.splits)

definition is_session_message :: "Envelope \<Rightarrow> bool" where
  "is_session_message e \<longleftrightarrow> family e = MF_kSession \<and> operation e \<noteq> session_op SOp_kLaneBind \<and>
     operation e \<noteq> session_op SOp_kLaneReady"

lemma handle_session_message:
  assumes "entry_ids_ok impl" and "is_session_message e"
  shows "session_at (runtime_handle_envelope now_ms t peer e impl) (peer_id peer, session_id e) =
      entry_step (config impl) e (session_at impl (peer_id peer, session_id e)) \<and>
    entry_ids_ok (runtime_handle_envelope now_ms t peer e impl) \<and>
    config (runtime_handle_envelope now_ms t peer e impl) = config impl"
proof -
  have h: "runtime_handle_envelope now_ms t peer e impl = handle_session_envelope now_ms peer e impl"
    using assms(2) by (simp add: runtime_handle_envelope_def is_session_message_def)
  let ?k = "(peer_id peer, session_id e)"
  have s: "sessions (handle_session_envelope now_ms peer e impl) =
      om_put ?k (entry_step (config impl) e (session_at impl ?k)) (sessions impl)"
    by (simp add: handle_session_sessions session_entry_at[OF assms(1)])
  have "si_peer_id (session_at impl ?k) = peer_id peer" "si_session_id (session_at impl ?k) = session_id e"
    using assms(1) by (auto simp: session_at_def entry_ids_ok_def split: option.splits)
  with assms(1) s h show ?thesis
    by (auto simp: session_at_def[of "handle_session_envelope now_ms peer e impl"] entry_ids_ok_def
        frame_simps split: if_splits)
qed

lemma handle_session_find:
  assumes "entry_ids_ok impl" and "is_session_message e"
  shows "om_find (sessions (runtime_handle_envelope now_ms t peer e impl)) (peer_id peer, session_id e) =
    Some (entry_step (config impl) e (session_at impl (peer_id peer, session_id e)))"
  using assms
  by (simp add: runtime_handle_envelope_def is_session_message_def handle_session_sessions session_entry_at)

lemma entry_step_bind:
  "remote_endpoint_uid s = [] \<Longrightarrow>
     entry_step cfg e s = entry_step cfg e (s\<lparr>remote_endpoint_uid := src_endpoint_uid (source e)\<rparr>)"
  by (simp add: entry_step_def)

lemma entry_step_uid:
  "remote_endpoint_uid (entry_step cfg e s) =
     (if remote_endpoint_uid s = [] then src_endpoint_uid (source e) else remote_endpoint_uid s)"
proof -
  have "remote_endpoint_uid (fold (negotiate_one ls) rs s) = remote_endpoint_uid s" for ls rs s
    by (induction rs arbitrary: s) (auto simp: negotiate_one_def Let_def split: option.splits)
  then show ?thesis
    by (auto simp: entry_step_def session_step_def session_hello_def session_authenticate_def
        session_profiles_def session_ready_def negotiate_all_def Let_def
        split: option.splits prod.splits)
qed

type_synonym arrival = "u64 \<times> int \<times> Envelope"

definition receive_all :: "Peer \<Rightarrow> arrival list \<Rightarrow> Impl \<Rightarrow> Impl" where
  "receive_all peer ms impl = fold (\<lambda>(now_ms, t, e). runtime_handle_envelope now_ms t peer e) ms impl"

lemma receive_all_simps [simp]:
  "receive_all peer [] impl = impl"
  "receive_all peer ((now_ms, t, e) # ms) impl =
     receive_all peer ms (runtime_handle_envelope now_ms t peer e impl)"
  by (simp_all add: receive_all_def)

lemma receive_session_messages:
  assumes "entry_ids_ok impl" and "\<forall>(n, t, e) \<in> set ms. is_session_message e \<and> session_id e = sid"
  shows "session_at (receive_all peer ms impl) (peer_id peer, sid) =
      fold (\<lambda>(n, t, e). entry_step (config impl) e) ms (session_at impl (peer_id peer, sid)) \<and>
    entry_ids_ok (receive_all peer ms impl) \<and> config (receive_all peer ms impl) = config impl"
  using assms
proof (induction ms arbitrary: impl)
  case (Cons m ms)
  obtain n t e where m: "m = (n, t, e)" by (cases m)
  with Cons.prems have e: "is_session_message e" "session_id e = sid" by auto
  note h = handle_session_message[OF Cons.prems(1) e(1), of n t peer, unfolded e(2)]
  with Cons.IH[of "runtime_handle_envelope n t peer e impl"] Cons.prems(2) show ?case
    by (simp add: m)
qed simp

lemma session_message_is: "session_message op sid uid data e \<Longrightarrow>
    op \<noteq> SOp_kLaneBind \<Longrightarrow> op \<noteq> SOp_kLaneReady \<Longrightarrow> is_session_message e \<and> session_id e = sid"
  by (cases op) (simp_all add: session_message_def is_session_message_def)

lemma negotiate_fold_state [simp]:
  "session_state (negotiate_all ls rs s) = session_state s"
  "authenticated (negotiate_all ls rs s) = authenticated s"
  "remote_endpoint_uid (negotiate_all ls rs s) = remote_endpoint_uid s"
proof -
  have "session_state (fold (negotiate_one ls) rs s) = session_state s \<and>
    authenticated (fold (negotiate_one ls) rs s) = authenticated s \<and>
    remote_endpoint_uid (fold (negotiate_one ls) rs s) = remote_endpoint_uid s" for s
    by (induction rs arbitrary: s) (auto simp: negotiate_one_def Let_def split: option.splits)
  then show "session_state (negotiate_all ls rs s) = session_state s"
    "authenticated (negotiate_all ls rs s) = authenticated s"
    "remote_endpoint_uid (negotiate_all ls rs s) = remote_endpoint_uid s"
    by (simp_all add: negotiate_all_def)
qed

lemma entry_hello:
  assumes "session_message SOp_kHello sid uid (encode_text uid) e" and "valid_uid uid"
    and "remote_endpoint_uid s = [] \<or> remote_endpoint_uid s = uid"
  shows "entry_step cfg e s = s\<lparr>remote_endpoint_uid := uid\<rparr>"
proof -
  have "length uid \<le> 65535" using valid_uid_length[OF assms(2)] by simp
  then have "decode_text (payload e) = Some uid"
    using assms(1) by (simp add: session_message_def p_text.decodes_encoded)
  with assms show ?thesis
    by (auto simp: entry_step_def session_step_def session_hello_def session_message_def)
qed

lemma entry_authenticate:
  assumes "session_message SOp_kAuthenticate sid uid (encode_text secret) e"
    and "length secret \<le> 65535" and "remote_endpoint_uid s = uid"
  shows "entry_step cfg e s = s\<lparr>authenticated := (secret = shared_secret cfg),
    session_state := (if secret = shared_secret cfg then Ses_kAuthenticated else Ses_kInvalid)\<rparr>"
proof -
  have "decode_text (payload e) = Some secret"
    using assms by (simp add: session_message_def p_text.decodes_encoded)
  with assms show ?thesis
    by (auto simp: entry_step_def session_step_def session_authenticate_def session_message_def)
qed

lemma entry_profiles:
  assumes "session_message SOp_kProfiles sid uid (encode_profile_list remotes) e"
    and "profiles_ok remotes" and "remote_endpoint_uid s = uid"
  shows "entry_step cfg e s =
    (let s = negotiate_all (config_profiles cfg) remotes s in
     if session_state s = Ses_kInvalid then s else s\<lparr>session_state := Ses_kNegotiated\<rparr>)"
proof -
  have "decode_profile_list (payload e) = Some remotes"
    using assms by (simp add: session_message_def p_profiles.decodes_encoded)
  with assms show ?thesis
    by (auto simp: entry_step_def session_step_def session_profiles_def session_message_def Let_def)
qed

lemma entry_ready:
  assumes "session_message SOp_kReady sid uid data e" and "remote_endpoint_uid s = uid"
  shows "entry_step cfg e s =
    (if session_state s = Ses_kNegotiated then s\<lparr>session_state := Ses_kActive, authenticated := True\<rparr>
     else if session_state s = Ses_kActive then s else s\<lparr>session_state := Ses_kInvalid\<rparr>)"
  using assms by (auto simp: entry_step_def session_step_def session_ready_def session_message_def)

text \<open>The four messages of \<open>open_session\<close>, with the secret the initiator knows.\<close>

fun handshake :: "u64 \<Rightarrow> string \<Rightarrow> string \<Rightarrow> ProfileDescriptor list \<Rightarrow> arrival list \<Rightarrow> bool" where
  "handshake sid uid secret remotes [(_, _, e1), (_, _, e2), (_, _, e3), (_, _, e4)] \<longleftrightarrow>
     session_message SOp_kHello sid uid (encode_text uid) e1 \<and>
     session_message SOp_kAuthenticate sid uid (encode_text secret) e2 \<and>
     session_message SOp_kProfiles sid uid (encode_profile_list remotes) e3 \<and>
     session_message SOp_kReady sid uid [] e4"
| "handshake sid uid secret remotes _ = False"

lemma negotiated_independent:
  "negotiated_profiles (negotiate_all ls rs s) = negotiated_profiles (negotiate_all ls rs s')"
proof -
  have "negotiated_profiles s = negotiated_profiles s' \<Longrightarrow>
    negotiated_profiles (fold (negotiate_one ls) rs s) = negotiated_profiles (fold (negotiate_one ls) rs s')"
    for s s'
  proof (induction rs arbitrary: s s')
    case (Cons r rs)
    have "negotiated_profiles (negotiate_one ls r s) = negotiated_profiles (negotiate_one ls r s')"
      using Cons.prems by (auto simp: negotiate_one_def Let_def split: option.splits)
    from Cons.IH[OF this] show ?case by simp
  qed simp
  then show ?thesis by (simp add: negotiate_all_def)
qed

lemma handshake_entry:
  assumes "handshake sid uid secret remotes ms" and "valid_uid uid" and "length secret \<le> 65535"
    and "profiles_ok remotes" and "remote_endpoint_uid s = [] \<or> remote_endpoint_uid s = uid"
    and "s' = fold (\<lambda>(n, t, e). entry_step cfg e) ms s"
  shows "session_state s' = (if secret = shared_secret cfg then Ses_kActive else Ses_kInvalid) \<and>
    authenticated s' = (secret = shared_secret cfg) \<and> remote_endpoint_uid s' = uid \<and>
    negotiated_profiles s' = negotiated_profiles (negotiate_all (config_profiles cfg) remotes s)"
proof -
  from assms(1) obtain n1 t1 e1 n2 t2 e2 n3 t3 e3 n4 t4 e4 where
    ms: "ms = [(n1, t1, e1), (n2, t2, e2), (n3, t3, e3), (n4, t4, e4)]"
    and 1: "session_message SOp_kHello sid uid (encode_text uid) e1"
    and 2: "session_message SOp_kAuthenticate sid uid (encode_text secret) e2"
    and 3: "session_message SOp_kProfiles sid uid (encode_profile_list remotes) e3"
    and 4: "session_message SOp_kReady sid uid [] e4"
    by (cases "(sid, uid, secret, remotes, ms)" rule: handshake.cases) auto
  define s1 s2 s3 where "s1 = entry_step cfg e1 s" and "s2 = entry_step cfg e2 s1"
    and "s3 = entry_step cfg e3 s2"
  have s': "s' = entry_step cfg e4 s3" by (simp add: assms(6) ms s1_def s2_def s3_def)
  have s1: "s1 = s\<lparr>remote_endpoint_uid := uid\<rparr>"
    unfolding s1_def by (rule entry_hello[OF 1 assms(2,5)])
  have s2: "s2 = s1\<lparr>authenticated := (secret = shared_secret cfg),
      session_state := (if secret = shared_secret cfg then Ses_kAuthenticated else Ses_kInvalid)\<rparr>"
    unfolding s2_def by (rule entry_authenticate[OF 2 assms(3)]) (simp add: s1)
  have s3: "s3 = (let n = negotiate_all (config_profiles cfg) remotes s2 in
      if session_state n = Ses_kInvalid then n else n\<lparr>session_state := Ses_kNegotiated\<rparr>)"
    unfolding s3_def by (rule entry_profiles[OF 3 assms(4)]) (simp add: s1 s2)
  have f2: "session_state s2 = (if secret = shared_secret cfg then Ses_kAuthenticated else Ses_kInvalid)"
      "authenticated s2 = (secret = shared_secret cfg)" "remote_endpoint_uid s2 = uid"
    by (simp_all add: s1 s2)
  have f3: "session_state s3 = (if secret = shared_secret cfg then Ses_kNegotiated else Ses_kInvalid)"
      "authenticated s3 = (secret = shared_secret cfg)" "remote_endpoint_uid s3 = uid"
      "negotiated_profiles s3 = negotiated_profiles (negotiate_all (config_profiles cfg) remotes s)"
    using negotiated_independent[of "config_profiles cfg" remotes s2 s] f2
    by (simp_all add: s3 Let_def)
  then show ?thesis unfolding s' entry_ready[OF 4 f3(3)] by auto
qed

lemma handshake_messages:
  "handshake sid uid secret remotes ms \<Longrightarrow>
     \<forall>(n, t, e) \<in> set ms. is_session_message e \<and> session_id e = sid"
  by (cases "(sid, uid, secret, remotes, ms)" rule: handshake.cases) (auto dest: session_message_is)

section \<open>Losing a peer\<close>

lemma emit_all_frame:
  "config (fold (emit_session peer) ss impl) = config impl \<and>
   sessions (fold (emit_session peer) ss impl) = sessions impl \<and>
   lane_owner (fold (emit_session peer) ss impl) = lane_owner impl \<and>
   connections (fold (emit_session peer) ss impl) = connections impl \<and>
   authority_leases (fold (emit_session peer) ss impl) = authority_leases impl \<and>
   map fst (emitted (fold (emit_session peer) ss impl)) =
     map fst (emitted impl) @ map (session_event peer) ss"
  by (induction ss arbitrary: impl) (simp_all add: frame_simps)

lemma drop_control_peer:
  assumes "lane_owner impl (peer_id peer) = None"
  shows "sessions (runtime_drop_peer_state peer impl) =
      om_erase_if (\<lambda>key s. fst key = peer_id peer) (sessions impl) \<and>
    authority_leases (runtime_drop_peer_state peer impl) =
      om_erase_if (\<lambda>key l. lease_peer_id l = peer_id peer) (authority_leases impl) \<and>
    map fst (emitted (runtime_drop_peer_state peer impl)) = map fst (emitted impl) @
      map (session_event peer) (lost_sessions (peer_id peer) impl)"
  using assms
  by (auto simp: runtime_drop_peer_state_def Let_def emit_all_frame frame_simps)

section \<open>Properties\<close>

definition sample_profiles_message :: Envelope where
  "sample_profiles_message = empty_envelope\<lparr>operation := 3, session_id := 1,
     source := \<lparr>src_endpoint_uid = ''x'', src_entity_uid = []\<rparr>, payload := encode_profile_list []\<rparr>"

definition sample_ready_message :: Envelope where
  "sample_ready_message = empty_envelope\<lparr>operation := 4, session_id := 1,
     source := \<lparr>src_endpoint_uid = ''x'', src_entity_uid = []\<rparr>\<rparr>"

lemma sample_messages:
  "session_message SOp_kProfiles 1 ''x'' (encode_profile_list []) sample_profiles_message"
  "session_message SOp_kReady 1 ''x'' [] sample_ready_message"
  by (simp_all add: session_message_def sample_profiles_message_def sample_ready_message_def
      empty_envelope_def)

lemma impl_init_ids_ok: "entry_ids_ok (impl_init cfg)"
  by (simp add: entry_ids_ok_def impl_init_def)

definition sample_session :: SessionInfo where
  "sample_session = empty_session\<lparr>si_session_id := 7, si_peer_id := ''tcp://h:1'',
     remote_endpoint_uid := ''ep.a'', session_state := Ses_kActive, authenticated := True,
     negotiated_profiles := [(''org.x'', \<lparr>pd_profile_id = ''org.x'', pd_major = 1, pd_minor = 2,
       pd_schema_digest = []\<rparr>)]\<rparr>"

definition sample_active :: Impl where
  "sample_active = (impl_init sample_config)\<lparr>sessions := [((''tcp://h:1'', 7), sample_session)],
     connections := [(''tcp://h:1'', new_connection sample_peer 4096)]\<rparr>"

lemma sample_active_ids_ok: "entry_ids_ok sample_active"
  by (auto simp: entry_ids_ok_def sample_active_def sample_session_def om_find_def split: if_splits)

definition profile_p :: "u16 \<Rightarrow> ProfileDescriptor" where
  "profile_p minor = \<lparr>pd_profile_id = ''p'', pd_major = 1, pd_minor = minor, pd_schema_digest = ''d''\<rparr>"

text \<open>
  C2. Delivery safety. Whatever envelope arrives from whatever peer in whatever state, an envelope
  event is emitted only for that envelope, only when it is not a session message, its session (of the
  control peer, when it came over a lane) is active and bound to the endpoint that sent it, its target
  selects this endpoint, its type is of the core or within the negotiated version of its profile, and,
  for an action goal or cancel, the sending peer and session hold the unexpired lease of the single
  target entity.
\<close>

theorem delivery_safety:
  assumes "ev \<in> set (new_events impl (runtime_handle_envelope now_ms t peer e impl))"
    and "ev_kind ev = Ev_kEnvelope"
  shows "ev = envelope_event (logical_peer impl peer) e \<and> family e \<noteq> MF_kSession \<and>
    (\<exists>s. om_find (sessions impl) (peer_id (logical_peer impl peer), session_id e) = Some s \<and>
       session_state s = Ses_kActive \<and> remote_endpoint_uid s = src_endpoint_uid (source e) \<and>
       target_matches (target e) (endpoint_uid (config impl))
         (map ed_entity_uid (config_entities (config impl))) (group_uids (config impl)) \<and>
       (is_core (env_type e) \<or> supports_profile s (tr_profile_id (env_type e))
          (tr_major (env_type e)) (tr_minor (env_type e))) \<and>
       (is_command e \<longrightarrow> ts_scope (target e) = Scope_kEntity \<and> (\<exists>uid. ts_uids (target e) = [uid] \<and>
          holder t impl (uid, action_scope impl e) = Some (peer_id peer, session_id e))))"
  using delivered_cases[OF assms]
  by (auto simp: session_admits_Some runtime_action_authorized_def live_lease_holder length_Suc_conv
      split: if_splits)

theorem delivery_safety_witness:
  "\<exists>s. om_find (sessions sample_active) (''tcp://h:1'', 7) = Some s \<and> session_state s = Ses_kActive \<and>
     remote_endpoint_uid s = ''ep.a''"
proof -
  let ?ev = "envelope_event sample_peer sample_envelope"
  have "new_events sample_active (runtime_handle_envelope 0 0 sample_peer sample_envelope sample_active) = [?ev]"
    by (simp add: runtime_handle_envelope_def application_events session_admits_def sample_active_def
        sample_peer_def sample_envelope_def sample_session_def logical_peer_def impl_init_def om_find_def
        sample_config_def target_matches_def target_endpoint_def target_of_def supports_profile_def
        runtime_action_authorized_def is_command_def empty_envelope_def)
  then have "?ev \<in> set (new_events sample_active
      (runtime_handle_envelope 0 0 sample_peer sample_envelope sample_active))" by simp
  from delivery_safety[OF this]
  have "\<exists>s. om_find (sessions sample_active) (peer_id (logical_peer sample_active sample_peer),
      session_id sample_envelope) = Some s \<and> session_state s = Ses_kActive \<and>
      remote_endpoint_uid s = src_endpoint_uid (source sample_envelope)"
    by (auto simp: envelope_event_def)
  moreover have "peer_id (logical_peer sample_active sample_peer) = ''tcp://h:1''"
    by (simp add: logical_peer_def sample_active_def impl_init_def sample_peer_def)
  moreover have "session_id sample_envelope = 7" "src_endpoint_uid (source sample_envelope) = ''ep.a''"
    by (simp_all add: sample_envelope_def)
  ultimately show ?thesis by simp
qed

text \<open>
  C20. Both sides of a session negotiate the same profiles. For profile lists without repeated
  identifiers, what one side stores for an identifier when it receives the other's list is what the
  other stores when it receives this one's.
\<close>

theorem negotiation_agreement:
  assumes "distinct (map pd_profile_id as)" and "distinct (map pd_profile_id bs)"
  shows "om_find (negotiated_profiles (negotiate_all as bs s)) k =
    om_find (negotiated_profiles (negotiate_all bs as s')) k"
  by (rule negotiation_agrees[OF assms])

theorem negotiation_agreement_witness:
  "om_find (negotiated_profiles (negotiate_all [profile_p 3] [profile_p 1] empty_session)) ''p'' =
   om_find (negotiated_profiles (negotiate_all [profile_p 1] [profile_p 3] empty_session)) ''p'' \<and>
   om_find (negotiated_profiles (negotiate_all [profile_p 3] [profile_p 1] empty_session)) ''p'' =
     Some (profile_p 1)"
  using negotiation_agreement[of "[profile_p 3]" "[profile_p 1]" empty_session "''p''" empty_session]
  by (simp add: negotiate_all_def negotiate_one_def negotiate_profile_def profile_p_def Let_def
      om_find_def)

text \<open>
  With a repeated identifier the two sides can disagree: a list with majors 1 and 2 of a profile against
  a list with major 2 only. Each side looks up the first local entry of an identifier, so one stores
  major 2 and the other rejects the profile.
\<close>

theorem repeated_profile_disagrees:
  "om_find (negotiated_profiles (negotiate_all [(profile_p 0)\<lparr>pd_major := 2\<rparr>]
     [profile_p 0, (profile_p 0)\<lparr>pd_major := 2\<rparr>] s)) ''p'' = Some ((profile_p 0)\<lparr>pd_major := 2\<rparr>) \<and>
   om_find (negotiated_profiles (negotiate_all [profile_p 0, (profile_p 0)\<lparr>pd_major := 2\<rparr>]
     [(profile_p 0)\<lparr>pd_major := 2\<rparr>] s')) ''p'' = None"
  by (simp add: negotiate_all_def negotiate_one_def negotiate_profile_def empty_profile_def profile_p_def
      Let_def om_find_def)

text \<open>
  C22. Authentication can be skipped. A peer that sends only Profiles and Ready for a new session, and
  never the secret, ends with an active session marked authenticated.
\<close>

theorem authentication_skipped:
  assumes "entry_ids_ok impl" and "om_find (sessions impl) (peer_id peer, sid) = None"
    and "session_message SOp_kProfiles sid uid (encode_profile_list remotes) e3" and "profiles_ok remotes"
    and "session_message SOp_kReady sid uid [] e4"
  shows "\<exists>s'. om_find (sessions (receive_all peer [(n3, t3, e3), (n4, t4, e4)] impl)) (peer_id peer, sid) =
      Some s' \<and> session_state s' = Ses_kActive \<and> authenticated s'"
proof -
  let ?cfg = "config impl" and ?k = "(peer_id peer, sid)"
  note m3 = session_message_is[OF assms(3)] and m4 = session_message_is[OF assms(5)]
  note h3 = handle_session_message[OF assms(1), of e3 n3 t3 peer, OF conjunct1[OF m3]]
  have s0: "session_at impl ?k = empty_session\<lparr>si_peer_id := peer_id peer, si_session_id := sid\<rparr>"
    using assms(2) by (simp add: session_at_def)
  have src: "src_endpoint_uid (source e3) = uid" using assms(3) by (simp add: session_message_def)
  define s3 where "s3 = entry_step ?cfg e3 (session_at impl ?k)"
  have "s3 = entry_step ?cfg e3 ((session_at impl ?k)\<lparr>remote_endpoint_uid := uid\<rparr>)"
    unfolding s3_def by (subst entry_step_bind) (simp_all add: s0 src empty_session_def)
  also have "\<dots> = (negotiate_all (config_profiles ?cfg) remotes
      ((session_at impl ?k)\<lparr>remote_endpoint_uid := uid\<rparr>))\<lparr>session_state := Ses_kNegotiated\<rparr>"
    by (subst entry_profiles[OF assms(3,4)]) (simp_all add: Let_def s0 empty_session_def)
  finally have s3: "session_state s3 = Ses_kNegotiated" "remote_endpoint_uid s3 = uid" by simp_all
  let ?i = "runtime_handle_envelope n3 t3 peer e3 impl"
  have i: "entry_ids_ok ?i" "session_at ?i ?k = s3" "config ?i = ?cfg"
    using h3 m3 by (simp_all add: s3_def)
  from handle_session_find[OF i(1), of e4 n4 t4 peer] m4 i s3 entry_ready[OF assms(5) s3(2), of ?cfg]
  show ?thesis by simp
qed

theorem authentication_skipped_witness:
  "\<exists>s'. om_find (sessions (receive_all sample_peer
      [(0, 0, sample_profiles_message), (0, 0, sample_ready_message)] (impl_init sample_config)))
      (''tcp://h:1'', 1) = Some s' \<and> session_state s' = Ses_kActive \<and> authenticated s'"
  using authentication_skipped[OF impl_init_ids_ok[of sample_config] _ sample_messages(1) _
      sample_messages(2), of sample_peer]
  by (simp add: impl_init_def profiles_ok_def sample_peer_def)

text \<open>
  C21. Losing a control connection. When the receive loop of a peer that is not a lane ends, exactly
  the sessions of that peer and exactly the leases it holds are gone; the application is told about
  each of those sessions, in table order, by one session event that shows it as it was but for its
  state, which is Lost, and then that the link is down; nothing else is reported.
\<close>

theorem lost_peer_forgotten:
  assumes "lane_owner impl (peer_id peer) = None" and "omap_ok (sessions impl)" and "leases_ok impl"
    and "impl' = receive_loop_end listed peer impl"
  shows "om_find (sessions impl') key =
      (if fst key = peer_id peer then None else om_find (sessions impl) key) \<and>
    holder t impl' k = (case holder t impl k of Some (pid, sid) \<Rightarrow>
      if pid = peer_id peer then None else Some (pid, sid) | None \<Rightarrow> None) \<and>
    new_events impl impl' =
      [session_event peer (s\<lparr>session_state := Ses_kLost\<rparr>). (key, s) \<leftarrow> sessions impl, fst key = peer_id peer] @
      [link_event peer False]"
proof -
  let ?impl = "if listed then stop_connection (peer_id peer) impl else impl"
  have fr: "sessions ?impl = sessions impl" "authority_leases ?impl = authority_leases impl"
      "lane_owner ?impl (peer_id peer) = None" "emitted ?impl = emitted impl"
    using assms(1) by (simp_all add: frame_simps)
  note d = drop_control_peer[OF fr(3)]
  have "map fst (emitted impl') = map fst (emitted impl) @
      map (session_event peer) (lost_sessions (peer_id peer) ?impl) @ [link_event peer False]"
    using d fr(4) by (simp add: assms(4) receive_loop_end_def runtime_emit_def)
  then have "new_events impl impl' =
      map (session_event peer) (lost_sessions (peer_id peer) ?impl) @ [link_event peer False]"
    by (simp add: new_events_def flip: drop_map)
  moreover have "map (session_event peer) (lost_sessions (peer_id peer) ?impl) =
      [session_event peer (s\<lparr>session_state := Ses_kLost\<rparr>). (key, s) \<leftarrow> sessions impl, fst key = peer_id peer]"
  proof -
    have "map (session_event peer) (map (\<lambda>(key, s). s\<lparr>session_state := Ses_kLost\<rparr>)
        (filter (\<lambda>(key, s). fst key = peer_id peer) xs)) =
      [session_event peer (s\<lparr>session_state := Ses_kLost\<rparr>). (key, s) \<leftarrow> xs, fst key = peer_id peer]" for xs
      by (induction xs) auto
    then show ?thesis unfolding lost_sessions_def fr(1) .
  qed
  ultimately show ?thesis
    using d fr(1,2) assms(2,3)
    by (auto simp: assms(4) receive_loop_end_def om_find_erase_if holder_def lease_now_def live_at_def
        leases_ok_def frame_simps split: option.splits)
qed

definition sample_lost :: Impl where
  "sample_lost = sample_active\<lparr>authority_leases := authority_leases sample_leases\<rparr>"

theorem lost_peer_forgotten_witness:
  "holder 50 (receive_loop_end True sample_peer sample_lost) (''uav'', ''p'') = None \<and>
   new_events sample_lost (receive_loop_end True sample_peer sample_lost) =
     [session_event sample_peer (sample_session\<lparr>session_state := Ses_kLost\<rparr>), link_event sample_peer False]"
proof -
  have "holder 50 sample_lost (''uav'', ''p'') = Some (''tcp://h:1'', 1)"
    using sample_lease_held by (simp add: holder_Some sample_lost_def)
  moreover have "sessions sample_lost = [((''tcp://h:1'', 7), sample_session)]"
      "lane_owner sample_lost (peer_id sample_peer) = None" "peer_id sample_peer = ''tcp://h:1''"
    by (simp_all add: sample_lost_def sample_active_def impl_init_def sample_peer_def)
  moreover have "leases_ok sample_lost" using sample_leases_ok by (simp add: leases_ok_def sample_lost_def)
  ultimately show ?thesis
    using lost_peer_forgotten[of sample_lost sample_peer _ True "(''x'', 0)" 50 "(''uav'', ''p'')"]
    by (simp add: omap_ok_def)
qed

text \<open>
  A session never changes its endpoint. Once a session is bound to an endpoint identifier, a
  session message that names another source leaves the identifier as it was and makes the session
  invalid.
\<close>

theorem source_pinned:
  assumes "entry_ids_ok impl" and "om_find (sessions impl) (peer_id peer, session_id e) = Some s"
    and "remote_endpoint_uid s \<noteq> []" and "is_session_message e"
  shows "\<exists>s'. om_find (sessions (runtime_handle_envelope now_ms t peer e impl)) (peer_id peer, session_id e) =
      Some s' \<and> remote_endpoint_uid s' = remote_endpoint_uid s \<and>
      (src_endpoint_uid (source e) \<noteq> remote_endpoint_uid s \<longrightarrow> session_state s' = Ses_kInvalid)"
  using assms handle_session_find[OF assms(1,4), of now_ms t peer]
  by (auto simp: session_at_def entry_step_uid) (simp add: entry_step_def)

theorem source_pinned_witness:
  "\<exists>s'. om_find (sessions (runtime_handle_envelope 0 0 sample_peer
      (sample_ready_message\<lparr>session_id := 7\<rparr>) sample_active)) (''tcp://h:1'', 7) = Some s' \<and>
     remote_endpoint_uid s' = ''ep.a'' \<and> session_state s' = Ses_kInvalid"
  using source_pinned[OF sample_active_ids_ok, of sample_peer "sample_ready_message\<lparr>session_id := 7\<rparr>"
      sample_session 0 0]
  by (simp add: sample_active_def sample_peer_def sample_session_def om_find_def is_session_message_def
      sample_ready_message_def empty_envelope_def)

lemma lane_bind_effect:
  assumes "om_find (sessions impl) key = Some s" and "lane_candidate peer e s"
    and "decode_text (payload e) = Some (shared_secret (config impl))"
    and "om_find (connections impl) (peer_id peer) \<noteq> None"
    and "impl' = snd (handle_lane_bind now_ms peer e impl)"
  shows "\<exists>bound b. List.find (\<lambda>(key, s). lane_candidate peer e s) (sessions impl) = Some (bound, b) \<and>
    sessions impl' = om_put bound (b\<lparr>lossy_peer_id := peer_id peer\<rparr>) (sessions impl) \<and>
    lane_owner impl' (peer_id peer) = Some (fst bound, session_id e) \<and>
    authority_leases impl' = authority_leases impl \<and> emitted impl' = emitted impl"
proof -
  let ?find = "List.find (\<lambda>(key, s). lane_candidate peer e s) (sessions impl)"
  have "?find \<noteq> None"
    using om_find_in_set[OF assms(1)] assms(2) unfolding find_None_iff by blast
  then obtain bound b where "?find = Some (bound, b)" by fastforce
  with assms show ?thesis by (auto simp: handle_lane_bind_def Let_def frame_simps)
qed

text \<open>
  C23. A control connection bound as a lane outlives itself. If the peer of an active session sends
  LaneBind for it, with the shared secret, on the control connection itself, that connection counts as
  a lane. When it is lost, every session of the table stays as it was, but for the name of a lane, in
  particular that of the peer, still active; every lease stays; and no session is reported lost.
\<close>

theorem self_bound_session_survives:
  assumes "omap_ok (sessions impl)" and "entry_ids_ok impl"
    and "om_find (sessions impl) (peer_id peer, session_id e) = Some s" and "lane_candidate peer e s"
    and "decode_text (payload e) = Some (shared_secret (config impl))"
    and "om_find (connections impl) (peer_id peer) \<noteq> None"
    and "impl' = runtime_drop_peer_state peer (snd (handle_lane_bind now_ms peer e impl))"
  shows "map_option (\<lambda>s. s\<lparr>lossy_peer_id := []\<rparr>) (om_find (sessions impl') key) =
      map_option (\<lambda>s. s\<lparr>lossy_peer_id := []\<rparr>) (om_find (sessions impl) key) \<and>
    (\<exists>s'. om_find (sessions impl') (peer_id peer, session_id e) = Some s' \<and> session_state s' = Ses_kActive) \<and>
    authority_leases impl' = authority_leases impl \<and> new_events impl impl' = []"
proof -
  define m where "m = snd (handle_lane_bind now_ms peer e impl)"
  from lane_bind_effect[OF assms(3-6) refl, of now_ms] obtain bound b where
    f: "List.find (\<lambda>(key, s). lane_candidate peer e s) (sessions impl) = Some (bound, b)"
    and m: "sessions m = om_put bound (b\<lparr>lossy_peer_id := peer_id peer\<rparr>) (sessions impl)"
      "lane_owner m (peer_id peer) = Some (fst bound, session_id e)"
      "authority_leases m = authority_leases impl" "emitted m = emitted impl"
    unfolding m_def by blast
  from f have "(bound, b) \<in> set (sessions impl)" and cand: "lane_candidate peer e b"
    by (auto simp: find_Some_iff) (metis nth_mem)
  then have b: "om_find (sessions impl) bound = Some b" using assms(1) by (simp add: om_find_iff)
  then have key: "(fst bound, session_id e) = bound"
    using assms(2) cand by (cases bound) (auto simp: entry_ids_ok_def lane_candidate_def)
  have i: "impl' = m\<lparr>lane_owner := (lane_owner m)(peer_id peer := None),
      sessions := om_put bound (b\<lparr>lossy_peer_id := []\<rparr>) (sessions m)\<rparr>"
    using m key by (simp add: assms(7) m_def[symmetric] runtime_drop_peer_state_def Let_def)
  have "session_state b = Ses_kActive" "session_state s = Ses_kActive"
    using cand assms(4) by (simp_all add: lane_candidate_def)
  with b m assms(3) show ?thesis unfolding i by (auto simp: new_events_def)
qed

theorem self_bound_session_survives_witness:
  "(\<exists>s'. om_find (sessions (runtime_drop_peer_state sample_peer (snd (handle_lane_bind 0 sample_peer
     (sample_envelope\<lparr>payload := encode_text ''s''\<rparr>) sample_active)))) (''tcp://h:1'', 7) = Some s' \<and>
     session_state s' = Ses_kActive)"
proof -
  let ?e = "sample_envelope\<lparr>payload := encode_text ''s''\<rparr>"
  have "omap_ok (sessions sample_active)" by (simp add: sample_active_def omap_ok_def)
  moreover have "lane_candidate sample_peer ?e sample_session"
    by (simp add: lane_candidate_def sample_envelope_def sample_session_def empty_session_def)
  moreover have "om_find (sessions sample_active) (peer_id sample_peer, session_id ?e) = Some sample_session"
    by (simp add: sample_active_def sample_peer_def sample_envelope_def om_find_def)
  moreover have "decode_text (payload ?e) = Some (shared_secret (config sample_active))"
    by (simp add: p_text.decodes_encoded sample_active_def impl_init_def sample_config_def)
  moreover have "om_find (connections sample_active) (peer_id sample_peer) \<noteq> None"
    by (simp add: sample_active_def sample_peer_def om_find_def)
  ultimately have "\<exists>s'. om_find (sessions (runtime_drop_peer_state sample_peer
      (snd (handle_lane_bind 0 sample_peer ?e sample_active)))) (peer_id sample_peer, session_id ?e) = Some s' \<and>
      session_state s' = Ses_kActive"
    using self_bound_session_survives[OF _ sample_active_ids_ok] by blast
  moreover have "peer_id sample_peer = ''tcp://h:1''" "session_id ?e = 7"
    by (simp_all add: sample_peer_def sample_envelope_def)
  ultimately show ?thesis by simp
qed

end
