(* ===== verification/SendLoop.thy ===== *)
theory SendLoop
  imports SendQueue "HOL-Library.Multiset"
begin

text \<open>
  The sending thread of a connection: \<open>write_frame_chunks\<close> and \<open>runtime_send_loop\<close> of
  \<open>src/runtime/v2/runtime_network.cpp\<close>, and the life of a connection as a step relation between
  enqueues and rounds of the loop. The answers of the environment while a frame is written
  (\<open>running()\<close> and \<open>send_chunk\<close>) are arguments, so every theorem holds for any socket.
\<close>

section \<open>Writing a frame\<close>

definition kWriteQuantumBytes :: nat where "kWriteQuantumBytes = 16 * 1024"
definition kCongestionRetryLimit :: nat where "kCongestionRetryLimit = 1000"

datatype SocketWriteStatus = Write_kComplete | Write_kCongested | Write_kDisconnected

text \<open>The error a socket call leaves, with the text of \<open>error.message()\<close>.\<close>

datatype SockError = Sock_ok | Sock_would_block string | Sock_try_again string | Sock_other string

fun sock_message :: "SockError \<Rightarrow> string" where
  "sock_message Sock_ok = []"
| "sock_message (Sock_would_block m) = m"
| "sock_message (Sock_try_again m) = m"
| "sock_message (Sock_other m) = m"

fun sock_retry :: "SockError \<Rightarrow> bool" where
  "sock_retry (Sock_would_block _) = True"
| "sock_retry (Sock_try_again _) = True"
| "sock_retry _ = False"

record SocketWriteResult =
  wr_status :: SocketWriteStatus
  wr_bytes_written :: nat
  wr_error :: string

text \<open>
  \<open>run i\<close> is the answer of the \<open>i\<close>-th call of \<open>running()\<close> and \<open>send i n\<close> the outcome of the \<open>i\<close>-th
  call of \<open>send_chunk\<close> with \<open>n\<close> bytes. The second component of the result is what the socket took.
\<close>

type_synonym chunk_sender = "nat \<Rightarrow> nat \<Rightarrow> nat \<times> SockError"

definition chunk_size :: "bytes \<Rightarrow> nat \<Rightarrow> nat" where
  "chunk_size bs offset = (let remaining = length bs - offset in
     if remaining > kWriteQuantumBytes then kWriteQuantumBytes else remaining)"

function write_loop ::
  "bytes \<Rightarrow> (nat \<Rightarrow> bool) \<Rightarrow> chunk_sender \<Rightarrow> nat \<Rightarrow> nat \<Rightarrow> nat \<Rightarrow> nat \<Rightarrow> bytes \<Rightarrow>
     SocketWriteResult \<times> bytes" where
  "write_loop bs run send retry_limit i offset retry_count wire =
     (if offset < length bs \<and> run (Suc i) then
        let chunk = chunk_size bs offset; (sent, error) = send i chunk;
            wire = wire @ take sent (drop offset bs); offset = offset + sent in
        if error = Sock_ok then
          if sent = 0 then (\<lparr>wr_status = Write_kDisconnected, wr_bytes_written = offset,
                             wr_error = ''zero-byte write''\<rparr>, wire)
          else write_loop bs run send retry_limit (Suc i) offset 0 wire
        else if \<not> sock_retry error then
          (\<lparr>wr_status = Write_kDisconnected, wr_bytes_written = offset,
            wr_error = sock_message error\<rparr>, wire)
        else let retry_count = Suc (if sent \<noteq> 0 then 0 else retry_count) in
          if retry_count > retry_limit then
            (\<lparr>wr_status = Write_kCongested, wr_bytes_written = offset,
              wr_error = sock_message error\<rparr>, wire)
          else write_loop bs run send retry_limit (Suc i) offset retry_count wire
      else if offset = length bs then
        (\<lparr>wr_status = Write_kComplete, wr_bytes_written = offset, wr_error = []\<rparr>, wire)
      else
        (\<lparr>wr_status = (if run (if offset < length bs then Suc (Suc i) else Suc i)
                       then Write_kCongested else Write_kDisconnected),
          wr_bytes_written = offset, wr_error = ''socket stopped during write''\<rparr>, wire))"
  by pat_completeness auto
termination
  by (relation "measures [\<lambda>(bs, run, send, retry_limit, i, offset, retry_count, wire). length bs - offset,
      \<lambda>(bs, run, send, retry_limit, i, offset, retry_count, wire). Suc retry_limit - retry_count]")
    (auto split: if_splits)

declare write_loop.simps [simp del]

definition write_frame_chunks ::
  "bytes \<Rightarrow> chunk_sender \<Rightarrow> (nat \<Rightarrow> bool) \<Rightarrow> nat \<Rightarrow> SocketWriteResult \<times> bytes" where
  "write_frame_chunks bs send run retry_limit =
     (if bs = [] \<or> \<not> run 0 then
        (\<lparr>wr_status = Write_kDisconnected, wr_bytes_written = 0, wr_error = ''socket unavailable''\<rparr>, [])
      else write_loop bs run send retry_limit 0 0 0 [])"

text \<open>
  The writer over the socket of a connection. \<open>socket_chunk\<close> is the lambda \<open>write_socket\<close> passes:
  under the socket mutex it reads \<open>running\<close> once more (\<open>alive i\<close> at the \<open>i\<close>-th call) and only then
  asks the socket (\<open>write_some i n\<close>). The message is the one Linux gives for \<open>operation_aborted\<close>.
  A connection whose socket object is absent is not modelled: \<open>connect_peer\<close> and the acceptor set it
  before the threads start.
\<close>

definition socket_chunk :: "(nat \<Rightarrow> bool) \<Rightarrow> chunk_sender \<Rightarrow> chunk_sender" where
  "socket_chunk alive write_some i n =
     (if \<not> alive i then (0, Sock_other ''Operation canceled'') else write_some i n)"

definition write_socket ::
  "RuntimeConnection \<Rightarrow> bytes \<Rightarrow> (nat \<Rightarrow> bool) \<Rightarrow> chunk_sender \<Rightarrow> (nat \<Rightarrow> bool) \<Rightarrow> SocketWriteResult \<times> bytes" where
  "write_socket c bs alive write_some run =
     (if \<not> conn_running c then
        (\<lparr>wr_status = Write_kDisconnected, wr_bytes_written = 0, wr_error = ''socket unavailable''\<rparr>, [])
      else write_frame_chunks bs (socket_chunk alive write_some) run kCongestionRetryLimit)"


section \<open>The send loop\<close>

text \<open>
  One round of \<open>runtime_send_loop\<close> after the wait: what the connection becomes, the event emitted and
  the bytes handed to the socket. \<open>lossy_channel\<close> is the lookup of the connection in \<open>lane_owner\<close>,
  and the byte count in the message is read after the frame was taken.
\<close>

definition send_failure_message ::
  "RuntimeConnection \<Rightarrow> bool \<Rightarrow> OutboundFrame \<Rightarrow> SocketWriteResult \<Rightarrow> string" where
  "send_failure_message c lossy_channel frame result =
     ''socket write failed: channel='' @ (if lossy_channel then ''lossy'' else ''control'') @
     '' session_id='' @ to_string (if length (fr_bytes frame) \<ge> 28
        then unat (le_word (take 8 (drop 20 (fr_bytes frame))) :: u64) else 0) @
     '' bytes_written='' @ to_string (wr_bytes_written result) @
     '' frame_bytes='' @ to_string (length (fr_bytes frame)) @
     '' queued_bytes='' @ to_string (unat (queued_bytes c)) @
     '' qos='' @ to_string (unat (qos_code (fr_qos frame))) @
     '' reason='' @ wr_error result"

definition send_step ::
  "bool \<Rightarrow> (nat \<Rightarrow> bool) \<Rightarrow> chunk_sender \<Rightarrow> (nat \<Rightarrow> bool) \<Rightarrow> RuntimeConnection \<Rightarrow>
     RuntimeConnection \<times> RuntimeEvent list \<times> bytes" where
  "send_step lossy_channel alive send run c =
     (if \<not> conn_running c then (c, [], [])
      else case take_next_frame c of
        None \<Rightarrow> (c, [], [])
      | Some (frame, c) \<Rightarrow>
          let (result, wire) = write_socket c (fr_bytes frame) alive send run in
          if wr_status result = Write_kComplete then (c, [], wire)
          else if wr_status result = Write_kCongested \<and>
                  may_drop_congested_frame (fr_qos frame) (wr_bytes_written result)
          then (c, [], wire)
          else (c\<lparr>conn_running := False\<rparr>,
                [error_event (conn_peer c) empty_envelope Err_kInternal
                   (send_failure_message c lossy_channel frame result)], wire))"

section \<open>What reaches the socket\<close>

text \<open>The socket takes at most the bytes it is offered.\<close>

definition sender_ok :: "chunk_sender \<Rightarrow> bool" where
  "sender_ok send \<longleftrightarrow> (\<forall>i n. fst (send i n) \<le> n)"

lemma socket_chunk_ok: "sender_ok write_some \<Longrightarrow> sender_ok (socket_chunk alive write_some)"
  by (simp add: sender_ok_def socket_chunk_def)

lemma socket_chunk_alive [simp]: "socket_chunk (\<lambda>_. True) write_some = write_some"
  by (intro ext) (simp add: socket_chunk_def)

lemma chunk_size_le: "offset \<le> length bs \<Longrightarrow> offset + chunk_size bs offset \<le> length bs"
  by (auto simp: chunk_size_def Let_def)

lemma write_loop_prefix:
  assumes "sender_ok send" and "offset \<le> length bs" and "wire = take offset bs"
    and "write_loop bs run send limit i offset retry wire = (result, out)"
  shows "wr_bytes_written result \<le> length bs \<and> out = take (wr_bytes_written result) bs \<and>
    (wr_status result = Write_kComplete \<longrightarrow> wr_bytes_written result = length bs)"
  using assms
proof (induction bs run send limit i offset retry wire rule: write_loop.induct)
  case (1 bs run send limit i offset retry wire)
  obtain sent error where s: "send i (chunk_size bs offset) = (sent, error)" by fastforce
  have "fst (send i (chunk_size bs offset)) \<le> chunk_size bs offset"
    using 1(3) by (simp add: sender_ok_def)
  with s chunk_size_le[OF 1(4)] have le: "offset + sent \<le> length bs" by simp
  have wire: "take (offset + sent) bs = wire @ take sent (drop offset bs)"
    using 1(5) by (simp add: take_add)
  note IH1 = 1(1)[OF _ refl refl s[symmetric] refl refl _ _ 1(3) le wire[symmetric]]
  note IH2 = 1(2)[OF _ refl refl s[symmetric] refl refl _ _ refl _ 1(3) le wire[symmetric]]
  from 1(6) show ?case
    by (subst (asm) write_loop.simps)
      (use IH1 IH2 le wire 1(4,5) s in \<open>auto simp: Let_def split: if_splits\<close>)
qed

text \<open>
  Progress: the connection stays up, errors are only the retryable ones, and among any \<open>limit\<close>
  consecutive calls at least one takes some bytes.
\<close>

definition sender_live :: "chunk_sender \<Rightarrow> nat \<Rightarrow> bool" where
  "sender_live send limit \<longleftrightarrow>
     (\<forall>i n. 0 < n \<longrightarrow> snd (send i n) = Sock_ok \<and> 0 < fst (send i n) \<or> sock_retry (snd (send i n))) \<and>
     (\<forall>i. \<exists>j < limit. \<forall>n > 0. 0 < fst (send (i + j) n))"

lemma chunk_size_pos: "offset < length bs \<Longrightarrow> 0 < chunk_size bs offset"
  by (simp add: chunk_size_def Let_def kWriteQuantumBytes_def)

lemma retry_budget:
  assumes live: "sender_live send limit" and pos: "0 < chunk" and s: "send i chunk = (sent, error)"
    and budget: "\<exists>j. j + retry \<le> limit \<and> (\<forall>n > 0. 0 < fst (send (i + j) n))"
    and r: "r = 0 \<or> r = 1 \<or> sent = 0 \<and> r = Suc retry"
  shows "\<exists>j. j + r \<le> limit \<and> (\<forall>n > 0. 0 < fst (send (Suc i + j) n))"
proof (cases "r = 0 \<or> r = 1")
  case True
  obtain k where "k < limit" "\<forall>n > 0. 0 < fst (send (Suc i + k) n)"
    using live unfolding sender_live_def by (metis add_Suc)
  with True show ?thesis by (intro exI[of _ k]) auto
next
  case False
  with r have r: "sent = 0" "r = Suc retry" by simp_all
  obtain j where j: "j + retry \<le> limit" "\<forall>n > 0. 0 < fst (send (i + j) n)" using budget by blast
  from j(2) pos s r have "j \<noteq> 0" by (metis add_0_right fst_conv less_irrefl)
  with j r show ?thesis by (intro exI[of _ "j - 1"]) auto
qed

lemma write_loop_live:
  assumes "sender_ok send" and "sender_live send limit" and "run = (\<lambda>_. True)"
    and "offset \<le> length bs" and "\<exists>j. j + retry \<le> limit \<and> (\<forall>n > 0. 0 < fst (send (i + j) n))"
  shows "wr_status (fst (write_loop bs run send limit i offset retry wire)) = Write_kComplete"
  using assms
proof (induction bs run send limit i offset retry wire rule: write_loop.induct)
  case (1 bs run send limit i offset retry wire)
  note ok = 1(3) and live = 1(4) and run = 1(5)
  show ?case
  proof (cases "offset < length bs")
    case False
    with 1(6) show ?thesis by (subst write_loop.simps) simp
  next
    case True
    define chunk where "chunk = chunk_size bs offset"
    obtain sent error where s: "send i chunk = (sent, error)" by fastforce
    have pos: "0 < chunk" using chunk_size_pos[OF True] by (simp add: chunk_def)
    have "fst (send i chunk) \<le> chunk" using ok by (simp add: sender_ok_def)
    with s chunk_size_le[OF 1(6)] have le: "offset + sent \<le> length bs" by (simp add: chunk_def)
    have err: "error = Sock_ok \<and> 0 < sent \<or> sock_retry error"
      using live pos s unfolding sender_live_def by (metis fst_conv snd_conv)
    note next_ok = retry_budget[OF live pos s 1(7)]
    note IH1 = 1(1)[OF _ refl refl s[unfolded chunk_def, symmetric] refl refl _ _ ok live run le]
    note IH2 = 1(2)[OF _ refl refl s[unfolded chunk_def, symmetric] refl refl _ _ refl _ ok live run le]
    define r where "r = Suc (if sent \<noteq> 0 then 0 else retry)"
    have r: "r = 1 \<or> sent = 0 \<and> r = Suc retry" by (simp add: r_def)
    then have r_le: "r \<le> limit" using next_ok[of r] by auto
    show ?thesis
    proof (cases "error = Sock_ok")
      case True
      with err have "sent \<noteq> 0" by auto
      with True \<open>offset < length bs\<close> run s IH1 next_ok[of 0] show ?thesis
        by (subst write_loop.simps) (simp add: Let_def chunk_def)
    next
      case False
      with err have "sock_retry error" by blast
      with False \<open>offset < length bs\<close> run s IH2 next_ok[of r] r r_le show ?thesis
        by (subst write_loop.simps) (simp add: Let_def chunk_def r_def)
    qed
  qed
qed

lemma write_frame_live:
  assumes "bs \<noteq> []" and "sender_ok send" and "sender_live send limit"
  shows "wr_status (fst (write_frame_chunks bs send (\<lambda>_. True) limit)) = Write_kComplete \<and>
    snd (write_frame_chunks bs send (\<lambda>_. True) limit) = bs"
proof -
  obtain result out where w: "write_loop bs (\<lambda>_. True) send limit 0 0 0 [] = (result, out)" by fastforce
  have "\<exists>j. j + 0 \<le> limit \<and> (\<forall>n > 0. 0 < fst (send (0 + j) n))"
    using assms(3) unfolding sender_live_def by (metis add_0 add_0_right less_imp_le)
  from write_loop_live[OF assms(2,3) refl _ this, of 0 bs "[]"] w
    write_loop_prefix[OF assms(2) _ _ w] assms(1)
  show ?thesis by (simp add: write_frame_chunks_def)
qed

section \<open>The life of a connection\<close>

text \<open>
  The steps of a connection: an enqueue by any thread, and a round of the send loop with any behaviour
  of the socket. \<open>good\<close> describes the frames the clients of the connection enqueue, \<open>l_accepted\<close> records every frame the queue accepted,
  with its class and key, in the order of acceptance, and \<open>l_wire\<close> all bytes the socket took.
\<close>

record link_state =
  l_conn :: RuntimeConnection
  l_accepted :: "OutboundFrame list"
  l_wire :: bytes

definition link_init :: "Peer \<Rightarrow> u64 \<Rightarrow> link_state" where
  "link_init peer limit = \<lparr>l_conn = new_connection peer limit, l_accepted = [], l_wire = []\<rparr>"

inductive link_step :: "(bytes \<Rightarrow> bool) \<Rightarrow> link_state \<Rightarrow> link_state \<Rightarrow> bool" for good where
  enqueue_step: "good bs \<Longrightarrow> length bs < 2 ^ 64 \<Longrightarrow> runtime_enqueue (l_conn s) bs qos key = (b, c) \<Longrightarrow>
    link_step good s (s\<lparr>l_conn := c, l_accepted := l_accepted s @
      (if b then [\<lparr>fr_bytes = bs, fr_qos = qos, fr_latest_key = key\<rparr>] else [])\<rparr>)"
| write_step: "sender_ok send \<Longrightarrow> send_step lossy_channel alive send run (l_conn s) = (c, evs, out) \<Longrightarrow>
    link_step good s (s\<lparr>l_conn := c, l_wire := l_wire s @ out\<rparr>)"

inductive link_reach :: "(bytes \<Rightarrow> bool) \<Rightarrow> Peer \<Rightarrow> u64 \<Rightarrow> link_state \<Rightarrow> bool" for good peer limit where
  link_start: "link_reach good peer limit (link_init peer limit)"
| link_next: "link_reach good peer limit s \<Longrightarrow> link_step good s s' \<Longrightarrow> link_reach good peer limit s'"

definition ordered_frames :: "OutboundFrame list \<Rightarrow> bytes list" where
  "ordered_frames fs = map fr_bytes (filter (\<lambda>f. fr_qos f = Qos_kReliableOrdered) fs)"

text \<open>
  While the connection runs, the wire carries whole frames only, and the accepted ReliableOrdered
  frames are those written, in order, followed by those still queued. Written and queued frames
  together are some of the accepted ones, each counted as often as it was accepted: what is missing
  was superseded or dropped, and nothing is there twice.
\<close>

definition queued_frames :: "RuntimeConnection \<Rightarrow> OutboundFrame multiset" where
  "queued_frames c = mset (send_queues c 0) + mset (send_queues c 1) + mset (send_queues c 2) + mset (send_queues c 3)"

definition queues_good :: "(bytes \<Rightarrow> bool) \<Rightarrow> RuntimeConnection \<Rightarrow> bool" where
  "queues_good good c \<longleftrightarrow> (\<forall>i. \<forall>f \<in> set (send_queues c i). good (fr_bytes f))"

definition link_ok :: "(bytes \<Rightarrow> bool) \<Rightarrow> link_state \<Rightarrow> bool" where
  "link_ok good s \<longleftrightarrow> conn_ok (l_conn s) \<and> queues_good good (l_conn s) \<and>
     (\<exists>frames rest lost. list_all (\<lambda>f. good (fr_bytes f)) frames \<and> l_wire s = concat (map fr_bytes frames) @ rest \<and>
        ordered_frames (l_accepted s) = ordered_frames frames @ lost @ map fr_bytes (send_queues (l_conn s) 0) \<and>
        mset frames + queued_frames (l_conn s) \<subseteq># mset (l_accepted s) \<and>
        (conn_running (l_conn s) \<longrightarrow> rest = [] \<and> lost = []))"

lemma send_step_cases:
  assumes "sender_ok send" and "send_step lossy alive send run c = (c', evs, out)"
  shows "c' = c \<and> out = [] \<or>
    (\<exists>f m. take_next_frame c = Some (f, m) \<and>
       (c' = m \<and> (out = fr_bytes f \<or> out = [] \<and> qos_may_drop (fr_qos f)) \<or>
        c' = m\<lparr>conn_running := False\<rparr>))"
  using assms write_loop_prefix[OF socket_chunk_ok[OF assms(1)], of 0 _ "[]"]
  by (fastforce simp: send_step_def write_socket_def write_frame_chunks_def may_drop_congested_frame_def Let_def
      split: if_splits option.splits prod.splits)

lemma take_next_running: "take_next_frame c = Some (f, m) \<Longrightarrow> conn_running m = conn_running c"
  by (auto simp: take_next_frame_def bind_eq_Some_conv Let_def)

lemma take_next_queue0:
  assumes "conn_ok c" and "take_next_frame c = Some (f, m)"
  shows "map fr_bytes (send_queues c 0) = ordered_frames [f] @ map fr_bytes (send_queues m 0)"
proof -
  from take_next_Some[OF assms(2)] obtain i where
    i: "send_queues c i = f # send_queues m i" "\<forall>j. j \<noteq> i \<longrightarrow> send_queues m j = send_queues c j"
    by blast
  from i(1) assms(1) have "qos_index (fr_qos f) = i"
    unfolding conn_ok_def frames_ok_def by (metis list.set_intros(1))
  with i show ?thesis by (cases "i = 0") (auto simp: ordered_frames_def qos_index_0)
qed

lemma ordered_frames_append [simp]: "ordered_frames (fs @ gs) = ordered_frames fs @ ordered_frames gs"
  by (simp add: ordered_frames_def)

lemma not_running_conn_ok: "conn_ok (c\<lparr>conn_running := False\<rparr>) = conn_ok c"
  by (simp add: conn_ok_def counts_def backlog_def lossy_bytes_def limit_of_def frames_ok_def
      latest_keys_def)

lemma send_step_ok: "sender_ok send \<Longrightarrow> send_step lossy alive send run c = (c', evs, out) \<Longrightarrow> conn_ok c \<Longrightarrow> conn_ok c'"
  by (drule (1) send_step_cases) (auto simp: not_running_conn_ok dest: take_next_conn_ok)

lemma queues_good_mono:
  "queues_good good c \<Longrightarrow> (\<And>i. set (send_queues c' i) \<subseteq> set (send_queues c i)) \<Longrightarrow> queues_good good c'"
  unfolding queues_good_def by blast

lemma set_put_frame: "f \<in> set (put_frame fs bs qos key) \<Longrightarrow> f \<in> set fs \<or> fr_bytes f = bs"
  by (auto simp: put_frame_def split: option.splits dest!: set_update_subset_insert[THEN subsetD])

lemma enqueue_good:
  assumes "conn_ok c" and "length bs < 2 ^ 64" and "runtime_enqueue c bs qos key = (b, c')"
    and "queues_good good c" and "good bs"
  shows "queues_good good c'"
proof -
  obtain m where t: "trims c m" and q: "send_queues c' = (if accepts c bs qos key
      then (send_queues m)(qos_index qos := put_frame (send_queues m (qos_index qos)) bs qos key)
      else send_queues m)"
    using enqueue_facts[OF assms(1,2), of qos key] assms(3) by auto
  have "set (send_queues m i) \<subseteq> set (send_queues c i)" for i
    using t by (cases "i = 2 \<or> i = 3") (auto simp: trims_def dest: set_mono_suffix)
  with assms(4) have "queues_good good m" by (rule queues_good_mono)
  with q assms(5) show ?thesis
    by (auto simp: queues_good_def dest!: set_put_frame split: if_splits)
qed

lemma take_next_good:
  assumes "take_next_frame c = Some (f, m)" and "queues_good good c"
  shows "queues_good good m \<and> good (fr_bytes f)"
proof -
  from take_next_Some[OF assms(1)] obtain i where
    i: "send_queues c i = f # send_queues m i" "\<forall>j. j \<noteq> i \<longrightarrow> send_queues m j = send_queues c j"
    by blast
  have "set (send_queues m j) \<subseteq> set (send_queues c j)" for j
    using i by (cases "j = i") auto
  with assms(2) have "queues_good good m" by (rule queues_good_mono)
  moreover have "f \<in> set (send_queues c i)" using i by simp
  ultimately show ?thesis using assms(2) unfolding queues_good_def by blast
qed

lemma mset_suffix: "suffix xs ys \<Longrightarrow> mset xs \<subseteq># mset ys"
  by (auto simp: suffix_def)

lemma trims_queued_frames: "trims c m \<Longrightarrow> queued_frames m \<subseteq># queued_frames c"
  unfolding queued_frames_def trims_def
  by (intro subset_mset.add_mono) (auto dest: mset_suffix)

lemma mset_put_frame:
  assumes "frames_ok c"
  shows "mset (put_frame (send_queues c (qos_index qos)) bs qos key) \<subseteq>#
    add_mset \<lparr>fr_bytes = bs, fr_qos = qos, fr_latest_key = key\<rparr> (mset (send_queues c (qos_index qos)))"
proof (cases "superseded c qos key")
  case None
  then show ?thesis by (simp add: put_frame_fresh)
next
  case (Some i)
  note s = superseded_Some[OF Some]
  let ?f = "send_queues c 1 ! i"
  have "qos_index (fr_qos ?f) = 1" using assms s nth_mem[of i "send_queues c 1"] by (auto simp: frames_ok_def)
  then have "?f\<lparr>fr_bytes := bs\<rparr> = \<lparr>fr_bytes = bs, fr_qos = qos, fr_latest_key = key\<rparr>"
    using s by (cases "fr_qos ?f") simp_all
  with s Some put_frame_replaced[of c key i bs] show ?thesis
    by (simp add: mset_update diff_subset_eq_self)
qed

lemma enqueue_queued_frames:
  assumes "conn_ok c" and "length bs < 2 ^ 64" and "runtime_enqueue c bs qos key = (b, c')"
  shows "queued_frames c' \<subseteq># queued_frames c +
    (if b then {#\<lparr>fr_bytes = bs, fr_qos = qos, fr_latest_key = key\<rparr>#} else {#})"
proof -
  let ?f = "\<lparr>fr_bytes = bs, fr_qos = qos, fr_latest_key = key\<rparr>"
  obtain m where t: "trims c m" and b: "b = accepts c bs qos key"
    and q: "send_queues c' = (if b then (send_queues m)(qos_index qos :=
        put_frame (send_queues m (qos_index qos)) bs qos key) else send_queues m)"
    using enqueue_facts[OF assms(1,2), of qos key] assms(3) by auto
  have "frames_ok m" using trims_frames_ok[OF t] assms(1) by (simp add: conn_ok_def)
  note p = mset_put_frame[OF this, of qos bs key]
  have "queued_frames c' \<subseteq># queued_frames m + (if b then {#?f#} else {#})"
    using p q by (cases qos) (auto simp: queued_frames_def intro: subset_mset.add_mono)
  also have "\<dots> \<subseteq># queued_frames c + (if b then {#?f#} else {#})"
    using trims_queued_frames[OF t] by (rule subset_mset.add_right_mono)
  finally show ?thesis .
qed

lemma take_next_queued_frames:
  assumes "take_next_frame c = Some (f, m)"
  shows "queued_frames c = add_mset f (queued_frames m)"
proof -
  from take_next_Some[OF assms] obtain i where i: "i < 4" "send_queues c i = f # send_queues m i"
    "\<forall>j. j \<noteq> i \<longrightarrow> send_queues m j = send_queues c j" by blast
  from i(1) consider "i = 0" | "i = 1" | "i = 2" | "i = 3" by linarith
  then show ?thesis using i by cases (simp_all add: queued_frames_def)
qed

lemma link_ok_enqueue:
  assumes ok: "link_ok good s" and bs: "good bs" "length bs < 2 ^ 64"
    and r: "runtime_enqueue (l_conn s) bs qos key = (b, c)"
  shows "link_ok good (s\<lparr>l_conn := c, l_accepted := l_accepted s @
      (if b then [\<lparr>fr_bytes = bs, fr_qos = qos, fr_latest_key = key\<rparr>] else [])\<rparr>)"
proof -
  from ok obtain frames rest lost where fs:
    "list_all (\<lambda>f. good (fr_bytes f)) frames" "l_wire s = concat (map fr_bytes frames) @ rest"
    "ordered_frames (l_accepted s) = ordered_frames frames @ lost @ map fr_bytes (send_queues (l_conn s) 0)"
    "mset frames + queued_frames (l_conn s) \<subseteq># mset (l_accepted s)"
    "conn_running (l_conn s) \<longrightarrow> rest = [] \<and> lost = []" unfolding link_ok_def by blast
  from ok have cok: "conn_ok (l_conn s)" and good: "queues_good good (l_conn s)"
    by (simp_all add: link_ok_def)
  let ?new = "if b then {#\<lparr>fr_bytes = bs, fr_qos = qos, fr_latest_key = key\<rparr>#} else {#}"
  have "mset frames + queued_frames c \<subseteq># mset frames + (queued_frames (l_conn s) + ?new)"
    using enqueue_queued_frames[OF cok bs(2) r] by (rule subset_mset.add_left_mono)
  also have "\<dots> \<subseteq># mset (l_accepted s) + ?new"
    using subset_mset.add_right_mono[OF fs(4), of ?new] by (simp add: add.assoc)
  finally have "mset frames + queued_frames c \<subseteq># mset (l_accepted s @
      (if b then [\<lparr>fr_bytes = bs, fr_qos = qos, fr_latest_key = key\<rparr>] else []))" by (cases b) simp_all
  with fs enqueue_queue0[OF cok bs(2) r] enqueue_good[OF cok bs(2) r good bs(1)] show ?thesis
    unfolding link_ok_def
    by (intro conjI exI[of _ frames] exI[of _ rest] exI[of _ lost]) (auto simp: ordered_frames_def)
qed

lemma link_ok_write:
  assumes ok: "link_ok good s" and snd_ok: "sender_ok send"
    and r: "send_step lossy alive send run (l_conn s) = (c, evs, out)"
  shows "link_ok good (s\<lparr>l_conn := c, l_wire := l_wire s @ out\<rparr>)"
proof (cases "c = l_conn s \<and> out = []")
  case True
  with ok show ?thesis by (simp add: link_ok_def)
next
  case False
  with send_step_cases[OF snd_ok r] r obtain f m where run: "conn_running (l_conn s)"
      and t: "take_next_frame (l_conn s) = Some (f, m)"
      and c: "c = m \<and> (out = fr_bytes f \<or> out = [] \<and> qos_may_drop (fr_qos f)) \<or>
        c = m\<lparr>conn_running := False\<rparr>"
    by (auto simp: send_step_def split: if_splits)
  from ok have cok: "conn_ok (l_conn s)" and good: "queues_good good (l_conn s)"
    by (simp_all add: link_ok_def)
  from ok run obtain frames where fs: "list_all (\<lambda>f. good (fr_bytes f)) frames"
      "l_wire s = concat (map fr_bytes frames)"
      "ordered_frames (l_accepted s) = ordered_frames frames @ map fr_bytes (send_queues (l_conn s) 0)"
      "mset frames + queued_frames (l_conn s) \<subseteq># mset (l_accepted s)"
    unfolding link_ok_def by auto
  have qf: "mset (frames @ [f]) + queued_frames m \<subseteq># mset (l_accepted s)"
    using fs(4) take_next_queued_frames[OF t] by simp
  then have qf': "mset frames + queued_frames m \<subseteq># mset (l_accepted s)"
    by (auto intro: subset_mset.order_trans[rotated])
  have qm: "queued_frames (m\<lparr>conn_running := False\<rparr>) = queued_frames m" by (simp add: queued_frames_def)
  note q0 = take_next_queue0[OF cok t] and g = take_next_good[OF t good]
    and ok' = send_step_ok[OF snd_ok r cok]
  have good': "queues_good good c" using c g by (auto simp: queues_good_def)
  from c consider "c = m" "out = fr_bytes f" | "c = m" "out = []" "qos_may_drop (fr_qos f)"
    | "c = m\<lparr>conn_running := False\<rparr>" by blast
  then show ?thesis
  proof cases
    case 1
    with fs q0 g ok' good' qf show ?thesis
      unfolding link_ok_def by (intro conjI exI[of _ "frames @ [f]"] exI[of _ "[]"]) auto
  next
    case 2
    with fs q0 g ok' good' qf' show ?thesis
      unfolding link_ok_def
      by (intro conjI exI[of _ frames] exI[of _ "[]"]) (auto simp: ordered_frames_def)
  next
    case 3
    with fs q0 g ok' good' qf' qm show ?thesis
      unfolding link_ok_def
      by (intro conjI exI[of _ frames] exI[of _ out] exI[of _ "ordered_frames [f]"]) auto
  qed
qed

lemma link_reach_ok: "link_reach good peer limit s \<Longrightarrow> unat limit < 2 ^ 63 \<Longrightarrow> link_ok good s"
proof (induction rule: link_reach.induct)
  case link_start
  then show ?case
    by (auto simp: link_ok_def link_init_def new_connection_ok ordered_frames_def queues_good_def
        intro!: exI[of _ "[]"]) (simp_all add: new_connection_def queued_frames_def)
next
  case (link_next s s')
  from link_next(2) show ?case
  proof (cases rule: link_step.cases)
    case (enqueue_step bs qos key b c)
    with link_ok_enqueue[OF link_next(3)[OF link_next(4)] enqueue_step(2,3,4)] show ?thesis by simp
  next
    case (write_step send lossy_channel alive run c evs out)
    with link_ok_write[OF link_next(3)[OF link_next(4)] write_step(2,3)] show ?thesis by simp
  qed
qed

section \<open>Properties\<close>

text \<open>
  C4. Reliable ordered delivery to the socket. In every state a connection can reach by enqueues from
  any thread and rounds of the send loop with any socket behaviour, while the connection runs the
  bytes the socket took are a sequence of whole frames that clients enqueued. The ReliableOrdered
  frames accepted so far are, in order and without loss, those written followed by those still queued.
  Of every frame, of whatever class, no more copies are written or queued than were accepted, so no
  frame is written twice.
\<close>

theorem ordered_delivery:
  assumes "link_reach good peer limit s" and "unat limit < 2 ^ 63" and "conn_running (l_conn s)"
  shows "\<exists>frames. list_all (\<lambda>f. good (fr_bytes f)) frames \<and> l_wire s = concat (map fr_bytes frames) \<and>
    ordered_frames (l_accepted s) = ordered_frames frames @ map fr_bytes (send_queues (l_conn s) 0) \<and>
    mset frames + queued_frames (l_conn s) \<subseteq># mset (l_accepted s)"
  using link_reach_ok[OF assms(1,2)] assms(3) unfolding link_ok_def by auto

definition sample_queued :: OutboundFrame where
  "sample_queued = \<lparr>fr_bytes = [7, 9], fr_qos = Qos_kReliableOrdered, fr_latest_key = []\<rparr>"

definition sample_link :: link_state where
  "sample_link = \<lparr>l_conn = snd (runtime_enqueue (new_connection sample_peer 8) [7, 9] Qos_kReliableOrdered []),
     l_accepted = [sample_queued], l_wire = []\<rparr>"

lemma sample_enqueue:
  "runtime_enqueue (new_connection sample_peer 8) [7, 9] Qos_kReliableOrdered [] =
     (True, (new_connection sample_peer 8)\<lparr>queued_bytes := 2, send_queues := (\<lambda>_. [])(0 := [sample_queued])\<rparr>)"
  by (simp add: runtime_enqueue_def push_frame_def make_room.simps enqueue_limit_def size_of_def
      new_connection_def sample_queued_def)

lemma sample_link_reach: "link_reach (\<lambda>_. True) sample_peer 8 sample_link"
  using link_next[OF link_start enqueue_step[of "\<lambda>_. True" "[7, 9]" "link_init sample_peer 8"
      Qos_kReliableOrdered "[]"]] sample_enqueue
  by (simp add: sample_link_def link_init_def sample_queued_def)

theorem ordered_delivery_witness:
  "\<exists>frames. list_all (\<lambda>f. True) frames \<and> l_wire sample_link = concat (map fr_bytes frames) \<and>
    [[7, 9]] = ordered_frames frames @ map fr_bytes (send_queues (l_conn sample_link) 0) \<and>
    mset frames + {#sample_queued#} \<subseteq># {#sample_queued#}"
proof -
  have "ordered_frames (l_accepted sample_link) = [[7, 9]]" "mset (l_accepted sample_link) = {#sample_queued#}"
      "queued_frames (l_conn sample_link) = {#sample_queued#}" "conn_running (l_conn sample_link)"
    using sample_enqueue
    by (simp_all add: sample_link_def ordered_frames_def queued_frames_def new_connection_def)
      (simp add: sample_queued_def)
  with ordered_delivery[OF sample_link_reach] show ?thesis by simp
qed

text \<open>
  C14. Writing a frame completes. If the connection stays up, the socket never takes more than it is
  offered, its errors are only the retryable ones and it takes some bytes at least once in every
  \<open>limit\<close> consecutive attempts, then \<open>write_frame_chunks\<close> returns \<open>kComplete\<close> and the socket got
  exactly the frame.
\<close>

theorem write_completes:
  assumes "bs \<noteq> []" and "sender_ok send" and "sender_live send limit"
  shows "wr_status (fst (write_frame_chunks bs send (\<lambda>_. True) limit)) = Write_kComplete \<and>
    snd (write_frame_chunks bs send (\<lambda>_. True) limit) = bs"
  using write_frame_live[OF assms] .

theorem write_completes_witness:
  "snd (write_frame_chunks [1, 2, 3] (\<lambda>i n. if even i then (0, Sock_would_block [])
     else (min 1 (n :: nat), Sock_ok)) (\<lambda>_. True) 2) = [1, 2, 3]"
proof -
  let ?send = "\<lambda>i n. if even i then (0, Sock_would_block []) else (min 1 (n :: nat), Sock_ok)"
  have "\<exists>j < 2. \<forall>n > 0. 0 < fst (?send (i + j) n)" for i :: nat
    by (intro exI[of _ "if even i then 1 else 0"]) auto
  then have "sender_live ?send 2" by (auto simp: sender_live_def)
  moreover have "sender_ok ?send" by (simp add: sender_ok_def)
  ultimately show ?thesis using write_completes[of "[1, 2, 3]" ?send 2] by simp
qed

end
