(* ===== verification/Receive.thy ===== *)
theory Receive
  imports RuntimeTypes SendQueue
begin

text \<open>
  The receiving side of a connection: \<open>pop_frame\<close> and the loop of
  \<open>src/runtime/v2/io/runtime_receive.cpp\<close>, with \<open>peek_frame_header\<close> and
  \<open>recover_receive_overflow\<close> of \<open>src/runtime/v2/runtime_network.cpp\<close>. Bytes arrive in chunks of at
  most 8192 bytes; the buffer collects them and frames are cut off its front. As in \<open>WireCodec\<close>, a
  read outside the buffer would be \<open>None\<close>. The handler called for an envelope does not touch the
  buffer, so a round yields the list of what it emits and hands over, in order.
\<close>

section \<open>Cutting frames off the buffer\<close>

datatype PopResult = Pop_wait | Pop_rejected ErrorCode | Pop_envelope Envelope

function scan_magic :: "bytes \<Rightarrow> nat \<Rightarrow> nat" where
  "scan_magic buffer magic =
     (if magic + 3 < length buffer \<and> \<not> has_magic (drop magic buffer)
      then scan_magic buffer (Suc magic) else magic)"
  by pat_completeness auto
termination by (relation "measure (\<lambda>(buffer, magic). length buffer - magic)") auto

declare scan_magic.simps [simp del]

definition pop_frame :: "nat \<Rightarrow> bytes \<Rightarrow> (PopResult \<times> bytes) option" where
  "pop_frame max_bytes buffer =
     (if length buffer < 4 then Some (Pop_wait, buffer)
      else let magic = scan_magic buffer 0 in
        if magic + 3 \<ge> length buffer then Some (Pop_wait, [])
        else let buffer = drop magic buffer in
          if length buffer < 14 then Some (Pop_wait, buffer)
          else do {
            hlen \<leftarrow> read_u16 buffer 8;
            plen \<leftarrow> read_u32 buffer 10;
            let frame_len = unat hlen + unat plen + kTrailerSize;
            if unat hlen < kFixedHeaderSize \<or> frame_len > max_bytes
            then Some (Pop_rejected Err_kDecodeError, drop 1 buffer)
            else if length buffer < frame_len then Some (Pop_wait, buffer)
            else do {
              decoded \<leftarrow> decode (take frame_len buffer);
              if dr_code decoded \<noteq> Err_kOk
              then Some (Pop_rejected (dr_code decoded), drop frame_len buffer)
              else Some (Pop_envelope (dr_envelope decoded), drop (dr_consumed decoded) buffer) } })"

section \<open>Overflow\<close>

definition peek_frame_header :: "bytes \<Rightarrow> (u16 \<times> u32 \<times> QosClass) option" where
  "peek_frame_header buffer =
     (if length buffer < 15 \<or> \<not> has_magic buffer then None
      else let hlen = le_word (take 2 (drop 8 buffer)); plen = le_word (take 4 (drop 10 buffer));
               qos_value = buffer ! 14 in
        if unat hlen < kFixedHeaderSize \<or> qos_value < qos_code Qos_kReliableOrdered \<or>
           qos_value > qos_code Qos_kBulk
        then None
        else do { qos \<leftarrow> qos_of qos_value; Some (hlen, plen, qos) })"

function recover_receive_overflow :: "bytes \<Rightarrow> nat \<Rightarrow> bool \<times> bytes" where
  "recover_receive_overflow buffer max_bytes =
     (if length buffer > max_bytes then
        case peek_frame_header buffer of
          Some (hlen, plen, qos) \<Rightarrow>
            if \<not> qos_may_drop qos then (False, buffer)
            else recover_receive_overflow
                   (drop (min (length buffer) (unat hlen + unat plen + kTrailerSize)) buffer) max_bytes
        | None \<Rightarrow>
            let magic = scan_magic buffer 1 in
            if magic + 3 \<ge> length buffer then (True, [])
            else recover_receive_overflow (drop magic buffer) max_bytes
      else (True, buffer))"
  by pat_completeness auto

lemma scan_magic_ge: "m \<le> scan_magic buffer m"
proof (induction buffer m rule: scan_magic.induct)
  case (1 buffer m)
  then show ?case by (subst scan_magic.simps) auto
qed

termination recover_receive_overflow
proof (relation "measure (\<lambda>(buffer, max_bytes). length buffer)")
  fix buffer :: bytes and max_bytes :: nat and magic
  assume "max_bytes < length buffer" and "magic = scan_magic buffer 1"
  then show "((drop magic buffer, max_bytes), buffer, max_bytes)
      \<in> measure (\<lambda>(buffer, max_bytes). length buffer)"
    using scan_magic_ge[of 1 buffer] by auto
qed (auto simp: kTrailerSize_def)

declare recover_receive_overflow.simps [simp del]

section \<open>The receive loop\<close>

lemma decode_ok_consumed:
  assumes "decode data = Some r" and "dr_code r = Err_kOk"
  shows "84 \<le> dr_consumed r \<and> dr_consumed r \<le> length data"
  using assms by (rule decode_okE) simp

lemma pop_frame_shrinks:
  assumes "pop_frame max_bytes buffer = Some (r, buffer')" and "r \<noteq> Pop_wait"
  shows "length buffer' < length buffer"
  using assms
  by (auto simp: pop_frame_def Let_def kTrailerSize_def bind_eq_Some_conv
      split: if_splits dest: decode_ok_consumed)

text \<open>The inner \<open>while (true)\<close> of the loop.\<close>

function drain :: "nat \<Rightarrow> bytes \<Rightarrow> (PopResult list \<times> bytes) option" where
  "drain max_bytes buffer = do {
     (r, buffer') \<leftarrow> pop_frame max_bytes buffer;
     if r = Pop_wait then Some ([], buffer')
     else do { (rs, rest) \<leftarrow> drain max_bytes buffer'; Some (r # rs, rest) } }"
  by pat_completeness auto
termination
  by (relation "measure (\<lambda>(max_bytes, buffer). length buffer)") (auto dest: pop_frame_shrinks)

declare drain.simps [simp del]

text \<open>
  What a round yields: an error event with its text, or an envelope for the handler. A round that
  returns \<open>False\<close> leaves the loop, after which the connection is closed.
\<close>

datatype RecvItem = Recv_error ErrorCode string | Recv_envelope Envelope

fun recv_item :: "PopResult \<Rightarrow> RecvItem list" where
  "recv_item Pop_wait = []"
| "recv_item (Pop_rejected code) = [Recv_error code ''wire frame rejected'']"
| "recv_item (Pop_envelope e) = [Recv_envelope e]"

definition receive_chunk :: "nat \<Rightarrow> bytes \<Rightarrow> bytes \<Rightarrow> (RecvItem list \<times> bytes \<times> bool) option" where
  "receive_chunk max_bytes buffer chunk =
     (let buffer = buffer @ chunk in
      if length buffer > max_bytes then
        case recover_receive_overflow buffer max_bytes of
          (True, buffer) \<Rightarrow> do {
            (rs, rest) \<leftarrow> drain max_bytes buffer;
            Some (Recv_error Err_kDecodeError ''receive buffer dropped lossy frames'' #
                    concat (map recv_item rs), rest, True) }
        | (False, buffer) \<Rightarrow>
            Some ([Recv_error Err_kDecodeError ''receive buffer limit exceeded''], buffer, False)
      else do {
        (rs, rest) \<leftarrow> drain max_bytes buffer;
        Some (concat (map recv_item rs), rest, True) })"

fun receive_chunks :: "nat \<Rightarrow> bytes \<Rightarrow> bytes list \<Rightarrow> (RecvItem list \<times> bytes \<times> bool) option" where
  "receive_chunks max_bytes buffer [] = Some ([], buffer, True)"
| "receive_chunks max_bytes buffer (chunk # chunks) = do {
     (items, buffer, go) \<leftarrow> receive_chunk max_bytes buffer chunk;
     if \<not> go then Some (items, buffer, False)
     else do {
       (more, buffer, go) \<leftarrow> receive_chunks max_bytes buffer chunks;
       Some (items @ more, buffer, go) } }"

section \<open>Frames on the buffer\<close>

definition frame_of :: "bytes \<Rightarrow> Envelope \<Rightarrow> bool" where
  "frame_of f e \<longleftrightarrow>
     decode f = Some \<lparr>dr_code = Err_kOk, dr_consumed = length f, dr_envelope = e\<rparr>"

lemma frame_of_encode:
  assumes "encode now e auto \<noteq> []"
  shows "frame_of (encode now e auto)
    ((sent_envelope now e auto)\<lparr>checksum := wire_checksum (frame_body (sent_envelope now e auto))\<rparr>)"
  using decode_encode[OF assms, of "[]"] by (simp add: frame_of_def)

lemma decode_ok_magic: "decode data = Some r \<Longrightarrow> dr_code r = Err_kOk \<Longrightarrow> has_magic data"
  by (auto simp: decode_def decode_error_def split: if_splits)

lemma frame_ofE:
  assumes "frame_of f e"
  obtains "has_magic f" and "84 \<le> length f"
    and "read_u16 f 8 = Some (header_len e)" and "read_u32 f 10 = Some (payload_len e)"
    and "length f = unat (header_len e) + unat (payload_len e) + 4"
    and "80 \<le> unat (header_len e)"
proof -
  let ?r = "\<lparr>dr_code = Err_kOk, dr_consumed = length f, dr_envelope = e\<rparr>"
  from assms have d: "decode f = Some ?r" by (simp add: frame_of_def)
  then have "has_magic f" by (rule decode_ok_magic) simp
  with d show ?thesis by (rule_tac decode_okE[OF d]) (simp_all add: that)
qed

lemma has_magic_prefix: "has_magic (xs @ ys) \<Longrightarrow> 4 \<le> length xs \<Longrightarrow> has_magic xs"
  by (simp add: has_magic_def)

lemma has_magic_append: "has_magic xs \<Longrightarrow> has_magic (xs @ ys)"
  by (simp add: has_magic_def)

lemma scan_magic_0: "has_magic buffer \<Longrightarrow> scan_magic buffer 0 = 0"
  by (subst scan_magic.simps) simp

lemma read_u16_prefix: "i + 2 \<le> length xs \<Longrightarrow> read_u16 (xs @ ys) i = read_u16 xs i"
  by (simp add: read_u16_def span_def)

lemma read_u32_prefix: "i + 4 \<le> length xs \<Longrightarrow> read_u32 (xs @ ys) i = read_u32 xs i"
  by (simp add: read_u32_def span_def)

lemma pop_frame_whole:
  assumes "frame_of f e" and "length f \<le> max_bytes"
  shows "pop_frame max_bytes (f @ rest) = Some (Pop_envelope e, rest)"
  using assms(1)
proof (rule frame_ofE)
  assume f: "has_magic f" "84 \<le> length f" "read_u16 f 8 = Some (header_len e)"
    "read_u32 f 10 = Some (payload_len e)" "length f = unat (header_len e) + unat (payload_len e) + 4"
    "80 \<le> unat (header_len e)"
  from assms(1) have "decode f = Some \<lparr>dr_code = Err_kOk, dr_consumed = length f, dr_envelope = e\<rparr>"
    by (simp add: frame_of_def)
  with f assms(2) show ?thesis
    by (simp add: pop_frame_def scan_magic_0 has_magic_append read_u16_prefix read_u32_prefix
        kTrailerSize_def kFixedHeaderSize_def)
qed

lemma pop_frame_short:
  assumes "frame_of (b @ t) e" and "t \<noteq> []" and "length (b @ t) \<le> max_bytes"
  shows "pop_frame max_bytes b = Some (Pop_wait, b)"
  using assms(1)
proof (rule frame_ofE)
  assume f: "has_magic (b @ t)" "84 \<le> length (b @ t)" "read_u16 (b @ t) 8 = Some (header_len e)"
    "read_u32 (b @ t) 10 = Some (payload_len e)"
    "length (b @ t) = unat (header_len e) + unat (payload_len e) + 4" "80 \<le> unat (header_len e)"
  from assms(2) f(5) have "length b < unat (header_len e) + unat (payload_len e) + 4"
    by (cases t) simp_all
  with f assms(3) show ?thesis
    using has_magic_prefix[of b t] read_u16_prefix[of 8 b t] read_u32_prefix[of 10 b t]
    by (cases "14 \<le> length b")
      (auto simp: pop_frame_def scan_magic_0 kTrailerSize_def kFixedHeaderSize_def Let_def)
qed

text \<open>
  \<open>short b fs\<close>: the buffer \<open>b\<close> holds less than the next frame of the stream.
\<close>

definition short :: "bytes \<Rightarrow> bytes list \<Rightarrow> bool" where
  "short b fs \<longleftrightarrow> (case fs of [] \<Rightarrow> b = [] | f # _ \<Rightarrow> length b < length f)"

lemma drain_stream:
  assumes "list_all2 frame_of fs es" and "\<forall>f \<in> set fs. length f \<le> max_bytes"
    and "b @ rest = concat fs"
  shows "\<exists>k b'. drain max_bytes b = Some (map Pop_envelope (take k es), b') \<and>
    b' @ rest = concat (drop k fs) \<and> short b' (drop k fs)"
  using assms
proof (induction fs es arbitrary: b rule: list_all2_induct)
  case Nil
  then show ?case
    by (intro exI[of _ 0] exI[of _ "[]"]) (simp add: drain.simps[of _ "[]"] pop_frame_def short_def)
next
  case (Cons f fs e es)
  show ?case
  proof (cases "length b < length f")
    case True
    with Cons.prems(2) obtain t where t: "f = b @ t" "t \<noteq> []"
      by (auto simp: append_eq_append_conv2)
    have "pop_frame max_bytes b = Some (Pop_wait, b)"
      using Cons.hyps(1) Cons.prems(1) t by (intro pop_frame_short[of b t e]) auto
    with True Cons.prems(2) show ?thesis
      by (intro exI[of _ 0] exI[of _ b]) (simp add: drain.simps[of _ b] short_def)
  next
    case False
    with Cons.prems(2) obtain b1 where b: "b = f @ b1" and rest: "b1 @ rest = concat fs"
      by (auto simp: append_eq_append_conv2)
    have pop: "pop_frame max_bytes b = Some (Pop_envelope e, b1)"
      unfolding b using Cons.hyps(1) Cons.prems(1) by (intro pop_frame_whole) auto
    from Cons.IH[OF _ rest] Cons.prems(1) obtain k b' where
      "drain max_bytes b1 = Some (map Pop_envelope (take k es), b')"
      "b' @ rest = concat (drop k fs)" "short b' (drop k fs)" by auto
    with pop show ?thesis
      by (intro exI[of _ "Suc k"] exI[of _ b']) (simp add: drain.simps[of _ b])
  qed
qed

lemma recv_envelopes: "concat (map recv_item (map Pop_envelope es)) = map Recv_envelope es"
  by (induction es) simp_all

lemma receive_stream:
  assumes "list_all2 frame_of fs es" and "\<forall>f \<in> set fs. length f + 8192 \<le> max_bytes"
    and "\<forall>c \<in> set chunks. length c \<le> 8192" and "b @ concat chunks = concat fs" and "short b fs"
  shows "receive_chunks max_bytes b chunks = Some (map Recv_envelope es, [], True)"
  using assms
proof (induction chunks arbitrary: b fs es)
  case Nil
  then show ?case by (cases fs) (auto simp: short_def)
next
  case (Cons c cs)
  have "(b @ c) @ concat cs = concat fs" using Cons.prems(4) by simp
  from drain_stream[OF Cons.prems(1) _ this, of max_bytes] Cons.prems(2) obtain k b' where
      d: "drain max_bytes (b @ c) = Some (map Pop_envelope (take k es), b')"
      "b' @ concat cs = concat (drop k fs)" "short b' (drop k fs)" by fastforce
  have "length (b @ c) \<le> max_bytes"
    using Cons.prems by (cases fs) (auto simp: short_def)
  with d(1) have "receive_chunk max_bytes b c = Some (map Recv_envelope (take k es), b', True)"
    by (simp add: receive_chunk_def recv_envelopes del: map_map)
  moreover have "receive_chunks max_bytes b' cs = Some (map Recv_envelope (drop k es), [], True)"
    using Cons.prems d by (intro Cons.IH[of "drop k fs"]) (auto dest: in_set_dropD)
  ultimately show ?case by (simp flip: map_append)
qed

section \<open>The loop is defined on every input\<close>

lemma pop_frame_defined: "\<exists>r b'. pop_frame max_bytes buffer = Some (r, b')"
proof (cases "length buffer < 4 \<or> length buffer \<le> scan_magic buffer 0 + 3 \<or>
    length (drop (scan_magic buffer 0) buffer) < 14")
  case True
  then show ?thesis by (auto simp: pop_frame_def Let_def)
next
  case False
  define b where "b = drop (scan_magic buffer 0) buffer"
  have "14 \<le> length b" using False by (simp add: b_def)
  then obtain h p where hp: "read_u16 b 8 = Some h" "read_u32 b 10 = Some p"
    by (auto simp: read_u16_def read_u32_def span_def)
  obtain d where "decode (take (unat h + unat p + kTrailerSize) b) = Some d"
    using decode_never_undefined by blast
  with False hp show ?thesis by (auto simp: pop_frame_def Let_def b_def[symmetric])
qed

lemma drain_defined: "\<exists>rs b'. drain max_bytes buffer = Some (rs, b')"
proof (induction max_bytes buffer rule: drain.induct)
  case (1 max_bytes buffer)
  obtain r b' where p: "pop_frame max_bytes buffer = Some (r, b')" using pop_frame_defined by blast
  with 1[OF p refl] show ?case by (cases "r = Pop_wait") (auto simp: drain.simps[of _ buffer])
qed

lemma receive_chunk_defined: "\<exists>items b' go. receive_chunk max_bytes buffer chunk = Some (items, b', go)"
proof -
  obtain ok b where "recover_receive_overflow (buffer @ chunk) max_bytes = (ok, b)" by fastforce
  moreover obtain rs c where "drain max_bytes b = Some (rs, c)" using drain_defined by blast
  moreover obtain rs' c' where "drain max_bytes (buffer @ chunk) = Some (rs', c')"
    using drain_defined by blast
  ultimately show ?thesis by (cases ok) (auto simp: receive_chunk_def Let_def)
qed

lemma receive_chunks_defined: "\<exists>r. receive_chunks max_bytes buffer chunks = Some r"
proof (induction chunks arbitrary: buffer)
  case (Cons c cs)
  obtain items b' go where "receive_chunk max_bytes buffer c = Some (items, b', go)"
    using receive_chunk_defined by blast
  with Cons[of b'] show ?case by (cases go) auto
qed (rule exI, rule receive_chunks.simps)

text \<open>What is left waiting is smaller than the limit.\<close>

lemma pop_wait_bound:
  assumes "pop_frame max_bytes buffer = Some (Pop_wait, b')"
  shows "length b' \<le> max max_bytes 13"
  using assms by (auto simp: pop_frame_def Let_def bind_eq_Some_conv split: if_splits)

lemma drain_bound: "drain max_bytes buffer = Some (rs, b') \<Longrightarrow> length b' \<le> max max_bytes 13"
proof (induction max_bytes buffer arbitrary: rs rule: drain.induct)
  case (1 max_bytes buffer)
  from 1(2) obtain r b where p: "pop_frame max_bytes buffer = Some (r, b)"
      and d: "if r = Pop_wait then rs = [] \<and> b' = b
              else \<exists>rs'. drain max_bytes b = Some (rs', b') \<and> rs = r # rs'"
    by (subst (asm) drain.simps) (auto simp: bind_eq_Some_conv split: if_splits)
  show ?case
  proof (cases "r = Pop_wait")
    case True
    with p d pop_wait_bound show ?thesis by auto
  next
    case False
    with 1(1)[OF p refl] d show ?thesis by auto
  qed
qed

text \<open>Recovery cuts the buffer down to the limit or finds a reliable frame at its front.\<close>

lemma recover_facts:
  "recover_receive_overflow buffer max_bytes = (ok, b') \<Longrightarrow>
     suffix b' buffer \<and> (if ok then length b' \<le> max_bytes
       else max_bytes < length b' \<and>
         (\<exists>h p q. peek_frame_header b' = Some (h, p, q) \<and> \<not> qos_may_drop q))"
proof (induction buffer max_bytes rule: recover_receive_overflow.induct)
  case (1 buffer max_bytes)
  show ?case
  proof (cases "max_bytes < length buffer")
    case False
    with 1(3) show ?thesis by (subst (asm) recover_receive_overflow.simps) auto
  next
    case over: True
    show ?thesis
    proof (cases "peek_frame_header buffer")
      case None
      with over 1(3) 1(1)[OF over None refl] show ?thesis
        by (subst (asm) recover_receive_overflow.simps)
          (auto simp: Let_def split: if_splits intro: suffix_drop suffix_order.trans)
    next
      case (Some hpq)
      obtain h p q where hpq: "hpq = (h, p, q)" by (cases hpq)
      with Some over 1(3) 1(2)[OF over Some hpq[symmetric] refl] show ?thesis
        by (subst (asm) recover_receive_overflow.simps)
          (auto split: if_splits intro: suffix_drop suffix_order.trans)
    qed
  qed
qed

section \<open>Stray bytes before a frame\<close>

text \<open>Every envelope that comes out of a buffer has its whole frame in it.\<close>

lemma pop_envelope_fits:
  "pop_frame max_bytes buffer = Some (Pop_envelope e, b') \<Longrightarrow>
     unat (header_len e) + unat (payload_len e) + 4 \<le> length buffer"
  by (auto simp: pop_frame_def Let_def bind_eq_Some_conv split: if_splits elim!: decode_okE)

lemma drain_envelope_fits:
  "drain max_bytes buffer = Some (rs, b') \<Longrightarrow> Pop_envelope e \<in> set rs \<Longrightarrow>
     unat (header_len e) + unat (payload_len e) + 4 \<le> length buffer"
proof (induction max_bytes buffer arbitrary: rs rule: drain.induct)
  case (1 max_bytes buffer)
  from 1(2,3) obtain r b rs' where p: "pop_frame max_bytes buffer = Some (r, b)" "r \<noteq> Pop_wait"
      and d: "drain max_bytes b = Some (rs', b')" "rs = r # rs'"
    by (subst (asm) drain.simps) (auto simp: bind_eq_Some_conv split: if_splits)
  show ?case
  proof (cases "r = Pop_envelope e")
    case True
    with p(1) show ?thesis by (simp add: pop_envelope_fits)
  next
    case False
    with d(2) 1(3) have "Pop_envelope e \<in> set rs'" by simp
    with 1(1)[OF p(1) refl p(2) d(1)] pop_frame_shrinks[OF p] show ?thesis by simp
  qed
qed

lemma receive_envelope_fits:
  assumes "receive_chunk max_bytes buffer chunk = Some (items, b', go)" and "Recv_envelope e \<in> set items"
  shows "unat (header_len e) + unat (payload_len e) + 4 \<le> length (buffer @ chunk)"
proof -
  obtain ok b where rec: "recover_receive_overflow (buffer @ chunk) max_bytes = (ok, b)" by fastforce
  have le: "length b \<le> length (buffer @ chunk)"
    using recover_facts[OF rec] by (auto dest: suffix_length_le)
  have item: "Recv_envelope e \<in> set (recv_item r) \<longleftrightarrow> r = Pop_envelope e" for r by (cases r) auto
  from assms rec have "\<exists>d rs c. d \<in> {b, buffer @ chunk} \<and> drain max_bytes d = Some (rs, c) \<and> Pop_envelope e \<in> set rs"
    by (cases ok) (auto simp: receive_chunk_def Let_def bind_eq_Some_conv item split: if_splits)
  with le show ?thesis by (auto dest: drain_envelope_fits intro: order_trans)
qed

lemma scan_magic_stop: "length buffer \<le> scan_magic buffer m + 3 \<or> has_magic (drop (scan_magic buffer m) buffer)"
proof (induction buffer m rule: scan_magic.induct)
  case (1 buffer m)
  then show ?case by (cases "m + 3 < length buffer \<and> \<not> has_magic (drop m buffer)")
    (auto simp: scan_magic.simps[of buffer m])
qed

lemma stray_no_magic:
  assumes "hd kMagic \<notin> set g" and "k < length g"
  shows "\<not> has_magic (drop k (g @ xs))"
proof -
  have "drop k (g @ xs) = g ! k # drop (Suc k) g @ xs" using assms(2) by (simp add: Cons_nth_drop_Suc)
  moreover have "g ! k \<noteq> hd kMagic" using assms by (metis nth_mem)
  ultimately show ?thesis by (simp add: has_magic_def kMagic_def)
qed

lemma scan_magic_stray_end:
  assumes "hd kMagic \<notin> set g" and "length xs < 4"
  shows "length (g @ xs) \<le> scan_magic (g @ xs) m + 3"
  using scan_magic_stop[of "g @ xs" m] stray_no_magic[OF assms(1), of "scan_magic (g @ xs) m" xs] assms(2)
  by (cases "scan_magic (g @ xs) m < length g") auto

lemma scan_magic_stray:
  assumes "hd kMagic \<notin> set g" and "has_magic xs" and "4 \<le> length xs" and "k \<le> length g"
  shows "scan_magic (g @ xs) k = length g"
  using assms(4)
proof (induction "length g - k" arbitrary: k)
  case 0
  then show ?case using assms(2) by (simp add: scan_magic.simps[of _ k])
next
  case (Suc d)
  then have k: "k < length g" by simp
  with stray_no_magic[OF assms(1) k, of xs] assms(3)
  have "scan_magic (g @ xs) k = scan_magic (g @ xs) (Suc k)" by (simp add: scan_magic.simps[of _ k])
  also have "\<dots> = length g" using Suc k by simp
  finally show ?case .
qed

lemma stray_delivered:
  assumes "frame_of f e" and "hd kMagic \<notin> set g" and "length g + length f \<le> max_bytes"
  shows "receive_chunk max_bytes [] (g @ f) = Some ([Recv_envelope e], [], True)"
proof -
  from assms(1) have f: "has_magic f" "84 \<le> length f" by (auto elim: frame_ofE)
  have "pop_frame max_bytes (g @ f) = pop_frame max_bytes f"
    using f scan_magic_stray[OF assms(2) f(1), of 0] scan_magic_0[OF f(1)] by (simp add: pop_frame_def)
  then have pop: "pop_frame max_bytes (g @ f) = Some (Pop_envelope e, [])"
    using pop_frame_whole[OF assms(1), of max_bytes "[]"] assms(3) by simp
  have "drain max_bytes [] = Some ([], [])" by (simp add: drain.simps[of _ "[]"] pop_frame_def)
  with pop assms(3) show ?thesis by (simp add: receive_chunk_def drain.simps[of _ "g @ f"])
qed

section \<open>Properties\<close>

text \<open>
  C12. In-order delivery independent of segmentation. If the bytes that arrive are the concatenation
  of frames the decoder accepts, each at least 8192 bytes below the buffer limit, then however the
  stream is cut into chunks of at most 8192 bytes the receive loop hands exactly the envelopes of
  those frames to the handler, in order, reports no error and ends with an empty buffer.
\<close>

theorem segmentation_independent:
  assumes "list_all2 frame_of fs es" and "\<forall>f \<in> set fs. length f + 8192 \<le> max_bytes"
    and "\<forall>c \<in> set chunks. length c \<le> 8192" and "concat chunks = concat fs"
  shows "receive_chunks max_bytes [] chunks = Some (map Recv_envelope es, [], True)"
proof (rule receive_stream[OF assms(1,2,3)])
  show "short [] fs"
    using assms(1) by (cases fs) (auto simp: short_def list_all2_Cons1 elim!: frame_ofE)
qed (simp add: assms(4))

definition sample_frame :: bytes where
  "sample_frame = encode 5 sample_envelope True"

definition sample_received :: Envelope where
  "sample_received = (fill_header 5 sample_envelope)
     \<lparr>checksum := wire_checksum (frame_body (fill_header 5 sample_envelope))\<rparr>"

lemma sample_frame_of: "frame_of sample_frame sample_received"
  using frame_of_encode[of 5 sample_envelope True] sample_envelope_accepted
  by (simp add: sample_frame_def sample_received_def sent_envelope_def encode_nonempty_iff)

lemma length_encode:
  "\<not> encode_refuses e \<Longrightarrow> length (encode now e True) = 84 + variable_size e + length (payload e)"
  by (simp add: encode_def Let_def encode_fill_sizes kFixedHeaderSize_def length_frame_body
      fill_header_frame(4))

lemma length_sample_frame: "length sample_frame = 107"
  by (simp add: sample_frame_def length_encode sample_envelope_accepted)
    (simp add: sample_envelope_def variable_size_def empty_envelope_def target_endpoint_def
      target_of_def)

theorem segmentation_independent_witness:
  "receive_chunks 9000 [] [take 50 sample_frame, drop 50 sample_frame @ take 2 sample_frame,
     drop 2 sample_frame] = Some ([Recv_envelope sample_received, Recv_envelope sample_received], [], True)"
  using segmentation_independent[of "[sample_frame, sample_frame]" "[sample_received, sample_received]"
      9000 "[take 50 sample_frame, drop 50 sample_frame @ take 2 sample_frame, drop 2 sample_frame]"]
  by (simp add: sample_frame_of length_sample_frame)

text \<open>
  C13. A round of the receive loop is total, and its buffer bounded. For any buffer and any chunk it
  comes to an end without reading outside the buffer. Either it goes on with at most the configured
  limit of bytes waiting (13, an incomplete frame prefix, when the limit is smaller), or it leaves the
  loop with more than the limit of bytes in the buffer, and then the rest of the buffer starts with the
  header of a frame of class ReliableOrdered or ReliableLatest.
\<close>

theorem receive_total_bounded:
  "(\<exists>items b'. receive_chunk max_bytes buffer chunk = Some (items, b', True) \<and>
      length b' \<le> max max_bytes 13) \<or>
   (\<exists>b' h p q. receive_chunk max_bytes buffer chunk =
      Some ([Recv_error Err_kDecodeError ''receive buffer limit exceeded''], b', False) \<and>
      suffix b' (buffer @ chunk) \<and> max_bytes < length b' \<and>
      peek_frame_header b' = Some (h, p, q) \<and> q \<in> {Qos_kReliableOrdered, Qos_kReliableLatest})"
proof -
  obtain ok b where rec: "recover_receive_overflow (buffer @ chunk) max_bytes = (ok, b)" by fastforce
  obtain rs c where d1: "drain max_bytes b = Some (rs, c)" using drain_defined by blast
  obtain rs' c' where d2: "drain max_bytes (buffer @ chunk) = Some (rs', c')"
    using drain_defined by blast
  have "q \<in> {Qos_kReliableOrdered, Qos_kReliableLatest}" if "\<not> qos_may_drop q" for q
    using that by (cases q) simp_all
  with recover_facts[OF rec] rec d1 d2 drain_bound[OF d1] drain_bound[OF d2] show ?thesis
    by (cases "length (buffer @ chunk) \<le> max_bytes"; cases ok)
      (auto simp: receive_chunk_def Let_def)
qed

lemma split_stray_kept:
  assumes "frame_of f e" and "hd kMagic \<notin> set g" and "length g + length f \<le> max_bytes"
    and "n < 4" and "length g + n < 4"
  shows "receive_chunks max_bytes [] [g @ take n f, drop n f] = Some ([Recv_envelope e], [], True)"
proof -
  have "length f \<ge> 84" using assms(1) by (rule frame_ofE)
  with assms(3-5) have "receive_chunk max_bytes [] (g @ take n f) = Some ([], g @ take n f, True)"
    by (simp add: receive_chunk_def drain.simps[of _ "g @ take n f"] pop_frame_def)
  moreover have "receive_chunk max_bytes (g @ take n f) (drop n f) = Some ([Recv_envelope e], [], True)"
    using stray_delivered[OF assms(1-3)] by (simp add: receive_chunk_def)
  ultimately show ?thesis by simp
qed

lemma split_stray_cleared:
  assumes "frame_of f e" and "hd kMagic \<notin> set g" and "length g + length f \<le> max_bytes"
    and "n < 4" and "4 \<le> length g + n"
  shows "receive_chunk max_bytes [] (g @ take n f) = Some ([], [], True)"
proof -
  have "length f \<ge> 84" using assms(1) by (rule frame_ofE)
  with assms(2,4) have "length (g @ take n f) \<le> scan_magic (g @ take n f) 0 + 3"
    by (intro scan_magic_stray_end) auto
  with assms(3-5) \<open>length f \<ge> 84\<close> show ?thesis
    by (simp add: receive_chunk_def drain.simps[of _ "g @ take n f"] pop_frame_def)
qed

text \<open>
  C40. Resynchronisation depends on segmentation. Let stray bytes \<open>g\<close>, none of them the first byte of
  the magic, come before a frame. When all of it arrives in one chunk the frame is delivered. When the
  stream is cut inside the magic, after its first, second or third byte, and the rest follows, the
  frame is delivered exactly when the first chunk is shorter than four bytes: from four bytes on
  \<open>pop_frame\<close> clears the buffer, and with it the start of the frame.
\<close>

theorem split_magic_lost:
  assumes "frame_of f e" and "hd kMagic \<notin> set g" and "length g + length f \<le> max_bytes"
    and "0 < n" and "n < 4"
  shows "receive_chunk max_bytes [] (g @ f) = Some ([Recv_envelope e], [], True) \<and>
    (\<exists>items rest go. receive_chunks max_bytes [] [g @ take n f, drop n f] = Some (items, rest, go) \<and>
       (Recv_envelope e \<in> set items \<longleftrightarrow> length g + n < 4))"
proof
  show "receive_chunk max_bytes [] (g @ f) = Some ([Recv_envelope e], [], True)"
    using stray_delivered[OF assms(1-3)] .
  show "\<exists>items rest go. receive_chunks max_bytes [] [g @ take n f, drop n f] = Some (items, rest, go) \<and>
      (Recv_envelope e \<in> set items \<longleftrightarrow> length g + n < 4)"
  proof (cases "length g + n < 4")
    case True
    with split_stray_kept[OF assms(1-3,5)] show ?thesis
      by (intro exI[of _ "[Recv_envelope e]"] exI[of _ "[]"] exI[of _ True]) (simp del: receive_chunks.simps)
  next
    case False
    obtain items rest go where r: "receive_chunk max_bytes [] (drop n f) = Some (items, rest, go)"
      using receive_chunk_defined by blast
    have "length f = unat (header_len e) + unat (payload_len e) + 4" using assms(1) by (rule frame_ofE)
    with assms(4) have "Recv_envelope e \<notin> set items"
      using receive_envelope_fits[OF r, of e] by auto
    with False r split_stray_cleared[OF assms(1-3,5)] show ?thesis by (cases go) auto
  qed
qed

theorem split_magic_lost_witness:
  "receive_chunk 9000 [] (0 # sample_frame) = Some ([Recv_envelope sample_received], [], True) \<and>
   (\<exists>items rest go. receive_chunks 9000 [] [0 # take 3 sample_frame, drop 3 sample_frame] =
      Some (items, rest, go) \<and> Recv_envelope sample_received \<notin> set items) \<and>
   (\<exists>items rest go. receive_chunks 9000 [] [0 # take 2 sample_frame, drop 2 sample_frame] =
      Some (items, rest, go) \<and> Recv_envelope sample_received \<in> set items)"
  using split_magic_lost[OF sample_frame_of, of "[0]" 9000 3] split_magic_lost[OF sample_frame_of, of "[0]" 9000 2]
  by (simp add: length_sample_frame kMagic_def byte_of_char_def)

end
