(* ===== verification/Runtime.thy ===== *)
theory Runtime
  imports Session SendLoop Receive
begin

text \<open>
  The facade \<open>Runtime\<close>: \<open>src/runtime/v2/runtime_api.cpp\<close> and the state changes of
  \<open>src/runtime/v2/runtime.cpp\<close>. What the operating system answers (whether the acceptor could be set
  up and on which port, whether a socket could be opened and connected) is an argument. Threads are
  not objects here: what the acceptor, send and receive threads do to the state are steps of their
  own, and the step relation at the end interleaves them with the calls of the application.
\<close>

section \<open>Sending\<close>

definition latest_key :: "Envelope \<Rightarrow> string" where
  "latest_key e = to_string (unat (session_id e)) @ '':'' @ to_string (unat (family_code (family e))) @ '':'' @
     src_entity_uid (source e) @ '':'' @ to_string (unat (scope_code (ts_scope (target e)))) @ '':'' @
     concat (map (\<lambda>uid. uid @ '','') (ts_uids (target e))) @
     '':'' @ tr_profile_id (env_type e) @ '':'' @ to_string (unat (tr_major (env_type e))) @ '':'' @
     to_string (unat (tr_minor (env_type e))) @ '':'' @ tr_type_name (env_type e)"

definition session_supports_profile :: "Impl \<Rightarrow> string \<Rightarrow> u64 \<Rightarrow> string \<Rightarrow> u16 \<Rightarrow> u16 \<Rightarrow> bool" where
  "session_supports_profile impl pid sid profile major minimum_minor =
     (case om_find (sessions impl) (pid, sid) of
        None \<Rightarrow> False | Some s \<Rightarrow> supports_profile s profile major minimum_minor)"

definition runtime_send :: "u64 \<Rightarrow> string \<Rightarrow> Envelope \<Rightarrow> Impl \<Rightarrow> ErrorCode \<times> Impl" where
  "runtime_send now_ms pid e impl =
     (if family e \<noteq> MF_kSession \<and> \<not> is_core (env_type e) \<and>
         \<not> session_supports_profile impl pid (session_id e) (tr_profile_id (env_type e))
             (tr_major (env_type e)) (tr_minor (env_type e))
      then (Err_kUnsupported, impl)
      else case runtime_connection_for_send impl pid (session_id e) (qos_class e) of
        None \<Rightarrow> (Err_kNotFound, impl)
      | Some route \<Rightarrow>
          let bs = encode now_ms e True in
          if bs = [] then (Err_kEncodeError, impl)
          else case om_find (connections impl) route of
            None \<Rightarrow> (Err_kNotFound, impl)
          | Some c \<Rightarrow>
              let (ok, c') = runtime_enqueue c bs (qos_class e)
                    (if qos_class e = Qos_kReliableLatest then latest_key e else [])
              in (if ok then Err_kOk else Err_kRejected,
                  impl\<lparr>connections := om_put route c' (connections impl)\<rparr>))"

definition publish ::
  "u64 \<Rightarrow> string \<Rightarrow> u64 \<Rightarrow> MessageFamily \<Rightarrow> u8 \<Rightarrow> TargetSelector \<Rightarrow> TypeRef \<Rightarrow> bytes \<Rightarrow> u64 \<Rightarrow> u32 \<Rightarrow>
     QosClass \<Rightarrow> string \<Rightarrow> Impl \<Rightarrow> ErrorCode \<times> MessageHandle option \<times> Impl" where
  "publish now_ms pid sid fam op tgt ty data corr ttl qos source_entity impl =
     (let (mid, impl) = take_message_id impl;
          e = empty_envelope\<lparr>family := fam, operation := op, qos_class := qos, session_id := sid,
                message_id := mid, correlation_id := corr,
                source := \<lparr>src_endpoint_uid = endpoint_uid (config impl), src_entity_uid = source_entity\<rparr>,
                target := tgt, env_type := ty, created_at_ms := now_ms, ttl_ms := ttl, payload := data\<rparr>;
          (result, impl) = runtime_send now_ms pid e impl
      in (result,
          if result = Err_kOk
          then Some \<lparr>mh_session_id = sid, mh_message_id = mid, mh_correlation_id = corr\<rparr> else None,
          impl))"

section \<open>Subscriptions and queries\<close>

text \<open>An empty callable is refused with token 0.\<close>

definition subscribe :: "nat option \<Rightarrow> Impl \<Rightarrow> u64 \<times> Impl" where
  "subscribe handler impl = (case handler of
     None \<Rightarrow> (0, impl)
   | Some h \<Rightarrow> let token = next_subscription impl in
       (token, impl\<lparr>next_subscription := token + 1, handlers := om_put token h (handlers impl)\<rparr>))"

definition unsubscribe :: "u64 \<Rightarrow> Impl \<Rightarrow> Impl" where
  "unsubscribe token impl = impl\<lparr>handlers := om_erase token (handlers impl)\<rparr>"

definition session_list :: "Impl \<Rightarrow> SessionInfo list" where
  "session_list impl = map snd (sessions impl)"

definition session_lookup :: "Impl \<Rightarrow> string \<Rightarrow> u64 \<Rightarrow> SessionInfo option" where
  "session_lookup impl pid sid = om_find (sessions impl) (pid, sid)"

definition session_has_lossy_lane :: "Impl \<Rightarrow> string \<Rightarrow> u64 \<Rightarrow> bool" where
  "session_has_lossy_lane impl pid sid =
     (case om_find (sessions impl) (pid, sid) of
        None \<Rightarrow> False
      | Some s \<Rightarrow>
          if session_state s \<noteq> Ses_kActive \<or> lossy_peer_id s = [] then False
          else case om_find (connections impl) (lossy_peer_id s) of
            None \<Rightarrow> False | Some lane \<Rightarrow> conn_running lane)"

section \<open>Life cycle\<close>

definition config_valid :: "RuntimeConfig \<Rightarrow> bool" where
  "config_valid cfg \<longleftrightarrow> valid_uid (endpoint_uid cfg) \<and>
     list_all (\<lambda>d. valid_uid (ed_entity_uid d)) (config_entities cfg) \<and>
     list_all (\<lambda>p. valid_profile_id (pd_profile_id p) \<and> pd_major p \<noteq> 0) (config_profiles cfg)"

text \<open>\<open>acceptor\<close>: the port it listens on, \<open>None\<close> when it could not be set up.\<close>

definition start :: "RuntimeConfig \<Rightarrow> u16 option \<Rightarrow> Impl \<Rightarrow> ErrorCode \<times> Impl" where
  "start cfg acceptor impl =
     (if running impl then (Err_kOk, impl)
      else if \<not> config_valid cfg then (Err_kInvalidArgument, impl)
      else case acceptor of
        None \<Rightarrow> (Err_kInternal, impl\<lparr>config := cfg\<rparr>)
      | Some port \<Rightarrow> (Err_kOk, impl\<lparr>config := cfg, listening_port := port, running := True\<rparr>))"

definition stop :: "Impl \<Rightarrow> Impl" where
  "stop impl =
     (if \<not> running impl then impl
      else impl\<lparr>running := False, connections := [], sessions := [], authority_leases := [],
                listening_port := 0\<rparr>)"

definition reap_closed_connections :: "Impl \<Rightarrow> Impl" where
  "reap_closed_connections impl =
     impl\<lparr>connections := om_erase_if (\<lambda>pid c. \<not> conn_running c) (connections impl)\<rparr>"

text \<open>The acceptor thread with a socket whose remote endpoint is known.\<close>

definition accept_connection :: "string \<Rightarrow> u16 \<Rightarrow> Impl \<Rightarrow> Impl" where
  "accept_connection ip port impl =
     (let peer = \<lparr>peer_id = runtime_peer_id ip port, peer_ip = ip, peer_port = port\<rparr>
      in runtime_emit (link_event peer True)
           (impl\<lparr>connections := om_put (peer_id peer)
              (new_connection peer (max_buffer_bytes_per_peer (config impl))) (connections impl)\<rparr>))"

text \<open>
  A round of the acceptor thread: what \<open>accept\<close> gave, no socket (nothing to accept or an error, after
  which the loop goes on), a socket whose remote endpoint is unknown already, or a connection.
\<close>

datatype AcceptOutcome = Accept_none | Accept_unknown_peer | Accepted string u16

definition accept_round :: "AcceptOutcome \<Rightarrow> Impl \<Rightarrow> Impl" where
  "accept_round outcome impl =
     (if \<not> running impl then impl
      else let impl = reap_closed_connections impl
           in case outcome of
                Accepted ip port \<Rightarrow> accept_connection ip port impl
              | _ \<Rightarrow> impl)"

text \<open>
  \<open>connect_with_timeout\<close> runs two handlers on the context of the socket, each once, in the order in
  which they become ready: that of the connection attempt with its error and that of the timer, whose
  error is set when the first one cancelled it in time. A handler that was ready before it could be
  cancelled still runs, so both orders and all combinations of errors occur. \<open>io.run()\<close> returns when
  no handler is left.
\<close>

datatype ConnectError = CE_none | CE_would_block | CE_timed_out | CE_other

datatype ConnectHandler = H_connect ConnectError | H_timer bool

record ConnectRace =
  race_result :: ConnectError
  race_timed_out :: bool
  race_socket_open :: bool

fun run_handler :: "ConnectHandler \<Rightarrow> ConnectRace \<Rightarrow> ConnectRace" where
  "run_handler (H_connect error) race = race\<lparr>race_result := error\<rparr>"
| "run_handler (H_timer error) race =
     (if \<not> error then race\<lparr>race_timed_out := True, race_socket_open := False\<rparr> else race)"

definition connect_race :: "ConnectHandler list \<Rightarrow> ConnectRace" where
  "connect_race ready = fold run_handler ready
     \<lparr>race_result = CE_would_block, race_timed_out = False, race_socket_open = True\<rparr>"

definition connect_with_timeout :: "ConnectHandler list \<Rightarrow> ConnectError" where
  "connect_with_timeout ready =
     (if race_timed_out (connect_race ready) then CE_timed_out else race_result (connect_race ready))"

definition both_handlers :: "ConnectHandler list \<Rightarrow> bool" where
  "both_handlers ready \<longleftrightarrow> (\<exists>error cancelled.
     ready = [H_connect error, H_timer cancelled] \<or> ready = [H_timer cancelled, H_connect error])"

text \<open>
  The outcome of opening and connecting a socket, as \<open>connect_peer\<close> and \<open>bind_lossy_lane\<close>
  distinguish them; \<open>address_ok\<close> is whether \<open>make_address\<close> parsed the address.
\<close>

datatype ConnectOutcome = Connect_ok | Connect_open_failed | Connect_timed_out | Connect_failed

fun connect_error :: "ConnectOutcome \<Rightarrow> ErrorCode" where
  "connect_error Connect_ok = Err_kOk"
| "connect_error Connect_open_failed = Err_kInternal"
| "connect_error Connect_timed_out = Err_kTimeout"
| "connect_error Connect_failed = Err_kNotFound"

definition connect_peer ::
  "string \<Rightarrow> u16 \<Rightarrow> bool \<Rightarrow> ConnectOutcome \<Rightarrow> Impl \<Rightarrow> ErrorCode \<times> Peer option \<times> Impl" where
  "connect_peer ip port address_ok outcome impl =
     (if \<not> running impl then (Err_kRejected, None, impl)
      else if \<not> address_ok \<or> port = 0 then (Err_kInvalidArgument, None, impl)
      else let pid = runtime_peer_id ip port;
               fresh = (\<lambda>impl. if outcome \<noteq> Connect_ok then (connect_error outcome, None, impl)
                 else let peer = \<lparr>peer_id = pid, peer_ip = ip, peer_port = port\<rparr> in
                   (Err_kOk, Some peer, runtime_emit (link_event peer True)
                      (impl\<lparr>connections := om_put pid
                         (new_connection peer (max_buffer_bytes_per_peer (config impl))) (connections impl)\<rparr>)))
           in case om_find (connections impl) pid of
                None \<Rightarrow> fresh impl
              | Some c \<Rightarrow>
                  if conn_running c then (Err_kOk, Some (conn_peer c), impl)
                  else fresh (impl\<lparr>connections := om_erase pid (connections impl)\<rparr>))"

text \<open>Opening the socket and connecting it, as both callers do it before they look at the error.\<close>

definition socket_connect :: "bool \<Rightarrow> ConnectHandler list \<Rightarrow> ConnectOutcome" where
  "socket_connect open_ok ready =
     (if \<not> open_ok then Connect_open_failed
      else case connect_with_timeout ready of
        CE_none \<Rightarrow> Connect_ok
      | CE_timed_out \<Rightarrow> Connect_timed_out
      | _ \<Rightarrow> Connect_failed)"

text \<open>
  Whatever the order of the two handlers, a socket that is reported connected was connected without
  an error and was not closed by the timer; a timer that fired decides.
\<close>

lemma socket_connect_ok:
  assumes "both_handlers ready"
  shows "socket_connect open_ok ready = Connect_ok \<longleftrightarrow>
    open_ok \<and> H_connect CE_none \<in> set ready \<and> race_socket_open (connect_race ready)"
  using assms
  by (auto simp: both_handlers_def socket_connect_def connect_with_timeout_def connect_race_def
      split: ConnectError.splits if_splits)

lemma socket_connect_timer:
  assumes "both_handlers ready" and "H_timer False \<in> set ready"
  shows "socket_connect open_ok ready = (if open_ok then Connect_timed_out else Connect_open_failed)"
  using assms
  by (auto simp: both_handlers_def socket_connect_def connect_with_timeout_def connect_race_def)

text \<open>
  \<open>close_peer\<close>: the connection leaves the table, the lanes of its sessions are forgotten and, when
  there was one, the lane's connection is closed the same way. The receive threads that
  \<open>close_connection\<close> joins end with the step \<open>receive_loop_end\<close>.
\<close>

definition closing_lane :: "string \<Rightarrow> Impl \<Rightarrow> string" where
  "closing_lane pid impl = fold (\<lambda>(key, s) lane.
     if fst key = pid \<and> lossy_peer_id s \<noteq> [] then lossy_peer_id s else lane) (sessions impl) []"

definition detach_peer :: "string \<Rightarrow> Impl \<Rightarrow> Impl" where
  "detach_peer pid impl =
     (let lane = closing_lane pid impl;
          impl = impl\<lparr>connections := om_erase pid (connections impl),
            sessions := map (\<lambda>(key, s). (key, if fst key = pid then s\<lparr>lossy_peer_id := []\<rparr> else s))
              (sessions impl)\<rparr>;
          impl = (case lane_owner impl pid of
            None \<Rightarrow> impl
          | Some key \<Rightarrow>
              (case om_find (sessions impl) key of
                 Some s \<Rightarrow> if lossy_peer_id s = pid
                   then impl\<lparr>sessions := om_put key (s\<lparr>lossy_peer_id := []\<rparr>) (sessions impl)\<rparr> else impl
               | None \<Rightarrow> impl)\<lparr>lane_owner := (lane_owner impl)(pid := None)\<rparr>)
      in if lane \<noteq> [] then impl\<lparr>lane_owner := (lane_owner impl)(lane := None)\<rparr> else impl)"

lemma detach_connections: "connections (detach_peer pid impl) = om_erase pid (connections impl)"
  by (auto simp: detach_peer_def Let_def split: option.splits)

lemma erase_found_shorter:
  "om_find m k = Some v \<Longrightarrow> length (om_erase k m) < length m"
proof -
  assume "om_find m k = Some v"
  then have "(k, v) \<in> set m" by (rule om_find_in_set)
  then show ?thesis unfolding om_erase_def by (intro length_filter_less[of "(k, v)"]) simp_all
qed

function close_peer :: "string \<Rightarrow> Impl \<Rightarrow> Impl" where
  "close_peer pid impl =
     (if om_find (connections impl) pid = None then impl
      else let lane = closing_lane pid impl; impl' = detach_peer pid impl
           in if lane \<noteq> [] \<and> lane \<noteq> pid then close_peer lane impl' else impl')"
  by pat_completeness auto
termination
  by (relation "measure (\<lambda>(pid, impl). length (connections impl))")
    (auto simp: detach_connections intro: erase_found_shorter)

declare close_peer.simps [simp del]

section \<open>Threads\<close>

text \<open>A received item: an event, or an envelope for the handler.\<close>

fun handle_item :: "u64 \<Rightarrow> int \<Rightarrow> Peer \<Rightarrow> RecvItem \<Rightarrow> Impl \<Rightarrow> Impl" where
  "handle_item now_ms steady peer (Recv_error code message) impl =
     runtime_emit (error_event peer empty_envelope code message) impl"
| "handle_item now_ms steady peer (Recv_envelope e) impl = runtime_handle_envelope now_ms steady peer e impl"

text \<open>
  What \<open>read_some\<close> gives: bytes, nothing yet (\<open>would_block\<close>, \<open>try_again\<close>), one of the errors of
  \<open>socket_closed\<close>, or another error with its message.
\<close>

datatype ReadOutcome = Read_bytes bytes | Read_would_block | Read_closed | Read_failed string

text \<open>
  One round of the receive thread of a connection. The buffer is stored before the items are handled
  (no handler looks at it); a round that leaves the loop runs its end. \<open>None\<close> of \<open>receive_chunk\<close>
  does not occur.
\<close>

definition receive_round :: "u64 \<Rightarrow> int \<Rightarrow> string \<Rightarrow> ReadOutcome \<Rightarrow> Impl \<Rightarrow> Impl" where
  "receive_round now_ms steady pid outcome impl =
     (case om_find (connections impl) pid of
        None \<Rightarrow> impl
      | Some c \<Rightarrow>
          if \<not> running impl \<or> \<not> conn_running c then receive_loop_end True (conn_peer c) impl
          else case outcome of
            Read_would_block \<Rightarrow> impl
          | Read_closed \<Rightarrow> receive_loop_end True (conn_peer c) impl
          | Read_failed message \<Rightarrow> receive_loop_end True (conn_peer c)
              (runtime_emit (error_event (conn_peer c) empty_envelope Err_kInternal message) impl)
          | Read_bytes chunk \<Rightarrow>
              (case receive_chunk (unat (max_buffer_bytes_per_peer (config impl))) (receive_buffer c) chunk of
                 None \<Rightarrow> impl
               | Some (items, buffer, go) \<Rightarrow>
                   let impl = impl\<lparr>connections := om_put pid (c\<lparr>receive_buffer := buffer\<rparr>) (connections impl)\<rparr>;
                       impl = fold (handle_item now_ms steady (conn_peer c)) items impl
                   in if go then impl else receive_loop_end True (conn_peer c) impl))"

text \<open>One round of the send thread of a connection.\<close>

definition send_round :: "string \<Rightarrow> (nat \<Rightarrow> bool) \<Rightarrow> chunk_sender \<Rightarrow> (nat \<Rightarrow> bool) \<Rightarrow> Impl \<Rightarrow> Impl" where
  "send_round pid alive send run impl =
     (case om_find (connections impl) pid of
        None \<Rightarrow> impl
      | Some c \<Rightarrow>
          let (c', evs, out) = send_step (runtime_is_lane_peer impl (peer_id (conn_peer c))) alive send run c
          in fold runtime_emit evs (impl\<lparr>connections := om_put pid c' (connections impl)\<rparr>))"

text \<open>
  \<open>bind_lossy_lane\<close> up to the wait for the reply: the lane's connection is put into the tables and
  gets the LaneBind message. The wait polls the session until its lane is set and otherwise closes
  the lane; it changes nothing else.
\<close>

definition lane_bind_envelope :: "Impl \<Rightarrow> u64 \<Rightarrow> u64 \<Rightarrow> u64 \<Rightarrow> Envelope" where
  "lane_bind_envelope impl now_ms mid sid =
     session_envelope impl now_ms mid sid SOp_kLaneBind ''session.lane_bind''
       (encode_text (shared_secret (config impl))) 0"

definition bind_lossy_lane ::
  "u64 \<Rightarrow> string \<Rightarrow> u64 \<Rightarrow> bool \<Rightarrow> ConnectOutcome \<Rightarrow> Impl \<Rightarrow> ErrorCode \<times> Impl" where
  "bind_lossy_lane now_ms pid sid address_ok outcome impl =
     (if \<not> running impl \<or> sid = 0 then (Err_kInvalidArgument, impl)
      else case session_lookup impl pid sid of
        None \<Rightarrow> (Err_kNotFound, impl)
      | Some info \<Rightarrow>
          if session_state info \<noteq> Ses_kActive then (Err_kNotFound, impl)
          else if lossy_peer_id info \<noteq> [] then (Err_kOk, impl)
          else case om_find (connections impl) pid of
            None \<Rightarrow> (Err_kNotFound, impl)
          | Some control \<Rightarrow>
              let lane = pid @ ''#lossy'' in
              if \<not> address_ok \<or> peer_port (conn_peer control) = 0 then (Err_kInvalidArgument, impl)
              else if outcome \<noteq> Connect_ok then (connect_error outcome, impl)
              else let peer = (conn_peer control)\<lparr>peer_id := lane\<rparr>;
                       c = new_connection peer (max_buffer_bytes_per_peer (config impl));
                       (mid, impl) = take_message_id impl;
                       (ok, c') = runtime_enqueue c (encode now_ms (lane_bind_envelope impl now_ms mid sid) True)
                                    Qos_kReliableOrdered [];
                       impl = impl\<lparr>connections := om_put lane c' (connections impl),
                                   lane_owner := (lane_owner impl)(lane \<mapsto> (pid, sid))\<rparr>
                   in if ok then (Err_kOk, impl) else (Err_kRejected, close_peer lane impl))"

definition bind_lossy_lane_timeout :: "string \<Rightarrow> u64 \<Rightarrow> Impl \<Rightarrow> ErrorCode \<times> Impl" where
  "bind_lossy_lane_timeout pid sid impl =
     (case session_lookup impl pid sid of
        Some s \<Rightarrow> if lossy_peer_id s \<noteq> [] then (Err_kOk, impl)
                  else (Err_kTimeout, close_peer (pid @ ''#lossy'') impl)
      | None \<Rightarrow> (Err_kTimeout, close_peer (pid @ ''#lossy'') impl))"

text \<open>
  The loop itself: 200 attempts, between which the other threads change the state (\<open>others\<close>).
  \<open>bind_lossy_lane_call\<close> is the whole call; when the session has its lane already the first attempt
  finds it.
\<close>

fun bind_lane_wait :: "nat \<Rightarrow> (nat \<Rightarrow> Impl \<Rightarrow> Impl) \<Rightarrow> string \<Rightarrow> u64 \<Rightarrow> Impl \<Rightarrow> ErrorCode \<times> Impl" where
  "bind_lane_wait 0 others pid sid impl = (Err_kTimeout, close_peer (pid @ ''#lossy'') impl)"
| "bind_lane_wait (Suc left) others pid sid impl =
     (case session_lookup impl pid sid of
        Some s \<Rightarrow> if lossy_peer_id s \<noteq> [] then (Err_kOk, impl)
                  else bind_lane_wait left others pid sid (others left impl)
      | None \<Rightarrow> bind_lane_wait left others pid sid (others left impl))"

definition bind_lossy_lane_call :: "u64 \<Rightarrow> string \<Rightarrow> u64 \<Rightarrow> bool \<Rightarrow> ConnectOutcome \<Rightarrow>
    (nat \<Rightarrow> Impl \<Rightarrow> Impl) \<Rightarrow> Impl \<Rightarrow> ErrorCode \<times> Impl" where
  "bind_lossy_lane_call now_ms pid sid address_ok outcome others impl =
     (let (code, impl) = bind_lossy_lane now_ms pid sid address_ok outcome impl
      in if code \<noteq> Err_kOk then (code, impl) else bind_lane_wait 200 others pid sid impl)"

section \<open>Steps of a runtime\<close>

inductive runtime_step :: "Impl \<Rightarrow> Impl \<Rightarrow> bool" where
  do_start: "unat (max_buffer_bytes_per_peer cfg) < 2 ^ 63 \<Longrightarrow>
     runtime_step impl (snd (start cfg acceptor impl))"
| do_stop: "runtime_step impl (stop impl)"
| do_reap: "runtime_step impl (reap_closed_connections impl)"
| do_accept: "runtime_step impl (accept_connection ip port impl)"
| do_connect: "runtime_step impl (snd (snd (connect_peer ip port address_ok outcome impl)))"
| do_close: "runtime_step impl (close_peer pid impl)"
| do_open: "runtime_step impl (snd (open_session now_ms pid impl))"
| do_bind: "runtime_step impl (snd (bind_lossy_lane now_ms pid sid address_ok outcome impl))"
| do_bind_timeout: "runtime_step impl (snd (bind_lossy_lane_timeout pid sid impl))"
| do_set_entities: "runtime_step impl (snd (set_entities es impl))"
| do_send: "runtime_step impl (snd (runtime_send now_ms pid e impl))"
| do_publish: "runtime_step impl
     (snd (snd (publish now_ms pid sid fam op tgt ty data corr ttl qos source_entity impl)))"
| do_subscribe: "runtime_step impl (snd (subscribe h impl))"
| do_unsubscribe: "runtime_step impl (unsubscribe token impl)"
| do_revoke: "runtime_step impl (runtime_revoke_authority pid sid uids impl)"
| do_receive: "runtime_step impl (receive_round now_ms steady pid outcome impl)"
| do_receive_end: "runtime_step impl (receive_loop_end listed peer impl)"
| do_write: "sender_ok send \<Longrightarrow> runtime_step impl (send_round pid alive send run impl)"

inductive runtime_reach :: "RuntimeConfig \<Rightarrow> Impl \<Rightarrow> bool" for cfg where
  reach_init: "runtime_reach cfg (impl_init cfg)"
| reach_step: "runtime_reach cfg impl \<Longrightarrow> runtime_step impl impl' \<Longrightarrow> runtime_reach cfg impl'"

end
