(* ===== verification/RuntimeInvariant.thy ===== *)
theory RuntimeInvariant
  imports Runtime
begin

text \<open>
  The invariant of \<open>Runtime::Impl\<close>: every operation of the facade, every handler and every round of
  the threads keeps it, so it holds in all states reachable by the step relation of theory \<open>Runtime\<close>.
  The properties of routing, sending and closing follow.
\<close>

section \<open>The invariant of a runtime\<close>

definition sess_ok :: "(session_key, SessionInfo) omap \<Rightarrow> bool" where
  "sess_ok m \<longleftrightarrow> omap_ok m \<and> (\<forall>(k, s) \<in> set m. k = (si_peer_id s, si_session_id s))"

definition conns_ok :: "(string, RuntimeConnection) omap \<Rightarrow> bool" where
  "conns_ok m \<longleftrightarrow> omap_ok m \<and> (\<forall>(k, c) \<in> set m. conn_ok c)"

definition runtime_ok :: "Impl \<Rightarrow> bool" where
  "runtime_ok impl \<longleftrightarrow> sess_ok (sessions impl) \<and> leases_ok impl \<and> conns_ok (connections impl) \<and>
     unat (max_buffer_bytes_per_peer (config impl)) < 2 ^ 63"

lemma runtime_ok_other [simp]:
  "runtime_ok (impl\<lparr>next_message_id := a\<rparr>) = runtime_ok impl"
  "runtime_ok (impl\<lparr>next_session_id := b\<rparr>) = runtime_ok impl"
  "runtime_ok (impl\<lparr>lane_owner := c\<rparr>) = runtime_ok impl"
  "runtime_ok (impl\<lparr>next_subscription := d\<rparr>) = runtime_ok impl"
  "runtime_ok (impl\<lparr>handlers := f\<rparr>) = runtime_ok impl"
  "runtime_ok (impl\<lparr>emitted := g\<rparr>) = runtime_ok impl"
  "runtime_ok (impl\<lparr>running := h\<rparr>) = runtime_ok impl"
  "runtime_ok (impl\<lparr>listening_port := i\<rparr>) = runtime_ok impl"
  by (simp_all add: runtime_ok_def leases_ok_def)

lemma runtime_ok_sessions: "runtime_ok impl \<Longrightarrow> sess_ok m \<Longrightarrow> runtime_ok (impl\<lparr>sessions := m\<rparr>)"
  by (simp add: runtime_ok_def leases_ok_def)

lemma runtime_ok_connections: "runtime_ok impl \<Longrightarrow> conns_ok m \<Longrightarrow> runtime_ok (impl\<lparr>connections := m\<rparr>)"
  by (simp add: runtime_ok_def leases_ok_def)

lemma runtime_ok_leases: "runtime_ok impl \<Longrightarrow> omap_ok m \<Longrightarrow> runtime_ok (impl\<lparr>authority_leases := m\<rparr>)"
  by (simp add: runtime_ok_def leases_ok_def)

lemma sess_ok_put: "sess_ok m \<Longrightarrow> k = (si_peer_id s, si_session_id s) \<Longrightarrow> sess_ok (om_put k s m)"
  unfolding sess_ok_def using set_om_put_subset[of k s m] by (fastforce intro: omap_ok_put)

lemma sess_ok_erase_if: "sess_ok m \<Longrightarrow> sess_ok (om_erase_if P m)"
  unfolding sess_ok_def by (auto simp: om_erase_if_def intro: omap_ok_filter)

lemma sess_ok_find: "sess_ok m \<Longrightarrow> om_find m k = Some s \<Longrightarrow> k = (si_peer_id s, si_session_id s)"
  unfolding sess_ok_def by (auto dest: om_find_in_set)

lemma conns_ok_put: "conns_ok m \<Longrightarrow> conn_ok c \<Longrightarrow> conns_ok (om_put k c m)"
  unfolding conns_ok_def using set_om_put_subset[of k c m] by (fastforce intro: omap_ok_put)

lemma conns_ok_filter: "conns_ok m \<Longrightarrow> conns_ok (filter P m)"
  unfolding conns_ok_def by (auto intro: omap_ok_filter)

lemma conns_ok_find: "conns_ok m \<Longrightarrow> om_find m k = Some c \<Longrightarrow> conn_ok c"
  unfolding conns_ok_def by (auto dest: om_find_in_set)

lemma runtime_ok_conn: "runtime_ok impl \<Longrightarrow> om_find (connections impl) pid = Some c \<Longrightarrow> conn_ok c"
  by (auto simp: runtime_ok_def dest: conns_ok_find)

lemma runtime_ok_put_conn:
  "runtime_ok impl \<Longrightarrow> conn_ok c \<Longrightarrow> runtime_ok (impl\<lparr>connections := om_put pid c (connections impl)\<rparr>)"
  by (rule runtime_ok_connections) (simp_all add: runtime_ok_def conns_ok_put)

lemma runtime_ok_put_session:
  "runtime_ok impl \<Longrightarrow> k = (si_peer_id s, si_session_id s) \<Longrightarrow>
     runtime_ok (impl\<lparr>sessions := om_put k s (sessions impl)\<rparr>)"
  by (rule runtime_ok_sessions) (simp_all add: runtime_ok_def sess_ok_put)

lemma runtime_ok_init: "unat (max_buffer_bytes_per_peer cfg) < 2 ^ 63 \<Longrightarrow> runtime_ok (impl_init cfg)"
  by (simp add: runtime_ok_def impl_init_def sess_ok_def conns_ok_def leases_ok_def)

lemma runtime_ok_new_connection:
  "runtime_ok impl \<Longrightarrow> conn_ok (new_connection peer (max_buffer_bytes_per_peer (config impl)))"
  by (simp add: runtime_ok_def new_connection_ok)

lemma runtime_emit_ok: "runtime_ok (runtime_emit ev impl) = runtime_ok impl"
  by (simp add: runtime_emit_def)

lemma emit_session_ok: "runtime_ok (emit_session peer s impl) = runtime_ok impl"
  by (simp add: emit_session_def runtime_emit_ok)

lemma length_encode_bound: "length (encode now_ms e True) < 2 ^ 64"
proof (cases "encode_refuses e")
  case False
  with not_refused_bounds(8,9)[OF False] show ?thesis
    by (simp add: length_encode kMaxPayloadBytes_def)
qed (simp add: encode_def)

lemma write_to_peer_ok: "runtime_ok impl \<Longrightarrow> runtime_ok (write_to_peer now_ms pid e impl)"
  by (auto simp: write_to_peer_def length_encode_bound[simplified] split: option.splits
      intro!: runtime_ok_put_conn control.put_usable dest: runtime_ok_conn)

lemma take_message_id_ok: "take_message_id impl = (mid, impl') \<Longrightarrow> runtime_ok impl' = runtime_ok impl"
  by (auto simp: take_message_id_def)

lemma send_session_ok: "runtime_ok impl \<Longrightarrow> runtime_ok (send_session now_ms pid sid op ty data corr impl)"
  by (auto simp: send_session_def take_message_id_ok intro!: write_to_peer_ok split: prod.splits)

lemma send_status_ok: "runtime_ok impl \<Longrightarrow> runtime_ok (send_status now_ms peer q st impl)"
  by (auto simp: send_status_def take_message_id_ok Let_def intro!: write_to_peer_ok split: prod.splits)

lemma handle_authority_runtime_ok:
  "runtime_ok impl \<Longrightarrow> runtime_ok (snd (runtime_handle_authority now_ms t peer e impl))"
  by (auto simp: runtime_handle_authority_def Let_def split: option.splits prod.splits
      intro!: send_status_ok runtime_ok_leases)
    (metis apply_authority_ok leases_ok_def runtime_ok_def snd_conv)+

lemma runtime_ok_ids: "runtime_ok impl \<Longrightarrow> entry_ids_ok impl"
  unfolding entry_ids_ok_def runtime_ok_def by (auto dest: sess_ok_find)

section \<open>Every operation keeps it\<close>

text \<open>
  For the handler of session messages the table is known (\<open>handle_session_sessions\<close>); what is left is
  that it leaves leases alone and only writes to connections.
\<close>

lemma runtime_ok_iff:
  "runtime_ok impl \<longleftrightarrow> sess_ok (sessions impl) \<and> runtime_ok (impl\<lparr>sessions := []\<rparr>)"
  by (auto simp: runtime_ok_def leases_ok_def sess_ok_def)

lemma sessions_irrelevant:
  "runtime_ok (impl\<lparr>sessions := m\<rparr>) \<Longrightarrow> sess_ok m' \<Longrightarrow> runtime_ok (impl\<lparr>sessions := m'\<rparr>)"
  by (simp add: runtime_ok_def leases_ok_def)

lemma handle_session_connections:
  "conns_ok (connections impl) \<Longrightarrow> conns_ok (connections (handle_session_envelope now_ms peer e impl))"
proof -
  assume c: "conns_ok (connections impl)"
  have w: "conns_ok (connections (write_to_peer n pid e i))" if "conns_ok (connections i)" for n pid e i
    using that conns_ok_find[OF that]
    by (auto simp: write_to_peer_def length_encode_bound[simplified] split: option.splits
        intro!: conns_ok_put control.put_usable)
  have s: "conns_ok (connections (send_session n pid sid op ty data corr i))"
    if "conns_ok (connections i)" for n pid sid op ty data corr i
    using that by (auto simp: send_session_def take_message_id_def intro!: w)
  show ?thesis
    using c by (auto simp: handle_session_envelope_def Let_def frame_simps intro!: s split: prod.splits)
qed

lemma handle_session_ok: "runtime_ok impl \<Longrightarrow> runtime_ok (handle_session_envelope now_ms peer e impl)"
proof -
  assume ok: "runtime_ok impl"
  have "sess_ok (sessions (handle_session_envelope now_ms peer e impl))"
    unfolding handle_session_sessions using ok
    by (intro sess_ok_put) (simp_all add: runtime_ok_def session_entry_def)
  with ok handle_session_connections[of impl now_ms peer e] show ?thesis
    by (simp add: runtime_ok_def leases_ok_def frame_simps)
qed

lemma handle_lane_ok:
  "runtime_ok impl \<Longrightarrow> runtime_ok (snd (handle_lane_bind now_ms peer e impl))"
  "runtime_ok impl \<Longrightarrow> runtime_ok (snd (handle_lane_ready peer e impl))"
proof -
  assume ok: "runtime_ok impl"
  have "runtime_ok (impl\<lparr>sessions := om_put k (s\<lparr>lossy_peer_id := l\<rparr>) (sessions impl), lane_owner := f\<rparr>)"
    if "List.find P (sessions impl) = Some (k, s)" for k s l f P
  proof -
    have "(k, s) \<in> set (sessions impl)" using that by (auto simp: find_Some_iff)
    with ok have "k = (si_peer_id s, si_session_id s)" by (auto simp: runtime_ok_def sess_ok_def)
    with ok show ?thesis by (simp add: runtime_ok_put_session)
  qed
  then show "runtime_ok (snd (handle_lane_bind now_ms peer e impl))"
    using ok by (auto simp: handle_lane_bind_def Let_def intro!: send_session_ok split: option.splits)
  show "runtime_ok (snd (handle_lane_ready peer e impl))"
    using ok sess_ok_find[of "sessions impl"]
    by (auto simp: handle_lane_ready_def runtime_ok_def split: option.splits
        intro!: runtime_ok_put_session[unfolded runtime_ok_def, THEN conjunct1])
      (auto simp: leases_ok_def intro!: sess_ok_put)
qed

lemma handle_application_ok:
  "runtime_ok impl \<Longrightarrow> runtime_ok (handle_application_envelope now_ms t peer logical e impl)"
proof -
  assume ok: "runtime_ok impl"
  obtain b impl' where h: "runtime_handle_authority now_ms t peer e impl = (b, impl')" by fastforce
  with handle_authority_runtime_ok[OF ok, of now_ms t peer e] have "runtime_ok impl'" by simp
  with ok h show ?thesis
    by (cases b) (auto simp: handle_application_envelope_def Let_def runtime_emit_ok split: sum.splits)
qed

lemma handle_envelope_ok: "runtime_ok impl \<Longrightarrow> runtime_ok (runtime_handle_envelope now_ms t peer e impl)"
  by (simp add: runtime_handle_envelope_def handle_session_ok handle_lane_ok handle_application_ok)

lemma stop_connection_ok: "runtime_ok impl \<Longrightarrow> runtime_ok (stop_connection pid impl)"
  by (auto simp: stop_connection_def not_running_conn_ok split: option.splits
      intro!: runtime_ok_put_conn dest: runtime_ok_conn)

lemma drop_peer_ok: "runtime_ok impl \<Longrightarrow> runtime_ok (runtime_drop_peer_state peer impl)"
proof (cases "lane_owner impl (peer_id peer)")
  case None
  assume ok: "runtime_ok impl"
  have emit: "runtime_ok (fold (emit_session peer) ss i) = runtime_ok i" for ss i
    by (induction ss arbitrary: i) (simp_all add: emit_session_ok)
  have "runtime_ok (impl\<lparr>sessions := om_erase_if P (sessions impl),
      authority_leases := om_erase_if Q (authority_leases impl)\<rparr>)"
    "runtime_ok (impl\<lparr>lane_owner := f, sessions := om_erase_if P (sessions impl),
      authority_leases := om_erase_if Q (authority_leases impl)\<rparr>)" for f P Q
    using ok by (auto simp: runtime_ok_def leases_ok_def sess_ok_erase_if intro: omap_ok_erase_if)
  with None show ?thesis
    by (simp add: runtime_drop_peer_state_def Let_def emit stop_connection_ok)
next
  case (Some key)
  assume ok: "runtime_ok impl"
  with Some sess_ok_find[of "sessions impl" key] show ?thesis
    by (auto simp: runtime_drop_peer_state_def Let_def split: option.splits
        intro!: runtime_ok_sessions sess_ok_put) (auto simp: runtime_ok_def)
qed

lemma receive_loop_end_ok: "runtime_ok impl \<Longrightarrow> runtime_ok (receive_loop_end listed peer impl)"
  by (simp add: receive_loop_end_def runtime_emit_ok drop_peer_ok stop_connection_ok)

lemma handle_items_ok: "runtime_ok impl \<Longrightarrow> runtime_ok (fold (handle_item now_ms t peer) items impl)"
proof (induction items arbitrary: impl)
  case (Cons item items)
  then show ?case by (cases item) (simp_all add: runtime_emit_ok handle_envelope_ok)
qed simp

lemma receive_buffer_conn_ok: "conn_ok (c\<lparr>receive_buffer := b\<rparr>) = conn_ok c"
  by (simp add: conn_ok_def counts_def backlog_def lossy_bytes_def limit_of_def frames_ok_def
      latest_keys_def)

lemma receive_round_ok: "runtime_ok impl \<Longrightarrow> runtime_ok (receive_round now_ms t pid r impl)"
  by (auto simp: receive_round_def Let_def receive_buffer_conn_ok runtime_emit_ok
      split: option.splits ReadOutcome.splits
      intro!: handle_items_ok receive_loop_end_ok runtime_ok_put_conn dest: runtime_ok_conn)

lemma emit_events_ok: "runtime_ok (fold runtime_emit evs impl) = runtime_ok impl"
  by (induction evs arbitrary: impl) (simp_all add: runtime_emit_ok)

lemma send_round_ok: "sender_ok send \<Longrightarrow> runtime_ok impl \<Longrightarrow> runtime_ok (send_round pid alive send run impl)"
  by (auto simp: send_round_def Let_def emit_events_ok split: option.splits prod.splits
      intro!: runtime_ok_put_conn dest: send_step_ok runtime_ok_conn)

lemma runtime_send_ok: "runtime_ok impl \<Longrightarrow> runtime_ok (snd (runtime_send now_ms pid e impl))"
proof -
  assume ok: "runtime_ok impl"
  have "conn_ok (snd (runtime_enqueue c (encode now_ms e True) qos key))"
    if "om_find (connections impl) route = Some c" for route c qos key
    using enqueue_facts[OF runtime_ok_conn[OF ok that] length_encode_bound] by blast
  with ok show ?thesis
    by (auto simp: runtime_send_def Let_def case_prod_unfold split: option.splits
        intro!: runtime_ok_put_conn)
qed

lemma publish_ok: "runtime_ok impl \<Longrightarrow>
    runtime_ok (snd (snd (publish now_ms pid sid fam op tgt ty data corr ttl qos ent impl)))"
  by (simp add: publish_def Let_def case_prod_unfold take_message_id_def runtime_send_ok)

lemma map_fst_map: "map fst (map (\<lambda>(k, v). (k, f k v)) m) = map fst m"
  by (induction m) auto

lemma sess_ok_map:
  "sess_ok m \<Longrightarrow> (\<And>k s. si_peer_id (f k s) = si_peer_id s \<and> si_session_id (f k s) = si_session_id s) \<Longrightarrow>
     sess_ok (map (\<lambda>(k, s). (k, f k s)) m)"
  unfolding sess_ok_def omap_ok_def map_fst_map by auto

lemma detach_ok: "runtime_ok impl \<Longrightarrow> runtime_ok (detach_peer pid impl)"
proof -
  assume ok: "runtime_ok impl"
  define i where "i = impl\<lparr>connections := om_erase pid (connections impl),
      sessions := map (\<lambda>(key, s). (key, if fst key = pid then s\<lparr>lossy_peer_id := []\<rparr> else s)) (sessions impl)\<rparr>"
  have i: "runtime_ok i"
    using ok sess_ok_map[of "sessions impl" "\<lambda>key s. if fst key = pid then s\<lparr>lossy_peer_id := []\<rparr> else s"]
    by (auto simp: i_def runtime_ok_def leases_ok_def om_erase_def conns_ok_filter)
  have "runtime_ok (case om_find (sessions i) key of
      Some s \<Rightarrow> if lossy_peer_id s = pid
        then i\<lparr>sessions := om_put key (s\<lparr>lossy_peer_id := []\<rparr>) (sessions i)\<rparr> else i | None \<Rightarrow> i)" for key
    using i sess_ok_find[of "sessions i" key]
    by (auto split: option.splits intro!: runtime_ok_put_session) (auto simp: runtime_ok_def)
  with i show ?thesis
    by (auto simp: detach_peer_def Let_def i_def[symmetric] split: option.splits)
qed

lemma close_peer_ok: "runtime_ok impl \<Longrightarrow> runtime_ok (close_peer pid impl)"
proof (induction pid impl rule: close_peer.induct)
  case (1 pid impl)
  then show ?case using detach_ok[of impl pid]
    by (subst close_peer.simps) (auto simp: Let_def)
qed

lemma open_session_ok: "runtime_ok impl \<Longrightarrow> runtime_ok (snd (open_session now_ms pid impl))"
  by (auto simp: open_session_def Let_def intro!: send_session_ok runtime_ok_put_session)
    (simp add: runtime_ok_def leases_ok_def sess_ok_put)

lemma connect_peer_ok:
  "runtime_ok impl \<Longrightarrow> runtime_ok (snd (snd (connect_peer ip port address_ok outcome impl)))"
proof -
  assume ok: "runtime_ok impl"
  then have "runtime_ok (impl\<lparr>connections := om_erase pid (connections impl)\<rparr>)" for pid
    by (intro runtime_ok_connections) (auto simp: om_erase_def conns_ok_filter runtime_ok_def)
  with ok show ?thesis
    using runtime_ok_new_connection[OF ok]
    by (auto simp: connect_peer_def Let_def runtime_emit_ok split: option.splits
        intro!: runtime_ok_connections conns_ok_put) (auto simp: runtime_ok_def om_erase_def conns_ok_filter)
qed

lemma bind_lossy_lane_ok:
  "runtime_ok impl \<Longrightarrow> runtime_ok (snd (bind_lossy_lane now_ms pid sid address_ok outcome impl))"
proof -
  assume ok: "runtime_ok impl"
  have "conn_ok (snd (runtime_enqueue (new_connection peer (max_buffer_bytes_per_peer (config impl)))
      (encode now_ms e True) qos key))" for peer e qos key
    using enqueue_facts[OF runtime_ok_new_connection[OF ok] length_encode_bound] by blast
  then have "runtime_ok (impl\<lparr>next_message_id := m, connections := om_put lane (snd (runtime_enqueue
      (new_connection peer (max_buffer_bytes_per_peer (config impl))) (encode now_ms e True) qos key))
      (connections impl), lane_owner := f\<rparr>)" for m lane peer e qos key f
    using ok by (simp add: runtime_ok_def leases_ok_def conns_ok_put)
  with ok show ?thesis
    by (auto simp: bind_lossy_lane_def Let_def case_prod_unfold take_message_id_def
        split: option.splits intro!: close_peer_ok)
qed

lemma runtime_step_ok:
  assumes "runtime_step impl impl'" and "runtime_ok impl"
  shows "runtime_ok impl'"
  using assms(1)
proof cases
  case (do_start cfg acceptor)
  with assms(2) show ?thesis
    by (auto simp: start_def runtime_ok_def leases_ok_def split: option.splits)
next
  case do_stop
  with assms(2) show ?thesis by (auto simp: stop_def runtime_ok_def leases_ok_def sess_ok_def conns_ok_def)
next
  case do_reap
  with assms(2) show ?thesis
    by (auto simp: reap_closed_connections_def om_erase_if_def runtime_ok_def leases_ok_def conns_ok_filter)
next
  case (do_accept ip port)
  with assms(2) runtime_ok_new_connection[OF assms(2)] show ?thesis
    by (auto simp: accept_connection_def Let_def runtime_emit_ok intro!: runtime_ok_put_conn)
next
  case (do_set_entities es)
  with assms(2) show ?thesis
    by (auto simp: set_entities_def runtime_ok_def leases_ok_def intro: omap_ok_erase_if)
next
  case (do_subscribe h)
  with assms(2) show ?thesis by (auto simp: subscribe_def Let_def split: option.splits)
next
  case (do_unsubscribe token)
  with assms(2) show ?thesis by (simp add: unsubscribe_def)
next
  case (do_revoke pid sid uids)
  with assms(2) show ?thesis
    by (auto simp: runtime_revoke_authority_def runtime_ok_def leases_ok_def intro: omap_ok_erase_if)
next
  case (do_bind_timeout pid sid)
  with assms(2) show ?thesis
    by (auto simp: bind_lossy_lane_timeout_def close_peer_ok split: option.splits)
qed (use assms(2) in \<open>simp_all add: connect_peer_ok close_peer_ok open_session_ok bind_lossy_lane_ok
  runtime_send_ok publish_ok receive_round_ok receive_loop_end_ok send_round_ok\<close>)

lemma runtime_reach_ok:
  "runtime_reach cfg impl \<Longrightarrow> unat (max_buffer_bytes_per_peer cfg) < 2 ^ 63 \<Longrightarrow> runtime_ok impl"
  by (induction rule: runtime_reach.induct) (auto simp: runtime_ok_init[simplified] intro: runtime_step_ok)

section \<open>Closing\<close>

lemma close_peer_only_erases:
  "om_find (connections impl) p = None \<Longrightarrow> om_find (connections (close_peer pid impl)) p = None"
proof (induction pid impl rule: close_peer.induct)
  case (1 pid impl)
  then show ?case
    by (subst close_peer.simps) (auto simp: Let_def detach_connections)
qed

lemma close_peer_gone: "om_find (connections (close_peer pid impl)) pid = None"
  by (subst close_peer.simps)
    (auto simp: Let_def detach_connections intro: close_peer_only_erases)

lemma close_peer_lane_gone:
  assumes "om_find (connections impl) pid \<noteq> None" and "closing_lane pid impl = lane" and "lane \<noteq> []"
  shows "om_find (connections (close_peer pid impl)) lane = None"
  using assms close_peer_gone[of lane "detach_peer pid impl"] close_peer_gone[of pid impl]
  by (subst close_peer.simps) (auto simp: Let_def detach_connections)

definition unlaned :: "string \<Rightarrow> Impl \<Rightarrow> bool" where
  "unlaned pid impl \<longleftrightarrow> (\<forall>(k, s) \<in> set (sessions impl). fst k = pid \<longrightarrow> lossy_peer_id s = [])"

lemma unlaned_put: "unlaned pid impl \<Longrightarrow> lossy_peer_id s = [] \<Longrightarrow>
    unlaned pid (impl\<lparr>sessions := om_put key s (sessions impl)\<rparr>)"
  unfolding unlaned_def using set_om_put_subset[of key s "sessions impl"] by fastforce

lemma detach_unlaned: "pid = p \<or> unlaned p impl \<Longrightarrow> unlaned p (detach_peer pid impl)"
proof -
  assume a: "pid = p \<or> unlaned p impl"
  define i where "i = impl\<lparr>connections := om_erase pid (connections impl),
      sessions := map (\<lambda>(key, s). (key, if fst key = pid then s\<lparr>lossy_peer_id := []\<rparr> else s)) (sessions impl)\<rparr>"
  have "unlaned p i" using a by (auto simp: i_def unlaned_def)
  moreover from this have "unlaned p (case om_find (sessions i) key of
      Some s \<Rightarrow> if lossy_peer_id s = pid
        then i\<lparr>sessions := om_put key (s\<lparr>lossy_peer_id := []\<rparr>) (sessions i)\<rparr> else i | None \<Rightarrow> i)" for key
    by (auto split: option.splits intro: unlaned_put)
  moreover have "unlaned p (j\<lparr>lane_owner := f\<rparr>) = unlaned p j" for j f by (simp add: unlaned_def)
  ultimately show ?thesis
    by (auto simp: detach_peer_def Let_def i_def[symmetric] split: option.splits)
qed

lemma close_peer_keeps_unlaned: "unlaned p impl \<Longrightarrow> unlaned p (close_peer pid impl)"
proof (induction pid impl rule: close_peer.induct)
  case (1 pid impl)
  then show ?case using detach_unlaned[of pid p impl]
    by (subst close_peer.simps) (auto simp: Let_def)
qed

lemma close_peer_unlaned: "om_find (connections impl) pid \<noteq> None \<Longrightarrow> unlaned pid (close_peer pid impl)"
  using detach_unlaned[of pid pid impl]
  by (subst close_peer.simps) (auto simp: Let_def intro: close_peer_keeps_unlaned)

section \<open>Waiting for a lane\<close>

text \<open>The states the waiting thread looks at.\<close>

definition has_lane :: "string \<Rightarrow> u64 \<Rightarrow> Impl \<Rightarrow> bool" where
  "has_lane pid sid impl \<longleftrightarrow> (\<exists>s. session_lookup impl pid sid = Some s \<and> lossy_peer_id s \<noteq> [])"

fun wait_states :: "nat \<Rightarrow> (nat \<Rightarrow> Impl \<Rightarrow> Impl) \<Rightarrow> Impl \<Rightarrow> Impl list" where
  "wait_states 0 others impl = []"
| "wait_states (Suc left) others impl = impl # wait_states left others (others left impl)"

lemma bind_wait_result:
  "bind_lane_wait n others pid sid impl = (code, impl') \<Longrightarrow>
     (if list_ex (has_lane pid sid) (wait_states n others impl)
      then code = Err_kOk \<and> has_lane pid sid impl'
      else code = Err_kTimeout \<and> om_find (connections impl') (pid @ ''#lossy'') = None)"
proof (induction n arbitrary: impl)
  case 0
  then show ?case using close_peer_gone by auto
next
  case (Suc n)
  show ?case
  proof (cases "has_lane pid sid impl")
    case True
    with Suc(2) show ?thesis by (auto simp: has_lane_def)
  next
    case False
    then have "bind_lane_wait (Suc n) others pid sid impl = bind_lane_wait n others pid sid (others n impl)"
      by (auto simp: has_lane_def split: option.splits)
    with Suc(1)[of "others n impl"] Suc(2) False show ?thesis by simp
  qed
qed

text \<open>A round of the acceptor thread is made of steps of the runtime.\<close>

lemma accept_round_steps: "runtime_step\<^sup>*\<^sup>* impl (accept_round outcome impl)"
proof -
  have "runtime_step impl (reap_closed_connections impl)" by (rule do_reap)
  moreover have "runtime_step i (accept_connection ip port i)" for ip port i by (rule do_accept)
  ultimately show ?thesis
    by (auto simp: accept_round_def Let_def split: AcceptOutcome.splits intro: rtranclp.rtrancl_into_rtrancl)
qed

section \<open>Properties\<close>

text \<open>
  C3. The invariant of a running endpoint. In every state reachable from a new \<open>Runtime\<close> by any
  interleaving of the application's calls with the steps of the acceptor, send and receive threads,
  on any input and with any answers of the network: every stored session is stored under its own peer
  and session identifier, every connection counts exactly the bytes in its queues and stays within its
  limit, no two queued frames carry the same latest-value key, and the tables of sessions, leases and
  connections have one entry per key.
\<close>

theorem runtime_invariant:
  assumes "runtime_reach cfg impl" and "unat (max_buffer_bytes_per_peer cfg) < 2 ^ 63"
  shows "(\<forall>k s. om_find (sessions impl) k = Some s \<longrightarrow> k = (si_peer_id s, si_session_id s)) \<and>
    (\<forall>pid c. om_find (connections impl) pid = Some c \<longrightarrow>
       backlog c = unat (queued_bytes c) \<and> queued_bytes c \<le> max_queued_bytes c \<and> distinct (latest_keys c)) \<and>
    distinct (map fst (sessions impl)) \<and> distinct (map fst (authority_leases impl)) \<and>
    distinct (map fst (connections impl))"
proof -
  note ok = runtime_reach_ok[OF assms]
  have "backlog c = unat (queued_bytes c) \<and> queued_bytes c \<le> max_queued_bytes c \<and> distinct (latest_keys c)"
    if "om_find (connections impl) pid = Some c" for pid c
    using runtime_ok_conn[OF ok that] by (auto simp: conn_ok_def counts_def word_le_nat_alt)
  moreover have "distinct (map fst (sessions impl))" "distinct (map fst (authority_leases impl))"
      "distinct (map fst (connections impl))"
    using ok by (auto simp: runtime_ok_def sess_ok_def leases_ok_def conns_ok_def dest: omap_ok_distinct)
  ultimately show ?thesis
    using runtime_ok_ids[OF ok] by (auto simp: entry_ids_ok_def)
qed

lemma sample_reach: "runtime_reach sample_config (accept_connection ''10.0.0.1'' 4000 (impl_init sample_config))"
  by (rule reach_step[OF reach_init do_accept])

theorem runtime_invariant_witness:
  "\<exists>c. om_find (connections (accept_connection ''10.0.0.1'' 4000 (impl_init sample_config)))
       (runtime_peer_id ''10.0.0.1'' 4000) = Some c \<and> backlog c = unat (queued_bytes c) \<and>
     queued_bytes c \<le> max_queued_bytes c \<and> distinct (latest_keys c)"
proof -
  let ?impl = "accept_connection ''10.0.0.1'' 4000 (impl_init sample_config)"
  obtain c where "om_find (connections ?impl) (runtime_peer_id ''10.0.0.1'' 4000) = Some c"
    by (simp add: accept_connection_def Let_def frame_simps)
  with runtime_invariant[OF sample_reach] show ?thesis by (simp add: sample_config_def)
qed

text \<open>
  C24. What \<open>send\<close> reports. On a runtime in its invariant, \<open>kOk\<close> means that the type is of the core or
  within the negotiated profile of the session (or the message is a session message), that the
  envelope passed the encoder's checks, and that the queue of the connection it is routed to accepted
  the frame, which decodes to the envelope with the header filled in.
\<close>

theorem send_ok_accepted:
  assumes "runtime_ok impl" and "runtime_send now_ms pid e impl = (Err_kOk, impl')"
  shows "(family e = MF_kSession \<or> is_core (env_type e) \<or>
      session_supports_profile impl pid (session_id e) (tr_profile_id (env_type e))
        (tr_major (env_type e)) (tr_minor (env_type e))) \<and>
    (\<exists>route c key. runtime_connection_for_send impl pid (session_id e) (qos_class e) = Some route \<and>
       om_find (connections impl) route = Some c \<and> accepts c (encode now_ms e True) (qos_class e) key \<and>
       om_find (connections impl') route = Some (snd (runtime_enqueue c (encode now_ms e True) (qos_class e) key))) \<and>
    frame_of (encode now_ms e True)
      ((fill_header now_ms e)\<lparr>checksum := wire_checksum (frame_body (fill_header now_ms e))\<rparr>)"
proof -
  let ?key = "if qos_class e = Qos_kReliableLatest then latest_key e else []"
  from assms(2) obtain route c where r: "runtime_connection_for_send impl pid (session_id e) (qos_class e) = Some route"
      and c: "om_find (connections impl) route = Some c" and ne: "encode now_ms e True \<noteq> []"
      and q: "fst (runtime_enqueue c (encode now_ms e True) (qos_class e) ?key)"
      and i: "impl' = impl\<lparr>connections := om_put route (snd (runtime_enqueue c (encode now_ms e True)
        (qos_class e) ?key)) (connections impl)\<rparr>"
      and t: "family e = MF_kSession \<or> is_core (env_type e) \<or>
        session_supports_profile impl pid (session_id e) (tr_profile_id (env_type e))
          (tr_major (env_type e)) (tr_minor (env_type e))"
    by (auto simp: runtime_send_def Let_def case_prod_unfold split: if_splits option.splits)
  have "accepts c (encode now_ms e True) (qos_class e) ?key"
    using enqueue_facts[OF runtime_ok_conn[OF assms(1) c] length_encode_bound, of now_ms e "qos_class e" ?key] q
    by blast
  with r c i t frame_of_encode[OF ne] show ?thesis
    by (auto simp: sent_envelope_def)
qed

lemma sample_active_ok: "runtime_ok sample_active"
  by (simp add: runtime_ok_def sample_active_def impl_init_def sess_ok_def conns_ok_def omap_ok_def
      leases_ok_def new_connection_ok sample_session_def sample_config_def)

theorem send_ok_accepted_witness:
  "\<exists>impl'. runtime_send 5 ''tcp://h:1'' sample_envelope sample_active = (Err_kOk, impl') \<and>
     frame_of sample_frame sample_received"
proof -
  let ?c = "new_connection sample_peer 4096"
  have "conn_ok ?c" by (simp add: new_connection_ok)
  from enqueue_facts[OF this length_encode_bound, of 5 sample_envelope Qos_kBestEffort "[]"]
  have "fst (runtime_enqueue ?c sample_frame Qos_kBestEffort [])"
    using length_sample_frame
    by (auto simp: accepts_def sample_frame_def[symmetric] reliable_bytes_def superseded_bytes_def
        superseded_def limit_of_def) (auto simp: new_connection_def)
  moreover have "sample_frame \<noteq> []" using length_sample_frame by auto
  moreover have "qos_class sample_envelope = Qos_kBestEffort" "session_id sample_envelope = 7"
      "env_type sample_envelope = \<lparr>tr_profile_id = ''org.x'', tr_major = 1, tr_minor = 0, tr_type_name = ''T''\<rparr>"
    by (simp_all add: sample_envelope_def)
  moreover have "om_find (sessions sample_active) (''tcp://h:1'', 7) = Some sample_session"
      "om_find (connections sample_active) ''tcp://h:1'' = Some ?c"
    by (simp_all add: sample_active_def om_find_def)
  ultimately obtain impl' where r: "runtime_send 5 ''tcp://h:1'' sample_envelope sample_active = (Err_kOk, impl')"
    by (auto simp: runtime_send_def runtime_connection_for_send_def Let_def case_prod_unfold
        session_supports_profile_def supports_profile_def sample_frame_def sample_session_def
        empty_session_def om_find_def)
  from send_ok_accepted[OF sample_active_ok r] r show ?thesis
    by (simp add: sample_frame_def sample_received_def)
qed

text \<open>
  Closing a connected peer whose session has a lane removes both connections from the table and
  leaves no session of the peer with a lane.
\<close>

theorem close_peer_removes:
  assumes "om_find (connections impl) pid \<noteq> None" and "closing_lane pid impl = lane" and "lane \<noteq> []"
    and "impl' = close_peer pid impl"
  shows "om_find (connections impl') pid = None \<and> om_find (connections impl') lane = None \<and>
    (\<forall>sid s. ((pid, sid), s) \<in> set (sessions impl') \<longrightarrow> lossy_peer_id s = [])"
  using close_peer_gone[of pid impl] close_peer_lane_gone[OF assms(1,2,3)]
    close_peer_unlaned[OF assms(1)] assms(4) by (auto simp: unlaned_def)

theorem close_peer_removes_witness:
  "om_find (connections (close_peer ''tcp://h:1'' (sample_active\<lparr>
     sessions := [((''tcp://h:1'', 7), sample_session\<lparr>lossy_peer_id := ''l''\<rparr>)]\<rparr>))) ''l'' = None"
  by (rule close_peer_removes[THEN conjunct2, THEN conjunct1, OF _ _ _ refl])
    (simp_all add: sample_active_def closing_lane_def om_find_def)

text \<open>
  C25. Binding a lane ends. The call looks at the session at most 200 times, once in each of the states
  the other threads lead to; it returns \<open>kOk\<close> exactly when one of them has the lane bound, and then it
  is. Otherwise it returns \<open>kTimeout\<close> and the lane's connection is gone. When it fails earlier it
  returns that error and leaves no new connection behind.
\<close>

theorem bind_lane_outcome:
  assumes "bind_lossy_lane now pid sid address_ok outcome impl = (first, impl1)"
    and "bind_lossy_lane_call now pid sid address_ok outcome others impl = (code, impl')"
  shows "if first \<noteq> Err_kOk
    then code = first \<and> impl' = impl1 \<and>
      om_find (connections impl') (pid @ ''#lossy'') \<in> {None, om_find (connections impl) (pid @ ''#lossy'')}
    else if list_ex (has_lane pid sid) (wait_states 200 others impl1)
    then code = Err_kOk \<and> has_lane pid sid impl'
    else code = Err_kTimeout \<and> om_find (connections impl') (pid @ ''#lossy'') = None"
proof (cases "first = Err_kOk")
  case True
  with assms have "bind_lane_wait 200 others pid sid impl1 = (code, impl')" by (simp add: bind_lossy_lane_call_def)
  from bind_wait_result[OF this] True show ?thesis by simp
next
  case False
  with assms have "code = first \<and> impl' = impl1" by (simp add: bind_lossy_lane_call_def)
  moreover have "om_find (connections impl1) (pid @ ''#lossy'') \<in> {None, om_find (connections impl) (pid @ ''#lossy'')}"
    using assms(1) False close_peer_gone[of "pid @ ''#lossy''"]
    by (auto simp: bind_lossy_lane_def Let_def split: if_splits option.splits prod.splits)
  ultimately show ?thesis using False by simp
qed

theorem bind_lane_outcome_witness:
  "fst (bind_lossy_lane_call 5 ''tcp://h:1'' 7 True Connect_ok (\<lambda>_ i. i) (sample_active\<lparr>running := True,
     sessions := [((''tcp://h:1'', 7), sample_session\<lparr>lossy_peer_id := ''l''\<rparr>)]\<rparr>)) = Err_kOk"
proof -
  let ?i = "sample_active\<lparr>running := True,
     sessions := [((''tcp://h:1'', 7), sample_session\<lparr>lossy_peer_id := ''l''\<rparr>)]\<rparr>"
  have l: "session_lookup ?i ''tcp://h:1'' 7 = Some (sample_session\<lparr>lossy_peer_id := ''l''\<rparr>)"
    by (simp add: session_lookup_def om_find_def)
  then have f: "bind_lossy_lane 5 ''tcp://h:1'' 7 True Connect_ok ?i = (Err_kOk, ?i)"
    by (simp add: bind_lossy_lane_def sample_session_def)
  have "list_ex (has_lane ''tcp://h:1'' 7) (wait_states 200 (\<lambda>_ i. i) ?i)"
    using l wait_states.simps(2)[of 199 "\<lambda>_ i. i" ?i] by (simp add: has_lane_def)
  with bind_lane_outcome[OF f surjective_pairing] show ?thesis by simp
qed

end
