(* ===== verification/Handshake.thy ===== *)
theory Handshake
  imports RuntimeInvariant
begin

text \<open>
  The two sides of opening a session together: the four frames \<open>open_session\<close> queues on the initiator
  (src/runtime/v2/session.cpp), their encoding and queueing (wire_v2_codec.cpp, runtime_network.cpp),
  and what the receiver's \<open>handle_session_envelope\<close> makes of them. \<open>open_envelopes\<close> and \<open>open_frames\<close> list
  what is sent, for the statement only; the operations are those of the component theories.
\<close>

lemma write_accepted:
  assumes ok: "conn_ok c" and run: "conn_running c" and f: "f \<noteq> []" "length f < 2 ^ 64"
    and fits: "reliable_bytes c + length f \<le> unat (max_queued_bytes c)"
    and c': "c' = snd (runtime_write c f)"
  shows "conn_ok c' \<and> conn_running c' \<and> control_pending c' = control_pending c @ [f] \<and>
    reliable_bytes c' = reliable_bytes c + length f \<and> max_queued_bytes c' = max_queued_bytes c"
proof -
  have "accepts c f Qos_kReliableOrdered []"
    using run f fits by (simp add: accepts_def superseded_bytes_def superseded_def limit_of_def)
  with enqueue_facts[OF ok f(2), of Qos_kReliableOrdered "[]"] c' obtain m where
    "conn_ok c'" "trims c m" "conn_running c' = conn_running c" "max_queued_bytes c' = max_queued_bytes c"
    "send_queues c' = (send_queues m)(0 := put_frame (send_queues m 0) f Qos_kReliableOrdered [])"
    by (auto simp: runtime_write_def)
  then show ?thesis using trims_same[of c m] run
    by (simp add: control_pending_def put_frame_def reliable_bytes_def)
qed

lemma writes_accepted:
  assumes "conn_ok c" and "conn_running c" and "\<forall>f \<in> set fs. f \<noteq> [] \<and> length f < 2 ^ 64"
    and "reliable_bytes c + sum_list (map length fs) \<le> unat (max_queued_bytes c)"
  shows "control_pending (fold (\<lambda>f c. snd (runtime_write c f)) fs c) = control_pending c @ fs"
  using assms
proof (induction fs arbitrary: c)
  case (Cons f fs)
  from write_accepted[OF Cons.prems(1,2), of f "snd (runtime_write c f)"] Cons.prems(3,4)
    Cons.IH[of "snd (runtime_write c f)"]
  show ?case by simp
qed simp

lemma send_session_conn:
  assumes "om_find (connections impl) pid = Some c"
  shows "om_find (connections (send_session now_ms pid sid op ty data corr impl)) pid =
    Some (snd (runtime_write c (encode now_ms
      (session_envelope impl now_ms (next_message_id impl) sid op ty data corr) True)))"
    and "next_message_id (send_session now_ms pid sid op ty data corr impl) = next_message_id impl + 1"
  using assms
  by (simp_all add: send_session_def take_message_id_def write_to_peer_def session_envelope_def)

definition open_messages :: "RuntimeConfig \<Rightarrow> (SessionOperation \<times> string \<times> bytes) list" where
  "open_messages cfg = [(SOp_kHello, ''session.hello'', encode_text (endpoint_uid cfg)),
     (SOp_kAuthenticate, ''session.authenticate'', encode_text (shared_secret cfg)),
     (SOp_kProfiles, ''session.profiles'', encode_profile_list (config_profiles cfg)),
     (SOp_kReady, ''session.ready'', [])]"

text \<open>The envelopes \<open>open_session\<close> writes, with consecutive message identifiers.\<close>

definition open_envelopes :: "u64 \<Rightarrow> u64 \<Rightarrow> Impl \<Rightarrow> Envelope list" where
  "open_envelopes now_ms sid impl =
     map (\<lambda>(i, op, ty, data). session_envelope impl now_ms (next_message_id impl + word_of_nat i) sid op ty data 0)
       (enumerate 0 (open_messages (config impl)))"

lemma session_envelope_config:
  "config i = config j \<Longrightarrow> session_envelope i = session_envelope j"
  by (simp add: session_envelope_def fun_eq_iff)

lemma open_session_writes:
  assumes c: "om_find (connections impl) pid = Some c"
  shows "fst (open_session now_ms pid impl) = next_session_id impl"
    and "om_find (connections (snd (open_session now_ms pid impl))) pid =
      Some (fold (\<lambda>f c. snd (runtime_write c f))
        (map (\<lambda>e. encode now_ms e True) (open_envelopes now_ms (next_session_id impl) impl)) c)"
proof -
  define sid where "sid = next_session_id impl"
  define i where "i = impl\<lparr>next_session_id := sid + 1, sessions := om_put (pid, sid)
    (empty_session\<lparr>si_session_id := sid, si_peer_id := pid\<rparr>) (sessions impl)\<rparr>"
  define i1 where "i1 = send_session now_ms pid sid SOp_kHello ''session.hello'' (encode_text (endpoint_uid (config impl))) 0 i"
  define i2 where "i2 = send_session now_ms pid sid SOp_kAuthenticate ''session.authenticate'' (encode_text (shared_secret (config impl))) 0 i1"
  define i3 where "i3 = send_session now_ms pid sid SOp_kProfiles ''session.profiles'' (encode_profile_list (config_profiles (config impl))) 0 i2"
  have cfg: "config i = config impl" "config i1 = config impl" "config i2 = config impl" "config i3 = config impl"
    by (simp_all add: i_def i1_def i2_def i3_def frame_simps)
  have c0: "om_find (connections i) pid = Some c" and m0: "next_message_id i = next_message_id impl"
    using c by (simp_all add: i_def)
  note s1 = send_session_conn[OF c0, of now_ms sid SOp_kHello "''session.hello''" "encode_text (endpoint_uid (config impl))" 0,
      folded i1_def]
  note s2 = send_session_conn[OF s1(1), of now_ms sid SOp_kAuthenticate "''session.authenticate''" "encode_text (shared_secret (config impl))" 0,
      folded i2_def]
  note s3 = send_session_conn[OF s2(1), of now_ms sid SOp_kProfiles "''session.profiles''" "encode_profile_list (config_profiles (config impl))" 0,
      folded i3_def]
  note s4 = send_session_conn[OF s3(1), of now_ms sid SOp_kReady "''session.ready''" "[]" 0]
  have open_eq: "open_session now_ms pid impl = (sid, send_session now_ms pid sid SOp_kReady ''session.ready'' [] 0 i3)"
    by (simp only: open_session_def Let_def c option.distinct if_False sid_def[symmetric]
        i_def[symmetric] cfg i1_def[symmetric] i2_def[symmetric] i3_def[symmetric])
  then show "fst (open_session now_ms pid impl) = next_session_id impl" by (simp add: sid_def)
  have env: "session_envelope i = session_envelope impl" "session_envelope i1 = session_envelope impl"
      "session_envelope i2 = session_envelope impl" "session_envelope i3 = session_envelope impl"
    by (rule session_envelope_config, rule cfg)+
  have "om_find (connections (snd (open_session now_ms pid impl))) pid =
      Some (fold (\<lambda>f c. snd (runtime_write c f)) (map (\<lambda>e. encode now_ms e True) (open_envelopes now_ms sid impl)) c)"
    using s4(1) s3(2) s2(2) s1(2) m0
    by (simp add: open_eq open_envelopes_def open_messages_def env enumerate_simps add.assoc)
  then show "om_find (connections (snd (open_session now_ms pid impl))) pid =
      Some (fold (\<lambda>f c. snd (runtime_write c f))
        (map (\<lambda>e. encode now_ms e True) (open_envelopes now_ms (next_session_id impl) impl)) c)"
    by (simp add: sid_def)
qed

lemma session_type_valid: "valid_type_ref (session_type ''session.hello'')"
  "valid_type_ref (session_type ''session.authenticate'')" "valid_type_ref (session_type ''session.profiles'')"
  "valid_type_ref (session_type ''session.ready'')"
  by (simp_all add: valid_type_ref_def session_type_def valid_profile_id_def valid_uid_def uid_char_def
      is_alnum_def kMaxUidBytes_def kMaxProfileIdBytes_def kMaxTypeNameBytes_def)

lemma session_envelope_accepted:
  assumes "valid_uid (endpoint_uid (config impl))" and "valid_type_ref (session_type ty)"
    and "length data \<le> kMaxPayloadBytes"
  shows "\<not> encode_refuses (session_envelope impl now_ms mid sid op ty data corr)"
proof -
  have "length (tr_profile_id (session_type ty)) \<le> 128" "length (tr_type_name (session_type ty)) \<le> 256"
    using valid_type_ref_lengths[OF assms(2)] by auto
  with assms valid_uid_length[OF assms(1)] show ?thesis
    by (simp add: encode_refuses_def session_envelope_def empty_envelope_def target_broadcast_def
        variable_size_def targets_bytes_def kFixedHeaderSize_def)
qed


text \<open>The sizes of the four frames, and that the decoder gives the messages back.\<close>

definition open_frames :: "u64 \<Rightarrow> Impl \<Rightarrow> bytes list" where
  "open_frames now_ms impl =
     map (\<lambda>e. encode now_ms e True) (open_envelopes now_ms (next_session_id impl) impl)"

definition config_sendable :: "RuntimeConfig \<Rightarrow> bool" where
  "config_sendable cfg \<longleftrightarrow> valid_uid (endpoint_uid cfg) \<and> length (shared_secret cfg) \<le> 65535 \<and>
     profiles_ok (config_profiles cfg) \<and> length (encode_profile_list (config_profiles cfg)) \<le> kMaxPayloadBytes"

lemma encode_text_short: "length (encode_text s) \<le> kMaxPayloadBytes"
  by (simp add: encode_text_def append_text_enc enc_short_text_def kMaxPayloadBytes_def)

lemma empty_payload_short: "length ([] :: bytes) \<le> kMaxPayloadBytes"
  by simp

lemma received_message:
  "session_message op sid (endpoint_uid (config impl)) data
     ((fill_header now_ms (session_envelope impl now_ms mid sid op ty data corr))\<lparr>checksum := x\<rparr>)"
  by (simp add: session_message_def session_envelope_def fill_header_def Let_def)

lemma open_frame:
  assumes "config_sendable (config impl)" and "valid_type_ref (session_type ty)" and "length data \<le> kMaxPayloadBytes"
  shows "\<exists>e. frame_of (encode now_ms (session_envelope impl now_ms mid sid op ty data corr) True) e \<and>
    session_message op sid (endpoint_uid (config impl)) data e \<and>
    encode now_ms (session_envelope impl now_ms mid sid op ty data corr) True \<noteq> []"
proof -
  have "\<not> encode_refuses (session_envelope impl now_ms mid sid op ty data corr)"
    using assms by (intro session_envelope_accepted) (simp_all add: config_sendable_def)
  then have "encode now_ms (session_envelope impl now_ms mid sid op ty data corr) True \<noteq> []"
    by (simp add: encode_nonempty_iff)
  from frame_of_encode[OF this] this received_message show ?thesis
    unfolding sent_envelope_def by (metis (full_types))
qed

lemma open_frames_handshake:
  assumes "config_sendable (config impl)"
  shows "\<exists>es. list_all2 frame_of (open_frames now_ms impl) es \<and>
    (\<forall>f \<in> set (open_frames now_ms impl). f \<noteq> []) \<and>
    (\<forall>ms. map (\<lambda>(n, t, e). e) ms = es \<longrightarrow>
       handshake (next_session_id impl) (endpoint_uid (config impl)) (shared_secret (config impl))
         (config_profiles (config impl)) ms)"
proof -
  let ?sid = "next_session_id impl" and ?uid = "endpoint_uid (config impl)" and ?m = "next_message_id impl"
  note fr = open_frame[OF assms]
  have p: "length (encode_profile_list (config_profiles (config impl))) \<le> kMaxPayloadBytes"
    using assms by (simp add: config_sendable_def)
  obtain e1 where e1: "frame_of (encode now_ms (session_envelope impl now_ms ?m ?sid SOp_kHello
      ''session.hello'' (encode_text ?uid) 0) True) e1" "session_message SOp_kHello ?sid ?uid (encode_text ?uid) e1"
      "encode now_ms (session_envelope impl now_ms ?m ?sid SOp_kHello ''session.hello'' (encode_text ?uid) 0) True \<noteq> []"
    using fr[OF session_type_valid(1) encode_text_short] by blast
  obtain e2 where e2: "frame_of (encode now_ms (session_envelope impl now_ms (?m + 1) ?sid SOp_kAuthenticate
      ''session.authenticate'' (encode_text (shared_secret (config impl))) 0) True) e2"
      "session_message SOp_kAuthenticate ?sid ?uid (encode_text (shared_secret (config impl))) e2"
      "encode now_ms (session_envelope impl now_ms (?m + 1) ?sid SOp_kAuthenticate
        ''session.authenticate'' (encode_text (shared_secret (config impl))) 0) True \<noteq> []"
    using fr[OF session_type_valid(2) encode_text_short] by blast
  obtain e3 where e3: "frame_of (encode now_ms (session_envelope impl now_ms (?m + 2) ?sid SOp_kProfiles
      ''session.profiles'' (encode_profile_list (config_profiles (config impl))) 0) True) e3"
      "session_message SOp_kProfiles ?sid ?uid (encode_profile_list (config_profiles (config impl))) e3"
      "encode now_ms (session_envelope impl now_ms (?m + 2) ?sid SOp_kProfiles
        ''session.profiles'' (encode_profile_list (config_profiles (config impl))) 0) True \<noteq> []"
    using fr[OF session_type_valid(3) p] by blast
  obtain e4 where e4: "frame_of (encode now_ms (session_envelope impl now_ms (?m + 3) ?sid SOp_kReady
      ''session.ready'' [] 0) True) e4" "session_message SOp_kReady ?sid ?uid [] e4"
      "encode now_ms (session_envelope impl now_ms (?m + 3) ?sid SOp_kReady ''session.ready'' [] 0) True \<noteq> []"
    using fr[OF session_type_valid(4) empty_payload_short] by blast
  have hs: "handshake ?sid ?uid (shared_secret (config impl)) (config_profiles (config impl)) ms"
    if "map (\<lambda>(n, t, e). e) ms = [e1, e2, e3, e4]" for ms
    using that e1(2) e2(2) e3(2) e4(2) by auto
  have fs: "open_frames now_ms impl = map (\<lambda>e. encode now_ms e True)
      [session_envelope impl now_ms ?m ?sid SOp_kHello ''session.hello'' (encode_text ?uid) 0,
       session_envelope impl now_ms (?m + 1) ?sid SOp_kAuthenticate ''session.authenticate''
         (encode_text (shared_secret (config impl))) 0,
       session_envelope impl now_ms (?m + 2) ?sid SOp_kProfiles ''session.profiles''
         (encode_profile_list (config_profiles (config impl))) 0,
       session_envelope impl now_ms (?m + 3) ?sid SOp_kReady ''session.ready'' [] 0]"
    by (simp add: open_frames_def open_envelopes_def open_messages_def enumerate_simps)
  show ?thesis
    unfolding fs using e1 e2 e3 e4 hs by (intro exI[of _ "[e1, e2, e3, e4]"]) simp
qed

text \<open>
  C8. Two endpoints. Let an endpoint open a session over a running connection whose queue has room for
  its four messages beside the reliable frames already there. They are queued behind the control
  frames already pending, in order; each decodes; and an endpoint that receives the decoded messages in that
  order for a new session ends with the session active and authenticated, bound to the initiator and
  with the profiles negotiated from both configurations, if both share the secret, and with the
  session invalid if they do not.
\<close>

theorem open_session_outcome:
  assumes "runtime_ok A" and "config_sendable (config A)" and "om_find (connections A) pid = Some c"
    and "conn_running c"
    and "reliable_bytes c + sum_list (map length (open_frames now_ms A)) \<le> unat (max_queued_bytes c)"
    and "open_session now_ms pid A = (sid, A')"
    and "entry_ids_ok B" and "om_find (sessions B) (peer_id peer, sid) = None"
  shows "\<exists>c' es. om_find (connections A') pid = Some c' \<and>
    control_pending c' = control_pending c @ open_frames now_ms A \<and>
    list_all2 frame_of (open_frames now_ms A) es \<and>
    (\<forall>ms s'. map (\<lambda>(n, t, e). e) ms = es \<and> s' = session_at (receive_all peer ms B) (peer_id peer, sid) \<longrightarrow>
       session_state s' = (if shared_secret (config A) = shared_secret (config B) then Ses_kActive else Ses_kInvalid) \<and>
       authenticated s' = (shared_secret (config A) = shared_secret (config B)) \<and>
       remote_endpoint_uid s' = endpoint_uid (config A) \<and>
       negotiated_profiles s' = negotiated_profiles
         (negotiate_all (config_profiles (config B)) (config_profiles (config A)) empty_session))"
proof -
  note w = open_session_writes[OF assms(3), of now_ms]
  have sid: "sid = next_session_id A" using w(1) assms(6) by simp
  obtain es where es: "list_all2 frame_of (open_frames now_ms A) es"
      "\<forall>f \<in> set (open_frames now_ms A). f \<noteq> []"
      "\<And>ms. map (\<lambda>(n, t, e). e) ms = es \<Longrightarrow> handshake sid (endpoint_uid (config A))
         (shared_secret (config A)) (config_profiles (config A)) ms"
    using open_frames_handshake[OF assms(2), of now_ms] sid by blast
  have "\<forall>f \<in> set (open_frames now_ms A). f \<noteq> [] \<and> length f < 2 ^ 64"
    using es(2) length_encode_bound by (auto simp: open_frames_def)
  from writes_accepted[OF runtime_ok_conn[OF assms(1,3)] assms(4) this assms(5)] w(2) assms(6)
  have pend: "\<exists>c'. om_find (connections A') pid = Some c' \<and>
      control_pending c' = control_pending c @ open_frames now_ms A"
    by (simp add: open_frames_def)
  have s0: "remote_endpoint_uid (session_at B (peer_id peer, sid)) = []"
    using assms(8) by (simp add: session_at_def empty_session_def)
  have "session_state s' = (if shared_secret (config A) = shared_secret (config B) then Ses_kActive else Ses_kInvalid) \<and>
       authenticated s' = (shared_secret (config A) = shared_secret (config B)) \<and>
       remote_endpoint_uid s' = endpoint_uid (config A) \<and>
       negotiated_profiles s' = negotiated_profiles
         (negotiate_all (config_profiles (config B)) (config_profiles (config A)) empty_session)"
    if ms: "map (\<lambda>(n, t, e). e) ms = es" and s': "s' = session_at (receive_all peer ms B) (peer_id peer, sid)" for ms s'
  proof -
    note hs = es(3)[OF ms]
    have "s' = fold (\<lambda>(n, t, e). entry_step (config B) e) ms (session_at B (peer_id peer, sid))"
      using receive_session_messages[OF assms(7) handshake_messages[OF hs], of peer] s' by simp
    from handshake_entry[OF hs _ _ _ _ this] assms(2) s0
      negotiated_independent[of _ _ "session_at B (peer_id peer, sid)" empty_session]
    show ?thesis by (simp add: config_sendable_def)
  qed
  with pend es(1) show ?thesis by blast
qed


lemma sample_open_frames:
  "sum_list (map length (open_frames 5 sample_active)) \<le> 4096"
proof -
  have uid: "valid_uid (endpoint_uid (config sample_active))"
    by (simp add: sample_active_def impl_init_def sample_config_def valid_uid_def uid_char_def
        is_alnum_def kMaxUidBytes_def)
  have len: "length (encode 5 (session_envelope sample_active 5 mid sid op ty data 0) True) =
      99 + length ty + length data"
    if "valid_type_ref (session_type ty)" "length data \<le> kMaxPayloadBytes" for mid sid op ty data
    using length_encode[OF session_envelope_accepted[OF uid that]]
    by (simp add: session_envelope_def variable_size_def empty_envelope_def target_broadcast_def
        targets_bytes_def session_type_def sample_active_def impl_init_def sample_config_def)
  have data: "length (encode_text (endpoint_uid (config sample_active))) = 5"
      "length (encode_text (shared_secret (config sample_active))) = 3"
      "length (encode_profile_list (config_profiles (config sample_active))) = 2"
    by (simp_all add: sample_active_def impl_init_def sample_config_def encode_text_def append_text_enc
        enc_short_text_def encode_profile_list_def append_u16_def)
  show ?thesis
    by (simp add: open_frames_def open_envelopes_def open_messages_def enumerate_simps len data
        session_type_valid kMaxPayloadBytes_def)
qed

theorem open_session_outcome_witness:
  "\<exists>c' es. om_find (connections (snd (open_session 5 ''tcp://h:1'' sample_active))) ''tcp://h:1'' = Some c' \<and>
    control_pending c' = open_frames 5 sample_active \<and>
    list_all2 frame_of (open_frames 5 sample_active) es \<and>
    session_state (session_at (receive_all sample_peer (map (\<lambda>e. (0, 0, e)) es) (impl_init sample_config))
      (''tcp://h:1'', 1)) = Ses_kActive"
proof -
  let ?c = "new_connection sample_peer 4096"
  have "config_sendable (config sample_active)"
    by (simp add: config_sendable_def sample_active_def impl_init_def sample_config_def valid_uid_def
        uid_char_def is_alnum_def kMaxUidBytes_def profiles_ok_def encode_profile_list_def
        kMaxPayloadBytes_def append_u16_def)
  moreover have c: "om_find (connections sample_active) ''tcp://h:1'' = Some ?c"
    by (simp add: sample_active_def om_find_def)
  moreover have "fst (open_session 5 ''tcp://h:1'' sample_active) = 1"
    using open_session_writes(1)[OF c] by (simp add: sample_active_def impl_init_def)
  then have "open_session 5 ''tcp://h:1'' sample_active = (1, snd (open_session 5 ''tcp://h:1'' sample_active))"
    by (metis prod.collapse)
  moreover have "reliable_bytes ?c + sum_list (map length (open_frames 5 sample_active)) \<le>
      unat (max_queued_bytes ?c)"
    using sample_open_frames by (simp add: reliable_bytes_def new_connection_def)
  moreover have "om_find (sessions (impl_init sample_config)) (peer_id sample_peer, 1) = None"
    by (simp add: impl_init_def)
  moreover have "shared_secret (config sample_active) = shared_secret (config (impl_init sample_config))"
      "endpoint_uid (config sample_active) = ''gcs''" "peer_id sample_peer = ''tcp://h:1''"
      "control_pending ?c = []" "conn_running ?c"
    by (simp_all add: sample_active_def impl_init_def sample_config_def sample_peer_def
        control_pending_def new_connection_def)
  ultimately obtain c' es where
      "om_find (connections (snd (open_session 5 ''tcp://h:1'' sample_active))) ''tcp://h:1'' = Some c'"
      "control_pending c' = open_frames 5 sample_active" "list_all2 frame_of (open_frames 5 sample_active) es"
      and out: "\<And>ms. map (\<lambda>(n, t, e). e) ms = es \<Longrightarrow>
        session_state (session_at (receive_all sample_peer ms (impl_init sample_config)) (''tcp://h:1'', 1)) = Ses_kActive"
    using open_session_outcome[of sample_active "''tcp://h:1''" ?c 5 1
        "snd (open_session 5 ''tcp://h:1'' sample_active)" "impl_init sample_config" sample_peer]
      sample_active_ok impl_init_ids_ok[of sample_config]
    by (simp, blast)
  with out[of "map (\<lambda>e. (0, 0, e)) es"] show ?thesis by (auto simp: comp_def)
qed

end
