(* ===== verification/Discovery.thy ===== *)
theory Discovery
  imports Codec Wire
begin

text \<open>
  Discovery packets: \<open>include/yunlink/discovery/discovery_v2.hpp\<close> and
  \<open>src/discovery/discovery_v2.cpp\<close>. A query is 22 bytes with a nonce; a reply carries an
  advertisement in one of three formats (v3 adds the agent identifier of an entity, v4 the attribute
  maps). Both end in a 64-bit tag over the shared secret and the packet. Integers are big-endian. The
  booleans the C++ writer methods return are discarded by their callers; result pointers are never
  null at the call sites; \<open>size_t\<close> cursors are natural numbers (packets are at most 8192 bytes).
\<close>

section \<open>Data\<close>

definition kDiscoveryFormatV2 :: u8 where "kDiscoveryFormatV2 = 2"
definition kDiscoveryFormatV3 :: u8 where "kDiscoveryFormatV3 = 3"
definition kDiscoveryFormatV4 :: u8 where "kDiscoveryFormatV4 = 4"

definition kQueryMagicV2 :: bytes where "kQueryMagicV2 = bytes_of_string ''YLQ2''"
definition kQueryMagicV3 :: bytes where "kQueryMagicV3 = bytes_of_string ''YLQ3''"
definition kQueryMagicV4 :: bytes where "kQueryMagicV4 = bytes_of_string ''YLQ4''"
definition kReplyMagicV2 :: bytes where "kReplyMagicV2 = bytes_of_string ''YLR2''"
definition kReplyMagicV3 :: bytes where "kReplyMagicV3 = bytes_of_string ''YLR3''"
definition kReplyMagicV4 :: bytes where "kReplyMagicV4 = bytes_of_string ''YLR4''"

definition kMaxDiscoveryBytes :: nat where "kMaxDiscoveryBytes = 8192"
definition kMaxAttributeCount :: nat where "kMaxAttributeCount = 32"
definition kMaxAttributeKeyBytes :: nat where "kMaxAttributeKeyBytes = 64"
definition kMaxAttributeValueBytes :: nat where "kMaxAttributeValueBytes = 512"
definition kFnvOffset :: u64 where "kFnvOffset = 14695981039346656037"
definition kFnvPrime :: u64 where "kFnvPrime = 1099511628211"

record DiscoveryQuery =
  dq_nonce :: u64
  dq_response_window_ms :: u16
  dq_format_version :: u8

record DiscoveryEntitySummary =
  de_entity_uid :: string
  de_kind :: string
  de_display_name :: string
  de_availability :: Availability
  de_agent_id :: u32
  de_attributes :: "(string, string) omap"

record DiscoveryAdvertisement =
  da_endpoint_uid :: string
  da_display_name :: string
  da_tcp_listen_port :: u16
  da_capabilities :: "string list"
  da_profiles :: "ProfileDescriptor list"
  da_attributes :: "(string, string) omap"
  da_entities :: "DiscoveryEntitySummary list"
  da_started_at_ms :: u64
  da_sequence :: u64

section \<open>The tag\<close>

definition tag_step :: "u8 \<Rightarrow> u64 \<Rightarrow> u64" where
  "tag_step byte value = (value XOR ucast byte) * kFnvPrime"

definition auth_tag :: "string \<Rightarrow> bytes \<Rightarrow> u64" where
  "auth_tag secret data = fold tag_step data (fold tag_step (bytes_of_string secret) kFnvOffset)"

text \<open>\<open>authenticated\<close>: the last eight bytes, collected by shifting, are the tag of the others.\<close>

definition authenticated_packet :: "bytes \<Rightarrow> string \<Rightarrow> bool" where
  "authenticated_packet bs secret \<longleftrightarrow>
     (if length bs < 8 then False
      else let payload_size = length bs - 8;
               supplied = fold (\<lambda>b v. push_bit 8 v OR ucast b) (drop payload_size bs) (0 :: u64)
           in supplied = auth_tag secret (take payload_size bs))"

section \<open>Writer\<close>

record DWriter =
  dw_value :: bytes
  dw_valid :: bool

definition dwriter_init :: DWriter where
  "dwriter_init = \<lparr>dw_value = [], dw_valid = True\<rparr>"

definition d_bytes :: "bytes \<Rightarrow> DWriter \<Rightarrow> DWriter" where
  "d_bytes bs w = w\<lparr>dw_value := dw_value w @ bs\<rparr>"

definition d_invalid :: "DWriter \<Rightarrow> DWriter" where
  "d_invalid w = w\<lparr>dw_valid := False\<rparr>"

definition d_u8 :: "u8 \<Rightarrow> DWriter \<Rightarrow> DWriter" where
  "d_u8 v w = d_bytes [v] w"

definition d_u16 :: "u16 \<Rightarrow> DWriter \<Rightarrow> DWriter" where
  "d_u16 v w = d_bytes (be_bytes 2 v) w"

definition d_u32 :: "u32 \<Rightarrow> DWriter \<Rightarrow> DWriter" where
  "d_u32 v w = d_bytes (be_bytes 4 v) w"

definition d_u64 :: "u64 \<Rightarrow> DWriter \<Rightarrow> DWriter" where
  "d_u64 v w = d_bytes (be_bytes 8 v) w"

definition d_text :: "string \<Rightarrow> DWriter \<Rightarrow> DWriter" where
  "d_text s w =
     (if length s > 65535 then d_invalid w
      else d_bytes (bytes_of_string s) (d_u16 (word_of_nat (length s)) w))"

definition attribute_ok :: "string \<times> string \<Rightarrow> bool" where
  "attribute_ok entry \<longleftrightarrow> fst entry \<noteq> [] \<and> length (fst entry) \<le> kMaxAttributeKeyBytes \<and>
     length (snd entry) \<le> kMaxAttributeValueBytes"

text \<open>The loop of \<open>attributes\<close> returns at the first entry out of bounds.\<close>

fun d_attribute_entries :: "(string \<times> string) list \<Rightarrow> DWriter \<Rightarrow> DWriter" where
  "d_attribute_entries [] w = w"
| "d_attribute_entries (entry # rest) w =
     (if \<not> attribute_ok entry then d_invalid w
      else d_attribute_entries rest (d_text (snd entry) (d_text (fst entry) w)))"

definition d_attributes :: "(string, string) omap \<Rightarrow> DWriter \<Rightarrow> DWriter" where
  "d_attributes values w =
     (if length values > kMaxAttributeCount then d_invalid w
      else d_attribute_entries values (d_u8 (word_of_nat (length values)) w))"

definition d_finish :: "string \<Rightarrow> DWriter \<Rightarrow> bytes" where
  "d_finish secret w =
     (if \<not> dw_valid w \<or> length (dw_value w) + 8 > kMaxDiscoveryBytes then []
      else dw_value (d_u64 (auth_tag secret (dw_value w)) w))"

section \<open>Reader\<close>

record DReader =
  dr_value :: bytes
  dr_payload_size :: nat
  dr_cursor :: nat

definition dreader_init :: "bytes \<Rightarrow> nat \<Rightarrow> DReader" where
  "dreader_init bs payload_size = \<lparr>dr_value = bs, dr_payload_size = payload_size, dr_cursor = 0\<rparr>"

text \<open>The bounds check, the bytes at the cursor, and the cursor moved past them.\<close>

definition dr_bytes :: "nat \<Rightarrow> DReader \<Rightarrow> (bytes \<times> DReader) option" where
  "dr_bytes n r =
     (if dr_cursor r + n > dr_payload_size r then None
      else Some (take n (drop (dr_cursor r) (dr_value r)), r\<lparr>dr_cursor := dr_cursor r + n\<rparr>))"

definition dr_magic :: "bytes \<Rightarrow> DReader \<Rightarrow> DReader option" where
  "dr_magic expected r = do {
     (bs, r) \<leftarrow> dr_bytes (length expected) r;
     if bs = expected then Some r else None }"

definition dr_u8 :: "DReader \<Rightarrow> (u8 \<times> DReader) option" where
  "dr_u8 r = do { (bs, r) \<leftarrow> dr_bytes 1 r; Some (hd bs, r) }"

definition dr_u16 :: "DReader \<Rightarrow> (u16 \<times> DReader) option" where
  "dr_u16 r = do { (bs, r) \<leftarrow> dr_bytes 2 r; Some (be_word bs, r) }"

definition dr_u32 :: "DReader \<Rightarrow> (u32 \<times> DReader) option" where
  "dr_u32 r = do { (bs, r) \<leftarrow> dr_bytes 4 r; Some (be_word bs, r) }"

definition dr_u64 :: "DReader \<Rightarrow> (u64 \<times> DReader) option" where
  "dr_u64 r = do { (bs, r) \<leftarrow> dr_bytes 8 r; Some (be_word bs, r) }"

definition dr_text :: "DReader \<Rightarrow> (string \<times> DReader) option" where
  "dr_text r = do {
     (size, r) \<leftarrow> dr_u16 r;
     (bs, r) \<leftarrow> dr_bytes (unat size) r;
     Some (string_of_bytes bs, r) }"

fun dr_attribute_entries ::
  "nat \<Rightarrow> (string, string) omap \<Rightarrow> DReader \<Rightarrow> ((string, string) omap \<times> DReader) option" where
  "dr_attribute_entries 0 values r = Some (values, r)"
| "dr_attribute_entries (Suc n) values r = do {
     (key, r) \<leftarrow> dr_text r;
     if key = [] \<or> length key > kMaxAttributeKeyBytes then None else do {
     (value, r) \<leftarrow> dr_text r;
     if length value > kMaxAttributeValueBytes then None else do {
     values \<leftarrow> om_emplace key value values;
     dr_attribute_entries n values r } } }"

definition dr_attributes :: "DReader \<Rightarrow> ((string, string) omap \<times> DReader) option" where
  "dr_attributes r = do {
     (count, r) \<leftarrow> dr_u8 r;
     if unat count > kMaxAttributeCount then None else dr_attribute_entries (unat count) [] r }"

definition dr_done :: "DReader \<Rightarrow> bool" where
  "dr_done r \<longleftrightarrow> dr_cursor r = dr_payload_size r"

section \<open>Queries\<close>

definition query_magic :: "u8 \<Rightarrow> bytes" where
  "query_magic version =
     (if version = kDiscoveryFormatV4 then kQueryMagicV4
      else if version = kDiscoveryFormatV3 then kQueryMagicV3 else kQueryMagicV2)"

definition encode_discovery_query :: "DiscoveryQuery \<Rightarrow> string \<Rightarrow> bytes" where
  "encode_discovery_query query secret =
     (if dq_nonce query = 0 \<or> dq_response_window_ms query = 0 \<or>
         (dq_format_version query \<noteq> kDiscoveryFormatV2 \<and> dq_format_version query \<noteq> kDiscoveryFormatV3 \<and>
          dq_format_version query \<noteq> kDiscoveryFormatV4)
      then []
      else d_finish secret (in_order
        [d_bytes (query_magic (dq_format_version query)), d_u64 (dq_nonce query),
         d_u16 (dq_response_window_ms query)] dwriter_init))"

text \<open>The three attempts at the magic: the format they stand for, and the reader past it.\<close>

definition read_version :: "bytes \<Rightarrow> bytes \<Rightarrow> bytes \<Rightarrow> DReader \<Rightarrow> (u8 \<times> DReader) option" where
  "read_version m4 m3 m2 r = (case dr_magic m4 r of
     Some r' \<Rightarrow> Some (kDiscoveryFormatV4, r')
   | None \<Rightarrow> (case dr_magic m3 r of
       Some r' \<Rightarrow> Some (kDiscoveryFormatV3, r')
     | None \<Rightarrow> (case dr_magic m2 r of
         Some r' \<Rightarrow> Some (kDiscoveryFormatV2, r')
       | None \<Rightarrow> None)))"

definition decode_discovery_query :: "bytes \<Rightarrow> string \<Rightarrow> DiscoveryQuery option" where
  "decode_discovery_query bs secret =
     (if length bs \<noteq> 22 \<or> \<not> authenticated_packet bs secret then None
      else do {
        (version, r) \<leftarrow> read_version kQueryMagicV4 kQueryMagicV3 kQueryMagicV2
          (dreader_init bs (length bs - 8));
        (nonce, r) \<leftarrow> dr_u64 r;
        (window, r) \<leftarrow> dr_u16 r;
        if \<not> dr_done r \<or> nonce = 0 \<or> window = 0 then None
        else Some \<lparr>dq_nonce = nonce, dq_response_window_ms = window, dq_format_version = version\<rparr> })"

section \<open>Replies\<close>

definition valid_attributes :: "(string, string) omap \<Rightarrow> bool" where
  "valid_attributes attributes \<longleftrightarrow>
     length attributes \<le> kMaxAttributeCount \<and> list_all attribute_ok attributes"

definition valid_advertisement :: "DiscoveryAdvertisement \<Rightarrow> bool" where
  "valid_advertisement value \<longleftrightarrow>
     (if \<not> valid_uid (da_endpoint_uid value) \<or> da_tcp_listen_port value = 0 \<or>
         length (da_capabilities value) > 255 \<or> length (da_profiles value) > 255 \<or>
         length (da_entities value) > 255 then False
      else valid_attributes (da_attributes value) \<and>
        list_all (\<lambda>p. valid_profile_id (pd_profile_id p) \<and> pd_major p > 0) (da_profiles value) \<and>
        list_all (\<lambda>e. valid_uid (de_entity_uid e) \<and> valid_attributes (de_attributes e)) (da_entities value))"

definition reply_magic :: "u8 \<Rightarrow> bytes" where
  "reply_magic version =
     (if version \<ge> kDiscoveryFormatV4 then kReplyMagicV4
      else if version \<ge> kDiscoveryFormatV3 then kReplyMagicV3 else kReplyMagicV2)"

text \<open>A count of one byte and the elements; \<open>d_when\<close> is a field only some formats have.\<close>

definition d_counted :: "('a \<Rightarrow> DWriter \<Rightarrow> DWriter) \<Rightarrow> 'a list \<Rightarrow> DWriter \<Rightarrow> DWriter" where
  "d_counted wr xs w = fold wr xs (d_u8 (word_of_nat (length xs)) w)"

definition d_when :: "bool \<Rightarrow> (DWriter \<Rightarrow> DWriter) \<Rightarrow> DWriter \<Rightarrow> DWriter" where
  "d_when c f w = (if c then f w else w)"

definition d_profile :: "ProfileDescriptor \<Rightarrow> DWriter \<Rightarrow> DWriter" where
  "d_profile p = in_order [d_text (pd_profile_id p), d_u16 (pd_major p), d_u16 (pd_minor p),
     d_text (pd_schema_digest p)]"

definition d_entity :: "bool \<Rightarrow> bool \<Rightarrow> DiscoveryEntitySummary \<Rightarrow> DWriter \<Rightarrow> DWriter" where
  "d_entity supports_entity_agent_id supports_attributes e = in_order
     [d_text (de_entity_uid e), d_text (de_kind e), d_text (de_display_name e),
      d_u8 (availability_code (de_availability e)),
      d_when supports_entity_agent_id (d_u32 (de_agent_id e)),
      d_when supports_attributes (d_attributes (de_attributes e))]"

definition write_reply :: "DiscoveryQuery \<Rightarrow> DiscoveryAdvertisement \<Rightarrow> DWriter" where
  "write_reply query a =
     (let supports_entity_agent_id = dq_format_version query \<ge> kDiscoveryFormatV3;
          supports_attributes = dq_format_version query \<ge> kDiscoveryFormatV4
      in in_order
       [d_bytes (reply_magic (dq_format_version query)), d_u64 (dq_nonce query), d_u8 kProtocolMajor,
        d_u8 kHeaderVersion, d_u16 (ucast (dq_format_version query)), d_text (da_endpoint_uid a),
        d_text (da_display_name a), d_u16 (da_tcp_listen_port a), d_counted d_text (da_capabilities a),
        d_counted d_profile (da_profiles a), d_when supports_attributes (d_attributes (da_attributes a)),
        d_counted (d_entity supports_entity_agent_id supports_attributes) (da_entities a),
        d_u64 (da_started_at_ms a), d_u64 (da_sequence a)] dwriter_init)"

definition encode_discovery_reply :: "DiscoveryQuery \<Rightarrow> DiscoveryAdvertisement \<Rightarrow> string \<Rightarrow> bytes" where
  "encode_discovery_reply query a secret =
     (if dq_nonce query = 0 \<or> \<not> valid_advertisement a then []
      else d_finish secret (write_reply query a))"

definition dr_counted :: "(DReader \<Rightarrow> ('a \<times> DReader) option) \<Rightarrow> DReader \<Rightarrow> ('a list \<times> DReader) option" where
  "dr_counted rd r = do { (count, r) \<leftarrow> dr_u8 r; read_n (unat count) rd r }"

definition dr_profile :: "DReader \<Rightarrow> (ProfileDescriptor \<times> DReader) option" where
  "dr_profile r = do {
     (profile_id, r) \<leftarrow> dr_text r;
     (major, r) \<leftarrow> dr_u16 r;
     (minor, r) \<leftarrow> dr_u16 r;
     (digest, r) \<leftarrow> dr_text r;
     Some (\<lparr>pd_profile_id = profile_id, pd_major = major, pd_minor = minor, pd_schema_digest = digest\<rparr>, r) }"

text \<open>A field only some formats have keeps its default otherwise.\<close>

definition dr_when :: "bool \<Rightarrow> 'a \<Rightarrow> (DReader \<Rightarrow> ('a \<times> DReader) option) \<Rightarrow> DReader \<Rightarrow> ('a \<times> DReader) option" where
  "dr_when c missing rd r = (if c then rd r else Some (missing, r))"

definition dr_entity :: "bool \<Rightarrow> bool \<Rightarrow> DReader \<Rightarrow> (DiscoveryEntitySummary \<times> DReader) option" where
  "dr_entity includes_entity_agent_id includes_attributes r = do {
     (uid, r) \<leftarrow> dr_text r;
     (kind, r) \<leftarrow> dr_text r;
     (display_name, r) \<leftarrow> dr_text r;
     (code, r) \<leftarrow> dr_u8 r;
     if code > availability_code Av_kOffline then None else do {
     (agent_id, r) \<leftarrow> dr_when includes_entity_agent_id 0 dr_u32 r;
     (attributes, r) \<leftarrow> dr_when includes_attributes [] dr_attributes r;
     availability \<leftarrow> availability_of code;
     Some (\<lparr>de_entity_uid = uid, de_kind = kind, de_display_name = display_name,
            de_availability = availability, de_agent_id = agent_id, de_attributes = attributes\<rparr>, r) } }"

definition read_reply :: "u64 \<Rightarrow> DReader \<Rightarrow> (DiscoveryAdvertisement \<times> DReader) option" where
  "read_reply expected_nonce r = do {
     (version, r) \<leftarrow> read_version kReplyMagicV4 kReplyMagicV3 kReplyMagicV2 r;
     let includes_entity_agent_id = version \<ge> kDiscoveryFormatV3;
     let includes_attributes = version \<ge> kDiscoveryFormatV4;
     (nonce, r) \<leftarrow> dr_u64 r;
     if nonce \<noteq> expected_nonce then None else do {
     (protocol, r) \<leftarrow> dr_u8 r;
     if protocol \<noteq> kProtocolMajor then None else do {
     (header, r) \<leftarrow> dr_u8 r;
     if header \<noteq> kHeaderVersion then None else do {
     (schema, r) \<leftarrow> dr_u16 r;
     if schema \<noteq> ucast version then None else do {
     (endpoint_uid, r) \<leftarrow> dr_text r;
     (display_name, r) \<leftarrow> dr_text r;
     (port, r) \<leftarrow> dr_u16 r;
     (capabilities, r) \<leftarrow> dr_counted dr_text r;
     (profiles, r) \<leftarrow> dr_counted dr_profile r;
     (attributes, r) \<leftarrow> dr_when includes_attributes [] dr_attributes r;
     (entities, r) \<leftarrow> dr_counted (dr_entity includes_entity_agent_id includes_attributes) r;
     (started_at_ms, r) \<leftarrow> dr_u64 r;
     (sequence, r) \<leftarrow> dr_u64 r;
     Some (\<lparr>da_endpoint_uid = endpoint_uid, da_display_name = display_name, da_tcp_listen_port = port,
            da_capabilities = capabilities, da_profiles = profiles, da_attributes = attributes,
            da_entities = entities, da_started_at_ms = started_at_ms, da_sequence = sequence\<rparr>, r) } } } } }"

definition decode_discovery_reply :: "bytes \<Rightarrow> string \<Rightarrow> u64 \<Rightarrow> DiscoveryAdvertisement option" where
  "decode_discovery_reply bs secret expected_nonce =
     (if length bs > kMaxDiscoveryBytes \<or> \<not> authenticated_packet bs secret then None
      else do {
        (parsed, r) \<leftarrow> read_reply expected_nonce (dreader_init bs (length bs - 8));
        if \<not> dr_done r \<or> \<not> valid_advertisement parsed then None else Some parsed })"

section \<open>The stream and its fields\<close>

text \<open>
  A reader whose packet is the payload and, behind \<open>payload_size\<close>, the tag: \<open>tail\<close> is never read.
\<close>

definition dreader_at :: "bytes \<Rightarrow> bytes \<Rightarrow> bytes \<Rightarrow> DReader" where
  "dreader_at tail pre post =
     \<lparr>dr_value = pre @ post @ tail, dr_payload_size = length pre + length post, dr_cursor = length pre\<rparr>"

definition enc_dtext :: "string \<Rightarrow> bytes" where
  "enc_dtext s = be_bytes 2 (word_of_nat (length s) :: u16) @ bytes_of_string s"

definition dtext_ok :: "string \<Rightarrow> bool" where
  "dtext_ok s \<longleftrightarrow> length s \<le> 65535"

definition enc_counted :: "('a \<Rightarrow> bytes) \<Rightarrow> 'a list \<Rightarrow> bytes" where
  "enc_counted enc xs = word_of_nat (length xs) # concat (map enc xs)"

definition counted_ok :: "('a \<Rightarrow> bool) \<Rightarrow> 'a list \<Rightarrow> bool" where
  "counted_ok ok xs \<longleftrightarrow> length xs \<le> 255 \<and> list_all ok xs"

definition enc_attribute :: "string \<times> string \<Rightarrow> bytes" where
  "enc_attribute e = enc_dtext (fst e) @ enc_dtext (snd e)"

definition attributes_ok :: "(string, string) omap \<Rightarrow> bool" where
  "attributes_ok m \<longleftrightarrow> omap_ok m \<and> valid_attributes m"

lemma dreader_init_at: "dreader_init (pay @ tail) (length pay) = dreader_at tail [] pay"
  by (simp add: dreader_init_def dreader_at_def)

lemma dr_done_at [simp]: "dr_done (dreader_at tail pre post) \<longleftrightarrow> post = []"
  by (simp add: dr_done_def dreader_at_def)

lemma dr_bytes_at:
  "length bs = n \<Longrightarrow> dr_bytes n (dreader_at tail pre (bs @ post)) = Some (bs, dreader_at tail (pre @ bs) post)"
  by (simp add: dr_bytes_def dreader_at_def)

lemma dr_bytes_sound:
  "dr_bytes n (dreader_at tail pre rest) = Some (bs, r') \<Longrightarrow>
     length bs = n \<and> (\<exists>post. rest = bs @ post \<and> r' = dreader_at tail (pre @ bs) post)"
  by (auto simp: dr_bytes_def dreader_at_def split: if_splits intro: exI[of _ "drop n rest"])

interpretation d_stream: byte_stream d_bytes "dreader_at tail" for tail
  by unfold_locales (simp_all add: d_bytes_def)

interpretation d_u8: canonical_codec d_bytes "dreader_at tail" d_u8 dr_u8 "\<lambda>v. [v]" "\<lambda>_. True" for tail
proof unfold_locales
  fix x :: u8 and pre post
  show "dr_u8 (dreader_at tail pre ([x] @ post)) = Some (x, dreader_at tail (pre @ [x]) post)"
    unfolding dr_u8_def by (simp only: dr_bytes_at[of "[x]" 1] length_Cons list.size) simp
next
  fix pre rest x r'
  assume "dr_u8 (dreader_at tail pre rest) = Some (x, r')"
  then obtain bs where "dr_bytes 1 (dreader_at tail pre rest) = Some (bs, r')" "x = hd bs"
    by (auto simp: dr_u8_def bind_eq_Some_conv)
  with dr_bytes_sound[of 1 tail pre rest bs r'] show
    "True \<and> (\<exists>post. rest = [x] @ post \<and> r' = dreader_at tail (pre @ [x]) post)"
    by (auto simp: length_Suc_conv)
qed (simp_all add: d_u8_def)

interpretation d_u16: canonical_codec d_bytes "dreader_at tail" d_u16 dr_u16 "be_bytes 2" "\<lambda>_. True" for tail
  by unfold_locales
    (auto simp: d_u16_def dr_u16_def dr_bytes_at bind_eq_Some_conv be_bytes_word dest!: dr_bytes_sound)

interpretation d_u32: canonical_codec d_bytes "dreader_at tail" d_u32 dr_u32 "be_bytes 4" "\<lambda>_. True" for tail
  by unfold_locales
    (auto simp: d_u32_def dr_u32_def dr_bytes_at bind_eq_Some_conv be_bytes_word dest!: dr_bytes_sound)

interpretation d_u64: canonical_codec d_bytes "dreader_at tail" d_u64 dr_u64 "be_bytes 8" "\<lambda>_. True" for tail
  by unfold_locales
    (auto simp: d_u64_def dr_u64_def dr_bytes_at bind_eq_Some_conv be_bytes_word dest!: dr_bytes_sound)

interpretation d_text: field_codec d_bytes "dreader_at tail" d_text dr_text enc_dtext dtext_ok for tail
  by unfold_locales
    (simp_all add: d_text_def dr_text_def enc_dtext_def dtext_ok_def d_u16.wr_ok d_u16.rd_enc
      d_stream.emit_emit dr_bytes_at)

lemma counted_codec:
  assumes "field_codec d_bytes (dreader_at tail) wr rd enc ok"
  shows "field_codec d_bytes (dreader_at tail) (d_counted wr) (dr_counted rd) (enc_counted enc) (counted_ok ok)"
proof unfold_locales
  show "d_counted wr x w = d_bytes (enc_counted enc x) w" if "counted_ok ok x" for x w
    using that by (simp add: d_counted_def counted_ok_def enc_counted_def d_u8.wr_ok
        field_codec.fold_wr[OF assms] d_stream.emit_emit)
  show "dr_counted rd (dreader_at tail pre (enc_counted enc x @ post)) =
          Some (x, dreader_at tail (pre @ enc_counted enc x) post)" if "counted_ok ok x" for x pre post
    using that d_u8.rd_enc[where x="word_of_nat (length x)" and pre=pre and post="concat (map enc x) @ post" and tail=tail]
    by (simp add: dr_counted_def counted_ok_def enc_counted_def field_codec.read_n_enc[OF assms])
qed

interpretation d_texts: field_codec d_bytes "dreader_at tail" "d_counted d_text" "dr_counted dr_text"
  "enc_counted enc_dtext" "counted_ok dtext_ok" for tail
  by (rule counted_codec) (rule d_text.field_codec_axioms)

lemma d_attribute_entries_ok:
  "list_all attribute_ok es \<Longrightarrow> d_attribute_entries es w = d_bytes (concat (map enc_attribute es)) w"
  by (induction es arbitrary: w)
    (auto simp: attribute_ok_def kMaxAttributeKeyBytes_def kMaxAttributeValueBytes_def enc_attribute_def
      d_text.wr_ok dtext_ok_def d_stream.emit_emit d_stream.emit_Nil)

lemma dr_attribute_entries_enc:
  assumes "list_all attribute_ok es" and "omap_ok (m @ es)"
  shows "dr_attribute_entries (length es) m (dreader_at tail pre (concat (map enc_attribute es) @ post)) =
           Some (m @ es, dreader_at tail (pre @ concat (map enc_attribute es)) post)"
  using assms
proof (induction es arbitrary: m pre)
  case (Cons e es)
  obtain k v where e: "e = (k, v)" by (cases e)
  from Cons.prems(1) e have "dtext_ok k" "dtext_ok v" "k \<noteq> []" "\<not> kMaxAttributeKeyBytes < length k"
      "\<not> kMaxAttributeValueBytes < length v"
    by (auto simp: attribute_ok_def dtext_ok_def kMaxAttributeKeyBytes_def kMaxAttributeValueBytes_def)
  moreover from Cons.prems(2) e have "om_emplace k v m = Some (m @ [(k, v)])"
    by (intro om_emplace_snoc) (simp add: omap_ok_def sorted_wrt_append)
  ultimately show ?case using Cons e by (simp add: enc_attribute_def d_text.rd_enc)
qed simp

interpretation d_attributes: field_codec d_bytes "dreader_at tail" d_attributes dr_attributes
  "enc_counted enc_attribute" attributes_ok for tail
proof unfold_locales
  fix m w assume "attributes_ok m"
  then show "d_attributes m w = d_bytes (enc_counted enc_attribute m) w"
    by (simp add: d_attributes_def attributes_ok_def valid_attributes_def d_u8.wr_ok enc_counted_def
        d_attribute_entries_ok d_stream.emit_emit)
next
  fix m pre post assume "attributes_ok m"
  then show "dr_attributes (dreader_at tail pre (enc_counted enc_attribute m @ post)) =
      Some (m, dreader_at tail (pre @ enc_counted enc_attribute m) post)"
    using dr_attribute_entries_enc[of m "[]"] d_u8.rd_enc[where x="word_of_nat (length m)" and pre=pre and tail=tail]
    by (simp add: dr_attributes_def enc_counted_def attributes_ok_def valid_attributes_def kMaxAttributeCount_def)
qed

section \<open>Records in a reply\<close>

definition enc_dprofile :: "ProfileDescriptor \<Rightarrow> bytes" where
  "enc_dprofile p = enc_dtext (pd_profile_id p) @ be_bytes 2 (pd_major p) @ be_bytes 2 (pd_minor p) @
     enc_dtext (pd_schema_digest p)"

definition dprofile_ok :: "ProfileDescriptor \<Rightarrow> bool" where
  "dprofile_ok p \<longleftrightarrow> dtext_ok (pd_profile_id p) \<and> dtext_ok (pd_schema_digest p)"

text \<open>What a format leaves of an entity and of an advertisement.\<close>

definition entity_in :: "bool \<Rightarrow> bool \<Rightarrow> DiscoveryEntitySummary \<Rightarrow> DiscoveryEntitySummary" where
  "entity_in agent attrs e = e\<lparr>de_agent_id := (if agent then de_agent_id e else 0),
     de_attributes := (if attrs then de_attributes e else [])\<rparr>"

definition advertisement_in :: "u8 \<Rightarrow> DiscoveryAdvertisement \<Rightarrow> DiscoveryAdvertisement" where
  "advertisement_in version a = a\<lparr>
     da_attributes := (if version \<ge> kDiscoveryFormatV4 then da_attributes a else []),
     da_entities := map (entity_in (version \<ge> kDiscoveryFormatV3) (version \<ge> kDiscoveryFormatV4)) (da_entities a)\<rparr>"

definition enc_dentity :: "bool \<Rightarrow> bool \<Rightarrow> DiscoveryEntitySummary \<Rightarrow> bytes" where
  "enc_dentity agent attrs e = enc_dtext (de_entity_uid e) @ enc_dtext (de_kind e) @
     enc_dtext (de_display_name e) @ [availability_code (de_availability e)] @
     (if agent then be_bytes 4 (de_agent_id e) else []) @
     (if attrs then enc_counted enc_attribute (de_attributes e) else [])"

definition dentity_ok :: "bool \<Rightarrow> bool \<Rightarrow> DiscoveryEntitySummary \<Rightarrow> bool" where
  "dentity_ok agent attrs e \<longleftrightarrow> dtext_ok (de_entity_uid e) \<and> dtext_ok (de_kind e) \<and>
     dtext_ok (de_display_name e) \<and> attributes_ok (de_attributes e) \<and> entity_in agent attrs e = e"

lemmas discovery_wr = d_u8.wr_ok d_u16.wr_ok d_u32.wr_ok d_u64.wr_ok d_text.wr_ok d_texts.wr_ok
  d_attributes.wr_ok d_stream.emit_emit d_stream.emit_Nil in_order_simps

lemma dr_u8_Cons: "dr_u8 (dreader_at tail pre (x # post)) = Some (x, dreader_at tail (pre @ [x]) post)"
  using d_u8.rd_enc[where x=x and pre=pre and post=post and tail=tail] by simp

lemmas discovery_rd = dr_u8_Cons d_u16.rd_enc d_u32.rd_enc d_u64.rd_enc d_text.rd_enc d_texts.rd_enc
  d_attributes.rd_enc d_u64.rd_enc_end

interpretation d_profile: field_codec d_bytes "dreader_at tail" d_profile dr_profile enc_dprofile dprofile_ok for tail
  by unfold_locales
    (simp_all add: d_profile_def dr_profile_def enc_dprofile_def dprofile_ok_def discovery_wr discovery_rd)

lemma availability_not_offline_less [simp]: "\<not> availability_code Av_kOffline < availability_code v"
  by (cases v) simp_all

lemma entity_in_same:
  "entity_in agent attrs e = e \<longleftrightarrow> (agent \<or> de_agent_id e = 0) \<and> (attrs \<or> de_attributes e = [])"
  by (cases e) (auto simp: entity_in_def)

interpretation d_entity: field_codec d_bytes "dreader_at tail" "d_entity agent attrs" "dr_entity agent attrs"
  "enc_dentity agent attrs" "dentity_ok agent attrs" for tail agent attrs
  by unfold_locales
    (cases agent; cases attrs;
     simp add: d_entity_def dr_entity_def enc_dentity_def dentity_ok_def d_when_def dr_when_def entity_in_same
       discovery_wr discovery_rd del: availability_code.simps)+

interpretation d_profiles: field_codec d_bytes "dreader_at tail" "d_counted d_profile" "dr_counted dr_profile"
  "enc_counted enc_dprofile" "counted_ok dprofile_ok" for tail
  by (rule counted_codec) (rule d_profile.field_codec_axioms)

interpretation d_entities: field_codec d_bytes "dreader_at tail" "d_counted (d_entity agent attrs)"
  "dr_counted (dr_entity agent attrs)" "enc_counted (enc_dentity agent attrs)"
  "counted_ok (dentity_ok agent attrs)" for tail agent attrs
  by (rule counted_codec) (rule d_entity.field_codec_axioms)

text \<open>A reply leaves out what its format has no place for.\<close>

lemma entity_in_written: "d_entity agent attrs (entity_in agent attrs e) = d_entity agent attrs e"
  by (simp add: d_entity_def entity_in_def d_when_def fun_eq_iff in_order_simps)

lemma write_reply_in: "write_reply q (advertisement_in (dq_format_version q) a) = write_reply q a"
  by (simp add: write_reply_def advertisement_in_def Let_def d_when_def d_counted_def in_order_simps
      fold_map comp_def entity_in_written)

section \<open>When the writer gives up\<close>

text \<open>A writer that is still valid was only given fields within their bounds.\<close>

lemma d_valid [simp]:
  "dw_valid (d_bytes bs w) = dw_valid w" "dw_valid (d_u8 a w) = dw_valid w"
  "dw_valid (d_u16 b w) = dw_valid w" "dw_valid (d_u32 c w) = dw_valid w"
  "dw_valid (d_u64 d w) = dw_valid w" "dw_valid dwriter_init" "\<not> dw_valid (d_invalid w)"
  "dw_valid (d_text s w) \<longleftrightarrow> dw_valid w \<and> dtext_ok s"
  by (auto simp: d_bytes_def d_u8_def d_u16_def d_u32_def d_u64_def d_text_def d_invalid_def dtext_ok_def
      dwriter_init_def)

lemma d_fold_valid:
  "(\<And>x w. dw_valid (wr x w) \<Longrightarrow> dw_valid w \<and> ok x) \<Longrightarrow> dw_valid (fold wr xs w) \<Longrightarrow>
     dw_valid w \<and> list_all ok xs"
proof (induction xs arbitrary: w)
  case (Cons x xs)
  from Cons.IH[OF Cons.prems(1), of "wr x w"] Cons.prems(2)
  have "dw_valid (wr x w)" "list_all ok xs" by simp_all
  with Cons.prems(1)[of x w] show ?case by simp
qed simp

lemma d_counted_valid:
  "(\<And>x w. dw_valid (wr x w) \<Longrightarrow> dw_valid w \<and> ok x) \<Longrightarrow> dw_valid (d_counted wr xs w) \<Longrightarrow>
     dw_valid w \<and> list_all ok xs"
  unfolding d_counted_def by (drule (1) d_fold_valid) simp

lemma d_attribute_entries_valid: "dw_valid (d_attribute_entries es w) \<Longrightarrow> dw_valid w"
  by (induction es arbitrary: w) (fastforce split: if_splits)+

lemma d_when_attributes_valid: "dw_valid (d_when c (d_attributes m) w) \<Longrightarrow> dw_valid w"
  by (auto simp: d_when_def d_attributes_def split: if_splits dest: d_attribute_entries_valid)

lemma d_when_u32_valid [simp]: "dw_valid (d_when c (d_u32 v) w) = dw_valid w"
  by (simp add: d_when_def)

definition entity_texts_ok :: "DiscoveryEntitySummary \<Rightarrow> bool" where
  "entity_texts_ok e \<longleftrightarrow> dtext_ok (de_entity_uid e) \<and> dtext_ok (de_kind e) \<and> dtext_ok (de_display_name e)"

lemma d_profile_valid: "dw_valid (d_profile p w) \<Longrightarrow> dw_valid w \<and> dprofile_ok p"
  by (auto simp: d_profile_def in_order_simps dprofile_ok_def)

lemma d_entity_valid: "dw_valid (d_entity agent attrs e w) \<Longrightarrow> dw_valid w \<and> entity_texts_ok e"
  by (auto simp: d_entity_def in_order_simps entity_texts_ok_def dest!: d_when_attributes_valid)

definition texts_ok :: "DiscoveryAdvertisement \<Rightarrow> bool" where
  "texts_ok a \<longleftrightarrow> dtext_ok (da_endpoint_uid a) \<and> dtext_ok (da_display_name a) \<and>
     list_all dtext_ok (da_capabilities a) \<and> list_all dprofile_ok (da_profiles a) \<and>
     list_all entity_texts_ok (da_entities a)"

lemma write_reply_valid:
  assumes "dw_valid (write_reply q a)"
  shows "texts_ok a"
proof -
  let ?agent = "dq_format_version q \<ge> kDiscoveryFormatV3" and ?attrs = "dq_format_version q \<ge> kDiscoveryFormatV4"
  define w1 where "w1 = in_order
     [d_bytes (reply_magic (dq_format_version q)), d_u64 (dq_nonce q), d_u8 kProtocolMajor,
      d_u8 kHeaderVersion, d_u16 (ucast (dq_format_version q)), d_text (da_endpoint_uid a),
      d_text (da_display_name a), d_u16 (da_tcp_listen_port a)] dwriter_init"
  define w2 where "w2 = d_counted d_text (da_capabilities a) w1"
  define w3 where "w3 = d_counted d_profile (da_profiles a) w2"
  define w4 where "w4 = d_when ?attrs (d_attributes (da_attributes a)) w3"
  have "dw_valid (d_counted (d_entity ?agent ?attrs) (da_entities a) w4)"
    using assms by (simp add: write_reply_def Let_def in_order_simps w1_def w2_def w3_def w4_def)
  from d_counted_valid[OF d_entity_valid this] have 4: "dw_valid w4" "list_all entity_texts_ok (da_entities a)"
    by simp_all
  from 4(1) have "dw_valid w3" unfolding w4_def by (rule d_when_attributes_valid)
  from d_counted_valid[OF d_profile_valid this[unfolded w3_def]]
  have 3: "dw_valid w2" "list_all dprofile_ok (da_profiles a)" by simp_all
  have "dw_valid w1 \<and> list_all dtext_ok (da_capabilities a)"
    by (rule d_counted_valid[OF _ 3(1)[unfolded w2_def]]) simp
  with 3 4 show ?thesis by (simp add: texts_ok_def w1_def in_order_simps)
qed

section \<open>The tag\<close>

lemma be_acc_OR: "be_acc bs v = v OR be_acc bs 0"
  using le_acc_OR[of 0 "rev bs" 0 v] by (simp add: be_acc_rev or.commute)

lemma shift_in_bytes:
  "fold (\<lambda>b v. push_bit 8 v OR ucast b) bs (v :: 'a::len word) = push_bit (8 * length bs) v OR be_word bs"
proof (induction bs arbitrary: v)
  case (Cons b bs)
  then show ?case
    using be_acc_OR[of bs "push_bit (8 * length bs) (ucast b) :: 'a word"]
    by (simp add: be_word_def push_bit_or or.assoc add.commute)
qed (simp add: be_word_def)

lemma authenticated_iff:
  "authenticated_packet (pay @ be_bytes 8 tag) secret \<longleftrightarrow> tag = auth_tag secret pay"
  by (simp add: authenticated_packet_def shift_in_bytes)

lemma authenticatedE:
  assumes "authenticated_packet bs secret"
  obtains pay where "bs = pay @ be_bytes 8 (auth_tag secret pay)"
proof
  let ?n = "length bs - 8"
  have len: "8 \<le> length bs" using assms by (auto simp: authenticated_packet_def split: if_splits)
  with assms have "be_word (drop ?n bs) = auth_tag secret (take ?n bs)"
    by (simp add: authenticated_packet_def shift_in_bytes Let_def)
  then have "drop ?n bs = be_bytes 8 (auth_tag secret (take ?n bs))"
    using len by (metis be_bytes_word(3) length_drop diff_diff_cancel)
  then show "bs = take ?n bs @ be_bytes 8 (auth_tag secret (take ?n bs))"
    by (metis append_take_drop_id)
qed

text \<open>The multiplier is odd, so every step of the tag can be undone.\<close>

definition tag_unstep :: "u8 \<Rightarrow> u64 \<Rightarrow> u64" where
  "tag_unstep byte value = (value * 14886173955864302971) XOR ucast byte"

lemma tag_step_undo: "tag_unstep b (tag_step b v) = v"
proof -
  have "(1099511628211 :: u64) * 14886173955864302971 = 1" by simp
  then have "x * kFnvPrime * 14886173955864302971 = x" for x
    by (simp only: kFnvPrime_def mult.assoc mult.right_neutral)
  then show ?thesis by (simp add: tag_unstep_def tag_step_def xor.assoc)
qed

lemma tag_step_inj: "tag_step b v = tag_step b v' \<longleftrightarrow> v = v'"
  by (metis tag_step_undo)

lemma tag_steps_inj: "fold tag_step bs v = fold tag_step bs v' \<longleftrightarrow> v = v'"
  by (induction bs arbitrary: v v') (simp_all add: tag_step_inj)

lemma tag_steps_undo: "fold tag_unstep (rev bs) (fold tag_step bs v) = v"
  by (induction bs arbitrary: v) (simp_all add: tag_step_undo)

text \<open>
  Whoever sees one packet can therefore tag any other without the secret: the state behind the secret
  is recovered by undoing the packet.
\<close>

lemma tag_forgeable:
  "auth_tag secret forged = fold tag_step forged (fold tag_unstep (rev seen) (auth_tag secret seen))"
  by (simp add: auth_tag_def tag_steps_undo)

lemma ucast_u8_u64_inj: "(ucast (b :: u8) :: u64) = ucast c \<longleftrightarrow> b = c"
proof
  assume "(ucast b :: u64) = ucast c"
  then have "unat (ucast b :: u64) = unat (ucast c :: u64)" by simp
  then show "b = c" using unat_u8_less[of b] unat_u8_less[of c]
    by (simp add: unsigned_ucast_eq word_unat_eq_iff take_bit_eq_mod)
qed simp

lemma tag_step_byte: "tag_step b v = tag_step c v \<longleftrightarrow> b = c"
proof
  assume "tag_step b v = tag_step c v"
  then have "tag_step 0 (v XOR ucast b) = tag_step 0 (v XOR ucast c)" by (simp add: tag_step_def)
  then show "b = c" by (simp add: tag_step_inj xor_cancel ucast_u8_u64_inj)
qed simp

lemma auth_tag_update:
  assumes "i < length data" and "b \<noteq> data ! i"
  shows "auth_tag secret (data[i := b]) \<noteq> auth_tag secret data"
proof -
  let ?v = "fold tag_step (take i data) (fold tag_step (bytes_of_string secret) kFnvOffset)"
  have "fold tag_step data v = fold tag_step (take i data @ data ! i # drop (Suc i) data) v" for v
    using id_take_nth_drop[OF assms(1)] by simp
  then have "auth_tag secret data = fold tag_step (drop (Suc i) data) (tag_step (data ! i) ?v)"
    by (simp add: auth_tag_def)
  moreover have "auth_tag secret (data[i := b]) = fold tag_step (drop (Suc i) data) (tag_step b ?v)"
    by (simp add: auth_tag_def upd_conv_take_nth_drop[OF assms(1)])
  ultimately show ?thesis using assms(2) by (simp add: tag_steps_inj tag_step_byte)
qed

lemma authenticated_update:
  assumes "authenticated_packet bs secret" and "i < length bs" and "b \<noteq> bs ! i"
  shows "\<not> authenticated_packet (bs[i := b]) secret"
proof
  assume "authenticated_packet (bs[i := b]) secret"
  then obtain q where q: "bs[i := b] = q @ be_bytes 8 (auth_tag secret q)" by (rule authenticatedE)
  from assms(1) obtain p where p: "bs = p @ be_bytes 8 (auth_tag secret p)" by (rule authenticatedE)
  have len: "length q = length p" using arg_cong[OF q, of length] arg_cong[OF p, of length] by simp
  show False
  proof (cases "i < length p")
    case True
    then have "bs[i := b] = p[i := b] @ be_bytes 8 (auth_tag secret p)"
      by (metis p list_update_append1)
    with q len have "q = p[i := b]" "be_bytes 8 (auth_tag secret q) = be_bytes 8 (auth_tag secret p)"
      by auto
    moreover from this(2) have "auth_tag secret q = auth_tag secret p" by (metis be_word_bytes(3))
    moreover have "b \<noteq> p ! i" using assms(3) True p by (metis nth_append_left)
    ultimately show False using auth_tag_update[OF True] by metis
  next
    case False
    then have "q = p" using q len by (subst (asm) p) (simp add: list_update_append)
    with q p have "bs[i := b] = bs" by simp
    with assms(2,3) show False by (metis nth_list_update_eq)
  qed
qed

section \<open>Round trips\<close>

lemma dr_magic_at:
  assumes "length m = length m'"
  shows "dr_magic m (dreader_at tail pre (m' @ post)) =
    (if m' = m then Some (dreader_at tail (pre @ m') post) else None)"
  using assms by (simp add: dr_magic_def dr_bytes_at)

lemmas discovery_magics = kQueryMagicV2_def kQueryMagicV3_def kQueryMagicV4_def kReplyMagicV2_def
  kReplyMagicV3_def kReplyMagicV4_def

lemma discovery_magic_length [simp]:
  "length kQueryMagicV2 = 4" "length kQueryMagicV3 = 4" "length kQueryMagicV4 = 4"
  "length kReplyMagicV2 = 4" "length kReplyMagicV3 = 4" "length kReplyMagicV4 = 4"
  by (simp_all add: discovery_magics)

lemma discovery_magic_distinct [simp]:
  "kQueryMagicV2 \<noteq> kQueryMagicV4" "kQueryMagicV2 \<noteq> kQueryMagicV3" "kQueryMagicV3 \<noteq> kQueryMagicV4"
  "kReplyMagicV2 \<noteq> kReplyMagicV4" "kReplyMagicV2 \<noteq> kReplyMagicV3" "kReplyMagicV3 \<noteq> kReplyMagicV4"
  by (simp_all add: discovery_magics byte_of_char_def)

definition known_version :: "u8 \<Rightarrow> bool" where
  "known_version v \<longleftrightarrow> v = kDiscoveryFormatV2 \<or> v = kDiscoveryFormatV3 \<or> v = kDiscoveryFormatV4"

lemmas discovery_versions = known_version_def kDiscoveryFormatV2_def kDiscoveryFormatV3_def kDiscoveryFormatV4_def

lemma read_query_version:
  "known_version v \<Longrightarrow> read_version kQueryMagicV4 kQueryMagicV3 kQueryMagicV2
     (dreader_at tail pre (query_magic v @ post)) = Some (v, dreader_at tail (pre @ query_magic v) post)"
  by (auto simp: discovery_versions read_version_def query_magic_def dr_magic_at)

lemma read_reply_version:
  "known_version v \<Longrightarrow> read_version kReplyMagicV4 kReplyMagicV3 kReplyMagicV2
     (dreader_at tail pre (reply_magic v @ post)) = Some (v, dreader_at tail (pre @ reply_magic v) post)"
  by (auto simp: discovery_versions read_version_def reply_magic_def dr_magic_at)

lemma dr_magic_sound:
  "dr_magic m (dreader_at tail pre rest) = Some r' \<Longrightarrow>
     \<exists>post. rest = m @ post \<and> r' = dreader_at tail (pre @ m) post"
  by (auto simp: dr_magic_def bind_eq_Some_conv split: if_splits dest!: dr_bytes_sound)

lemma read_query_version_sound:
  "read_version kQueryMagicV4 kQueryMagicV3 kQueryMagicV2 (dreader_at tail pre rest) = Some (v, r') \<Longrightarrow>
     known_version v \<and> (\<exists>post. rest = query_magic v @ post \<and> r' = dreader_at tail (pre @ query_magic v) post)"
  by (auto simp: read_version_def discovery_versions query_magic_def split: option.splits dest!: dr_magic_sound)

definition query_ok :: "DiscoveryQuery \<Rightarrow> bool" where
  "query_ok q \<longleftrightarrow> dq_nonce q \<noteq> 0 \<and> dq_response_window_ms q \<noteq> 0 \<and> known_version (dq_format_version q)"

definition enc_query :: "DiscoveryQuery \<Rightarrow> bytes" where
  "enc_query q = query_magic (dq_format_version q) @ be_bytes 8 (dq_nonce q) @ be_bytes 2 (dq_response_window_ms q)"

lemma length_query_magic [simp]: "length (query_magic v) = 4"
  by (simp add: query_magic_def)

lemma encode_query_ok:
  "query_ok q \<Longrightarrow> encode_discovery_query q secret = enc_query q @ be_bytes 8 (auth_tag secret (enc_query q))"
  by (simp add: encode_discovery_query_def query_ok_def known_version_def d_finish_def discovery_wr
      kMaxDiscoveryBytes_def enc_query_def) (auto simp: d_bytes_def dwriter_init_def)

lemma decode_query_at:
  "length pay = 14 \<Longrightarrow> decode_discovery_query (pay @ be_bytes 8 (auth_tag secret pay)) secret = do {
     (version, r) \<leftarrow> read_version kQueryMagicV4 kQueryMagicV3 kQueryMagicV2
       (dreader_at (be_bytes 8 (auth_tag secret pay)) [] pay);
     (nonce, r) \<leftarrow> dr_u64 r;
     (window, r) \<leftarrow> dr_u16 r;
     if \<not> dr_done r \<or> nonce = 0 \<or> window = 0 then None
     else Some \<lparr>dq_nonce = nonce, dq_response_window_ms = window, dq_format_version = version\<rparr> }"
  using dreader_init_at[of pay "be_bytes 8 (auth_tag secret pay)"]
  by (simp add: decode_discovery_query_def authenticated_iff)

interpretation p_query: canonical_payload "\<lambda>q. encode_discovery_query q secret"
  "\<lambda>bs. decode_discovery_query bs secret" query_ok for secret
proof unfold_locales
  fix q assume ok: "query_ok q"
  have "length (enc_query q) = 14" by (simp add: enc_query_def)
  then show "decode_discovery_query (encode_discovery_query q secret) secret = Some q"
    using ok unfolding encode_query_ok[OF ok]
    by (simp add: decode_query_at)
      (simp add: enc_query_def query_ok_def read_query_version discovery_rd d_u16.rd_enc_end)
next
  fix bs q assume dec: "decode_discovery_query bs secret = Some q"
  then have len: "length bs = 22" and "authenticated_packet bs secret"
    by (auto simp: decode_discovery_query_def split: if_splits)
  from this(2) obtain pay where bs: "bs = pay @ be_bytes 8 (auth_tag secret pay)" by (rule authenticatedE)
  have "length pay = 14" using arg_cong[OF bs, of length] len by simp
  from decode_query_at[OF this, of secret] dec bs have "query_ok q \<and> enc_query q = pay"
    by (auto simp: bind_eq_Some_conv query_ok_def enc_query_def split: if_splits
        dest!: read_query_version_sound d_u64.rd_sound d_u16.rd_sound)
  then show "query_ok q \<and> encode_discovery_query q secret = bs"
    using encode_query_ok bs by blast
qed

text \<open>An advertisement as it stands in a packet of a given format; \<open>maps_ordered\<close> holds of every \<open>std::map\<close>.\<close>

definition maps_ordered :: "DiscoveryAdvertisement \<Rightarrow> bool" where
  "maps_ordered a \<longleftrightarrow> omap_ok (da_attributes a) \<and> list_all (\<lambda>e. omap_ok (de_attributes e)) (da_entities a)"

definition packet_ok :: "u8 \<Rightarrow> DiscoveryAdvertisement \<Rightarrow> bool" where
  "packet_ok v a \<longleftrightarrow> dtext_ok (da_endpoint_uid a) \<and> dtext_ok (da_display_name a) \<and>
     counted_ok dtext_ok (da_capabilities a) \<and> counted_ok dprofile_ok (da_profiles a) \<and>
     attributes_ok (da_attributes a) \<and> (v \<ge> kDiscoveryFormatV4 \<or> da_attributes a = []) \<and>
     counted_ok (dentity_ok (v \<ge> kDiscoveryFormatV3) (v \<ge> kDiscoveryFormatV4)) (da_entities a)"

definition enc_reply :: "u8 \<Rightarrow> u64 \<Rightarrow> DiscoveryAdvertisement \<Rightarrow> bytes" where
  "enc_reply v nonce a = reply_magic v @ be_bytes 8 nonce @ kProtocolMajor # kHeaderVersion #
     be_bytes 2 (ucast v :: u16) @ enc_dtext (da_endpoint_uid a) @ enc_dtext (da_display_name a) @
     be_bytes 2 (da_tcp_listen_port a) @ enc_counted enc_dtext (da_capabilities a) @
     enc_counted enc_dprofile (da_profiles a) @
     (if v \<ge> kDiscoveryFormatV4 then enc_counted enc_attribute (da_attributes a) else []) @
     enc_counted (enc_dentity (v \<ge> kDiscoveryFormatV3) (v \<ge> kDiscoveryFormatV4)) (da_entities a) @
     be_bytes 8 (da_started_at_ms a) @ be_bytes 8 (da_sequence a)"

lemma write_reply_packet:
  assumes "packet_ok (dq_format_version q) a"
  shows "write_reply q a = d_bytes (enc_reply (dq_format_version q) (dq_nonce q) a) dwriter_init"
  using assms
  by (simp add: write_reply_def Let_def packet_ok_def enc_reply_def d_when_def discovery_wr
      d_profiles.wr_ok d_entities.wr_ok)

lemma read_reply_packet:
  assumes "packet_ok v a" and "known_version v"
  shows "read_reply nonce (dreader_at tail [] (enc_reply v nonce a)) =
    Some (a, dreader_at tail (enc_reply v nonce a) [])"
  using assms unfolding packet_ok_def enc_reply_def
  by (cases "v \<ge> kDiscoveryFormatV4")
    (simp_all add: read_reply_def read_reply_version Let_def dr_when_def discovery_rd d_profiles.rd_enc
      d_entities.rd_enc)

lemma attributes_ok_Nil [simp]: "attributes_ok []"
  by (simp add: attributes_ok_def valid_attributes_def)

lemma entity_in_idem [simp]: "entity_in agent attrs (entity_in agent attrs e) = entity_in agent attrs e"
  by (simp add: entity_in_def)

lemma packet_ok_in:
  assumes "valid_advertisement a" and "maps_ordered a" and "texts_ok a"
  shows "packet_ok v (advertisement_in v a)"
  using assms
  by (auto simp: packet_ok_def advertisement_in_def valid_advertisement_def maps_ordered_def texts_ok_def
      counted_ok_def attributes_ok_def valid_attributes_def list_all_iff dentity_ok_def entity_texts_ok_def
      split: if_splits) (auto simp: entity_in_def)

lemma valid_advertisement_in: "valid_advertisement a \<Longrightarrow> valid_advertisement (advertisement_in v a)"
  by (auto simp: valid_advertisement_def advertisement_in_def entity_in_def list_all_iff valid_attributes_def
      split: if_splits)

text \<open>A reply that was encoded is the packet of what its format leaves of the advertisement.\<close>

lemma encode_reply_packet:
  assumes "encode_discovery_reply q a secret \<noteq> []" and "maps_ordered a"
  defines "v \<equiv> dq_format_version q"
  shows "packet_ok v (advertisement_in v a)" "valid_advertisement a"
    "encode_discovery_reply q a secret = enc_reply v (dq_nonce q) (advertisement_in v a) @
       be_bytes 8 (auth_tag secret (enc_reply v (dq_nonce q) (advertisement_in v a)))"
    "length (enc_reply v (dq_nonce q) (advertisement_in v a)) + 8 \<le> kMaxDiscoveryBytes"
proof -
  have va: "valid_advertisement a" and w: "dw_valid (write_reply q a)"
      and len: "length (dw_value (write_reply q a)) + 8 \<le> kMaxDiscoveryBytes"
      and enc: "encode_discovery_reply q a secret = d_finish secret (write_reply q a)"
    using assms(1) by (auto simp: encode_discovery_reply_def d_finish_def split: if_splits)
  show ok: "packet_ok v (advertisement_in v a)"
    using packet_ok_in[OF va assms(2) write_reply_valid[OF w]] .
  have wr: "write_reply q a = d_bytes (enc_reply v (dq_nonce q) (advertisement_in v a)) dwriter_init"
    using write_reply_packet[of q "advertisement_in v a"] ok by (simp add: v_def write_reply_in)
  then have val: "dw_value (write_reply q a) = enc_reply v (dq_nonce q) (advertisement_in v a)"
    by (simp add: d_bytes_def dwriter_init_def)
  show "valid_advertisement a" by (rule va)
  show "length (enc_reply v (dq_nonce q) (advertisement_in v a)) + 8 \<le> kMaxDiscoveryBytes"
    using len val by simp
  then show "encode_discovery_reply q a secret = enc_reply v (dq_nonce q) (advertisement_in v a) @
       be_bytes 8 (auth_tag secret (enc_reply v (dq_nonce q) (advertisement_in v a)))"
    using enc w val by (simp add: d_finish_def d_u64_def d_bytes_def)
qed

lemma decode_encoded_reply:
  assumes "encode_discovery_reply q a secret \<noteq> []" and "maps_ordered a"
    and "known_version (dq_format_version q)"
  shows "decode_discovery_reply (encode_discovery_reply q a secret) secret (dq_nonce q) =
    Some (advertisement_in (dq_format_version q) a)"
proof -
  let ?v = "dq_format_version q"
  let ?pay = "enc_reply ?v (dq_nonce q) (advertisement_in ?v a)"
  note enc = encode_reply_packet[OF assms(1,2)]
  have "dreader_init (?pay @ be_bytes 8 (auth_tag secret ?pay)) (length ?pay) =
      dreader_at (be_bytes 8 (auth_tag secret ?pay)) [] ?pay" by (rule dreader_init_at)
  then show ?thesis
    using enc(4) read_reply_packet[OF enc(1) assms(3), of "dq_nonce q"] valid_advertisement_in[OF enc(2), of ?v]
    by (simp add: enc(3) decode_discovery_reply_def authenticated_iff)
qed

section \<open>Properties\<close>

text \<open>
  C28. A discovery reply survives the network: whenever an endpoint encodes a reply to a query of a
  known format, the requester that shares the secret and expects the query's nonce decodes exactly
  the advertisement, less what that format has no place for (agent identifiers before v3, attribute
  maps before v4).
\<close>

theorem discovery_reply_round_trip:
  assumes "encode_discovery_reply q a secret \<noteq> []" and "maps_ordered a"
    and "known_version (dq_format_version q)"
  shows "decode_discovery_reply (encode_discovery_reply q a secret) secret (dq_nonce q) =
    Some (advertisement_in (dq_format_version q) a)"
  using assms by (rule decode_encoded_reply)

definition sample_query :: DiscoveryQuery where
  "sample_query = \<lparr>dq_nonce = 7, dq_response_window_ms = 250, dq_format_version = 4\<rparr>"

definition sample_advertisement :: DiscoveryAdvertisement where
  "sample_advertisement = \<lparr>da_endpoint_uid = ''agent'', da_display_name = ''Agent'', da_tcp_listen_port = 9696,
     da_capabilities = [''fly''], da_profiles = [\<lparr>pd_profile_id = ''p'', pd_major = 1, pd_minor = 0,
       pd_schema_digest = ''d''\<rparr>], da_attributes = [(''k'', ''v'')],
     da_entities = [\<lparr>de_entity_uid = ''uav:1'', de_kind = ''uav'', de_display_name = ''One'',
       de_availability = Av_kOnline, de_agent_id = 3, de_attributes = [(''a'', '''')]\<rparr>],
     da_started_at_ms = 5, da_sequence = 1\<rparr>"

lemma sample_advertisement_ok:
  "valid_advertisement sample_advertisement" "maps_ordered sample_advertisement"
  by (simp_all add: sample_advertisement_def valid_advertisement_def maps_ordered_def omap_ok_def
      valid_attributes_def attribute_ok_def kMaxAttributeCount_def kMaxAttributeKeyBytes_def
      kMaxAttributeValueBytes_def valid_uid_def valid_profile_id_def uid_char_def is_alnum_def
      kMaxUidBytes_def kMaxProfileIdBytes_def)

lemma sample_reply_encoded: "encode_discovery_reply sample_query sample_advertisement ''s'' \<noteq> []"
  using sample_advertisement_ok(1)
  by (simp add: encode_discovery_reply_def sample_query_def d_finish_def write_reply_def Let_def
      sample_advertisement_def discovery_versions in_order_simps d_counted_def d_profile_def d_entity_def
      d_when_def d_attributes_def attribute_ok_def kMaxAttributeCount_def kMaxAttributeKeyBytes_def
      kMaxAttributeValueBytes_def dtext_ok_def reply_magic_def d_text_def d_u8_def d_u16_def d_u32_def d_u64_def
      kMaxDiscoveryBytes_def)
    (simp add: d_bytes_def dwriter_init_def)

theorem discovery_reply_round_trip_witness:
  "decode_discovery_reply (encode_discovery_reply sample_query sample_advertisement ''s'') ''s'' 7 =
     Some (advertisement_in 4 sample_advertisement)"
  using discovery_reply_round_trip[OF sample_reply_encoded sample_advertisement_ok(2)]
  by (simp add: sample_query_def discovery_versions)

text \<open>
  C31. Changing any one byte of an accepted query or reply, tag included, makes it unacceptable under
  the same secret.
\<close>

theorem discovery_tampering_rejected:
  assumes "decode_discovery_query bs secret \<noteq> None \<or> decode_discovery_reply bs secret nonce \<noteq> None"
    and "i < length bs" and "b \<noteq> bs ! i"
  shows "decode_discovery_query (bs[i := b]) secret = None \<and>
    decode_discovery_reply (bs[i := b]) secret nonce' = None"
proof -
  have "authenticated_packet bs secret"
    using assms(1) by (auto simp: decode_discovery_query_def decode_discovery_reply_def split: if_splits)
  from authenticated_update[OF this assms(2,3)] show ?thesis
    by (simp add: decode_discovery_query_def decode_discovery_reply_def)
qed

theorem discovery_tampering_rejected_witness:
  "decode_discovery_query ((encode_discovery_query sample_query ''s'')[0 := 0]) ''s'' = None \<and>
   decode_discovery_reply ((encode_discovery_query sample_query ''s'')[0 := 0]) ''s'' 7 = None"
proof (rule discovery_tampering_rejected[where nonce=0])
  have ok: "query_ok sample_query" by (simp add: query_ok_def sample_query_def discovery_versions)
  then show "decode_discovery_query (encode_discovery_query sample_query ''s'') ''s'' \<noteq> None \<or>
      decode_discovery_reply (encode_discovery_query sample_query ''s'') ''s'' 0 \<noteq> None"
    using p_query.decodes_encoded[OF ok] by simp
  show "0 < length (encode_discovery_query sample_query ''s'')" "0 \<noteq> encode_discovery_query sample_query ''s'' ! 0"
    by (simp_all add: encode_query_ok[OF ok] enc_query_def)
      (simp add: sample_query_def query_magic_def discovery_versions discovery_magics byte_of_char_def)
qed

lemma read_reply_nonce: "read_reply nonce r = Some x \<Longrightarrow> nonce' \<noteq> nonce \<Longrightarrow> read_reply nonce' r = None"
  by (auto simp: read_reply_def bind_eq_Some_conv bind_eq_None_conv Let_def split: if_splits)

text \<open>
  C30. What the discovery decoders accept. A query is accepted exactly when the packet is the encoding,
  under the receiver's secret, of a query with a nonce, a response window and a known format. An
  accepted reply is a valid advertisement in a packet of at most 8192 bytes, and it answers one query
  only: the same packet is refused under any other nonce.
\<close>

theorem discovery_accepts:
  "(decode_discovery_query bs secret = Some q \<longleftrightarrow>
      dq_nonce q \<noteq> 0 \<and> dq_response_window_ms q \<noteq> 0 \<and> dq_format_version q \<in> {2, 3, 4} \<and>
      encode_discovery_query q secret = bs) \<and>
   (decode_discovery_reply bs secret nonce = Some a \<longrightarrow>
      valid_advertisement a \<and> length bs \<le> 8192 \<and>
      (nonce' = nonce \<or> decode_discovery_reply bs secret nonce' = None))"
proof
  show "decode_discovery_query bs secret = Some q \<longleftrightarrow>
      dq_nonce q \<noteq> 0 \<and> dq_response_window_ms q \<noteq> 0 \<and> dq_format_version q \<in> {2, 3, 4} \<and>
      encode_discovery_query q secret = bs"
    using p_query.decode_iff by (auto simp: query_ok_def discovery_versions)
  show "decode_discovery_reply bs secret nonce = Some a \<longrightarrow> valid_advertisement a \<and> length bs \<le> 8192 \<and>
      (nonce' = nonce \<or> decode_discovery_reply bs secret nonce' = None)"
    using read_reply_nonce
    by (fastforce simp: decode_discovery_reply_def kMaxDiscoveryBytes_def bind_eq_Some_conv split: if_splits)
qed

theorem discovery_accepts_witness:
  "decode_discovery_reply (encode_discovery_reply sample_query sample_advertisement ''s'') ''s'' 8 = None"
proof -
  have "known_version (dq_format_version sample_query)" "dq_nonce sample_query = 7"
    by (simp_all add: sample_query_def discovery_versions)
  then show ?thesis
    using discovery_accepts[THEN conjunct2, rule_format,
        OF decode_encoded_reply[OF sample_reply_encoded sample_advertisement_ok(2)], of 8]
    by simp
qed

end
