(* ===== verification/CBase.thy ===== *)
theory CBase
  imports RuntimeInvariant Discovery
begin

text \<open>
  The vocabulary of the C ABI, \<open>include/yunlink/c/yunlink_v2.h\<close>, and the helpers at the head of
  \<open>src/c/v2/runtime.cpp\<close>. The ABI is C, so what a caller passes may be wrong in ways the C++ runtime
  never sees, and what goes wrong then is undefined behaviour. It is the value \<open>None\<close> of every
  definition here: a read past the end of the memory a pointer points into, a write past the end of an
  out buffer, a call on a handle that was destroyed. A pointer to characters, bytes or array elements
  is an option, \<open>None\<close> for \<open>nullptr\<close> and otherwise everything that can be read from it to the end of
  the object it points into; how much of it a function reads is decided by the length beside it. A
  handle is an address in the heap of this theory, \<open>None\<close> for \<open>nullptr\<close>. A \<open>size_t\<close> is 64 bits wide.
\<close>

section \<open>Views\<close>

record yunlink_v2_string_view =
  sv_data :: "string option"
  sv_len :: u64

record yunlink_v2_bytes_view =
  bv_data :: "bytes option"
  bv_len :: u64

record yunlink_v2_profile_view =
  pv_profile_id :: yunlink_v2_string_view
  pv_major :: u16
  pv_minor :: u16
  pv_schema_digest :: yunlink_v2_string_view

record yunlink_v2_type_ref_view =
  tv_profile_id :: yunlink_v2_string_view
  tv_major :: u16
  tv_minor :: u16
  tv_type_name :: yunlink_v2_string_view

record yunlink_v2_runtime_config =
  rc_struct_size :: u64
  rc_endpoint_uid :: yunlink_v2_string_view
  rc_display_name :: yunlink_v2_string_view
  rc_shared_secret :: yunlink_v2_string_view
  rc_tcp_listen_port :: u16
  rc_profiles :: "yunlink_v2_profile_view list option"
  rc_profile_count :: u64
  rc_required_profiles :: "yunlink_v2_profile_view list option"
  rc_required_profile_count :: u64

text \<open>The arrays of \<open>yunlink_v2_peer\<close> are lists of 256 and 64 characters.\<close>

record yunlink_v2_peer =
  cp_id :: string
  cp_ip :: string
  cp_port :: u16

record yunlink_v2_key_value_view =
  kv_key :: yunlink_v2_string_view
  kv_value :: yunlink_v2_string_view

record yunlink_v2_discovery_entity_view =
  dev_entity_uid :: yunlink_v2_string_view
  dev_kind :: yunlink_v2_string_view
  dev_display_name :: yunlink_v2_string_view
  dev_availability :: u8
  dev_agent_id :: u32

record yunlink_v2_target_view =
  tg_scope :: u8
  tg_uids :: "yunlink_v2_string_view list option"
  tg_uid_count :: u64

record yunlink_v2_message_handle =
  ch_session_id :: u64
  ch_message_id :: u64
  ch_correlation_id :: u64

record yunlink_v2_event =
  ce_kind :: u8
  ce_peer_id :: yunlink_v2_string_view
  ce_link_up :: u8
  ce_error_code :: u16
  ce_message :: yunlink_v2_string_view
  ce_session_state :: u8
  ce_session_authenticated :: u8
  ce_session_id :: u64
  ce_family :: u8
  ce_operation :: u8
  ce_qos_class :: u8
  ce_message_id :: u64
  ce_correlation_id :: u64
  ce_created_at_ms :: u64
  ce_ttl_ms :: u32
  ce_source_endpoint_uid :: yunlink_v2_string_view
  ce_source_entity_uid :: yunlink_v2_string_view
  ce_target :: yunlink_v2_target_view
  ce_type_ref :: yunlink_v2_type_ref_view
  ce_payload :: yunlink_v2_bytes_view

section \<open>Copying in and out\<close>

text \<open>
  \<open>std::string(data, len)\<close> and the byte range \<open>data, data + len\<close>: the first \<open>len\<close> elements, undefined
  when there are fewer.
\<close>

definition read_prefix :: "'a list \<Rightarrow> u64 \<Rightarrow> 'a list option" where
  "read_prefix xs n = (if unat n \<le> length xs then Some (take (unat n) xs) else None)"

definition copy :: "yunlink_v2_string_view \<Rightarrow> string option" where
  "copy v = (case sv_data v of
     None \<Rightarrow> Some []
   | Some cs \<Rightarrow> if sv_len v = 0 then Some [] else read_prefix cs (sv_len v))"

text \<open>\<open>data()\<close> of a \<open>std::string\<close> is never null; that of an empty \<open>std::vector\<close> is.\<close>

definition view :: "string \<Rightarrow> yunlink_v2_string_view" where
  "view s = \<lparr>sv_data = Some s, sv_len = of_nat (length s)\<rparr>"

definition vector_data :: "'a list \<Rightarrow> 'a list option" where
  "vector_data xs = (if xs = [] then None else Some xs)"

definition view_bytes :: "bytes \<Rightarrow> yunlink_v2_bytes_view" where
  "view_bytes bs = \<lparr>bv_data = vector_data bs, bv_len = of_nat (length bs)\<rparr>"

definition result :: "ErrorCode \<Rightarrow> u16" where
  "result code = error_code code"

text \<open>A loop over \<open>count\<close> elements of a C array.\<close>

definition copy_each :: "('v \<Rightarrow> 'a option) \<Rightarrow> 'v list option \<Rightarrow> u64 \<Rightarrow> 'a list option" where
  "copy_each f values cnt =
     (if cnt = 0 then Some []
      else do { vs \<leftarrow> values; vs \<leftarrow> read_prefix vs cnt; those (map f vs) })"

definition copy_profile :: "yunlink_v2_profile_view \<Rightarrow> ProfileDescriptor option" where
  "copy_profile v = do {
     profile_id \<leftarrow> copy (pv_profile_id v);
     digest \<leftarrow> copy (pv_schema_digest v);
     Some \<lparr>pd_profile_id = profile_id, pd_major = pv_major v, pd_minor = pv_minor v,
       pd_schema_digest = digest\<rparr> }"

text \<open>
  The inner option is the outcome: \<open>None\<close> for \<open>return false\<close>. Both calls pass the address of a member,
  so \<open>out\<close> is never null.
\<close>

definition copy_profiles ::
  "yunlink_v2_profile_view list option \<Rightarrow> u64 \<Rightarrow> ProfileDescriptor list option option" where
  "copy_profiles values cnt =
     (if (values = None) \<noteq> (cnt = 0) then Some None
      else do { ps \<leftarrow> copy_each copy_profile values cnt; Some (Some ps) })"

definition copy_target :: "yunlink_v2_target_view \<Rightarrow> TargetSelector option option" where
  "copy_target v =
     (if tg_scope v < 1 \<or> tg_scope v > 4 \<or> ((tg_uids v = None) \<noteq> (tg_uid_count v = 0)) then Some None
      else do {
        scope \<leftarrow> scope_of (tg_scope v);
        uids \<leftarrow> copy_each copy (tg_uids v) (tg_uid_count v);
        Some (Some \<lparr>ts_scope = scope, ts_uids = uids\<rparr>) })"

text \<open>
  \<open>memcpy\<close> to the start of a buffer, undefined beyond its end, and the string of a buffer as C reads
  it, up to the first NUL.
\<close>

definition NUL :: char where "NUL = CHR 0x00"

definition write_at :: "nat \<Rightarrow> 'a list \<Rightarrow> 'a list \<Rightarrow> 'a list option" where
  "write_at pos xs buffer =
     (if pos + length xs \<le> length buffer then Some (take pos buffer @ xs @ drop (pos + length xs) buffer)
      else None)"

definition copy_fixed :: "string \<Rightarrow> string \<Rightarrow> string option" where
  "copy_fixed buf s =
     (let cnt = min (length s) (length buf - 1)
      in do { t \<leftarrow> write_at 0 (take cnt s) buf; write_at cnt [NUL] t })"

definition c_string :: "string \<Rightarrow> string" where
  "c_string buffer = takeWhile (\<lambda>c. c \<noteq> NUL) buffer"

section \<open>The heap of handles\<close>

text \<open>
  The objects behind the opaque pointers: \<open>struct yunlink_v2_runtime\<close> holds a \<open>Runtime\<close>,
  \<open>struct yunlink_v2_discovery_advertisement\<close> a decoded advertisement. \<open>new\<close> gives an address that
  was never in use.
\<close>

record CHeap =
  c_runtimes :: "nat \<rightharpoonup> Impl"
  c_advertisements :: "nat \<rightharpoonup> DiscoveryAdvertisement"
  c_next :: nat

type_synonym handle = "nat option"

definition empty_heap :: CHeap where
  "empty_heap = \<lparr>c_runtimes = Map.empty, c_advertisements = Map.empty, c_next = 0\<rparr>"

definition new_runtime :: "Impl \<Rightarrow> CHeap \<Rightarrow> nat \<times> CHeap" where
  "new_runtime impl h = (c_next h, h\<lparr>c_runtimes := (c_runtimes h)(c_next h \<mapsto> impl), c_next := c_next h + 1\<rparr>)"

definition put_runtime :: "nat \<Rightarrow> Impl \<Rightarrow> CHeap \<Rightarrow> CHeap" where
  "put_runtime p impl h = h\<lparr>c_runtimes := (c_runtimes h)(p \<mapsto> impl)\<rparr>"

definition delete_runtime :: "nat \<Rightarrow> CHeap \<Rightarrow> CHeap" where
  "delete_runtime p h = h\<lparr>c_runtimes := (c_runtimes h)(p := None)\<rparr>"

definition new_advertisement :: "DiscoveryAdvertisement \<Rightarrow> CHeap \<Rightarrow> nat \<times> CHeap" where
  "new_advertisement a h =
     (c_next h, h\<lparr>c_advertisements := (c_advertisements h)(c_next h \<mapsto> a), c_next := c_next h + 1\<rparr>)"

definition delete_advertisement :: "nat \<Rightarrow> CHeap \<Rightarrow> CHeap" where
  "delete_advertisement p h = h\<lparr>c_advertisements := (c_advertisements h)(p := None)\<rparr>"

definition heap_ok :: "CHeap \<Rightarrow> bool" where
  "heap_ok h \<longleftrightarrow> (\<forall>p \<in> dom (c_runtimes h) \<union> dom (c_advertisements h). p < c_next h)"

text \<open>
  The interface of one kind of object: a new object is found at its address, which was free, and no
  operation on one address is seen at another.
\<close>

locale handle_table =
  fixes look :: "'h \<Rightarrow> nat \<Rightarrow> 'o option"
    and new :: "'o \<Rightarrow> 'h \<Rightarrow> nat \<times> 'h"
    and delete :: "nat \<Rightarrow> 'h \<Rightarrow> 'h"
    and invar :: "'h \<Rightarrow> bool"
  assumes new_free: "invar h \<Longrightarrow> look h (fst (new x h)) = None"
    and look_new: "look (snd (new x h)) p = (if p = fst (new x h) then Some x else look h p)"
    and look_delete: "look (delete p h) q = (if q = p then None else look h q)"
    and invar_new: "invar h \<Longrightarrow> invar (snd (new x h))"
    and invar_delete: "invar h \<Longrightarrow> invar (delete p h)"
begin

lemma new_found: "look (snd (new x h)) (fst (new x h)) = Some x"
  by (simp add: look_new)

lemma new_keeps: "invar h \<Longrightarrow> look h p = Some y \<Longrightarrow> look (snd (new x h)) p = Some y"
  using new_free[of h x] by (auto simp: look_new)

lemma new_delete: "invar h \<Longrightarrow> look (delete (fst (new x h)) (snd (new x h))) p = look h p"
  using new_free[of h x] by (auto simp: look_delete look_new)

lemma deleted_gone: "look (delete p h) p = None"
  by (simp add: look_delete)

end

lemmas heap_defs = new_runtime_def put_runtime_def delete_runtime_def new_advertisement_def
  delete_advertisement_def

lemma heap_ok_fresh:
  "heap_ok h \<Longrightarrow> c_runtimes h (c_next h) = None" "heap_ok h \<Longrightarrow> c_advertisements h (c_next h) = None"
  by (auto simp: heap_ok_def)

interpretation rt_table: handle_table c_runtimes new_runtime delete_runtime heap_ok
  by unfold_locales (auto simp: heap_defs heap_ok_def less_SucI split: if_splits)

interpretation ad_table: handle_table c_advertisements new_advertisement delete_advertisement heap_ok
  by unfold_locales (auto simp: heap_defs heap_ok_def less_SucI split: if_splits)

lemma heap_ok_put: "heap_ok h \<Longrightarrow> c_runtimes h p \<noteq> None \<Longrightarrow> heap_ok (put_runtime p impl h)"
  by (auto simp: heap_ok_def put_runtime_def)

section \<open>What a caller may pass\<close>

definition sv_ok :: "yunlink_v2_string_view \<Rightarrow> bool" where
  "sv_ok v \<longleftrightarrow> (case sv_data v of None \<Rightarrow> True | Some cs \<Rightarrow> unat (sv_len v) \<le> length cs)"

definition array_ok :: "('v \<Rightarrow> bool) \<Rightarrow> 'v list option \<Rightarrow> u64 \<Rightarrow> bool" where
  "array_ok elem arr cnt \<longleftrightarrow>
     (case arr of None \<Rightarrow> True | Some vs \<Rightarrow> unat cnt \<le> length vs \<and> list_all elem (take (unat cnt) vs))"

definition pv_ok :: "yunlink_v2_profile_view \<Rightarrow> bool" where
  "pv_ok v \<longleftrightarrow> sv_ok (pv_profile_id v) \<and> sv_ok (pv_schema_digest v)"

lemma copy_defined: "sv_ok v \<Longrightarrow> \<exists>s. copy v = Some s"
  by (auto simp: sv_ok_def copy_def read_prefix_def split: option.splits)

lemma copy_view [simp]: "length s < 2 ^ 64 \<Longrightarrow> copy (view s) = Some s"
  by (auto simp: copy_def view_def read_prefix_def unat_of_nat word_of_nat_eq_0_iff dvd_def)

lemma sv_ok_view [simp]: "length s < 2 ^ 64 \<Longrightarrow> sv_ok (view s)"
  by (simp add: sv_ok_def view_def unat_of_nat)

lemma those_defined: "list_all (\<lambda>x. \<exists>y. f x = Some y) xs \<Longrightarrow> \<exists>ys. those (map f xs) = Some ys"
  by (induction xs) auto

lemma those_map_Some: "(\<And>x. x \<in> set xs \<Longrightarrow> f x = Some (g x)) \<Longrightarrow> those (map f xs) = Some (map g xs)"
  by (induction xs) auto

lemma copy_each_defined:
  assumes "array_ok elem arr cnt" and "\<And>v. elem v \<Longrightarrow> \<exists>y. f v = Some y"
    and "(arr = None) = (cnt = 0)"
  shows "\<exists>ys. copy_each f arr cnt = Some ys"
proof (cases arr)
  case (Some vs)
  with assms have "list_all (\<lambda>v. \<exists>y. f v = Some y) (take (unat cnt) vs)"
    by (auto simp: array_ok_def list_all_iff)
  from those_defined[OF this] Some assms(1) show ?thesis
    by (auto simp: copy_each_def read_prefix_def array_ok_def)
qed (use assms(3) in \<open>simp add: copy_each_def\<close>)

lemma copy_profile_defined: "pv_ok v \<Longrightarrow> \<exists>p. copy_profile v = Some p"
  by (auto simp: copy_profile_def pv_ok_def dest!: copy_defined)

lemma copy_profiles_defined: "array_ok pv_ok arr cnt \<Longrightarrow> \<exists>r. copy_profiles arr cnt = Some r"
  using copy_each_defined[of pv_ok arr cnt copy_profile, OF _ copy_profile_defined]
  by (cases "(arr = None) = (cnt = 0)") (auto simp: copy_profiles_def)

definition tg_ok :: "yunlink_v2_target_view \<Rightarrow> bool" where
  "tg_ok v \<longleftrightarrow> array_ok sv_ok (tg_uids v) (tg_uid_count v)"

lemma scope_of_defined: "\<not> (b < 1 \<or> b > 4) \<Longrightarrow> \<exists>s. scope_of b = Some s"
  unfolding not_less de_Morgan_disj using valid_scope_of[of b] by (auto simp: valid_scope_def)

lemma copy_target_defined: "tg_ok v \<Longrightarrow> \<exists>r. copy_target v = Some r"
  using copy_each_defined[of sv_ok "tg_uids v" "tg_uid_count v" copy, OF _ copy_defined]
    scope_of_defined[of "tg_scope v"]
  by (cases "(tg_uids v = None) = (tg_uid_count v = 0)") (auto simp: copy_target_def tg_ok_def)

text \<open>A fixed array keeps its size and reads as the value, cut to what fits, when that has no NUL.\<close>

lemma copy_fixed_result:
  assumes "buf \<noteq> []"
  shows "\<exists>t. copy_fixed buf s = Some t \<and> length t = length buf \<and>
    (NUL \<notin> set s \<longrightarrow> c_string t = take (length buf - 1) s)"
proof -
  define n where "n = min (length s) (length buf - 1)"
  have n: "n < length buf" "n \<le> length s" using assms by (cases buf; simp add: n_def)+
  then have "copy_fixed buf s = Some (take n s @ NUL # drop (Suc n) buf)"
    by (simp add: copy_fixed_def Let_def n_def[symmetric, simplified] write_at_def min.absorb2)
  moreover have "take n s = take (length buf - 1) s" by (simp add: n_def min_def)
  moreover have "takeWhile (\<lambda>c. c \<noteq> NUL) (take n s @ NUL # xs) = take n s" if "NUL \<notin> set s" for xs
    using that by (subst takeWhile_append2) (auto dest: in_set_takeD)
  ultimately show ?thesis using n by (auto simp: c_string_def n_def[symmetric, simplified])
qed

end
