(* ===== verification/CRuntime.thy ===== *)
theory CRuntime
  imports CBase
begin

text \<open>
  \<open>src/c/v2/runtime.cpp\<close>: the functions of the C ABI on a runtime. Each takes the handle, the
  arguments of the C function, what the clock and the operating system answer while it runs, and the
  heap; it gives the returned code, what it wrote through its out pointers and the new heap. An out
  pointer is an option of what it points to before the call.
\<close>

section \<open>Life cycle\<close>

definition yunlink_v2_abi_version :: u32 where
  "yunlink_v2_abi_version = 2"

definition yunlink_v2_runtime_create :: "CHeap \<Rightarrow> handle \<times> CHeap" where
  "yunlink_v2_runtime_create h =
     (let (p, h) = new_runtime (impl_init default_runtime_config) h in (Some p, h))"

text \<open>\<open>~Runtime\<close> stops the runtime; its threads have ended when the memory is given back.\<close>

definition yunlink_v2_runtime_destroy :: "handle \<Rightarrow> CHeap \<Rightarrow> CHeap option" where
  "yunlink_v2_runtime_destroy runtime h = (case runtime of
     None \<Rightarrow> Some h
   | Some p \<Rightarrow> do { impl \<leftarrow> c_runtimes h p; Some (delete_runtime p (put_runtime p (stop impl) h)) })"

text \<open>
  \<open>sizeof(yunlink_v2_runtime_config_t)\<close> with pointers and \<open>size_t\<close> of 8 bytes: the size, three views,
  the port in 8 bytes, two arrays with their counts.
\<close>

definition sizeof_runtime_config :: u64 where
  "sizeof_runtime_config = 8 + 3 * 16 + 8 + 2 * 16"

text \<open>A call of a member of \<open>Runtime\<close> on the object behind a handle.\<close>

definition on_runtime :: "nat \<Rightarrow> (Impl \<Rightarrow> 'a \<times> Impl) \<Rightarrow> CHeap \<Rightarrow> ('a \<times> CHeap) option" where
  "on_runtime p f h = do { impl \<leftarrow> c_runtimes h p;
     let (r, impl) = f impl in Some (r, put_runtime p impl h) }"

definition native_config :: "yunlink_v2_runtime_config \<Rightarrow> RuntimeConfig option option" where
  "native_config c = do {
     uid \<leftarrow> copy (rc_endpoint_uid c);
     name \<leftarrow> copy (rc_display_name c);
     secret \<leftarrow> copy (rc_shared_secret c);
     profiles \<leftarrow> copy_profiles (rc_profiles c) (rc_profile_count c);
     case profiles of
       None \<Rightarrow> Some None
     | Some profiles \<Rightarrow> do {
         required \<leftarrow> copy_profiles (rc_required_profiles c) (rc_required_profile_count c);
         case required of
           None \<Rightarrow> Some None
         | Some required \<Rightarrow> Some (Some (default_runtime_config\<lparr>endpoint_uid := uid,
             config_display_name := name, shared_secret := secret,
             tcp_listen_port := rc_tcp_listen_port c, config_profiles := profiles,
             required_profiles := required\<rparr>)) } }"

definition yunlink_v2_runtime_start ::
  "handle \<Rightarrow> yunlink_v2_runtime_config option \<Rightarrow> u16 option \<Rightarrow> CHeap \<Rightarrow> (u16 \<times> CHeap) option" where
  "yunlink_v2_runtime_start runtime cfg acceptor h = (case (runtime, cfg) of
     (Some p, Some c) \<Rightarrow>
       if rc_struct_size c < sizeof_runtime_config then Some (result Err_kInvalidArgument, h)
       else do {
         native \<leftarrow> native_config c;
         case native of
           None \<Rightarrow> Some (result Err_kInvalidArgument, h)
         | Some native \<Rightarrow> do { (code, h) \<leftarrow> on_runtime p (start native acceptor) h; Some (result code, h) } }
   | _ \<Rightarrow> Some (result Err_kInvalidArgument, h))"

definition yunlink_v2_runtime_stop :: "handle \<Rightarrow> CHeap \<Rightarrow> CHeap option" where
  "yunlink_v2_runtime_stop runtime h = (case runtime of
     None \<Rightarrow> Some h
   | Some p \<Rightarrow> map_option snd (on_runtime p (\<lambda>impl. ((), stop impl)) h))"

definition yunlink_v2_runtime_listening_port :: "handle \<Rightarrow> CHeap \<Rightarrow> u16 option" where
  "yunlink_v2_runtime_listening_port runtime h = (case runtime of
     None \<Rightarrow> Some 0
   | Some p \<Rightarrow> do { impl \<leftarrow> c_runtimes h p; Some (listening_port impl) })"

section \<open>Entities and peers\<close>

text \<open>An \<open>EntityDescriptor\<close> with its identifier only.\<close>

definition named_entity :: "string \<Rightarrow> EntityDescriptor" where
  "named_entity uid = \<lparr>ed_entity_uid = uid, ed_kind = [], ed_display_name = [], ed_hardware_id = [],
     ed_attributes = [], ed_capabilities = [], ed_availability = Av_kUnknown\<rparr>"

definition yunlink_v2_runtime_set_entity_uids ::
  "handle \<Rightarrow> yunlink_v2_string_view list option \<Rightarrow> u64 \<Rightarrow> CHeap \<Rightarrow> (u16 \<times> CHeap) option" where
  "yunlink_v2_runtime_set_entity_uids runtime entity_uids entity_count h =
     (case runtime of
        None \<Rightarrow> Some (result Err_kInvalidArgument, h)
      | Some p \<Rightarrow>
          if (entity_uids = None) \<noteq> (entity_count = 0) then Some (result Err_kInvalidArgument, h)
          else do {
            uids \<leftarrow> copy_each copy entity_uids entity_count;
            (code, h) \<leftarrow> on_runtime p (set_entities (map named_entity uids)) h;
            Some (result code, h) })"

definition empty_peer :: yunlink_v2_peer where
  "empty_peer = \<lparr>cp_id = replicate 256 NUL, cp_ip = replicate 64 NUL, cp_port = 0\<rparr>"

definition fill_peer :: "Peer \<Rightarrow> yunlink_v2_peer option" where
  "fill_peer peer = do {
     i \<leftarrow> copy_fixed (cp_id empty_peer) (peer_id peer);
     a \<leftarrow> copy_fixed (cp_ip empty_peer) (peer_ip peer);
     Some \<lparr>cp_id = i, cp_ip = a, cp_port = peer_port peer\<rparr> }"

text \<open>The local \<open>peer\<close> is left as constructed when \<open>connect_peer\<close> writes none, which it does on \<open>kOk\<close>.\<close>

definition yunlink_v2_runtime_connect ::
  "handle \<Rightarrow> yunlink_v2_string_view \<Rightarrow> u16 \<Rightarrow> yunlink_v2_peer option \<Rightarrow> bool \<Rightarrow> ConnectOutcome \<Rightarrow> CHeap \<Rightarrow>
     (u16 \<times> yunlink_v2_peer option \<times> CHeap) option" where
  "yunlink_v2_runtime_connect runtime ip port out_peer address_ok outcome h =
     (case runtime of
        None \<Rightarrow> Some (result Err_kInvalidArgument, out_peer, h)
      | Some p \<Rightarrow> do {
          ip \<leftarrow> copy ip;
          ((code, peer), h) \<leftarrow> on_runtime p (\<lambda>impl.
            let (code, peer, impl) = connect_peer ip port address_ok outcome impl in ((code, peer), impl)) h;
          out \<leftarrow> (if code = Err_kOk \<and> out_peer \<noteq> None
            then do { q \<leftarrow> fill_peer (case peer of Some q \<Rightarrow> q
                       | None \<Rightarrow> \<lparr>peer_id = [], peer_ip = [], peer_port = 0\<rparr>); Some (Some q) }
            else Some out_peer);
          Some (result code, out, h) })"

definition yunlink_v2_runtime_close_peer ::
  "handle \<Rightarrow> yunlink_v2_string_view \<Rightarrow> CHeap \<Rightarrow> CHeap option" where
  "yunlink_v2_runtime_close_peer runtime pid h = (case runtime of
     None \<Rightarrow> Some h
   | Some p \<Rightarrow> do { pid \<leftarrow> copy pid; map_option snd (on_runtime p (\<lambda>impl. ((), close_peer pid impl)) h) })"

section \<open>Sessions\<close>

definition yunlink_v2_runtime_open_session ::
  "handle \<Rightarrow> yunlink_v2_string_view \<Rightarrow> u64 \<Rightarrow> CHeap \<Rightarrow> (u64 \<times> CHeap) option" where
  "yunlink_v2_runtime_open_session runtime pid now_ms h = (case runtime of
     None \<Rightarrow> Some (0, h)
   | Some p \<Rightarrow> do { pid \<leftarrow> copy pid; on_runtime p (open_session now_ms pid) h })"

definition yunlink_v2_runtime_bind_lossy_lane ::
  "handle \<Rightarrow> yunlink_v2_string_view \<Rightarrow> u64 \<Rightarrow> u64 \<Rightarrow> bool \<Rightarrow> ConnectOutcome \<Rightarrow> (nat \<Rightarrow> Impl \<Rightarrow> Impl) \<Rightarrow>
     CHeap \<Rightarrow> (u16 \<times> CHeap) option" where
  "yunlink_v2_runtime_bind_lossy_lane runtime pid sid now_ms address_ok outcome others h = (case runtime of
     None \<Rightarrow> Some (result Err_kInvalidArgument, h)
   | Some p \<Rightarrow> do {
       pid \<leftarrow> copy pid;
       (code, h) \<leftarrow> on_runtime p (bind_lossy_lane_call now_ms pid sid address_ok outcome others) h;
       Some (result code, h) })"

definition yunlink_v2_runtime_session_has_lossy_lane ::
  "handle \<Rightarrow> yunlink_v2_string_view \<Rightarrow> u64 \<Rightarrow> CHeap \<Rightarrow> u8 option" where
  "yunlink_v2_runtime_session_has_lossy_lane runtime pid sid h = (case runtime of
     None \<Rightarrow> Some 0
   | Some p \<Rightarrow> do { pid \<leftarrow> copy pid; impl \<leftarrow> c_runtimes h p;
                    Some (of_bool (session_has_lossy_lane impl pid sid)) })"

definition yunlink_v2_runtime_session_endpoint_uid ::
  "handle \<Rightarrow> yunlink_v2_string_view \<Rightarrow> u64 \<Rightarrow> string option \<Rightarrow> u64 \<Rightarrow> CHeap \<Rightarrow> (u16 \<times> string option) option" where
  "yunlink_v2_runtime_session_endpoint_uid runtime pid sid out_uid capacity h =
     (case (runtime, out_uid) of
        (Some p, Some buffer) \<Rightarrow>
          if capacity = 0 then Some (result Err_kInvalidArgument, out_uid)
          else do {
            pid \<leftarrow> copy pid;
            impl \<leftarrow> c_runtimes h p;
            case session_lookup impl pid sid of
              None \<Rightarrow> Some (result Err_kNotFound, out_uid)
            | Some s \<Rightarrow>
                if remote_endpoint_uid s = [] then Some (result Err_kNotFound, out_uid)
                else if length (remote_endpoint_uid s) + 1 > unat capacity
                then Some (result Err_kInvalidArgument, out_uid)
                else do {
                  buffer \<leftarrow> write_at 0 (remote_endpoint_uid s) buffer;
                  buffer \<leftarrow> write_at (length (remote_endpoint_uid s)) [NUL] buffer;
                  Some (result Err_kOk, Some buffer) } }
      | _ \<Rightarrow> Some (result Err_kInvalidArgument, out_uid))"

definition yunlink_v2_runtime_session_has_profile ::
  "handle \<Rightarrow> yunlink_v2_string_view \<Rightarrow> u64 \<Rightarrow> yunlink_v2_string_view \<Rightarrow> u16 \<Rightarrow> CHeap \<Rightarrow> u8 option" where
  "yunlink_v2_runtime_session_has_profile runtime pid sid profile major h = (case runtime of
     None \<Rightarrow> Some 0
   | Some p \<Rightarrow> do {
       pid \<leftarrow> copy pid;
       impl \<leftarrow> c_runtimes h p;
       case session_lookup impl pid sid of
         None \<Rightarrow> Some 0
       | Some s \<Rightarrow> do { profile \<leftarrow> copy profile; Some (of_bool (has_profile s profile major)) } })"

definition yunlink_v2_runtime_session_supports_profile ::
  "handle \<Rightarrow> yunlink_v2_string_view \<Rightarrow> u64 \<Rightarrow> yunlink_v2_string_view \<Rightarrow> u16 \<Rightarrow> u16 \<Rightarrow> CHeap \<Rightarrow> u8 option" where
  "yunlink_v2_runtime_session_supports_profile runtime pid sid profile major minimum_minor h = (case runtime of
     None \<Rightarrow> Some 0
   | Some p \<Rightarrow> do {
       pid \<leftarrow> copy pid;
       profile \<leftarrow> copy profile;
       impl \<leftarrow> c_runtimes h p;
       Some (of_bool (session_supports_profile impl pid sid profile major minimum_minor)) })"

section \<open>Publishing\<close>

definition copy_type_ref :: "yunlink_v2_type_ref_view \<Rightarrow> TypeRef option" where
  "copy_type_ref v = do {
     profile \<leftarrow> copy (tv_profile_id v);
     name \<leftarrow> copy (tv_type_name v);
     Some \<lparr>tr_profile_id = profile, tr_major = tv_major v, tr_minor = tv_minor v, tr_type_name = name\<rparr> }"

definition copy_bytes :: "yunlink_v2_bytes_view \<Rightarrow> bytes option" where
  "copy_bytes v = (if bv_len v = 0 then Some [] else do { bs \<leftarrow> bv_data v; read_prefix bs (bv_len v) })"

definition fill_handle :: "ErrorCode \<Rightarrow> MessageHandle option \<Rightarrow> yunlink_v2_message_handle option \<Rightarrow>
    yunlink_v2_message_handle option" where
  "fill_handle code handle out_handle = (case handle of
     Some m \<Rightarrow> if code = Err_kOk \<and> out_handle \<noteq> None
       then Some \<lparr>ch_session_id = mh_session_id m, ch_message_id = mh_message_id m,
                  ch_correlation_id = mh_correlation_id m\<rparr> else out_handle
   | None \<Rightarrow> out_handle)"

definition yunlink_v2_runtime_publish ::
  "handle \<Rightarrow> yunlink_v2_string_view \<Rightarrow> u64 \<Rightarrow> u8 \<Rightarrow> u8 \<Rightarrow> yunlink_v2_target_view \<Rightarrow> yunlink_v2_type_ref_view \<Rightarrow>
     yunlink_v2_bytes_view \<Rightarrow> u64 \<Rightarrow> u32 \<Rightarrow> u8 \<Rightarrow> yunlink_v2_string_view \<Rightarrow> yunlink_v2_message_handle option \<Rightarrow>
     u64 \<Rightarrow> CHeap \<Rightarrow> (u16 \<times> yunlink_v2_message_handle option \<times> CHeap) option" where
  "yunlink_v2_runtime_publish runtime pid sid fam op tgt type_ref data corr ttl qos source_entity
     out_handle now_ms h =
     (case runtime of
        None \<Rightarrow> Some (result Err_kInvalidArgument, out_handle, h)
      | Some p \<Rightarrow>
          if (bv_data data = None \<and> bv_len data \<noteq> 0) \<or> fam < 1 \<or> fam > 9 \<or> qos < 1 \<or> qos > 4
          then Some (result Err_kInvalidArgument, out_handle, h)
          else do {
            native_target \<leftarrow> copy_target tgt;
            case native_target of
              None \<Rightarrow> Some (result Err_kInvalidArgument, out_handle, h)
            | Some native_target \<Rightarrow> do {
                native_type \<leftarrow> copy_type_ref type_ref;
                native_payload \<leftarrow> copy_bytes data;
                pid \<leftarrow> copy pid;
                fam \<leftarrow> family_of fam;
                qos \<leftarrow> qos_of qos;
                ent \<leftarrow> copy source_entity;
                ((code, handle), h) \<leftarrow> on_runtime p (\<lambda>impl.
                  let (code, handle, impl) = publish now_ms pid sid fam op native_target native_type
                        native_payload corr ttl qos ent impl in ((code, handle), impl)) h;
                Some (result code, fill_handle code handle out_handle, h) } })"

section \<open>Subscribing\<close>

definition view_target :: "TargetSelector \<Rightarrow> yunlink_v2_target_view" where
  "view_target t = \<lparr>tg_scope = scope_code (ts_scope t), tg_uids = vector_data (map view (ts_uids t)),
     tg_uid_count = of_nat (length (ts_uids t))\<rparr>"

definition view_type_ref :: "TypeRef \<Rightarrow> yunlink_v2_type_ref_view" where
  "view_type_ref t = \<lparr>tv_profile_id = view (tr_profile_id t), tv_major = tr_major t,
     tv_minor = tr_minor t, tv_type_name = view (tr_type_name t)\<rparr>"

text \<open>What the closure of \<open>subscribe\<close> builds for the callback.\<close>

definition c_event :: "RuntimeEvent \<Rightarrow> yunlink_v2_event" where
  "c_event ev = (let e = ev_envelope ev in
     \<lparr>ce_kind = event_kind_code (ev_kind ev),
      ce_peer_id = view (peer_id (ev_peer ev)),
      ce_link_up = (if ev_link_up ev then 1 else 0),
      ce_error_code = error_code (ev_error ev),
      ce_message = view (ev_message ev),
      ce_session_state = session_state_code (session_state (ev_session ev)),
      ce_session_authenticated = (if authenticated (ev_session ev) then 1 else 0),
      ce_session_id = (if ev_kind ev = Ev_kEnvelope then session_id e else si_session_id (ev_session ev)),
      ce_family = family_code (family e),
      ce_operation = operation e,
      ce_qos_class = qos_code (qos_class e),
      ce_message_id = message_id e,
      ce_correlation_id = correlation_id e,
      ce_created_at_ms = created_at_ms e,
      ce_ttl_ms = ttl_ms e,
      ce_source_endpoint_uid = view (src_endpoint_uid (source e)),
      ce_source_entity_uid = view (src_entity_uid (source e)),
      ce_target = view_target (target e),
      ce_type_ref = view_type_ref (env_type e),
      ce_payload = view_bytes (payload e)\<rparr>)"

text \<open>
  The callback with its \<open>user_data\<close> is one callable of the application, named by a number as every
  event handler is; \<open>None\<close> is a null function pointer.
\<close>

definition yunlink_v2_runtime_subscribe :: "handle \<Rightarrow> nat option \<Rightarrow> CHeap \<Rightarrow> (u64 \<times> CHeap) option" where
  "yunlink_v2_runtime_subscribe runtime callback h = (case (runtime, callback) of
     (Some p, Some cb) \<Rightarrow> on_runtime p (subscribe (Some cb)) h
   | _ \<Rightarrow> Some (0, h))"

definition yunlink_v2_runtime_unsubscribe :: "handle \<Rightarrow> u64 \<Rightarrow> CHeap \<Rightarrow> CHeap option" where
  "yunlink_v2_runtime_unsubscribe runtime token h = (case runtime of
     None \<Rightarrow> Some h
   | Some p \<Rightarrow> map_option snd (on_runtime p (\<lambda>impl. ((), unsubscribe token impl)) h))"

text \<open>The events a callback of the application has been given, in order.\<close>

definition delivered :: "nat \<Rightarrow> Impl \<Rightarrow> yunlink_v2_event list" where
  "delivered cb impl = concat (map (\<lambda>(ev, hs). replicate (count_list hs cb) (c_event ev)) (emitted impl))"

end
