(* ===== verification/CDiscovery.thy ===== *)
theory CDiscovery
  imports CBase
begin

text \<open>
  \<open>src/c/v2/discovery.cpp\<close>: the discovery packets through the C ABI. A decoded advertisement is an
  object behind a handle, read field by field through views into it. A view stands for what can be
  read through it while the advertisement lives.
\<close>

definition discovery_copy :: "yunlink_v2_string_view \<Rightarrow> string option" where
  "discovery_copy v = (case sv_data v of None \<Rightarrow> Some [] | Some cs \<Rightarrow> read_prefix cs (sv_len v))"

definition empty_view :: yunlink_v2_string_view where
  "empty_view = \<lparr>sv_data = None, sv_len = 0\<rparr>"

text \<open>\<open>std::advance\<close> from \<open>begin()\<close> follows the order of the keys.\<close>

definition attribute_at ::
  "(string, string) omap \<Rightarrow> u64 \<Rightarrow> yunlink_v2_key_value_view option \<Rightarrow> bool \<times> yunlink_v2_key_value_view option" where
  "attribute_at m index out =
     (if out = None \<or> unat index \<ge> length m then (False, out)
      else let item = m ! unat index
           in (True, Some \<lparr>kv_key = view (fst item), kv_value = view (snd item)\<rparr>))"

section \<open>Packets\<close>

definition yunlink_v2_discovery_encode_query ::
  "u64 \<Rightarrow> u16 \<Rightarrow> u8 \<Rightarrow> yunlink_v2_string_view \<Rightarrow> bytes option \<Rightarrow> u64 \<Rightarrow> u64 option \<Rightarrow>
     (u16 \<times> bytes option \<times> u64 option) option" where
  "yunlink_v2_discovery_encode_query nonce window version secret out_bytes capacity out_size =
     (if out_size = None then Some (result Err_kInvalidArgument, out_bytes, out_size)
      else do {
        secret \<leftarrow> discovery_copy secret;
        let encoded = encode_discovery_query
              \<lparr>dq_nonce = nonce, dq_response_window_ms = window, dq_format_version = version\<rparr> secret
        in if encoded = [] then Some (result Err_kEncodeError, out_bytes, Some 0)
           else case out_bytes of
             None \<Rightarrow> Some (result Err_kInvalidArgument, out_bytes, Some (of_nat (length encoded)))
           | Some buffer \<Rightarrow>
               if unat capacity < length encoded
               then Some (result Err_kInvalidArgument, out_bytes, Some (of_nat (length encoded)))
               else do {
                 buffer \<leftarrow> write_at 0 encoded buffer;
                 Some (result Err_kOk, Some buffer, Some (of_nat (length encoded))) } })"

definition yunlink_v2_discovery_decode_reply ::
  "yunlink_v2_bytes_view \<Rightarrow> yunlink_v2_string_view \<Rightarrow> u64 \<Rightarrow> CHeap \<Rightarrow> (handle \<times> CHeap) option" where
  "yunlink_v2_discovery_decode_reply data secret expected_nonce h =
     (case bv_data data of
        None \<Rightarrow> Some (None, h)
      | Some bs \<Rightarrow>
          if bv_len data = 0 then Some (None, h)
          else do {
            source \<leftarrow> read_prefix bs (bv_len data);
            secret \<leftarrow> discovery_copy secret;
            case decode_discovery_reply source secret expected_nonce of
              None \<Rightarrow> Some (None, h)
            | Some a \<Rightarrow> (let (p, h) = new_advertisement a h in Some (Some p, h)) })"

definition yunlink_v2_discovery_advertisement_destroy :: "handle \<Rightarrow> CHeap \<Rightarrow> CHeap option" where
  "yunlink_v2_discovery_advertisement_destroy advertisement h = (case advertisement of
     None \<Rightarrow> Some h
   | Some p \<Rightarrow> do { _ \<leftarrow> c_advertisements h p; Some (delete_advertisement p h) })"

section \<open>Fields\<close>

text \<open>What each accessor gives for \<open>nullptr\<close>, and for the advertisement behind a handle.\<close>

definition of_advertisement :: "'a \<Rightarrow> (DiscoveryAdvertisement \<Rightarrow> 'a) \<Rightarrow> handle \<Rightarrow> CHeap \<Rightarrow> 'a option" where
  "of_advertisement absent f advertisement h = (case advertisement of
     None \<Rightarrow> Some absent
   | Some p \<Rightarrow> do { a \<leftarrow> c_advertisements h p; Some (f a) })"

definition yunlink_v2_discovery_endpoint_uid :: "handle \<Rightarrow> CHeap \<Rightarrow> yunlink_v2_string_view option" where
  "yunlink_v2_discovery_endpoint_uid = of_advertisement empty_view (\<lambda>a. view (da_endpoint_uid a))"

definition yunlink_v2_discovery_display_name :: "handle \<Rightarrow> CHeap \<Rightarrow> yunlink_v2_string_view option" where
  "yunlink_v2_discovery_display_name = of_advertisement empty_view (\<lambda>a. view (da_display_name a))"

definition yunlink_v2_discovery_tcp_port :: "handle \<Rightarrow> CHeap \<Rightarrow> u16 option" where
  "yunlink_v2_discovery_tcp_port = of_advertisement 0 da_tcp_listen_port"

definition yunlink_v2_discovery_started_at_ms :: "handle \<Rightarrow> CHeap \<Rightarrow> u64 option" where
  "yunlink_v2_discovery_started_at_ms = of_advertisement 0 da_started_at_ms"

definition yunlink_v2_discovery_sequence :: "handle \<Rightarrow> CHeap \<Rightarrow> u64 option" where
  "yunlink_v2_discovery_sequence = of_advertisement 0 da_sequence"

definition yunlink_v2_discovery_capability_count :: "handle \<Rightarrow> CHeap \<Rightarrow> u64 option" where
  "yunlink_v2_discovery_capability_count = of_advertisement 0 (\<lambda>a. of_nat (length (da_capabilities a)))"

definition yunlink_v2_discovery_capability_at ::
  "handle \<Rightarrow> u64 \<Rightarrow> CHeap \<Rightarrow> yunlink_v2_string_view option" where
  "yunlink_v2_discovery_capability_at advertisement index =
     of_advertisement empty_view (\<lambda>a. if unat index \<ge> length (da_capabilities a) then empty_view
       else view (da_capabilities a ! unat index)) advertisement"

definition yunlink_v2_discovery_profile_count :: "handle \<Rightarrow> CHeap \<Rightarrow> u64 option" where
  "yunlink_v2_discovery_profile_count = of_advertisement 0 (\<lambda>a. of_nat (length (da_profiles a)))"

definition yunlink_v2_discovery_profile_at ::
  "handle \<Rightarrow> u64 \<Rightarrow> yunlink_v2_profile_view option \<Rightarrow> CHeap \<Rightarrow> (u8 \<times> yunlink_v2_profile_view option) option" where
  "yunlink_v2_discovery_profile_at advertisement index out =
     of_advertisement (0, out) (\<lambda>a.
       if out = None \<or> unat index \<ge> length (da_profiles a) then (0, out)
       else let profile = da_profiles a ! unat index
            in (1, Some \<lparr>pv_profile_id = view (pd_profile_id profile), pv_major = pd_major profile,
                 pv_minor = pd_minor profile, pv_schema_digest = view (pd_schema_digest profile)\<rparr>))
       advertisement"

definition yunlink_v2_discovery_attribute_count :: "handle \<Rightarrow> CHeap \<Rightarrow> u64 option" where
  "yunlink_v2_discovery_attribute_count = of_advertisement 0 (\<lambda>a. of_nat (length (da_attributes a)))"

definition yunlink_v2_discovery_attribute_at ::
  "handle \<Rightarrow> u64 \<Rightarrow> yunlink_v2_key_value_view option \<Rightarrow> CHeap \<Rightarrow> (u8 \<times> yunlink_v2_key_value_view option) option" where
  "yunlink_v2_discovery_attribute_at advertisement index out =
     of_advertisement (0, out) (\<lambda>a. map_prod of_bool id (attribute_at (da_attributes a) index out)) advertisement"

definition yunlink_v2_discovery_entity_count :: "handle \<Rightarrow> CHeap \<Rightarrow> u64 option" where
  "yunlink_v2_discovery_entity_count = of_advertisement 0 (\<lambda>a. of_nat (length (da_entities a)))"

definition yunlink_v2_discovery_entity_at ::
  "handle \<Rightarrow> u64 \<Rightarrow> yunlink_v2_discovery_entity_view option \<Rightarrow> CHeap \<Rightarrow>
     (u8 \<times> yunlink_v2_discovery_entity_view option) option" where
  "yunlink_v2_discovery_entity_at advertisement index out =
     of_advertisement (0, out) (\<lambda>a.
       if out = None \<or> unat index \<ge> length (da_entities a) then (0, out)
       else let entity = da_entities a ! unat index
            in (1, Some \<lparr>dev_entity_uid = view (de_entity_uid entity), dev_kind = view (de_kind entity),
                 dev_display_name = view (de_display_name entity),
                 dev_availability = availability_code (de_availability entity),
                 dev_agent_id = de_agent_id entity\<rparr>)) advertisement"

definition yunlink_v2_discovery_entity_attribute_count :: "handle \<Rightarrow> u64 \<Rightarrow> CHeap \<Rightarrow> u64 option" where
  "yunlink_v2_discovery_entity_attribute_count advertisement entity_index =
     of_advertisement 0 (\<lambda>a. if unat entity_index \<ge> length (da_entities a) then 0
       else of_nat (length (de_attributes (da_entities a ! unat entity_index)))) advertisement"

definition yunlink_v2_discovery_entity_attribute_at ::
  "handle \<Rightarrow> u64 \<Rightarrow> u64 \<Rightarrow> yunlink_v2_key_value_view option \<Rightarrow> CHeap \<Rightarrow>
     (u8 \<times> yunlink_v2_key_value_view option) option" where
  "yunlink_v2_discovery_entity_attribute_at advertisement entity_index index out =
     of_advertisement (0, out) (\<lambda>a.
       if unat entity_index < length (da_entities a)
       then map_prod of_bool id (attribute_at (de_attributes (da_entities a ! unat entity_index)) index out)
       else (0, out)) advertisement"

lemmas accessor_defs = of_advertisement_def yunlink_v2_discovery_endpoint_uid_def
  yunlink_v2_discovery_display_name_def yunlink_v2_discovery_tcp_port_def
  yunlink_v2_discovery_started_at_ms_def yunlink_v2_discovery_sequence_def
  yunlink_v2_discovery_capability_count_def yunlink_v2_discovery_capability_at_def
  yunlink_v2_discovery_profile_count_def yunlink_v2_discovery_profile_at_def
  yunlink_v2_discovery_attribute_count_def yunlink_v2_discovery_attribute_at_def
  yunlink_v2_discovery_entity_count_def yunlink_v2_discovery_entity_at_def
  yunlink_v2_discovery_entity_attribute_count_def yunlink_v2_discovery_entity_attribute_at_def

lemma discovery_copy_eq: "discovery_copy v = copy v"
  by (auto simp: discovery_copy_def copy_def read_prefix_def split: option.splits)

section \<open>Reading an advertisement back\<close>

text \<open>
  A client of the ABI that reads a whole advertisement: for every count it asks for each index in turn
  and copies what it is given.
\<close>

definition read_all :: "u64 option \<Rightarrow> (u64 \<Rightarrow> 'a option) \<Rightarrow> 'a list option" where
  "read_all cnt item = do { n \<leftarrow> cnt; those (map (\<lambda>i. item (of_nat i)) [0..<unat n]) }"

definition taken :: "(u8 \<times> 'v option) option \<Rightarrow> 'v option" where
  "taken r = (case r of Some (ok, out) \<Rightarrow> if ok = 1 then out else None | None \<Rightarrow> None)"

definition copy_pair :: "yunlink_v2_key_value_view \<Rightarrow> (string \<times> string) option" where
  "copy_pair v = do { k \<leftarrow> copy (kv_key v); s \<leftarrow> copy (kv_value v); Some (k, s) }"

definition no_profile :: yunlink_v2_profile_view where
  "no_profile = \<lparr>pv_profile_id = empty_view, pv_major = 0, pv_minor = 0, pv_schema_digest = empty_view\<rparr>"

definition no_pair :: yunlink_v2_key_value_view where
  "no_pair = \<lparr>kv_key = empty_view, kv_value = empty_view\<rparr>"

definition no_entity :: yunlink_v2_discovery_entity_view where
  "no_entity = \<lparr>dev_entity_uid = empty_view, dev_kind = empty_view, dev_display_name = empty_view,
     dev_availability = 0, dev_agent_id = 0\<rparr>"

definition read_entity :: "handle \<Rightarrow> CHeap \<Rightarrow> u64 \<Rightarrow> DiscoveryEntitySummary option" where
  "read_entity p h i = do {
     v \<leftarrow> taken (yunlink_v2_discovery_entity_at p i (Some no_entity) h);
     uid \<leftarrow> copy (dev_entity_uid v);
     kind \<leftarrow> copy (dev_kind v);
     name \<leftarrow> copy (dev_display_name v);
     av \<leftarrow> availability_of (dev_availability v);
     attrs \<leftarrow> read_all (yunlink_v2_discovery_entity_attribute_count p i h)
       (\<lambda>j. do { kv \<leftarrow> taken (yunlink_v2_discovery_entity_attribute_at p i j (Some no_pair) h); copy_pair kv });
     Some \<lparr>de_entity_uid = uid, de_kind = kind, de_display_name = name, de_availability = av,
       de_agent_id = dev_agent_id v, de_attributes = attrs\<rparr> }"

definition read_advertisement :: "handle \<Rightarrow> CHeap \<Rightarrow> DiscoveryAdvertisement option" where
  "read_advertisement p h = do {
     uid \<leftarrow> yunlink_v2_discovery_endpoint_uid p h; uid \<leftarrow> copy uid;
     name \<leftarrow> yunlink_v2_discovery_display_name p h; name \<leftarrow> copy name;
     port \<leftarrow> yunlink_v2_discovery_tcp_port p h;
     caps \<leftarrow> read_all (yunlink_v2_discovery_capability_count p h)
       (\<lambda>i. do { v \<leftarrow> yunlink_v2_discovery_capability_at p i h; copy v });
     profiles \<leftarrow> read_all (yunlink_v2_discovery_profile_count p h)
       (\<lambda>i. do { v \<leftarrow> taken (yunlink_v2_discovery_profile_at p i (Some no_profile) h); copy_profile v });
     attrs \<leftarrow> read_all (yunlink_v2_discovery_attribute_count p h)
       (\<lambda>i. do { kv \<leftarrow> taken (yunlink_v2_discovery_attribute_at p i (Some no_pair) h); copy_pair kv });
     entities \<leftarrow> read_all (yunlink_v2_discovery_entity_count p h) (read_entity p h);
     started \<leftarrow> yunlink_v2_discovery_started_at_ms p h;
     sequence \<leftarrow> yunlink_v2_discovery_sequence p h;
     Some \<lparr>da_endpoint_uid = uid, da_display_name = name, da_tcp_listen_port = port,
       da_capabilities = caps, da_profiles = profiles, da_attributes = attrs, da_entities = entities,
       da_started_at_ms = started, da_sequence = sequence\<rparr> }"

text \<open>Sizes of objects in memory are below \<open>2 ^ 64\<close>.\<close>

definition in_memory :: "'a list \<Rightarrow> bool" where
  "in_memory xs \<longleftrightarrow> length xs < 2 ^ 64"

definition pairs_in_memory :: "(string, string) omap \<Rightarrow> bool" where
  "pairs_in_memory m \<longleftrightarrow> in_memory m \<and> list_all (\<lambda>e. in_memory (fst e) \<and> in_memory (snd e)) m"

definition ad_in_memory :: "DiscoveryAdvertisement \<Rightarrow> bool" where
  "ad_in_memory a \<longleftrightarrow> in_memory (da_endpoint_uid a) \<and> in_memory (da_display_name a) \<and>
     in_memory (da_capabilities a) \<and> list_all in_memory (da_capabilities a) \<and>
     in_memory (da_profiles a) \<and>
     list_all (\<lambda>p. in_memory (pd_profile_id p) \<and> in_memory (pd_schema_digest p)) (da_profiles a) \<and>
     pairs_in_memory (da_attributes a) \<and> in_memory (da_entities a) \<and>
     list_all (\<lambda>e. in_memory (de_entity_uid e) \<and> in_memory (de_kind e) \<and> in_memory (de_display_name e) \<and>
       pairs_in_memory (de_attributes e)) (da_entities a)"

lemma copy_view_mem [simp]: "in_memory s \<Longrightarrow> copy (view s) = Some s"
  by (simp add: in_memory_def copy_view[simplified])

lemma read_all_list:
  assumes "in_memory xs" and "\<And>i. i < length xs \<Longrightarrow> item (of_nat i) = Some (xs ! i)"
  shows "read_all (Some (of_nat (length xs))) item = Some xs"
proof -
  have "unat (of_nat (length xs) :: u64) = length xs"
    using assms(1) by (simp add: in_memory_def unat_of_nat)
  moreover have "those (map (\<lambda>i. item (of_nat i)) [0..<length xs]) = Some (map ((!) xs) [0..<length xs])"
    using assms(2) by (intro those_map_Some) auto
  ultimately show ?thesis by (simp add: read_all_def map_nth)
qed

lemma index_mem [simp]: "i < length xs \<Longrightarrow> in_memory xs \<Longrightarrow> unat (of_nat i :: u64) = i"
  by (simp add: in_memory_def unat_of_nat)

lemma attributes_read:
  assumes "pairs_in_memory m" and "i < length m"
  shows "taken (Some (map_prod of_bool id (attribute_at m (of_nat i) (Some no_pair)))) \<bind> copy_pair = Some (m ! i)"
  using assms by (simp add: taken_def attribute_at_def pairs_in_memory_def copy_pair_def list_all_length Let_def)

lemma read_entity_back:
  assumes "c_advertisements h p = Some a" and "ad_in_memory a" and "i < length (da_entities a)"
  shows "read_entity (Some p) h (of_nat i) = Some (da_entities a ! i)"
proof -
  let ?e = "da_entities a ! i"
  have m: "in_memory (da_entities a)" "in_memory (de_entity_uid ?e)" "in_memory (de_kind ?e)"
      "in_memory (de_display_name ?e)" "pairs_in_memory (de_attributes ?e)"
    using assms(2,3) by (auto simp: ad_in_memory_def list_all_length)
  have "read_all (Some (of_nat (length (de_attributes ?e)))) (\<lambda>j. do {
      kv \<leftarrow> taken (Some (map_prod of_bool id (attribute_at (de_attributes ?e) j (Some no_pair)))); copy_pair kv }) =
      Some (de_attributes ?e)"
    using attributes_read[OF m(5)] m(5) by (intro read_all_list) (auto simp: pairs_in_memory_def)
  with assms m show ?thesis
    by (simp add: read_entity_def accessor_defs taken_def Let_def)
qed

lemma read_advertisement_back:
  assumes "c_advertisements h p = Some a" and "ad_in_memory a"
  shows "read_advertisement (Some p) h = Some a"
proof -
  note m = assms(2)[unfolded ad_in_memory_def]
  have "read_all (Some (of_nat (length (da_capabilities a))))
      (\<lambda>i. do { v \<leftarrow> yunlink_v2_discovery_capability_at (Some p) i h; copy v }) = Some (da_capabilities a)"
    using assms(1) m by (intro read_all_list) (auto simp: accessor_defs list_all_length)
  moreover have "read_all (Some (of_nat (length (da_profiles a)))) (\<lambda>i. do {
      v \<leftarrow> taken (yunlink_v2_discovery_profile_at (Some p) i (Some no_profile) h); copy_profile v }) =
      Some (da_profiles a)"
    using assms(1) m
    by (intro read_all_list) (auto simp: accessor_defs list_all_length taken_def copy_profile_def Let_def)
  moreover have "read_all (Some (of_nat (length (da_attributes a)))) (\<lambda>i. do {
      kv \<leftarrow> taken (yunlink_v2_discovery_attribute_at (Some p) i (Some no_pair) h); copy_pair kv }) =
      Some (da_attributes a)"
    using assms(1) m attributes_read[of "da_attributes a"]
    by (intro read_all_list) (auto simp: accessor_defs pairs_in_memory_def)
  moreover have "read_all (Some (of_nat (length (da_entities a)))) (read_entity (Some p) h) = Some (da_entities a)"
    using m read_entity_back[OF assms] by (intro read_all_list) auto
  ultimately show ?thesis
    using assms(1) m
    by (simp add: read_advertisement_def yunlink_v2_discovery_endpoint_uid_def
        yunlink_v2_discovery_display_name_def yunlink_v2_discovery_tcp_port_def
        yunlink_v2_discovery_capability_count_def yunlink_v2_discovery_profile_count_def
        yunlink_v2_discovery_attribute_count_def yunlink_v2_discovery_entity_count_def
        yunlink_v2_discovery_started_at_ms_def yunlink_v2_discovery_sequence_def of_advertisement_def)
qed

text \<open>A decoded reply is valid, and so are the sizes of everything in it.\<close>

lemma text_in_memory: "dtext_ok s \<Longrightarrow> in_memory s" "length xs \<le> 255 \<Longrightarrow> in_memory xs"
  by (simp_all add: dtext_ok_def in_memory_def)

lemma read_n_all:
  "read_n n rd r = Some (xs, r') \<Longrightarrow> (\<And>r x r'. rd r = Some (x, r') \<Longrightarrow> P x) \<Longrightarrow> list_all P xs"
  by (induction n arbitrary: r xs) (auto simp: bind_eq_Some_conv)

lemma dr_text_mem: "dr_text r = Some (s, r') \<Longrightarrow> in_memory s"
proof -
  assume "dr_text r = Some (s, r')"
  then obtain n :: u16 where "length s \<le> unat n"
    by (auto simp: dr_text_def dr_bytes_def bind_eq_Some_conv split: if_splits) (meson min.cobounded2)
  moreover have "unat n < 2 ^ 16" using unsigned_less[of n, where 'a=nat] by simp
  ultimately show ?thesis by (simp add: in_memory_def)
qed

lemma counted_mem:
  "dr_counted rd r = Some (xs, r') \<Longrightarrow> (\<And>r x r'. rd r = Some (x, r') \<Longrightarrow> P x) \<Longrightarrow> list_all P xs"
  unfolding dr_counted_def by (auto simp: bind_eq_Some_conv elim!: read_n_all)

lemma dr_profile_mem: "dr_profile r = Some (p, r') \<Longrightarrow> in_memory (pd_schema_digest p)"
  by (auto simp: dr_profile_def bind_eq_Some_conv dest: dr_text_mem)

lemma dr_entity_mem: "dr_entity x y r = Some (e, r') \<Longrightarrow> in_memory (de_kind e) \<and> in_memory (de_display_name e)"
  by (auto simp: dr_entity_def bind_eq_Some_conv dest: dr_text_mem split: if_splits)

lemma read_reply_mem:
  "read_reply nonce r = Some (a, r') \<Longrightarrow> in_memory (da_display_name a) \<and> list_all in_memory (da_capabilities a) \<and>
     list_all (\<lambda>p. in_memory (pd_schema_digest p)) (da_profiles a) \<and>
     list_all (\<lambda>e. in_memory (de_kind e) \<and> in_memory (de_display_name e)) (da_entities a)"
  by (auto simp: read_reply_def Let_def bind_eq_Some_conv split: if_splits
      dest: dr_text_mem counted_mem[where P=in_memory, OF _ dr_text_mem]
        counted_mem[where P="\<lambda>p. in_memory (pd_schema_digest p)", OF _ dr_profile_mem]
        counted_mem[where P="\<lambda>e. in_memory (de_kind e) \<and> in_memory (de_display_name e)", OF _ dr_entity_mem])

lemma valid_in_memory:
  "valid_uid u \<Longrightarrow> in_memory u" "valid_profile_id i \<Longrightarrow> in_memory i"
  by (auto simp: valid_uid_def valid_profile_id_def in_memory_def kMaxUidBytes_def kMaxProfileIdBytes_def split: if_splits)

lemma valid_attributes_in_memory: "valid_attributes m \<Longrightarrow> pairs_in_memory m"
proof -
  assume "valid_attributes m"
  then have "length m \<le> 32 \<and> list_all (\<lambda>e. length (fst e) \<le> 64 \<and> length (snd e) \<le> 512) m"
    by (auto simp: valid_attributes_def attribute_ok_def kMaxAttributeCount_def
        kMaxAttributeKeyBytes_def kMaxAttributeValueBytes_def list_all_iff)
  then show ?thesis by (simp add: pairs_in_memory_def in_memory_def) (auto elim: list.pred_mono_strong)
qed

lemma decoded_reply_in_memory:
  assumes "decode_discovery_reply bs secret nonce = Some a"
  shows "valid_advertisement a" "ad_in_memory a"
proof -
  from assms obtain r r' where r: "read_reply nonce r = Some (a, r')" and v: "valid_advertisement a"
    by (auto simp: decode_discovery_reply_def bind_eq_Some_conv split: if_splits)
  from v show "valid_advertisement a" .
  from v read_reply_mem[OF r] show "ad_in_memory a"
    by (auto simp: ad_in_memory_def valid_advertisement_def list_all_iff valid_in_memory
        valid_attributes_in_memory text_in_memory split: if_splits)
qed

section \<open>Properties\<close>

lemma encoded_query_length: "query_ok q \<Longrightarrow> length (encode_discovery_query q secret) = 22"
  by (simp add: encode_query_ok enc_query_def)

lemma unencoded_query: "\<not> query_ok q \<Longrightarrow> encode_discovery_query q secret = []"
  by (auto simp: encode_discovery_query_def query_ok_def known_version_def)

text \<open>
  The query through the C ABI. With a readable secret and an out buffer at least as large as the
  capacity that goes with it, the call is defined and never writes past the packet: it succeeds
  exactly when the query has a nonce, a window and a known format and the capacity is at least the 22
  bytes it reports; then the buffer starts with a packet that decodes to the query, and otherwise the
  buffer is untouched. Asking with a null buffer reports the size.
\<close>

theorem c_encode_query_protocol:
  assumes "copy secret = Some s" and "unat capacity \<le> length buffer"
    and "q = \<lparr>dq_nonce = nonce, dq_response_window_ms = window, dq_format_version = version\<rparr>"
  shows "\<exists>code buffer' size. yunlink_v2_discovery_encode_query nonce window version secret (Some buffer)
      capacity (Some old) = Some (code, Some buffer', Some size) \<and>
    (code = result Err_kOk \<longleftrightarrow> nonce \<noteq> 0 \<and> window \<noteq> 0 \<and> version \<in> {2, 3, 4} \<and> 22 \<le> unat capacity) \<and>
    (if code = result Err_kOk
     then size = 22 \<and> decode_discovery_query (take 22 buffer') s = Some q \<and>
       drop 22 buffer' = drop 22 buffer \<and> length buffer' = length buffer
     else buffer' = buffer) \<and>
    (query_ok q \<longrightarrow> yunlink_v2_discovery_encode_query nonce window version secret None capacity (Some old) =
       Some (result Err_kInvalidArgument, None, Some 22))"
proof (cases "query_ok q")
  case True
  then have v: "nonce \<noteq> 0" "window \<noteq> 0" "version \<in> {2, 3, 4}"
    using assms(3) by (auto simp: query_ok_def discovery_versions)
  note len = encoded_query_length[OF True, of s]
  then have ne: "encode_discovery_query q s \<noteq> []" by auto
  have dec: "decode_discovery_query (encode_discovery_query q s) s = Some q"
    by (rule p_query.decodes_encoded[OF True])
  show ?thesis
    using assms(1,2) v len ne dec True
    by (auto simp: yunlink_v2_discovery_encode_query_def discovery_copy_eq assms(3)[symmetric] write_at_def
        result_def Let_def not_less)
next
  case False
  then have v: "\<not> (nonce \<noteq> 0 \<and> window \<noteq> 0 \<and> version \<in> {2, 3, 4})"
    using assms(3) by (auto simp: query_ok_def discovery_versions)
  show ?thesis
    using assms(1,2) v False unencoded_query[OF False, of s]
    by (auto simp: yunlink_v2_discovery_encode_query_def discovery_copy_eq assms(3)[symmetric] result_def Let_def)
qed

theorem c_encode_query_protocol_witness:
  "\<exists>buffer' size. yunlink_v2_discovery_encode_query 7 250 4 (view ''s'') (Some (replicate 32 0)) 32 (Some 0) =
     Some (result Err_kOk, Some buffer', Some size) \<and> size = 22 \<and>
     decode_discovery_query (take 22 buffer') ''s'' = Some sample_query"
proof -
  have "copy (view ''s'') = Some ''s''" by simp
  from c_encode_query_protocol[OF this, of 32 "replicate 32 0" sample_query 7 250 4 0] show ?thesis
    by (auto simp: sample_query_def)
qed

lemma packet_in_memory: "packet_ok v a \<Longrightarrow> ad_in_memory a"
  by (auto simp: packet_ok_def ad_in_memory_def text_in_memory valid_attributes_in_memory counted_ok_def
      dprofile_ok_def dentity_ok_def attributes_ok_def list_all_iff)

text \<open>
  C29. A reply through the C ABI. Whatever reply an endpoint encodes for a query of a known format, a C
  client that shares the secret gets a handle for it, on an address that was free; reading every field,
  every index below every count and every entity through the accessors gives exactly the advertisement
  (less what the format has no place for); and destroying the handle leaves the heap with the objects it
  had.
\<close>

theorem c_discovery_round_trip:
  assumes "encode_discovery_reply q a secret \<noteq> []" and "maps_ordered a"
    and "known_version (dq_format_version q)" and "heap_ok h" and "in_memory secret"
  shows "\<exists>p h' h''. yunlink_v2_discovery_decode_reply (view_bytes (encode_discovery_reply q a secret))
      (view secret) (dq_nonce q) h = Some (Some p, h') \<and>
    c_advertisements h p = None \<and> c_runtimes h p = None \<and>
    read_advertisement (Some p) h' = Some (advertisement_in (dq_format_version q) a) \<and>
    yunlink_v2_discovery_advertisement_destroy (Some p) h' = Some h'' \<and>
    c_advertisements h'' = c_advertisements h \<and> c_runtimes h'' = c_runtimes h"
proof -
  let ?bs = "encode_discovery_reply q a secret"
  let ?a = "advertisement_in (dq_format_version q) a"
  note pk = encode_reply_packet[OF assms(1,2)]
  have "length ?bs \<le> 8192" using pk(3,4) by (simp add: kMaxDiscoveryBytes_def)
  then have bs: "bv_data (view_bytes ?bs) = Some ?bs" "bv_len (view_bytes ?bs) \<noteq> 0"
      "read_prefix ?bs (bv_len (view_bytes ?bs)) = Some ?bs"
    using assms(1) by (auto simp: view_bytes_def vector_data_def read_prefix_def unat_of_nat
        word_of_nat_eq_0_iff dest: dvd_imp_le)
  obtain p h' where n: "new_advertisement ?a h = (p, h')" by fastforce
  have "yunlink_v2_discovery_decode_reply (view_bytes ?bs) (view secret) (dq_nonce q) h = Some (Some p, h')"
    using bs n decode_encoded_reply[OF assms(1-3)] assms(5)
    by (simp add: yunlink_v2_discovery_decode_reply_def discovery_copy_eq)
  moreover have "read_advertisement (Some p) h' = Some ?a"
    using ad_table.new_found[of ?a h] n packet_in_memory[OF pk(1)] by (intro read_advertisement_back) auto
  moreover have "c_advertisements h p = None \<and> c_runtimes h p = None"
    using n heap_ok_fresh[OF assms(4)] by (auto simp: heap_defs)
  moreover have "yunlink_v2_discovery_advertisement_destroy (Some p) h' = Some (delete_advertisement p h')"
    using ad_table.new_found[of ?a h] n by (simp add: yunlink_v2_discovery_advertisement_destroy_def)
  moreover have "c_advertisements (delete_advertisement p h') = c_advertisements h"
    using ad_table.new_delete[OF assms(4), of ?a] n by (auto simp: fun_eq_iff)
  moreover have "c_runtimes (delete_advertisement p h') = c_runtimes h"
    using n by (auto simp: heap_defs)
  ultimately show ?thesis by blast
qed

theorem c_discovery_round_trip_witness:
  "\<exists>p h'. yunlink_v2_discovery_decode_reply
      (view_bytes (encode_discovery_reply sample_query sample_advertisement ''s'')) (view ''s'') 7 empty_heap =
      Some (Some p, h') \<and> read_advertisement (Some p) h' = Some (advertisement_in 4 sample_advertisement)"
proof -
  have "heap_ok empty_heap" "in_memory ''s''" "known_version (dq_format_version sample_query)"
    by (simp_all add: heap_ok_def empty_heap_def in_memory_def sample_query_def discovery_versions)
  with c_discovery_round_trip[OF sample_reply_encoded sample_advertisement_ok(2)] show ?thesis
    by (fastforce simp: sample_query_def)
qed

end
