(* ===== verification/Identity.thy ===== *)
theory Identity
  imports RuntimeInvariant
begin

text \<open>
  Identifiers in a running endpoint. Only frames that passed the decoder's checks reach the handlers,
  so every session is unbound or bound to a valid endpoint identifier, and every envelope that was ever
  delivered to a subscriber is one the encoder would accept: its identifiers are valid, its payload is
  within the limit and it fits a frame.
\<close>

definition uids_ok :: "(session_key, SessionInfo) omap \<Rightarrow> bool" where
  "uids_ok m \<longleftrightarrow> list_all (\<lambda>(k, s). remote_endpoint_uid s = [] \<or> valid_uid (remote_endpoint_uid s)) m"

definition event_ok :: "RuntimeEvent \<Rightarrow> bool" where
  "event_ok ev \<longleftrightarrow> (ev_kind ev = Ev_kEnvelope \<longrightarrow> \<not> encode_refuses (ev_envelope ev))"

definition identity_ok :: "Impl \<Rightarrow> bool" where
  "identity_ok impl \<longleftrightarrow> uids_ok (sessions impl) \<and> list_all (\<lambda>(ev, hs). event_ok ev) (emitted impl)"

lemma identity_ok_other [simp]:
  "identity_ok (impl\<lparr>next_message_id := a\<rparr>) = identity_ok impl"
  "identity_ok (impl\<lparr>next_session_id := b\<rparr>) = identity_ok impl"
  "identity_ok (impl\<lparr>lane_owner := c\<rparr>) = identity_ok impl"
  "identity_ok (impl\<lparr>next_subscription := d\<rparr>) = identity_ok impl"
  "identity_ok (impl\<lparr>handlers := f\<rparr>) = identity_ok impl"
  "identity_ok (impl\<lparr>running := g\<rparr>) = identity_ok impl"
  "identity_ok (impl\<lparr>listening_port := i\<rparr>) = identity_ok impl"
  "identity_ok (impl\<lparr>connections := j\<rparr>) = identity_ok impl"
  "identity_ok (impl\<lparr>authority_leases := k\<rparr>) = identity_ok impl"
  "identity_ok (impl\<lparr>config := l\<rparr>) = identity_ok impl"
  by (simp_all add: identity_ok_def)

lemma identity_ok_sessions: "identity_ok impl \<Longrightarrow> uids_ok m \<Longrightarrow> identity_ok (impl\<lparr>sessions := m\<rparr>)"
  by (simp add: identity_ok_def)

lemma uids_ok_put: "uids_ok m \<Longrightarrow> remote_endpoint_uid s = [] \<or> valid_uid (remote_endpoint_uid s) \<Longrightarrow>
    uids_ok (om_put k s m)"
  unfolding uids_ok_def list_all_iff using set_om_put_subset[of k s m] by fastforce

lemma uids_ok_find: "uids_ok m \<Longrightarrow> om_find m k = Some s \<Longrightarrow>
    remote_endpoint_uid s = [] \<or> valid_uid (remote_endpoint_uid s)"
  unfolding uids_ok_def list_all_iff by (auto dest: om_find_in_set)

lemma uids_ok_erase_if: "uids_ok m \<Longrightarrow> uids_ok (om_erase_if P m)"
  by (auto simp: uids_ok_def om_erase_if_def list_all_iff)

lemma identity_emit [simp]: "identity_ok (runtime_emit ev impl) = (identity_ok impl \<and> event_ok ev)"
  by (auto simp: identity_ok_def frame_simps) (auto simp: runtime_emit_def)

lemma quiet_events [simp]:
  "event_ok (error_event peer e code message)" "event_ok (session_event peer s)" "event_ok (link_event peer up)"
  "event_ok (envelope_event peer e) \<longleftrightarrow> \<not> encode_refuses e"
  by (simp_all add: event_ok_def error_event_def session_event_def link_event_def envelope_event_def)

lemma identity_frames [simp]:
  "identity_ok (write_to_peer now_ms pid e impl) = identity_ok impl"
  "identity_ok (send_session now_ms pid sid op ty data corr impl) = identity_ok impl"
  "identity_ok (emit_session peer s impl) = identity_ok impl"
  "identity_ok (stop_connection pid impl) = identity_ok impl"
  "identity_ok (send_status now_ms peer q st impl) = identity_ok impl"
  by (auto simp: identity_ok_def frame_simps event_ok_def session_event_def)

lemma handle_session_identity:
  assumes "identity_ok impl" and "\<not> encode_refuses e"
  shows "identity_ok (handle_session_envelope now_ms peer e impl)"
proof -
  have "remote_endpoint_uid (session_entry peer e impl) = [] \<or> valid_uid (remote_endpoint_uid (session_entry peer e impl))"
    using assms(1) uids_ok_find[of "sessions impl"]
    by (auto simp: session_entry_def identity_ok_def empty_session_def split: option.splits)
  moreover have "valid_uid (src_endpoint_uid (source e))"
    using not_refused_bounds(10)[OF assms(2)] by (simp add: identity_refused_def)
  ultimately have "uids_ok (sessions (handle_session_envelope now_ms peer e impl))"
    using assms(1) by (auto simp: handle_session_sessions entry_step_uid identity_ok_def split: if_splits
        intro!: uids_ok_put)
  moreover have "list_all (\<lambda>(ev, hs). event_ok ev) (emitted (handle_session_envelope now_ms peer e impl))"
    using assms(1) by (auto simp: handle_session_envelope_def Let_def frame_simps identity_ok_def split: prod.splits)
  ultimately show ?thesis by (simp add: identity_ok_def)
qed

lemma handle_lane_identity:
  assumes "identity_ok impl"
  shows "identity_ok (snd (handle_lane_bind now_ms peer e impl))" "identity_ok (snd (handle_lane_ready peer e impl))"
proof -
  have "uids_ok (om_put k (s\<lparr>lossy_peer_id := l\<rparr>) (sessions impl))" if "(k, s) \<in> set (sessions impl)" for k s l
    using assms that by (auto simp: identity_ok_def intro!: uids_ok_put) (auto simp: uids_ok_def list_all_iff)
  note put = identity_ok_sessions[OF assms this]
  have found: "x \<in> set (sessions impl)" if "List.find P (sessions impl) = Some x" for P x
    using that by (auto simp: find_Some_iff)
  show "identity_ok (snd (handle_lane_bind now_ms peer e impl))"
    using assms put by (auto simp: handle_lane_bind_def Let_def split: option.splits dest!: found)
  show "identity_ok (snd (handle_lane_ready peer e impl))"
    using assms put by (auto simp: handle_lane_ready_def split: option.splits dest: om_find_in_set)
qed

lemma handle_application_identity:
  assumes "identity_ok impl" and "\<not> encode_refuses e"
  shows "identity_ok (handle_application_envelope now_ms t peer logical e impl)"
proof -
  obtain b impl' where h: "runtime_handle_authority now_ms t peer e impl = (b, impl')" by fastforce
  have "identity_ok impl'"
    using assms(1) handle_authority_frame(2,4)[of now_ms t peer e impl] h by (simp add: identity_ok_def)
  with assms h show ?thesis
    by (cases b) (auto simp: handle_application_envelope_def Let_def split: sum.splits)
qed

lemma handle_envelope_identity:
  assumes "identity_ok impl" and "\<not> encode_refuses e"
  shows "identity_ok (runtime_handle_envelope now_ms t peer e impl)"
  using assms
  by (simp add: runtime_handle_envelope_def handle_session_identity handle_lane_identity handle_application_identity)

section \<open>What reaches the handlers\<close>

fun item_ok :: "RecvItem \<Rightarrow> bool" where
  "item_ok (Recv_envelope e) = (\<not> encode_refuses e)"
| "item_ok (Recv_error code message) = True"

lemma pop_frame_item: "pop_frame max_bytes b = Some (r, b') \<Longrightarrow> list_all item_ok (recv_item r)"
  by (auto simp: pop_frame_def Let_def bind_eq_Some_conv split: if_splits elim: decode_okE)

lemma drain_items: "drain max_bytes b = Some (rs, rest) \<Longrightarrow> list_all item_ok (concat (map recv_item rs))"
proof (induction max_bytes b arbitrary: rs rest rule: drain.induct)
  case (1 max_bytes b)
  from 1(2) obtain r b' where p: "pop_frame max_bytes b = Some (r, b')"
      and rest: "if r = Pop_wait then (rs, rest) = ([], b') else \<exists>rs'. drain max_bytes b' = Some (rs', rest) \<and> rs = r # rs'"
    by (subst (asm) drain.simps) (auto simp: bind_eq_Some_conv split: if_splits)
  show ?case
  proof (cases "r = Pop_wait")
    case False
    with rest obtain rs' where d: "drain max_bytes b' = Some (rs', rest)" and rs: "rs = r # rs'" by auto
    have "list_all item_ok (concat (map recv_item rs'))"
      using 1(1)[OF p refl False d] .
    with pop_frame_item[OF p] rs show ?thesis by simp
  qed (use rest in simp)
qed

lemma receive_chunk_items: "receive_chunk max_bytes b chunk = Some (items, b', go) \<Longrightarrow> list_all item_ok items"
  by (auto simp: receive_chunk_def Let_def bind_eq_Some_conv split: if_splits prod.splits bool.splits
      dest: drain_items)

lemma handle_items_identity:
  "list_all item_ok items \<Longrightarrow> identity_ok impl \<Longrightarrow> identity_ok (fold (handle_item now_ms t peer) items impl)"
proof (induction items arbitrary: impl)
  case (Cons item items)
  then show ?case by (cases item) (simp_all add: handle_envelope_identity)
qed simp

lemma drop_peer_identity: "identity_ok impl \<Longrightarrow> identity_ok (runtime_drop_peer_state peer impl)"
proof -
  assume ok: "identity_ok impl"
  have emit: "identity_ok (fold (emit_session peer) ss i) = identity_ok i" for ss i
    by (induction ss arbitrary: i) simp_all
  have u: "uids_ok (sessions impl)" using ok by (simp add: identity_ok_def)
  have "uids_ok (om_put k (s\<lparr>lossy_peer_id := l\<rparr>) (sessions impl))" if "om_find (sessions impl) k = Some s" for k s l
    using uids_ok_find[OF u that] u by (auto intro!: uids_ok_put)
  with ok uids_ok_erase_if[OF u] show ?thesis
    by (auto simp: runtime_drop_peer_state_def Let_def emit split: option.splits intro!: identity_ok_sessions)
qed

lemma receive_end_identity: "identity_ok impl \<Longrightarrow> identity_ok (receive_loop_end listed peer impl)"
  by (simp add: receive_loop_end_def drop_peer_identity)

lemma receive_round_identity: "identity_ok impl \<Longrightarrow> identity_ok (receive_round now_ms t pid r impl)"
  by (auto simp: receive_round_def Let_def split: option.splits ReadOutcome.splits
      intro!: handle_items_identity receive_end_identity dest: receive_chunk_items)

section \<open>Every step keeps it\<close>

lemma detach_identity: "identity_ok impl \<Longrightarrow> identity_ok (detach_peer pid impl)"
proof -
  assume ok: "identity_ok impl"
  define i where "i = impl\<lparr>connections := om_erase pid (connections impl),
      sessions := map (\<lambda>(key, s). (key, if fst key = pid then s\<lparr>lossy_peer_id := []\<rparr> else s)) (sessions impl)\<rparr>"
  have u: "uids_ok (sessions i)"
    using ok unfolding i_def identity_ok_def uids_ok_def list_all_iff
    by (clarsimp split: if_splits; fastforce)
  with ok have i: "identity_ok i" by (simp add: i_def identity_ok_def)
  have "uids_ok (om_put k (s\<lparr>lossy_peer_id := []\<rparr>) (sessions i))" if "om_find (sessions i) k = Some s" for k s
    using uids_ok_find[OF u that] u by (auto intro!: uids_ok_put)
  with i have "identity_ok (case om_find (sessions i) key of
      Some s \<Rightarrow> if lossy_peer_id s = pid
        then i\<lparr>sessions := om_put key (s\<lparr>lossy_peer_id := []\<rparr>) (sessions i)\<rparr> else i | None \<Rightarrow> i)" for key
    by (cases key) (auto split: option.splits intro!: identity_ok_sessions)
  with i show ?thesis
    by (auto simp: detach_peer_def Let_def i_def[symmetric] split: option.splits)
qed

lemma close_peer_identity: "identity_ok impl \<Longrightarrow> identity_ok (close_peer pid impl)"
proof (induction pid impl rule: close_peer.induct)
  case (1 pid impl)
  then show ?case using detach_identity[of impl pid]
    by (subst close_peer.simps) (auto simp: Let_def)
qed

lemma open_session_identity: "identity_ok impl \<Longrightarrow> identity_ok (snd (open_session now_ms pid impl))"
  by (auto simp: open_session_def Let_def identity_ok_def frame_simps empty_session_def intro!: uids_ok_put)

lemma bind_identity:
  "identity_ok impl \<Longrightarrow> identity_ok (snd (bind_lossy_lane now_ms pid sid address_ok outcome impl))"
  by (auto simp: bind_lossy_lane_def Let_def case_prod_unfold take_message_id_def
      split: option.splits intro!: close_peer_identity)

lemma connect_identity:
  "identity_ok impl \<Longrightarrow> identity_ok (snd (snd (connect_peer ip port address_ok outcome impl)))"
  by (auto simp: connect_peer_def Let_def split: option.splits)

lemma send_identity: "identity_ok impl \<Longrightarrow> identity_ok (snd (runtime_send now_ms pid e impl))"
  by (auto simp: runtime_send_def Let_def case_prod_unfold split: option.splits)

lemma publish_identity: "identity_ok impl \<Longrightarrow>
    identity_ok (snd (snd (publish now_ms pid sid fam op tgt ty data corr ttl qos ent impl)))"
  by (simp add: publish_def Let_def case_prod_unfold take_message_id_def send_identity)

lemma identity_step:
  assumes "runtime_step impl impl'" and "identity_ok impl"
  shows "identity_ok impl'"
  using assms(1)
proof cases
  case (do_write send pid alive run)
  have q: "list_all event_ok evs" if "send_step lane alive send run c = (c', evs, out)" for c lane c' evs out
    using that by (auto simp: send_step_def Let_def split: if_splits option.splits prod.splits)
  have "identity_ok (fold runtime_emit evs i) = (identity_ok i \<and> list_all event_ok evs)" for evs i
    by (induction evs arbitrary: i) auto
  with q assms(2) do_write show ?thesis
    by (auto simp: send_round_def Let_def split: option.splits prod.splits)
next
  case (do_start cfg acceptor)
  with assms(2) show ?thesis by (auto simp: start_def split: option.splits)
next
  case do_stop
  with assms(2) show ?thesis by (auto simp: stop_def identity_ok_def uids_ok_def)
next
  case (do_set_entities es)
  with assms(2) show ?thesis by (auto simp: set_entities_def)
next
  case (do_bind_timeout pid sid)
  with assms(2) show ?thesis by (auto simp: bind_lossy_lane_timeout_def close_peer_identity split: option.splits)
qed (use assms(2) in \<open>auto simp: reap_closed_connections_def accept_connection_def Let_def subscribe_def
  unsubscribe_def runtime_revoke_authority_def connect_identity close_peer_identity open_session_identity
  bind_identity send_identity publish_identity receive_round_identity receive_end_identity split: option.splits\<close>)

lemma identity_reach: "runtime_reach cfg impl \<Longrightarrow> identity_ok impl"
proof (induction rule: runtime_reach.induct)
  case reach_init
  show ?case by (simp add: identity_ok_def impl_init_def uids_ok_def)
qed (rule identity_step)

end
