(* ===== verification/CApi.thy ===== *)
theory CApi
  imports CRuntime CDiscovery Identity
begin

text \<open>
  The C ABI as a whole: any program that calls the functions declared in \<open>yunlink_v2.h\<close>, in any order
  and interleaved with the threads of the runtimes it has created. A call that meets the obligations of
  its caller is defined; it changes one object only; and the runtime behind every handle stays a
  reachable state of the C++ runtime, so everything proved about those holds through the ABI.
\<close>

section \<open>Calls\<close>

text \<open>
  One constructor for each declaration, with the arguments of the call and, after them, what the clock,
  the network and the other threads do while it runs. \<open>yunlink_v2_abi_version\<close> has neither.
\<close>

datatype (plugins only: code size) c_call =
    Call_create
  | Call_destroy handle
  | Call_start handle "yunlink_v2_runtime_config option" "u16 option"
  | Call_stop handle
  | Call_listening_port handle
  | Call_set_entity_uids handle "yunlink_v2_string_view list option" u64
  | Call_connect handle yunlink_v2_string_view u16 "yunlink_v2_peer option" bool ConnectOutcome
  | Call_close_peer handle yunlink_v2_string_view
  | Call_open_session handle yunlink_v2_string_view u64
  | Call_bind_lossy_lane handle yunlink_v2_string_view u64 u64 bool ConnectOutcome "nat \<Rightarrow> Impl \<Rightarrow> Impl"
  | Call_session_has_lossy_lane handle yunlink_v2_string_view u64
  | Call_session_endpoint_uid handle yunlink_v2_string_view u64 "string option" u64
  | Call_publish handle yunlink_v2_string_view u64 u8 u8 yunlink_v2_target_view yunlink_v2_type_ref_view
      yunlink_v2_bytes_view u64 u32 u8 yunlink_v2_string_view "yunlink_v2_message_handle option" u64
  | Call_subscribe handle "nat option"
  | Call_unsubscribe handle u64
  | Call_session_has_profile handle yunlink_v2_string_view u64 yunlink_v2_string_view u16
  | Call_session_supports_profile handle yunlink_v2_string_view u64 yunlink_v2_string_view u16 u16
  | Call_encode_query u64 u16 u8 yunlink_v2_string_view "bytes option" u64 "u64 option"
  | Call_decode_reply yunlink_v2_bytes_view yunlink_v2_string_view u64
  | Call_advertisement_destroy handle
  | Call_endpoint_uid handle
  | Call_display_name handle
  | Call_tcp_port handle
  | Call_started_at_ms handle
  | Call_sequence handle
  | Call_capability_count handle
  | Call_capability_at handle u64
  | Call_profile_count handle
  | Call_profile_at handle u64 "yunlink_v2_profile_view option"
  | Call_attribute_count handle
  | Call_attribute_at handle u64 "yunlink_v2_key_value_view option"
  | Call_entity_count handle
  | Call_entity_at handle u64 "yunlink_v2_discovery_entity_view option"
  | Call_entity_attribute_count handle u64
  | Call_entity_attribute_at handle u64 u64 "yunlink_v2_key_value_view option"

text \<open>The heap after a call that only reads it.\<close>

definition reads :: "CHeap \<Rightarrow> 'a option \<Rightarrow> CHeap option" where
  "reads h r = map_option (\<lambda>_. h) r"

fun c_exec :: "c_call \<Rightarrow> CHeap \<Rightarrow> CHeap option" where
  "c_exec Call_create h = Some (snd (yunlink_v2_runtime_create h))"
| "c_exec (Call_destroy rt) h = yunlink_v2_runtime_destroy rt h"
| "c_exec (Call_start rt cfg acceptor) h = map_option snd (yunlink_v2_runtime_start rt cfg acceptor h)"
| "c_exec (Call_stop rt) h = yunlink_v2_runtime_stop rt h"
| "c_exec (Call_listening_port rt) h = reads h (yunlink_v2_runtime_listening_port rt h)"
| "c_exec (Call_set_entity_uids rt uids n) h = map_option snd (yunlink_v2_runtime_set_entity_uids rt uids n h)"
| "c_exec (Call_connect rt ip port out ok outcome) h =
     map_option (snd \<circ> snd) (yunlink_v2_runtime_connect rt ip port out ok outcome h)"
| "c_exec (Call_close_peer rt pid) h = yunlink_v2_runtime_close_peer rt pid h"
| "c_exec (Call_open_session rt pid now) h = map_option snd (yunlink_v2_runtime_open_session rt pid now h)"
| "c_exec (Call_bind_lossy_lane rt pid sid now ok outcome others) h =
     map_option snd (yunlink_v2_runtime_bind_lossy_lane rt pid sid now ok outcome others h)"
| "c_exec (Call_session_has_lossy_lane rt pid sid) h =
     reads h (yunlink_v2_runtime_session_has_lossy_lane rt pid sid h)"
| "c_exec (Call_session_endpoint_uid rt pid sid out cap) h =
     reads h (yunlink_v2_runtime_session_endpoint_uid rt pid sid out cap h)"
| "c_exec (Call_publish rt pid sid fam op tgt ty data corr ttl qos ent out now) h =
     map_option (snd \<circ> snd) (yunlink_v2_runtime_publish rt pid sid fam op tgt ty data corr ttl qos ent out now h)"
| "c_exec (Call_subscribe rt cb) h = map_option snd (yunlink_v2_runtime_subscribe rt cb h)"
| "c_exec (Call_unsubscribe rt token) h = yunlink_v2_runtime_unsubscribe rt token h"
| "c_exec (Call_session_has_profile rt pid sid profile major) h =
     reads h (yunlink_v2_runtime_session_has_profile rt pid sid profile major h)"
| "c_exec (Call_session_supports_profile rt pid sid profile major minor) h =
     reads h (yunlink_v2_runtime_session_supports_profile rt pid sid profile major minor h)"
| "c_exec (Call_encode_query nonce window version secret out cap out_size) h =
     reads h (yunlink_v2_discovery_encode_query nonce window version secret out cap out_size)"
| "c_exec (Call_decode_reply data secret nonce) h =
     map_option snd (yunlink_v2_discovery_decode_reply data secret nonce h)"
| "c_exec (Call_advertisement_destroy ad) h = yunlink_v2_discovery_advertisement_destroy ad h"
| "c_exec (Call_endpoint_uid ad) h = reads h (yunlink_v2_discovery_endpoint_uid ad h)"
| "c_exec (Call_display_name ad) h = reads h (yunlink_v2_discovery_display_name ad h)"
| "c_exec (Call_tcp_port ad) h = reads h (yunlink_v2_discovery_tcp_port ad h)"
| "c_exec (Call_started_at_ms ad) h = reads h (yunlink_v2_discovery_started_at_ms ad h)"
| "c_exec (Call_sequence ad) h = reads h (yunlink_v2_discovery_sequence ad h)"
| "c_exec (Call_capability_count ad) h = reads h (yunlink_v2_discovery_capability_count ad h)"
| "c_exec (Call_capability_at ad i) h = reads h (yunlink_v2_discovery_capability_at ad i h)"
| "c_exec (Call_profile_count ad) h = reads h (yunlink_v2_discovery_profile_count ad h)"
| "c_exec (Call_profile_at ad i out) h = reads h (yunlink_v2_discovery_profile_at ad i out h)"
| "c_exec (Call_attribute_count ad) h = reads h (yunlink_v2_discovery_attribute_count ad h)"
| "c_exec (Call_attribute_at ad i out) h = reads h (yunlink_v2_discovery_attribute_at ad i out h)"
| "c_exec (Call_entity_count ad) h = reads h (yunlink_v2_discovery_entity_count ad h)"
| "c_exec (Call_entity_at ad i out) h = reads h (yunlink_v2_discovery_entity_at ad i out h)"
| "c_exec (Call_entity_attribute_count ad i) h = reads h (yunlink_v2_discovery_entity_attribute_count ad i h)"
| "c_exec (Call_entity_attribute_at ad i j out) h =
     reads h (yunlink_v2_discovery_entity_attribute_at ad i j out h)"

section \<open>What the caller owes\<close>

definition live :: "(nat \<rightharpoonup> 'o) \<Rightarrow> handle \<Rightarrow> bool" where
  "live objects p \<longleftrightarrow> (case p of None \<Rightarrow> True | Some a \<Rightarrow> objects a \<noteq> None)"

definition buffer_ok :: "'a list option \<Rightarrow> u64 \<Rightarrow> bool" where
  "buffer_ok out capacity \<longleftrightarrow> (case out of None \<Rightarrow> True | Some b \<Rightarrow> unat capacity \<le> length b)"

definition bv_ok :: "yunlink_v2_bytes_view \<Rightarrow> bool" where
  "bv_ok v \<longleftrightarrow> (case bv_data v of None \<Rightarrow> True | Some bs \<Rightarrow> unat (bv_len v) \<le> length bs)"

definition type_view_ok :: "yunlink_v2_type_ref_view \<Rightarrow> bool" where
  "type_view_ok v \<longleftrightarrow> sv_ok (tv_profile_id v) \<and> sv_ok (tv_type_name v)"

definition config_view_ok :: "yunlink_v2_runtime_config \<Rightarrow> bool" where
  "config_view_ok c \<longleftrightarrow> sv_ok (rc_endpoint_uid c) \<and> sv_ok (rc_display_name c) \<and> sv_ok (rc_shared_secret c) \<and>
     array_ok pv_ok (rc_profiles c) (rc_profile_count c) \<and>
     array_ok pv_ok (rc_required_profiles c) (rc_required_profile_count c)"

text \<open>
  Handles are null or live, views lie within the memory they point into, out buffers are as large as
  their capacities. Nothing is asked about the values: enumerations may be out of range, counts may
  disagree with null pointers, sizes and identifiers may be anything.
\<close>

fun call_ok :: "CHeap \<Rightarrow> c_call \<Rightarrow> bool" where
  "call_ok h (Call_destroy rt) = live (c_runtimes h) rt"
| "call_ok h (Call_start rt cfg _) = (live (c_runtimes h) rt \<and> (case cfg of None \<Rightarrow> True | Some c \<Rightarrow> config_view_ok c))"
| "call_ok h (Call_stop rt) = live (c_runtimes h) rt"
| "call_ok h (Call_listening_port rt) = live (c_runtimes h) rt"
| "call_ok h (Call_set_entity_uids rt uids n) = (live (c_runtimes h) rt \<and> array_ok sv_ok uids n)"
| "call_ok h (Call_connect rt ip _ _ _ _) = (live (c_runtimes h) rt \<and> sv_ok ip)"
| "call_ok h (Call_close_peer rt pid) = (live (c_runtimes h) rt \<and> sv_ok pid)"
| "call_ok h (Call_open_session rt pid _) = (live (c_runtimes h) rt \<and> sv_ok pid)"
| "call_ok h (Call_bind_lossy_lane rt pid _ _ _ _ _) = (live (c_runtimes h) rt \<and> sv_ok pid)"
| "call_ok h (Call_session_has_lossy_lane rt pid _) = (live (c_runtimes h) rt \<and> sv_ok pid)"
| "call_ok h (Call_session_endpoint_uid rt pid _ out cap) =
     (live (c_runtimes h) rt \<and> sv_ok pid \<and> buffer_ok out cap)"
| "call_ok h (Call_publish rt pid _ _ _ tgt ty data _ _ _ ent _ _) =
     (live (c_runtimes h) rt \<and> sv_ok pid \<and> tg_ok tgt \<and> type_view_ok ty \<and> bv_ok data \<and> sv_ok ent)"
| "call_ok h (Call_subscribe rt _) = live (c_runtimes h) rt"
| "call_ok h (Call_unsubscribe rt _) = live (c_runtimes h) rt"
| "call_ok h (Call_session_has_profile rt pid _ profile _) =
     (live (c_runtimes h) rt \<and> sv_ok pid \<and> sv_ok profile)"
| "call_ok h (Call_session_supports_profile rt pid _ profile _ _) =
     (live (c_runtimes h) rt \<and> sv_ok pid \<and> sv_ok profile)"
| "call_ok h (Call_encode_query _ _ _ secret out cap _) = (sv_ok secret \<and> buffer_ok out cap)"
| "call_ok h (Call_decode_reply data secret _) = (bv_ok data \<and> sv_ok secret)"
| "call_ok h (Call_advertisement_destroy ad) = live (c_advertisements h) ad"
| "call_ok h (Call_endpoint_uid ad) = live (c_advertisements h) ad"
| "call_ok h (Call_display_name ad) = live (c_advertisements h) ad"
| "call_ok h (Call_tcp_port ad) = live (c_advertisements h) ad"
| "call_ok h (Call_started_at_ms ad) = live (c_advertisements h) ad"
| "call_ok h (Call_sequence ad) = live (c_advertisements h) ad"
| "call_ok h (Call_capability_count ad) = live (c_advertisements h) ad"
| "call_ok h (Call_capability_at ad _) = live (c_advertisements h) ad"
| "call_ok h (Call_profile_count ad) = live (c_advertisements h) ad"
| "call_ok h (Call_profile_at ad _ _) = live (c_advertisements h) ad"
| "call_ok h (Call_attribute_count ad) = live (c_advertisements h) ad"
| "call_ok h (Call_attribute_at ad _ _) = live (c_advertisements h) ad"
| "call_ok h (Call_entity_count ad) = live (c_advertisements h) ad"
| "call_ok h (Call_entity_at ad _ _) = live (c_advertisements h) ad"
| "call_ok h (Call_entity_attribute_count ad _) = live (c_advertisements h) ad"
| "call_ok h (Call_entity_attribute_at ad _ _ _) = live (c_advertisements h) ad"
| "call_ok h Call_create = True"

section \<open>Defined calls\<close>

lemma liveE:
  assumes "live objects p"
  obtains "p = None" | a x where "p = Some a" "objects a = Some x"
  using assms by (auto simp: live_def split: option.splits)

lemma on_runtime_Some: "c_runtimes h p = Some impl \<Longrightarrow>
    on_runtime p f h = Some (fst (f impl), put_runtime p (snd (f impl)) h)"
  by (simp add: on_runtime_def case_prod_unfold Let_def)

lemma of_advertisement_defined: "live (c_advertisements h) ad \<Longrightarrow> \<exists>x. of_advertisement absent f ad h = Some x"
  by (auto simp: of_advertisement_def elim: liveE)

lemma native_config_defined: "config_view_ok c \<Longrightarrow> \<exists>r. native_config c = Some r"
  using copy_profiles_defined[of "rc_profiles c" "rc_profile_count c"]
    copy_profiles_defined[of "rc_required_profiles c" "rc_required_profile_count c"]
  by (auto simp: native_config_def config_view_ok_def dest!: copy_defined split: option.splits)

lemma fill_peer_defined: "\<exists>q. fill_peer peer = Some q"
  using copy_fixed_result[of "cp_id empty_peer" "peer_id peer"] copy_fixed_result[of "cp_ip empty_peer" "peer_ip peer"]
  by (auto simp: fill_peer_def empty_peer_def)

lemma copy_type_ref_defined: "type_view_ok v \<Longrightarrow> \<exists>r. copy_type_ref v = Some r"
  by (auto simp: type_view_ok_def copy_type_ref_def dest!: copy_defined)

lemma copy_bytes_defined: "bv_ok v \<Longrightarrow> \<not> (bv_data v = None \<and> bv_len v \<noteq> 0) \<Longrightarrow> \<exists>r. copy_bytes v = Some r"
  by (auto simp: bv_ok_def copy_bytes_def read_prefix_def split: option.splits)

lemma enum_defined:
  "\<not> (b < 1 \<or> b > 9) \<Longrightarrow> \<exists>f. family_of b = Some f" "\<not> (c < 1 \<or> c > 4) \<Longrightarrow> \<exists>q. qos_of c = Some q"
  unfolding not_less de_Morgan_disj using valid_family_of[of b] valid_qos_of[of c]
  by (auto simp: valid_family_def valid_qos_def)

lemma start_defined:
  "call_ok h (Call_start rt cfg acceptor) \<Longrightarrow> \<exists>r. yunlink_v2_runtime_start rt cfg acceptor h = Some r"
  by (auto simp: yunlink_v2_runtime_start_def on_runtime_Some split: option.splits
      elim!: liveE dest!: native_config_defined)

lemma set_entity_uids_defined:
  "call_ok h (Call_set_entity_uids rt uids n) \<Longrightarrow> \<exists>r. yunlink_v2_runtime_set_entity_uids rt uids n h = Some r"
  using copy_each_defined[of sv_ok uids n copy, OF _ copy_defined]
  by (cases "(uids = None) = (n = 0)")
    (auto simp: yunlink_v2_runtime_set_entity_uids_def on_runtime_Some elim!: liveE)

lemma connect_defined:
  "call_ok h (Call_connect rt ip port out ok outcome) \<Longrightarrow>
     \<exists>r. yunlink_v2_runtime_connect rt ip port out ok outcome h = Some r"
proof -
  assume ok: "call_ok h (Call_connect rt ip port out ok outcome)"
  obtain g where "\<And>peer. fill_peer peer = Some (g peer)" using fill_peer_defined by metis
  with ok show ?thesis
    by (auto simp: yunlink_v2_runtime_connect_def on_runtime_Some case_prod_unfold elim!: liveE dest!: copy_defined)
qed

lemma session_endpoint_uid_defined:
  "call_ok h (Call_session_endpoint_uid rt pid sid out cap) \<Longrightarrow>
     \<exists>r. yunlink_v2_runtime_session_endpoint_uid rt pid sid out cap h = Some r"
  by (auto simp: yunlink_v2_runtime_session_endpoint_uid_def buffer_ok_def write_at_def
      elim!: liveE dest!: copy_defined split: option.splits)

lemma publish_defined:
  "call_ok h (Call_publish rt pid sid fam op tgt ty data corr ttl qos ent out now) \<Longrightarrow>
     \<exists>r. yunlink_v2_runtime_publish rt pid sid fam op tgt ty data corr ttl qos ent out now h = Some r"
proof (cases "(bv_data data = None \<and> bv_len data \<noteq> 0) \<or> fam < 1 \<or> fam > 9 \<or> qos < 1 \<or> qos > 4")
  case False
  assume a: "call_ok h (Call_publish rt pid sid fam op tgt ty data corr ttl qos ent out now)"
  from False enum_defined obtain f q where "family_of fam = Some f" "qos_of qos = Some q" by blast
  moreover from False a copy_bytes_defined obtain bs where "copy_bytes data = Some bs" by auto
  moreover from a obtain t s e r where "copy_type_ref ty = Some t" "copy pid = Some s" "copy ent = Some e"
      "copy_target tgt = Some r"
    using copy_type_ref_defined copy_defined copy_target_defined by force
  ultimately show ?thesis
    using a False
    by (cases r) (auto simp: yunlink_v2_runtime_publish_def on_runtime_Some case_prod_unfold Let_def elim!: liveE)
qed (auto simp: yunlink_v2_runtime_publish_def split: option.splits)

lemma encode_query_defined:
  "call_ok h (Call_encode_query nonce window version secret out cap out_size) \<Longrightarrow>
     \<exists>r. yunlink_v2_discovery_encode_query nonce window version secret out cap out_size = Some r"
  by (auto simp: yunlink_v2_discovery_encode_query_def buffer_ok_def write_at_def Let_def discovery_copy_eq
      dest!: copy_defined split: option.splits)

lemma decode_reply_defined:
  "call_ok h (Call_decode_reply data secret nonce) \<Longrightarrow>
     \<exists>r. yunlink_v2_discovery_decode_reply data secret nonce h = Some r"
  by (auto simp: yunlink_v2_discovery_decode_reply_def bv_ok_def read_prefix_def discovery_copy_eq case_prod_unfold Let_def
      dest!: copy_defined split: option.splits)

lemmas runtime_call_defs = yunlink_v2_runtime_destroy_def yunlink_v2_runtime_stop_def
  yunlink_v2_runtime_listening_port_def yunlink_v2_runtime_close_peer_def yunlink_v2_runtime_open_session_def
  yunlink_v2_runtime_bind_lossy_lane_def yunlink_v2_runtime_session_has_lossy_lane_def
  yunlink_v2_runtime_session_has_profile_def yunlink_v2_runtime_session_supports_profile_def
  yunlink_v2_runtime_subscribe_def yunlink_v2_runtime_unsubscribe_def

lemma call_defined:
  assumes ok: "call_ok h call"
  shows "\<exists>h'. c_exec call h = Some h'"
proof (cases call)
  case (Call_start rt cfg acceptor)
  from start_defined[OF ok[unfolded Call_start]] Call_start show ?thesis by (auto simp: reads_def)
next
  case (Call_set_entity_uids rt uids n)
  from set_entity_uids_defined[OF ok[unfolded Call_set_entity_uids]] Call_set_entity_uids show ?thesis by (auto simp: reads_def)
next
  case (Call_connect rt ip port out ok outcome)
  from connect_defined[OF ok[unfolded Call_connect]] Call_connect show ?thesis by (auto simp: reads_def)
next
  case (Call_session_endpoint_uid rt pid sid out cap)
  from session_endpoint_uid_defined[OF ok[unfolded Call_session_endpoint_uid]] Call_session_endpoint_uid show ?thesis by (auto simp: reads_def)
next
  case (Call_publish rt pid sid fam op tgt ty data corr ttl qos ent out now)
  from publish_defined[OF ok[unfolded Call_publish]] Call_publish show ?thesis by (auto simp: reads_def)
next
  case (Call_encode_query nonce window version secret out cap out_size)
  from encode_query_defined[OF ok[unfolded Call_encode_query]] Call_encode_query show ?thesis by (auto simp: reads_def)
next
  case (Call_decode_reply data secret nonce)
  from decode_reply_defined[OF ok[unfolded Call_decode_reply]] Call_decode_reply show ?thesis by (auto simp: reads_def)
qed (use ok in \<open>auto simp: runtime_call_defs yunlink_v2_discovery_advertisement_destroy_def on_runtime_Some
  accessor_defs reads_def split: option.splits elim!: liveE dest!: copy_defined\<close>)

section \<open>What a call changes\<close>

text \<open>
  The effect of a call on the heap: nothing, some steps of the runtime behind one handle, or the
  creation or destruction of one object.
\<close>

inductive c_effect :: "CHeap \<Rightarrow> CHeap \<Rightarrow> bool" where
  eff_none: "c_effect h h"
| eff_runtime: "c_runtimes h p = Some impl \<Longrightarrow> runtime_step\<^sup>*\<^sup>* impl impl' \<Longrightarrow> c_effect h (put_runtime p impl' h)"
| eff_create: "c_effect h (snd (new_runtime (impl_init default_runtime_config) h))"
| eff_destroy: "c_runtimes h p = Some impl \<Longrightarrow> c_effect h (delete_runtime p h)"
| eff_advertise: "valid_advertisement a \<Longrightarrow> ad_in_memory a \<Longrightarrow> c_effect h (snd (new_advertisement a h))"
| eff_forget: "c_advertisements h p = Some a \<Longrightarrow> c_effect h (delete_advertisement p h)"

text \<open>While a call waits, the other threads of its runtime take steps of theirs.\<close>

fun call_env :: "c_call \<Rightarrow> bool" where
  "call_env (Call_bind_lossy_lane _ _ _ _ _ _ others) = (\<forall>k impl. runtime_step\<^sup>*\<^sup>* impl (others k impl))"
| "call_env _ = True"

lemmas one_step = r_into_rtranclp[of runtime_step]
lemmas call_steps = do_stop[THEN one_step] do_close[THEN one_step] do_open[THEN one_step]
  do_subscribe[THEN one_step] do_unsubscribe[THEN one_step] do_connect[THEN one_step] do_publish[THEN one_step]

lemma on_runtime_effect:
  "on_runtime p f h = Some (r, h') \<Longrightarrow> (\<And>impl. runtime_step\<^sup>*\<^sup>* impl (snd (f impl))) \<Longrightarrow> c_effect h h'"
  by (auto simp: on_runtime_def Let_def case_prod_unfold bind_eq_Some_conv intro: eff_runtime)

lemma bind_wait_steps:
  assumes "\<And>k impl. runtime_step\<^sup>*\<^sup>* impl (others k impl)"
  shows "runtime_step\<^sup>*\<^sup>* impl (snd (bind_lane_wait n others pid sid impl))"
proof (induction n arbitrary: impl)
  case 0
  show ?case by (simp add: do_close r_into_rtranclp)
next
  case (Suc n)
  from assms[of impl n] Suc[of "others n impl"] have "runtime_step\<^sup>*\<^sup>* impl
      (snd (bind_lane_wait n others pid sid (others n impl)))" by (rule rtranclp_trans)
  then show ?case by (auto split: option.splits)
qed

lemma bind_call_steps:
  assumes "\<And>k impl. runtime_step\<^sup>*\<^sup>* impl (others k impl)"
  shows "runtime_step\<^sup>*\<^sup>* impl (snd (bind_lossy_lane_call now pid sid ok outcome others impl))"
proof -
  have s: "runtime_step impl (snd (bind_lossy_lane now pid sid ok outcome impl))" by (rule do_bind)
  show ?thesis
    using converse_rtranclp_into_rtranclp[OF s bind_wait_steps[OF assms]] s
    by (auto simp: bind_lossy_lane_call_def Let_def case_prod_unfold)
qed

lemma native_config_buffer:
  "native_config c = Some (Some cfg) \<Longrightarrow> max_buffer_bytes_per_peer cfg = 16842752"
  by (auto simp: native_config_def bind_eq_Some_conv default_runtime_config_def split: option.splits)

lemma start_effect: "yunlink_v2_runtime_start rt cfg acceptor h = Some (r, h') \<Longrightarrow> c_effect h h'"
proof -
  have "runtime_step\<^sup>*\<^sup>* impl (snd (start cfg acceptor impl))" if "native_config c = Some (Some cfg)" for c cfg impl
    using native_config_buffer[OF that] by (intro r_into_rtranclp do_start) simp
  then show "yunlink_v2_runtime_start rt cfg acceptor h = Some (r, h') \<Longrightarrow> c_effect h h'"
    by (auto simp: yunlink_v2_runtime_start_def bind_eq_Some_conv split: option.split_asm if_split_asm
        intro: eff_none elim!: on_runtime_effect)
qed

lemma set_entity_uids_effect:
  "yunlink_v2_runtime_set_entity_uids rt uids n h = Some (r, h') \<Longrightarrow> c_effect h h'"
  by (auto simp: yunlink_v2_runtime_set_entity_uids_def bind_eq_Some_conv split: option.splits if_splits
      intro: eff_none elim!: on_runtime_effect intro: r_into_rtranclp do_set_entities)

lemma connect_effect:
  "yunlink_v2_runtime_connect rt ip port out ok outcome h = Some (r, out', h') \<Longrightarrow> c_effect h h'"
proof -
  have "runtime_step\<^sup>*\<^sup>* impl (snd (let (code, peer, impl) = connect_peer ip port ok outcome impl in ((code, peer), impl)))"
    for ip impl using one_step[OF do_connect[of impl ip port ok outcome]] by (simp add: case_prod_unfold Let_def)
  then show "yunlink_v2_runtime_connect rt ip port out ok outcome h = Some (r, out', h') \<Longrightarrow> c_effect h h'"
    by (auto simp: yunlink_v2_runtime_connect_def bind_eq_Some_conv split: option.splits if_splits
        intro: eff_none elim!: on_runtime_effect)
qed

lemma publish_effect:
  "yunlink_v2_runtime_publish rt pid sid fam op tgt ty data corr ttl qos ent out now h = Some (r, out', h') \<Longrightarrow>
     c_effect h h'"
proof -
  have "runtime_step\<^sup>*\<^sup>* impl (snd (let (code, handle, impl) = publish now pid sid f op t ty' bs corr ttl q e impl
      in ((code, handle), impl)))" for pid f t ty' bs q e impl
    using one_step[OF do_publish[of impl now pid sid f op t ty' bs corr ttl q e]] by (simp add: case_prod_unfold Let_def)
  then show "yunlink_v2_runtime_publish rt pid sid fam op tgt ty data corr ttl qos ent out now h = Some (r, out', h') \<Longrightarrow>
      c_effect h h'"
    by (auto simp: yunlink_v2_runtime_publish_def bind_eq_Some_conv Let_def split: option.splits if_splits
        intro: eff_none elim!: on_runtime_effect)
qed

lemma effect_reads: "reads h r = Some h' \<Longrightarrow> c_effect h h'"
  by (auto simp: reads_def intro: eff_none)

lemma simple_effects:
  "yunlink_v2_runtime_stop rt h = Some h' \<Longrightarrow> c_effect h h'"
  "yunlink_v2_runtime_close_peer rt pid h = Some h' \<Longrightarrow> c_effect h h'"
  "yunlink_v2_runtime_open_session rt pid now h = Some (sid, h') \<Longrightarrow> c_effect h h'"
  "yunlink_v2_runtime_subscribe rt cb h = Some (token, h') \<Longrightarrow> c_effect h h'"
  "yunlink_v2_runtime_unsubscribe rt tok h = Some h' \<Longrightarrow> c_effect h h'"
  by (auto simp: runtime_call_defs bind_eq_Some_conv split: option.splits intro: eff_none call_steps
      elim!: on_runtime_effect)

lemma bind_effect:
  "call_env (Call_bind_lossy_lane rt pid sid now ok outcome others) \<Longrightarrow>
   yunlink_v2_runtime_bind_lossy_lane rt pid sid now ok outcome others h = Some (r, h') \<Longrightarrow> c_effect h h'"
  by (auto simp: runtime_call_defs bind_eq_Some_conv split: option.splits intro: eff_none bind_call_steps
      elim!: on_runtime_effect)

lemma destroy_effects:
  "yunlink_v2_runtime_destroy rt h = Some h' \<Longrightarrow> c_effect h h'"
  "yunlink_v2_discovery_advertisement_destroy ad h = Some h' \<Longrightarrow> c_effect h h'"
proof -
  have "delete_runtime p (put_runtime p impl h) = delete_runtime p h" for p impl
    by (simp add: delete_runtime_def put_runtime_def)
  then show "yunlink_v2_runtime_destroy rt h = Some h' \<Longrightarrow> c_effect h h'"
    by (auto simp: yunlink_v2_runtime_destroy_def bind_eq_Some_conv split: option.splits
        intro: eff_none eff_destroy)
  show "yunlink_v2_discovery_advertisement_destroy ad h = Some h' \<Longrightarrow> c_effect h h'"
    by (auto simp: yunlink_v2_discovery_advertisement_destroy_def bind_eq_Some_conv split: option.splits
        intro: eff_none eff_forget)
qed

lemma decode_reply_effect:
  "yunlink_v2_discovery_decode_reply data secret nonce h = Some (p, h') \<Longrightarrow> c_effect h h'"
  by (auto simp: yunlink_v2_discovery_decode_reply_def bind_eq_Some_conv case_prod_unfold Let_def
      split: option.splits if_splits intro: eff_none intro!: eff_advertise dest: decoded_reply_in_memory)

lemma call_effect:
  assumes "c_exec call h = Some h'" and "call_env call"
  shows "c_effect h h'"
  using assms
  by (cases call) (auto simp: yunlink_v2_runtime_create_def case_prod_unfold Let_def
      intro: eff_create start_effect set_entity_uids_effect connect_effect publish_effect effect_reads
        simple_effects bind_effect destroy_effects decode_reply_effect)

section \<open>Programs on the ABI\<close>

inductive c_reach :: "CHeap \<Rightarrow> bool" where
  c_init: "c_reach empty_heap"
| c_called: "c_reach h \<Longrightarrow> call_env call \<Longrightarrow> c_exec call h = Some h' \<Longrightarrow> c_reach h'"
| c_thread: "c_reach h \<Longrightarrow> c_runtimes h p = Some impl \<Longrightarrow> runtime_step impl impl' \<Longrightarrow>
     c_reach (put_runtime p impl' h)"

definition heap_typed :: "CHeap \<Rightarrow> bool" where
  "heap_typed h \<longleftrightarrow> heap_ok h \<and> dom (c_runtimes h) \<inter> dom (c_advertisements h) = {} \<and>
     (\<forall>p impl. c_runtimes h p = Some impl \<longrightarrow> runtime_reach default_runtime_config impl) \<and>
     (\<forall>p a. c_advertisements h p = Some a \<longrightarrow> valid_advertisement a \<and> ad_in_memory a)"

lemma runtime_reach_steps: "runtime_step\<^sup>*\<^sup>* impl impl' \<Longrightarrow> runtime_reach cfg impl \<Longrightarrow> runtime_reach cfg impl'"
  by (induction rule: rtranclp_induct) (auto intro: reach_step)

lemma effect_typed: "c_effect h h' \<Longrightarrow> heap_typed h \<Longrightarrow> heap_typed h'"
proof (induction rule: c_effect.induct)
  case (eff_runtime h p impl impl')
  then show ?case
    using heap_ok_put[of h p impl'] runtime_reach_steps[of impl impl' default_runtime_config]
    by (auto simp: heap_typed_def put_runtime_def)
next
  case (eff_create h)
  then show ?case
    using rt_table.invar_new[of h "impl_init default_runtime_config"] heap_ok_fresh[of h]
      reach_init[of default_runtime_config]
    by (auto simp: heap_typed_def new_runtime_def)
next
  case (eff_destroy h p impl)
  then show ?case using rt_table.invar_delete[of h p] by (auto simp: heap_typed_def delete_runtime_def)
next
  case (eff_advertise a h)
  then show ?case
    using ad_table.invar_new[of h a] heap_ok_fresh[of h] by (auto simp: heap_typed_def new_advertisement_def)
next
  case (eff_forget h p a)
  then show ?case using ad_table.invar_delete[of h p] by (auto simp: heap_typed_def delete_advertisement_def)
qed

lemma reach_typed: "c_reach h \<Longrightarrow> heap_typed h"
proof (induction rule: c_reach.induct)
  case c_init
  show ?case by (simp add: heap_typed_def empty_heap_def heap_ok_def)
next
  case (c_called h call h')
  then show ?case using call_effect effect_typed by blast
next
  case (c_thread h p impl impl')
  then show ?case using effect_typed[OF eff_runtime] by (meson r_into_rtranclp)
qed

section \<open>Reading back what the ABI hands out\<close>

lemma view_target_copy:
  assumes "length (ts_uids t) < 2 ^ 64" and "list_all in_memory (ts_uids t)"
  shows "copy_target (view_target t) = Some (Some t)" "tg_ok (view_target t)"
    "(tg_uids (view_target t) = None) = (tg_uid_count (view_target t) = 0)"
proof -
  have n: "unat (of_nat (length (ts_uids t)) :: u64) = length (ts_uids t)"
    using assms(1) by (simp add: unat_of_nat)
  have z: "(of_nat (length (ts_uids t)) :: u64) = 0 \<longleftrightarrow> ts_uids t = []"
    using n by (metis length_0_conv of_nat_0 unat_eq_0)
  have "those (map (copy \<circ> view) (ts_uids t)) = Some (ts_uids t)"
    using assms(2) those_map_Some[of "ts_uids t" "copy \<circ> view" id] by (auto simp: list_all_iff)
  then have u: "copy_each copy (vector_data (map view (ts_uids t))) (of_nat (length (ts_uids t))) = Some (ts_uids t)"
    using n z by (auto simp: copy_each_def vector_data_def read_prefix_def)
  have s: "\<not> (scope_code (ts_scope t) < 1 \<or> scope_code (ts_scope t) > 4)" by (cases "ts_scope t") auto
  show "copy_target (view_target t) = Some (Some t)"
    using s z u by (auto simp: copy_target_def view_target_def vector_data_def)
  show "tg_ok (view_target t)"
    using assms n by (auto simp: tg_ok_def array_ok_def view_target_def vector_data_def list_all_iff in_memory_def)
  show "(tg_uids (view_target t) = None) = (tg_uid_count (view_target t) = 0)"
    using z by (simp add: view_target_def vector_data_def)
qed

lemma view_bytes_copy:
  assumes "in_memory bs"
  shows "copy_bytes (view_bytes bs) = Some bs" "bv_ok (view_bytes bs)"
    "\<not> (bv_data (view_bytes bs) = None \<and> bv_len (view_bytes bs) \<noteq> 0)"
proof -
  have n: "unat (of_nat (length bs) :: u64) = length bs" using assms by (simp add: in_memory_def unat_of_nat)
  have z: "(of_nat (length bs) :: u64) = 0 \<longleftrightarrow> bs = []" using n by (metis length_0_conv of_nat_0 unat_eq_0)
  show "copy_bytes (view_bytes bs) = Some bs" "bv_ok (view_bytes bs)"
    "\<not> (bv_data (view_bytes bs) = None \<and> bv_len (view_bytes bs) \<noteq> 0)"
    using n z by (auto simp: copy_bytes_def view_bytes_def vector_data_def read_prefix_def bv_ok_def)
qed

lemma sv_ok_mem [simp]: "in_memory s \<Longrightarrow> sv_ok (view s)"
  by (simp add: in_memory_def sv_ok_view[simplified])

lemma view_type_ref_copy:
  "in_memory (tr_profile_id t) \<Longrightarrow> in_memory (tr_type_name t) \<Longrightarrow>
     copy_type_ref (view_type_ref t) = Some t \<and> type_view_ok (view_type_ref t)"
  by (simp add: copy_type_ref_def view_type_ref_def type_view_ok_def)

lemma codes_in_range:
  "\<not> (family_code f < 1 \<or> family_code f > 9)" "\<not> (qos_code q < 1 \<or> qos_code q > 4)"
  "\<not> (scope_code s < 1 \<or> scope_code s > 4)"
  by (cases f; simp; fail | cases q; simp; fail | cases s; simp; fail)+

lemma accepted_in_memory:
  assumes "\<not> encode_refuses e"
  shows "in_memory (payload e)" "in_memory (ts_uids (target e))" "list_all in_memory (ts_uids (target e))"
    "in_memory (tr_profile_id (env_type e))" "in_memory (tr_type_name (env_type e))"
    "in_memory (src_endpoint_uid (source e))" "in_memory (src_entity_uid (source e))"
  using not_refused_bounds[OF assms] by (auto simp: in_memory_def kMaxPayloadBytes_def list_all_iff)

lemma valid_uid_plain: "valid_uid u \<Longrightarrow> NUL \<notin> set u"
  by (auto simp: valid_uid_def list_all_iff NUL_def uid_char_def is_alnum_def split: if_splits)

lemma endpoint_uid_fits:
  assumes "identity_ok impl" and "c_runtimes h p = Some impl" and "copy pid = Some peer"
    and "session_lookup impl peer sid = Some s" and "unat capacity \<le> length buffer"
  shows "if remote_endpoint_uid s \<noteq> [] \<and> length (remote_endpoint_uid s) < unat capacity
    then \<exists>buffer'. yunlink_v2_runtime_session_endpoint_uid (Some p) pid sid (Some buffer) capacity h =
        Some (result Err_kOk, Some buffer') \<and> c_string buffer' = remote_endpoint_uid s \<and>
        drop (Suc (length (remote_endpoint_uid s))) buffer' = drop (Suc (length (remote_endpoint_uid s))) buffer
    else \<exists>code. yunlink_v2_runtime_session_endpoint_uid (Some p) pid sid (Some buffer) capacity h =
        Some (result code, Some buffer) \<and> code \<noteq> Err_kOk"
    "length (remote_endpoint_uid s) \<le> 128"
proof -
  let ?u = "remote_endpoint_uid s"
  have u: "?u = [] \<or> valid_uid ?u"
    using assms(1,4) uids_ok_find by (auto simp: identity_ok_def session_lookup_def)
  then show "length ?u \<le> 128" using valid_uid_length[of ?u] by auto
  have plain: "takeWhile (\<lambda>c. c \<noteq> NUL) (?u @ NUL # xs) = ?u" for xs
    using u valid_uid_plain[of ?u] by (subst takeWhile_append2) auto
  show "if ?u \<noteq> [] \<and> length ?u < unat capacity
    then \<exists>buffer'. yunlink_v2_runtime_session_endpoint_uid (Some p) pid sid (Some buffer) capacity h =
        Some (result Err_kOk, Some buffer') \<and> c_string buffer' = ?u \<and>
        drop (Suc (length ?u)) buffer' = drop (Suc (length ?u)) buffer
    else \<exists>code. yunlink_v2_runtime_session_endpoint_uid (Some p) pid sid (Some buffer) capacity h =
        Some (result code, Some buffer) \<and> code \<noteq> Err_kOk"
    using assms(2-5) plain
    by (auto simp: yunlink_v2_runtime_session_endpoint_uid_def write_at_def c_string_def not_less unat_eq_0)
qed

lemma to_string_digits: "c \<in> set (to_string n) \<Longrightarrow> 48 \<le> (of_char c :: nat) \<and> of_char c < (58 :: nat)"
proof (induction n rule: to_string.induct)
  case (1 n)
  from 1(2) show ?case
    by (subst (asm) to_string.simps) (auto split: if_splits dest: 1(1))
qed

lemma to_string_length: "n < 10 ^ Suc k \<Longrightarrow> length (to_string n) \<le> Suc k"
proof (induction k arbitrary: n)
  case (Suc k)
  then have "n div 10 < 10 ^ Suc k" by (simp add: less_mult_imp_div_less)
  with Suc show ?case by (subst to_string.simps) auto
qed (subst to_string.simps, simp)

lemma peer_id_plain:
  assumes "length ip \<le> 63" and "NUL \<notin> set ip"
  shows "length (runtime_peer_id ip port) \<le> 255" "NUL \<notin> set (runtime_peer_id ip port)"
proof -
  have "unat port < 2 ^ 16" using unsigned_less[of port, where 'a=nat] by simp
  then have "length (to_string (unat port)) \<le> 5" using to_string_length[of "unat port" 4] by simp
  with assms(1) show "length (runtime_peer_id ip port) \<le> 255" by (simp add: runtime_peer_id_def)
  have "NUL \<notin> set (to_string (unat port))" using to_string_digits[of NUL "unat port"] by (auto simp: NUL_def)
  with assms(2) show "NUL \<notin> set (runtime_peer_id ip port)" by (simp add: runtime_peer_id_def NUL_def)
qed

lemma fill_peer_result:
  assumes "NUL \<notin> set (peer_id q)" and "NUL \<notin> set (peer_ip q)" and "length (peer_id q) \<le> 255"
    and "length (peer_ip q) \<le> 63"
  shows "\<exists>v. fill_peer q = Some v \<and> length (cp_id v) = 256 \<and> length (cp_ip v) = 64 \<and> cp_port v = peer_port q \<and>
    c_string (cp_id v) = peer_id q \<and> c_string (cp_ip v) = peer_ip q"
  using copy_fixed_result[of "cp_id empty_peer" "peer_id q"] copy_fixed_result[of "cp_ip empty_peer" "peer_ip q"] assms
  by (auto simp: fill_peer_def empty_peer_def)

section \<open>Properties\<close>

lemma effect_frame:
  "c_effect h h' \<Longrightarrow> \<exists>p. \<forall>q. q \<noteq> p \<longrightarrow> c_runtimes h' q = c_runtimes h q \<and> c_advertisements h' q = c_advertisements h q"
  by (erule c_effect.cases) (auto simp: heap_defs)

text \<open>
  C9. Type safety of the C ABI. Take any heap a program can reach with the functions of the header, in
  any order, with any values, interleaved with the threads of its runtimes. A call whose handles are
  null or live and whose pointers cover what their lengths say is defined. A call changes at most one
  object and leads to such a heap again. Behind every runtime handle is a reachable state of the C++
  runtime, in its invariant, with valid identifiers; behind every advertisement handle is a valid
  advertisement, and reading it through the accessors gives it back.
\<close>

theorem c_abi_type_safe:
  assumes "c_reach h"
  shows "(\<forall>call. call_ok h call \<longrightarrow> c_exec call h \<noteq> None) \<and>
    (\<forall>call h'. call_env call \<longrightarrow> c_exec call h = Some h' \<longrightarrow> c_reach h' \<and>
       (\<exists>p. \<forall>q. q \<noteq> p \<longrightarrow> c_runtimes h' q = c_runtimes h q \<and> c_advertisements h' q = c_advertisements h q)) \<and>
    (\<forall>p impl. c_runtimes h p = Some impl \<longrightarrow> runtime_reach default_runtime_config impl \<and>
       runtime_ok impl \<and> identity_ok impl) \<and>
    (\<forall>p a. c_advertisements h p = Some a \<longrightarrow> c_runtimes h p = None \<and> valid_advertisement a \<and>
       read_advertisement (Some p) h = Some a)"
proof (intro conjI allI impI)
  note ty = reach_typed[OF assms, unfolded heap_typed_def]
  show "c_exec call h \<noteq> None" if "call_ok h call" for call using call_defined[OF that] by auto
  fix call h' assume c: "call_env call" "c_exec call h = Some h'"
  show "c_reach h'" using c_called[OF assms c] .
  show "\<exists>p. \<forall>q. q \<noteq> p \<longrightarrow> c_runtimes h' q = c_runtimes h q \<and> c_advertisements h' q = c_advertisements h q"
    using effect_frame[OF call_effect[OF c(2,1)]] .
next
  note ty = reach_typed[OF assms, unfolded heap_typed_def]
  fix p impl assume "c_runtimes h p = Some impl"
  with ty show r: "runtime_reach default_runtime_config impl" by blast
  show "runtime_ok impl" using runtime_reach_ok[OF r] by (simp add: default_runtime_config_def)
  show "identity_ok impl" by (rule identity_reach[OF r])
next
  note ty = reach_typed[OF assms, unfolded heap_typed_def]
  fix p a assume a: "c_advertisements h p = Some a"
  with ty show "valid_advertisement a" by blast
  from a ty have "p \<notin> dom (c_runtimes h)" by blast
  then show "c_runtimes h p = None" by (simp add: domIff)
  show "read_advertisement (Some p) h = Some a" using ty a read_advertisement_back by blast
qed

lemma c_created: "c_reach (snd (yunlink_v2_runtime_create empty_heap))"
  using c_called[OF c_init, of Call_create] by simp

theorem c_abi_type_safe_witness:
  "\<exists>impl. c_runtimes (snd (yunlink_v2_runtime_create empty_heap)) 0 = Some impl \<and> runtime_ok impl \<and>
     c_exec (Call_open_session (Some 0) (view ''x'') 5) (snd (yunlink_v2_runtime_create empty_heap)) \<noteq> None"
proof -
  let ?h = "snd (yunlink_v2_runtime_create empty_heap)"
  have r: "c_runtimes ?h 0 = Some (impl_init default_runtime_config)"
    by (simp add: yunlink_v2_runtime_create_def new_runtime_def empty_heap_def)
  then have "call_ok ?h (Call_open_session (Some 0) (view ''x'') 5)" by (simp add: live_def)
  with r c_abi_type_safe[OF c_created] show ?thesis by blast
qed

text \<open>The checks at the head of \<open>yunlink_v2_runtime_publish\<close>.\<close>

definition publish_refused :: "u8 \<Rightarrow> u8 \<Rightarrow> yunlink_v2_target_view \<Rightarrow> yunlink_v2_bytes_view \<Rightarrow> bool" where
  "publish_refused fam qos tgt data \<longleftrightarrow> (bv_data data = None \<and> bv_len data \<noteq> 0) \<or> fam < 1 \<or> fam > 9 \<or>
     qos < 1 \<or> qos > 4 \<or> tg_scope tgt < 1 \<or> tg_scope tgt > 4 \<or>
     (tg_uids tgt = None) \<noteq> (tg_uid_count tgt = 0)"

text \<open>
  C10. Publishing through the ABI. On a live runtime and with readable views, the call is refused with
  \<open>kInvalidArgument\<close>, before anything happened and with the out handle untouched, exactly when the
  payload is a null pointer with a length, the family, the QoS class or the scope is outside its
  enumeration, or the array of identifiers is null while its count is not zero or the other way round
  (so a pointer to an empty array is refused as well). Otherwise it does what the C++ \<open>publish\<close> does with
  the copied arguments, and reports its result and, on success, its handle.
\<close>

theorem c_publish_exact:
  assumes "call_ok h (Call_publish (Some p) pid sid fam op tgt ty data corr ttl qos ent out now)"
    and "c_runtimes h p = Some impl"
  shows "if publish_refused fam qos tgt data
    then yunlink_v2_runtime_publish (Some p) pid sid fam op tgt ty data corr ttl qos ent out now h =
      Some (result Err_kInvalidArgument, out, h)
    else \<exists>pid' f t ty' bs q ent' code handle impl'.
      copy pid = Some pid' \<and> family_code f = fam \<and> copy_target tgt = Some (Some t) \<and>
      copy_type_ref ty = Some ty' \<and> copy_bytes data = Some bs \<and> qos_code q = qos \<and> copy ent = Some ent' \<and>
      publish now pid' sid f op t ty' bs corr ttl q ent' impl = (code, handle, impl') \<and>
      yunlink_v2_runtime_publish (Some p) pid sid fam op tgt ty data corr ttl qos ent out now h =
        Some (result code, fill_handle code handle out, put_runtime p impl' h)"
proof (cases "publish_refused fam qos tgt data")
  case True
  then show ?thesis
    by (auto simp: publish_refused_def yunlink_v2_runtime_publish_def copy_target_def)
next
  case False
  from False enum_defined(1)[of fam] enum_defined(2)[of qos] obtain f q where fq: "family_of fam = Some f" "qos_of qos = Some q"
    by (auto simp: publish_refused_def)
  from False assms(1) copy_bytes_defined obtain bs where bs: "copy_bytes data = Some bs"
    by (auto simp: publish_refused_def)
  from assms(1) obtain ty' pid' ent' r where c: "copy_type_ref ty = Some ty'" "copy pid = Some pid'"
      "copy ent = Some ent'" "copy_target tgt = Some r"
    using copy_type_ref_defined copy_defined copy_target_defined by force
  from False c(4) obtain t where r: "r = Some t"
    by (auto simp: publish_refused_def copy_target_def bind_eq_Some_conv split: if_splits)
  obtain code handle impl' where n: "publish now pid' sid f op t ty' bs corr ttl q ent' impl = (code, handle, impl')"
    by (cases "publish now pid' sid f op t ty' bs corr ttl q ent' impl") auto
  have "yunlink_v2_runtime_publish (Some p) pid sid fam op tgt ty data corr ttl qos ent out now h =
      Some (result code, fill_handle code handle out, put_runtime p impl' h)"
    using False fq bs c r n
    by (auto simp: yunlink_v2_runtime_publish_def publish_refused_def on_runtime_Some[OF assms(2)])
  with bs c r n family_ofD[OF fq(1)] qos_ofD[OF fq(2)] show ?thesis unfolding if_not_P[OF False] by blast
qed

text \<open>A broadcast whose (empty) array of identifiers has an address is refused.\<close>

theorem c_publish_exact_witness:
  "yunlink_v2_runtime_publish (Some 0) (view ''x'') 1 4 1 \<lparr>tg_scope = 4, tg_uids = Some [], tg_uid_count = 0\<rparr>
     (view_type_ref (env_type empty_envelope)) (view_bytes []) 0 0 1 (view []) None 5
     (snd (yunlink_v2_runtime_create empty_heap)) =
   Some (result Err_kInvalidArgument, None, snd (yunlink_v2_runtime_create empty_heap))"
proof -
  let ?h = "snd (yunlink_v2_runtime_create empty_heap)"
  have r: "c_runtimes ?h 0 = Some (impl_init default_runtime_config)"
    by (simp add: yunlink_v2_runtime_create_def new_runtime_def empty_heap_def)
  have ok: "call_ok ?h (Call_publish (Some 0) (view ''x'') 1 4 1 \<lparr>tg_scope = 4, tg_uids = Some [], tg_uid_count = 0\<rparr>
     (view_type_ref (env_type empty_envelope)) (view_bytes []) 0 0 1 (view []) None 5)"
    by (simp add: live_def r tg_ok_def array_ok_def type_view_ok_def view_type_ref_def empty_envelope_def bv_ok_def
        view_bytes_def vector_data_def)
  show ?thesis
    using c_publish_exact[OF ok r] by (simp add: publish_refused_def)
qed

text \<open>
  C11. The event a C callback gets for a delivered envelope loses nothing that can be published. On a
  runtime with valid identifiers (every one a program can reach), every envelope event a callback was
  given comes from an envelope the runtime delivered to it; handing its family, operation, target,
  type, payload, correlation, time to live, QoS class and source entity to
  \<open>yunlink_v2_runtime_publish\<close> of any runtime publishes exactly what was received, and the source
  endpoint, the session, the message number and the time stamp are those of the envelope.
\<close>

theorem c_relay:
  assumes "identity_ok impl" and "v \<in> set (delivered cb impl)" and "ce_kind v = 1"
    and "c_runtimes h r = Some impl_r" and "copy pid = Some peer"
  shows "\<exists>ev hs e. (ev, hs) \<in> set (emitted impl) \<and> cb \<in> set hs \<and> ev_kind ev = Ev_kEnvelope \<and> e = ev_envelope ev \<and>
    yunlink_v2_runtime_publish (Some r) pid sid (ce_family v) (ce_operation v) (ce_target v) (ce_type_ref v)
      (ce_payload v) (ce_correlation_id v) (ce_ttl_ms v) (ce_qos_class v) (ce_source_entity_uid v) out now h =
      (case publish now peer sid (family e) (operation e) (target e) (env_type e) (payload e) (correlation_id e)
          (ttl_ms e) (qos_class e) (src_entity_uid (source e)) impl_r of
         (code, handle, impl') \<Rightarrow> Some (result code, fill_handle code handle out, put_runtime r impl' h)) \<and>
    copy (ce_source_endpoint_uid v) = Some (src_endpoint_uid (source e)) \<and>
    ce_session_id v = session_id e \<and> ce_message_id v = message_id e \<and> ce_created_at_ms v = created_at_ms e"
proof -
  from assms(2) obtain ev hs where ev: "(ev, hs) \<in> set (emitted impl)" "cb \<in> set hs" and v: "v = c_event ev"
    by (auto simp: delivered_def count_list_0_iff split: if_splits)
  from assms(3) v have k: "ev_kind ev = Ev_kEnvelope"
    by (cases "ev_kind ev") (simp_all add: c_event_def Let_def)
  define e where "e = ev_envelope ev"
  from assms(1) ev(1) k have "\<not> encode_refuses e"
    by (auto simp: identity_ok_def list_all_iff event_ok_def e_def)
  note m = accepted_in_memory[OF this]
  note t = view_target_copy[OF m(2)[unfolded in_memory_def] m(3)] and b = view_bytes_copy[OF m(1)]
    and ty = view_type_ref_copy[OF m(4,5)]
  have "tg_scope (view_target (target e)) = scope_code (ts_scope (target e))" by (simp add: view_target_def)
  with t b ty codes_in_range(1)[of "family e"] codes_in_range(2)[of "qos_class e"]
    codes_in_range(3)[of "ts_scope (target e)"] assms(5) m k
  have "yunlink_v2_runtime_publish (Some r) pid sid (ce_family v) (ce_operation v) (ce_target v) (ce_type_ref v)
      (ce_payload v) (ce_correlation_id v) (ce_ttl_ms v) (ce_qos_class v) (ce_source_entity_uid v) out now h =
      (case publish now peer sid (family e) (operation e) (target e) (env_type e) (payload e) (correlation_id e)
          (ttl_ms e) (qos_class e) (src_entity_uid (source e)) impl_r of
         (code, handle, impl') \<Rightarrow> Some (result code, fill_handle code handle out, put_runtime r impl' h)) \<and>
    copy (ce_source_endpoint_uid v) = Some (src_endpoint_uid (source e)) \<and>
    ce_session_id v = session_id e \<and> ce_message_id v = message_id e \<and> ce_created_at_ms v = created_at_ms e"
    by (auto simp: yunlink_v2_runtime_publish_def v c_event_def Let_def on_runtime_Some[OF assms(4)] e_def
        split: prod.splits)
  with ev k e_def show ?thesis by blast
qed

definition sample_delivered :: Impl where
  "sample_delivered = (impl_init sample_config)\<lparr>emitted := [(envelope_event sample_peer sample_envelope, [9])]\<rparr>"

theorem c_relay_witness:
  "\<exists>v r. delivered 9 sample_delivered = [v] \<and>
     yunlink_v2_runtime_publish (Some 0) (view ''x'') 3 (ce_family v) (ce_operation v) (ce_target v)
       (ce_type_ref v) (ce_payload v) (ce_correlation_id v) (ce_ttl_ms v) (ce_qos_class v)
       (ce_source_entity_uid v) None 5 (empty_heap\<lparr>c_runtimes := [0 \<mapsto> sample_delivered]\<rparr>) = Some r \<and>
     copy (ce_source_endpoint_uid v) = Some ''ep.a''"
proof -
  let ?v = "c_event (envelope_event sample_peer sample_envelope)"
  have "sample_frame \<noteq> []" using length_sample_frame by auto
  then have i: "identity_ok sample_delivered"
    by (simp add: identity_ok_def uids_ok_def impl_init_def sample_delivered_def sample_frame_def encode_nonempty_iff)
  have d: "delivered 9 sample_delivered = [?v]" by (simp add: delivered_def sample_delivered_def)
  have k: "ce_kind ?v = 1" by (simp add: c_event_def envelope_event_def Let_def)
  have c: "copy (view ''x'') = Some ''x''" by simp
  have "?v \<in> set (delivered 9 sample_delivered)" by (simp add: d)
  from c_relay[OF i this k _ c, of "empty_heap\<lparr>c_runtimes := [0 \<mapsto> sample_delivered]\<rparr>" 0 sample_delivered 3 None 5] d
  show ?thesis
    by (fastforce simp: sample_delivered_def envelope_event_def sample_envelope_def split: prod.splits)
qed

text \<open>
  C26. Connecting through the ABI. For an address of at most 63 characters and a peer that is not
  connected, the call succeeds exactly when the runtime runs, the address parses, the port is not zero
  and the network connects; otherwise the peer it was given and the runtime stay as they were. On
  success the two character arrays keep their sizes and read, as C strings, as the identifier under
  which the connection is stored and the address, so nothing was cut off: passing the identifier back
  to \<open>yunlink_v2_runtime_close_peer\<close> removes that connection.
\<close>

theorem c_connect_reports:
  assumes "c_runtimes h p = Some impl" and "copy ip = Some s" and "length s \<le> 63" and "NUL \<notin> set s"
    and "om_find (connections impl) (runtime_peer_id s port) = None"
  shows "if running impl \<and> address_ok \<and> port \<noteq> 0 \<and> outcome = Connect_ok
    then \<exists>q h' impl' h'' impl''.
      yunlink_v2_runtime_connect (Some p) ip port (Some old) address_ok outcome h =
        Some (result Err_kOk, Some q, h') \<and>
      length (cp_id q) = 256 \<and> length (cp_ip q) = 64 \<and> c_string (cp_id q) = runtime_peer_id s port \<and>
      c_string (cp_ip q) = s \<and> cp_port q = port \<and>
      c_runtimes h' p = Some impl' \<and> om_find (connections impl') (c_string (cp_id q)) \<noteq> None \<and>
      yunlink_v2_runtime_close_peer (Some p) (view (c_string (cp_id q))) h' = Some h'' \<and>
      c_runtimes h'' p = Some impl'' \<and> om_find (connections impl'') (runtime_peer_id s port) = None
    else \<exists>code h'. yunlink_v2_runtime_connect (Some p) ip port (Some old) address_ok outcome h =
        Some (result code, Some old, h') \<and> code \<noteq> Err_kOk \<and> c_runtimes h' p = Some impl"
proof (cases "running impl \<and> address_ok \<and> port \<noteq> 0 \<and> outcome = Connect_ok")
  case True
  let ?id = "runtime_peer_id s port"
  let ?peer = "\<lparr>peer_id = ?id, peer_ip = s, peer_port = port\<rparr>"
  note plain = peer_id_plain[OF assms(3,4), of port]
  obtain impl' where c: "connect_peer s port address_ok outcome impl = (Err_kOk, Some ?peer, impl')"
      and f: "om_find (connections impl') ?id \<noteq> None"
    using True assms(5) by (auto simp: connect_peer_def Let_def frame_simps)
  obtain q where q: "fill_peer ?peer = Some q" "length (cp_id q) = 256" "length (cp_ip q) = 64"
      "cp_port q = port" "c_string (cp_id q) = ?id" "c_string (cp_ip q) = s"
    using fill_peer_result[of ?peer] plain assms(3,4) by auto
  have "yunlink_v2_runtime_connect (Some p) ip port (Some old) address_ok outcome h =
      Some (result Err_kOk, Some q, put_runtime p impl' h)"
    using assms(2) c q(1) by (simp add: yunlink_v2_runtime_connect_def on_runtime_Some[OF assms(1)])
  moreover have r': "c_runtimes (put_runtime p impl' h) p = Some impl'" by (simp add: put_runtime_def)
  moreover have "copy (view ?id) = Some ?id" using plain(1) by (intro copy_view) simp
  then have "yunlink_v2_runtime_close_peer (Some p) (view ?id) (put_runtime p impl' h) =
      Some (put_runtime p (close_peer ?id impl') (put_runtime p impl' h))"
    by (simp add: yunlink_v2_runtime_close_peer_def on_runtime_Some[OF r'])
  moreover have "c_runtimes (put_runtime p (close_peer ?id impl') (put_runtime p impl' h)) p =
      Some (close_peer ?id impl')" by (simp add: put_runtime_def)
  ultimately show ?thesis
    using q f close_peer_gone[of ?id impl'] unfolding if_P[OF True] by metis
next
  case False
  obtain code where "connect_peer s port address_ok outcome impl = (code, None, impl)" and "code \<noteq> Err_kOk"
  proof
    show "connect_peer s port address_ok outcome impl =
        (if \<not> running impl then Err_kRejected else if \<not> address_ok \<or> port = 0 then Err_kInvalidArgument
         else connect_error outcome, None, impl)"
      using False assms(5) by (auto simp: connect_peer_def Let_def)
    show "(if \<not> running impl then Err_kRejected else if \<not> address_ok \<or> port = 0 then Err_kInvalidArgument
         else connect_error outcome) \<noteq> Err_kOk"
      using False by (cases outcome) auto
  qed
  then show ?thesis
    using assms(2) unfolding if_not_P[OF False]
    by (auto simp: yunlink_v2_runtime_connect_def on_runtime_Some[OF assms(1)] put_runtime_def intro!: exI[of _ code])
qed

theorem c_connect_reports_witness:
  "\<exists>q h'. yunlink_v2_runtime_connect (Some 0) (view ''10.0.0.1'') 4000 (Some empty_peer) True Connect_ok
     (empty_heap\<lparr>c_runtimes := [0 \<mapsto> (impl_init sample_config)\<lparr>running := True\<rparr>]\<rparr>) = Some (0, Some q, h') \<and>
     c_string (cp_id q) = runtime_peer_id ''10.0.0.1'' 4000 \<and> c_string (cp_ip q) = ''10.0.0.1''"
proof -
  let ?i = "(impl_init sample_config)\<lparr>running := True\<rparr>"
  have "copy (view ''10.0.0.1'') = Some ''10.0.0.1''" by simp
  from c_connect_reports[of "empty_heap\<lparr>c_runtimes := [0 \<mapsto> ?i]\<rparr>" 0 ?i, OF _ this, of 4000 True Connect_ok empty_peer]
  show ?thesis by (auto simp: impl_init_def NUL_def result_def)
qed

end
