(* ===== verification/Advertiser.thy ===== *)
theory Advertiser
  imports Discovery
begin

text \<open>
  The discovery responder: \<open>src/discovery/discovery_v2_advertiser.cpp\<close>. Its thread keeps the
  multicast memberships of the host's interfaces up to date and answers authenticated queries. What
  the operating system answers is an argument: the interface table, the outcome of joining a group on
  an interface, whether the socket could be set up and whether a datagram could be sent.
  \<open>address_text\<close> stands for \<open>asio::ip::address_v4::to_string\<close>; an address is its 32 bits, which is
  also its order. The clock is the argument \<open>now\<close>. \<open>adv_events\<close> is a ghost field: what the event
  handler has been called with since \<open>start\<close> (an exception of the handler is swallowed by the code).
\<close>

section \<open>State\<close>

datatype DiscoveryAdvertiserEventKind = DE_kQueryReceived | DE_kReplySent | DE_kRejected
  | DE_kReceiveError | DE_kSendError | DE_kMulticastJoinFailed | DE_kMulticastJoined | DE_kMulticastLeft

record DiscoveryAdvertiserEvent =
  de_kind_of :: DiscoveryAdvertiserEventKind
  de_remote_ip :: string
  de_remote_port :: u16
  de_error :: ErrorCode
  de_detail :: string

record AdvertiserImpl =
  adv_running :: bool
  adv_advertisement :: DiscoveryAdvertisement
  adv_shared_secret :: string
  adv_has_handler :: bool
  adv_memberships :: "(u32, bool) omap"
  adv_reported_missing :: bool
  adv_events :: "DiscoveryAdvertiserEvent list"

definition default_advertisement :: DiscoveryAdvertisement where
  "default_advertisement = \<lparr>da_endpoint_uid = [], da_display_name = ''yunlink-endpoint'',
     da_tcp_listen_port = 9696, da_capabilities = [], da_profiles = [], da_attributes = [],
     da_entities = [], da_started_at_ms = 0, da_sequence = 0\<rparr>"

definition advertiser_init :: AdvertiserImpl where
  "advertiser_init = \<lparr>adv_running = False, adv_advertisement = default_advertisement,
     adv_shared_secret = [], adv_has_handler = False, adv_memberships = [],
     adv_reported_missing = False, adv_events = []\<rparr>"

section \<open>Operations\<close>

text \<open>The interface table, non-Windows: an IPv4 address when there is one, and the two flags.\<close>

record ifaddr =
  ifa_inet :: "u32 option"
  ifa_up :: bool
  ifa_multicast :: bool

definition multicast_interfaces :: "ifaddr list option \<Rightarrow> u32 list" where
  "multicast_interfaces table = (case table of
     None \<Rightarrow> []
   | Some entries \<Rightarrow> remdups_adj (sort (List.map_filter
       (\<lambda>e. if ifa_up e \<and> ifa_multicast e then ifa_inet e else None) entries)))"

definition advertiser_start ::
  "u64 \<Rightarrow> u16 \<Rightarrow> DiscoveryAdvertisement \<Rightarrow> string \<Rightarrow> bool \<Rightarrow> bool \<Rightarrow> AdvertiserImpl \<Rightarrow> ErrorCode \<times> AdvertiserImpl" where
  "advertiser_start now bind_port a secret handler socket_ok impl =
     (if adv_running impl \<or> bind_port = 0 \<or> \<not> valid_advertisement a then (Err_kInvalidArgument, impl)
      else let a = (if da_started_at_ms a = 0 then a\<lparr>da_started_at_ms := now\<rparr> else a);
               impl = impl\<lparr>adv_advertisement := a, adv_shared_secret := secret, adv_has_handler := handler\<rparr>
           in if \<not> socket_ok then (Err_kInternal, impl)
              else (Err_kOk, impl\<lparr>adv_memberships := [], adv_running := True, adv_events := []\<rparr>))"

definition advertiser_stop :: "AdvertiserImpl \<Rightarrow> AdvertiserImpl" where
  "advertiser_stop impl = impl\<lparr>adv_running := False, adv_memberships := [], adv_reported_missing := False\<rparr>"

definition set_advertisement :: "DiscoveryAdvertisement \<Rightarrow> AdvertiserImpl \<Rightarrow> AdvertiserImpl" where
  "set_advertisement a impl =
     (if \<not> valid_advertisement a then impl
      else let a = (if da_started_at_ms a = 0
                    then a\<lparr>da_started_at_ms := da_started_at_ms (adv_advertisement impl)\<rparr> else a)
           in impl\<lparr>adv_advertisement := a\<lparr>da_sequence := da_sequence (adv_advertisement impl)\<rparr>\<rparr>)"

definition adv_emit ::
  "DiscoveryAdvertiserEventKind \<Rightarrow> string \<times> u16 \<Rightarrow> ErrorCode \<Rightarrow> string \<Rightarrow> AdvertiserImpl \<Rightarrow> AdvertiserImpl" where
  "adv_emit kind remote error detail impl =
     (if \<not> adv_has_handler impl then impl
      else impl\<lparr>adv_events := adv_events impl @ [\<lparr>de_kind_of = kind, de_remote_ip = fst remote,
             de_remote_port = snd remote, de_error = error, de_detail = detail\<rparr>]\<rparr>)"

section \<open>Multicast memberships\<close>

datatype JoinResult = Join_ok | Join_in_use string | Join_failed string

fun join_message :: "JoinResult \<Rightarrow> string option" where
  "join_message Join_ok = None"
| "join_message (Join_in_use message) = Some message"
| "join_message (Join_failed message) = Some message"

text \<open>The body of the loop over the known memberships, for one that is no interface any more.\<close>

definition leave_group :: "(u32 \<Rightarrow> string) \<Rightarrow> u32 \<times> bool \<Rightarrow> AdvertiserImpl \<Rightarrow> AdvertiserImpl" where
  "leave_group address_text entry impl =
     (let impl = (if snd entry
                  then adv_emit DE_kMulticastLeft (address_text (fst entry), 0) Err_kOk [] impl else impl)
      in impl\<lparr>adv_memberships := om_erase (fst entry) (adv_memberships impl)\<rparr>)"

text \<open>The body of the loop over the interfaces.\<close>

definition join_group :: "(u32 \<Rightarrow> string) \<Rightarrow> (u32 \<Rightarrow> JoinResult) \<Rightarrow> u32 \<Rightarrow> AdvertiserImpl \<Rightarrow> AdvertiserImpl" where
  "join_group address_text join address impl =
     (let known = om_find (adv_memberships impl) address;
          was_healthy = (known = Some True);
          join_error = join_message (join address);
          already_joined = (was_healthy \<and> (case join address of Join_in_use message \<Rightarrow> True | _ \<Rightarrow> False))
      in if already_joined then impl
         else let impl = impl\<lparr>adv_memberships := om_put address (join_error = None) (adv_memberships impl)\<rparr>;
                  impl = (if join_error = None \<and> \<not> was_healthy
                    then adv_emit DE_kMulticastJoined (address_text address, 0) Err_kOk [] impl else impl)
              in case join_error of
                   Some message \<Rightarrow>
                     if known = None \<or> was_healthy
                     then adv_emit DE_kMulticastJoinFailed (address_text address, 0) Err_kInternal message impl
                     else impl
                 | None \<Rightarrow> impl)"

definition refresh_multicast ::
  "(u32 \<Rightarrow> string) \<Rightarrow> u32 list \<Rightarrow> (u32 \<Rightarrow> JoinResult) \<Rightarrow> AdvertiserImpl \<Rightarrow> AdvertiserImpl" where
  "refresh_multicast address_text interfaces join impl =
     (let impl = (if interfaces = [] \<and> \<not> adv_reported_missing impl
            then (adv_emit DE_kMulticastJoinFailed (address_text 0, 0) Err_kInternal
                    ''no multicast-capable IPv4 interface'' impl)\<lparr>adv_reported_missing := True\<rparr>
            else if interfaces \<noteq> [] then impl\<lparr>adv_reported_missing := False\<rparr> else impl);
          stale = filter (\<lambda>entry. fst entry \<notin> set interfaces) (adv_memberships impl)
      in fold (join_group address_text join) interfaces (fold (leave_group address_text) stale impl))"

section \<open>Queries\<close>

text \<open>
  A round of the thread: nothing received, an error, or a datagram of a remote. The result is the
  datagram handed to the socket, if any; \<open>send_ok\<close> is whether the socket took it.
\<close>

datatype AdvReceive = Adv_would_block | Adv_receive_error "string \<times> u16" | Adv_datagram "string \<times> u16" bytes

definition answer_query ::
  "string \<times> u16 \<Rightarrow> bytes \<Rightarrow> bool \<Rightarrow> AdvertiserImpl \<Rightarrow> bytes option \<times> AdvertiserImpl" where
  "answer_query remote request send_ok impl =
     (case decode_discovery_query request (adv_shared_secret impl) of
        None \<Rightarrow> (None, adv_emit DE_kRejected remote Err_kUnauthorized [] impl)
      | Some query \<Rightarrow>
          let impl = adv_emit DE_kQueryReceived remote Err_kOk [] impl;
              a = (adv_advertisement impl)\<lparr>da_sequence := da_sequence (adv_advertisement impl) + 1\<rparr>;
              impl = impl\<lparr>adv_advertisement := (adv_advertisement impl)\<lparr>da_sequence := da_sequence a\<rparr>\<rparr>;
              reply = encode_discovery_reply query a (adv_shared_secret impl)
          in if reply = [] then (None, adv_emit DE_kSendError remote Err_kEncodeError [] impl)
             else (Some reply, if send_ok then adv_emit DE_kReplySent remote Err_kOk [] impl
                               else adv_emit DE_kSendError remote Err_kInternal [] impl))"

fun advertiser_round :: "AdvReceive \<Rightarrow> bool \<Rightarrow> AdvertiserImpl \<Rightarrow> bytes option \<times> AdvertiserImpl" where
  "advertiser_round Adv_would_block send_ok impl = (None, impl)"
| "advertiser_round (Adv_receive_error remote) send_ok impl =
     (None, if adv_running impl then adv_emit DE_kReceiveError remote Err_kInternal [] impl else impl)"
| "advertiser_round (Adv_datagram remote request) send_ok impl = answer_query remote request send_ok impl"

text \<open>
  Calls of the application and rounds of the thread, which exists while the advertiser runs. The
  attribute maps of an advertisement are \<open>std::map\<close>s, so they arrive in key order.
\<close>

inductive advertiser_step :: "(u32 \<Rightarrow> string) \<Rightarrow> AdvertiserImpl \<Rightarrow> AdvertiserImpl \<Rightarrow> bool" for address_text where
  start_step: "maps_ordered a \<Longrightarrow> advertiser_step address_text impl (snd (advertiser_start now port a secret handler socket_ok impl))"
| stop_step: "advertiser_step address_text impl (advertiser_stop impl)"
| set_step: "maps_ordered a \<Longrightarrow> advertiser_step address_text impl (set_advertisement a impl)"
| refresh_step: "adv_running impl \<Longrightarrow>
    advertiser_step address_text impl (refresh_multicast address_text (multicast_interfaces table) join impl)"
| round_step: "adv_running impl \<Longrightarrow> advertiser_step address_text impl (snd (advertiser_round r send_ok impl))"

inductive advertiser_reach :: "(u32 \<Rightarrow> string) \<Rightarrow> AdvertiserImpl \<Rightarrow> bool" for address_text where
  advertiser_init_reach: "advertiser_reach address_text advertiser_init"
| advertiser_next: "advertiser_reach address_text impl \<Longrightarrow> advertiser_step address_text impl impl' \<Longrightarrow>
    advertiser_reach address_text impl'"


section \<open>What the events tell\<close>

text \<open>The interfaces joined according to the events, and according to the memberships.\<close>

definition track_event :: "DiscoveryAdvertiserEvent \<Rightarrow> string set \<Rightarrow> string set" where
  "track_event ev ips = (case de_kind_of ev of
     DE_kMulticastJoined \<Rightarrow> insert (de_remote_ip ev) ips
   | DE_kMulticastLeft \<Rightarrow> ips - {de_remote_ip ev}
   | DE_kMulticastJoinFailed \<Rightarrow> ips - {de_remote_ip ev}
   | _ \<Rightarrow> ips)"

definition tracked :: "AdvertiserImpl \<Rightarrow> string set" where
  "tracked impl = fold track_event (adv_events impl) {}"

definition joined :: "AdvertiserImpl \<Rightarrow> u32 set" where
  "joined impl = {a. om_find (adv_memberships impl) a = Some True}"

lemma adv_emit_frame [frame_simps]:
  "adv_running (adv_emit k r e d impl) = adv_running impl"
  "adv_advertisement (adv_emit k r e d impl) = adv_advertisement impl"
  "adv_shared_secret (adv_emit k r e d impl) = adv_shared_secret impl"
  "adv_has_handler (adv_emit k r e d impl) = adv_has_handler impl"
  "adv_memberships (adv_emit k r e d impl) = adv_memberships impl"
  "adv_reported_missing (adv_emit k r e d impl) = adv_reported_missing impl"
  "joined (adv_emit k r e d impl) = joined impl"
  by (simp_all add: adv_emit_def joined_def)

lemma tracked_emit: "adv_has_handler impl \<Longrightarrow> tracked (adv_emit k r e d impl) =
  (case k of DE_kMulticastJoined \<Rightarrow> insert (fst r) (tracked impl)
   | DE_kMulticastLeft \<Rightarrow> tracked impl - {fst r}
   | DE_kMulticastJoinFailed \<Rightarrow> tracked impl - {fst r}
   | _ \<Rightarrow> tracked impl)"
  by (simp add: tracked_def adv_emit_def track_event_def split: DiscoveryAdvertiserEventKind.splits)

lemma tracked_other [simp]:
  "tracked (impl\<lparr>adv_memberships := m\<rparr>) = tracked impl"
  "tracked (impl\<lparr>adv_advertisement := a\<rparr>) = tracked impl"
  "tracked (impl\<lparr>adv_reported_missing := b\<rparr>) = tracked impl"
  "joined (impl\<lparr>adv_advertisement := a\<rparr>) = joined impl"
  "joined (impl\<lparr>adv_reported_missing := b\<rparr>) = joined impl"
  by (simp_all add: tracked_def joined_def)

lemma leave_group_facts:
  "adv_memberships (leave_group show_ip e impl) = om_erase (fst e) (adv_memberships impl)"
  "adv_has_handler (leave_group show_ip e impl) = adv_has_handler impl"
  "adv_advertisement (leave_group show_ip e impl) = adv_advertisement impl"
  "adv_running (leave_group show_ip e impl) = adv_running impl"
  "adv_has_handler impl \<Longrightarrow>
     tracked (leave_group show_ip e impl) = tracked impl - show_ip ` {a. e = (a, True)}"
  by (cases e; simp add: leave_group_def Let_def frame_simps tracked_emit)+

lemma leave_groups_facts:
  "adv_has_handler (fold (leave_group show_ip) es impl) = adv_has_handler impl"
  "adv_advertisement (fold (leave_group show_ip) es impl) = adv_advertisement impl"
  "adv_running (fold (leave_group show_ip) es impl) = adv_running impl"
  by (induction es arbitrary: impl) (simp_all add: leave_group_facts)

lemma leave_groups_memberships:
  "adv_memberships (fold (leave_group show_ip) es impl) = filter (\<lambda>m. fst m \<notin> fst ` set es) (adv_memberships impl)"
  by (induction es arbitrary: impl) (simp_all add: leave_group_facts om_erase_def)

lemma leave_groups_tracked:
  "adv_has_handler impl \<Longrightarrow>
     tracked (fold (leave_group show_ip) es impl) = tracked impl - show_ip ` {a. (a, True) \<in> set es}"
  by (induction es arbitrary: impl) (auto simp: leave_group_facts)

lemma join_group_facts:
  "adv_has_handler (join_group show_ip join a impl) = adv_has_handler impl"
  "adv_advertisement (join_group show_ip join a impl) = adv_advertisement impl"
  "adv_running (join_group show_ip join a impl) = adv_running impl"
  "omap_ok (adv_memberships impl) \<Longrightarrow> omap_ok (adv_memberships (join_group show_ip join a impl))"
  by (auto simp: join_group_def Let_def frame_simps omap_ok_put split: option.splits)

lemma join_group_cases:
  "join_group show_ip join a impl = impl \<and> a \<in> joined impl \<or>
   join_group show_ip join a impl = adv_emit DE_kMulticastJoined (show_ip a, 0) Err_kOk []
     (impl\<lparr>adv_memberships := om_put a True (adv_memberships impl)\<rparr>) \<or>
   join_group show_ip join a impl = impl\<lparr>adv_memberships := om_put a True (adv_memberships impl)\<rparr> \<and> a \<in> joined impl \<or>
   (\<exists>d. join_group show_ip join a impl = adv_emit DE_kMulticastJoinFailed (show_ip a, 0) Err_kInternal d (impl\<lparr>adv_memberships := om_put a False (adv_memberships impl)\<rparr>)) \<or>
   join_group show_ip join a impl = impl\<lparr>adv_memberships := om_put a False (adv_memberships impl)\<rparr> \<and> a \<notin> joined impl"
  by (cases "join a"; cases "om_find (adv_memberships impl) a")
    (auto simp: join_group_def Let_def joined_def)

lemma joined_put:
  "joined (impl\<lparr>adv_memberships := om_put a b (adv_memberships impl)\<rparr>) =
     (if b then insert a (joined impl) else joined impl - {a})"
  by (auto simp: joined_def)

text \<open>Whatever the socket answers, joining keeps the events and the memberships in step.\<close>

lemma join_group_tracked:
  assumes "inj show_ip" and "adv_has_handler impl" and "tracked impl = show_ip ` joined impl"
  shows "tracked (join_group show_ip join a impl) = show_ip ` joined (join_group show_ip join a impl)"
  using assms join_group_cases[of show_ip join a impl]
  by (elim disjE exE conjE)
    (auto simp: tracked_emit frame_simps joined_put insert_absorb image_set_diff)

lemma join_groups_tracked:
  assumes "inj show_ip" and "adv_has_handler impl" and "tracked impl = show_ip ` joined impl"
  shows "tracked (fold (join_group show_ip join) as impl) = show_ip ` joined (fold (join_group show_ip join) as impl)"
  using assms(2,3)
  by (induction as arbitrary: impl) (simp_all add: join_group_facts join_group_tracked[OF assms(1)])

lemma join_groups_facts:
  "adv_has_handler (fold (join_group show_ip join) as impl) = adv_has_handler impl"
  "adv_advertisement (fold (join_group show_ip join) as impl) = adv_advertisement impl"
  "adv_running (fold (join_group show_ip join) as impl) = adv_running impl"
  "omap_ok (adv_memberships impl) \<Longrightarrow> omap_ok (adv_memberships (fold (join_group show_ip join) as impl))"
  by (induction as arbitrary: impl) (simp_all add: join_group_facts)

text \<open>Leaving: the interfaces that are gone disappear on both sides.\<close>

lemma leave_stale_tracked:
  assumes "inj show_ip" and "adv_has_handler impl" and ok: "omap_ok (adv_memberships impl)"
    and tr: "tracked impl = show_ip ` joined impl - X" and X: "X \<subseteq> show_ip ` (- set interfaces)"
  defines "impl' \<equiv> fold (leave_group show_ip) (filter (\<lambda>e. fst e \<notin> set interfaces) (adv_memberships impl)) impl"
  shows "tracked impl' = show_ip ` joined impl'"
proof -
  have "adv_memberships impl' = filter (\<lambda>e. fst e \<in> set interfaces) (adv_memberships impl)"
    unfolding impl'_def leave_groups_memberships by (rule filter_cong[OF refl]) force
  then have j': "joined impl' = joined impl \<inter> set interfaces"
    using ok omap_ok_filter[OF ok] by (auto simp: joined_def om_find_iff)
  have "tracked impl' = show_ip ` joined impl - X - show_ip ` (joined impl - set interfaces)"
    unfolding impl'_def leave_groups_tracked[OF assms(2)] tr
    using ok by (auto simp: joined_def om_find_iff)
  also have "\<dots> = show_ip ` joined impl'"
    using X assms(1) by (auto simp: j' inj_eq)
  finally show ?thesis .
qed

definition adv_ok :: "(u32 \<Rightarrow> string) \<Rightarrow> AdvertiserImpl \<Rightarrow> bool" where
  "adv_ok show_ip impl \<longleftrightarrow> omap_ok (adv_memberships impl) \<and> maps_ordered (adv_advertisement impl) \<and>
     (adv_running impl \<longrightarrow> valid_advertisement (adv_advertisement impl)) \<and>
     (inj show_ip \<and> adv_running impl \<and> adv_has_handler impl \<longrightarrow> tracked impl = show_ip ` joined impl)"

lemma refresh_facts:
  "adv_has_handler (refresh_multicast show_ip as join impl) = adv_has_handler impl"
  "adv_advertisement (refresh_multicast show_ip as join impl) = adv_advertisement impl"
  "adv_running (refresh_multicast show_ip as join impl) = adv_running impl"
  "omap_ok (adv_memberships impl) \<Longrightarrow> omap_ok (adv_memberships (refresh_multicast show_ip as join impl))"
  by (simp_all add: refresh_multicast_def Let_def join_groups_facts leave_groups_facts leave_groups_memberships
      frame_simps omap_ok_filter)

lemma refresh_tracked:
  assumes "inj show_ip" and "adv_has_handler impl" and "omap_ok (adv_memberships impl)"
    and "tracked impl = show_ip ` joined impl"
  shows "tracked (refresh_multicast show_ip as join impl) = show_ip ` joined (refresh_multicast show_ip as join impl)"
proof -
  define i1 where "i1 = (if as = [] \<and> \<not> adv_reported_missing impl
      then (adv_emit DE_kMulticastJoinFailed (show_ip 0, 0) Err_kInternal
              ''no multicast-capable IPv4 interface'' impl)\<lparr>adv_reported_missing := True\<rparr>
      else if as \<noteq> [] then impl\<lparr>adv_reported_missing := False\<rparr> else impl)"
  have i1: "adv_has_handler i1" "omap_ok (adv_memberships i1)"
      "\<exists>X. tracked i1 = show_ip ` joined i1 - X \<and> X \<subseteq> show_ip ` (- set as)"
    using assms by (auto simp: i1_def frame_simps tracked_emit)
  then obtain X where X: "tracked i1 = show_ip ` joined i1 - X" "X \<subseteq> show_ip ` (- set as)" by blast
  have "refresh_multicast show_ip as join impl = fold (join_group show_ip join) as
      (fold (leave_group show_ip) (filter (\<lambda>e. fst e \<notin> set as) (adv_memberships i1)) i1)"
    by (simp only: refresh_multicast_def Let_def i1_def[symmetric])
  with join_groups_tracked[OF assms(1) _ leave_stale_tracked[OF assms(1) i1(1,2) X]] i1(1) show ?thesis
    by (simp add: leave_groups_facts)
qed

lemma valid_advertisement_other [simp]:
  "valid_advertisement (a\<lparr>da_started_at_ms := t\<rparr>) = valid_advertisement a"
  "valid_advertisement (a\<lparr>da_sequence := n\<rparr>) = valid_advertisement a"
  "maps_ordered (a\<lparr>da_started_at_ms := t\<rparr>) = maps_ordered a"
  "maps_ordered (a\<lparr>da_sequence := n\<rparr>) = maps_ordered a"
  by (simp_all add: valid_advertisement_def maps_ordered_def)

lemma answer_query_frame:
  assumes "answer_query remote request send_ok impl = (reply, impl')"
  shows "adv_running impl' = adv_running impl" "adv_has_handler impl' = adv_has_handler impl"
    "adv_memberships impl' = adv_memberships impl" "adv_has_handler impl \<Longrightarrow> tracked impl' = tracked impl"
    "\<exists>n. adv_advertisement impl' = (adv_advertisement impl)\<lparr>da_sequence := n\<rparr>"
  using assms
  by (auto simp: answer_query_def Let_def frame_simps tracked_emit split: option.splits if_splits)
    (metis DiscoveryAdvertisement.surjective DiscoveryAdvertisement.update_convs(9))

lemma advertiser_round_ok:
  assumes "adv_ok show_ip impl"
  shows "adv_ok show_ip (snd (advertiser_round r send_ok impl))"
proof (cases r)
  case (Adv_datagram remote request)
  obtain reply impl' where a: "answer_query remote request send_ok impl = (reply, impl')" by fastforce
  from answer_query_frame[OF a] assms show ?thesis
    by (auto simp: Adv_datagram a adv_ok_def joined_def)
qed (use assms in \<open>auto simp: adv_ok_def frame_simps tracked_emit\<close>)

lemma advertiser_step_ok:
  assumes "advertiser_step show_ip impl impl'" and "adv_ok show_ip impl"
  shows "adv_ok show_ip impl'"
  using assms
proof cases
  case (start_step a now port secret handler socket_ok)
  then show ?thesis using assms(2)
    by (auto simp: advertiser_start_def Let_def adv_ok_def tracked_def joined_def)
next
  case stop_step
  with assms(2) show ?thesis by (simp add: advertiser_stop_def adv_ok_def)
next
  case (set_step a)
  with assms(2) show ?thesis by (auto simp: set_advertisement_def Let_def adv_ok_def)
next
  case (refresh_step table join)
  with assms(2) show ?thesis
    using refresh_tracked[of show_ip impl] by (simp add: adv_ok_def refresh_facts)
next
  case (round_step r send_ok)
  with assms(2) show ?thesis by (simp add: advertiser_round_ok)
qed

lemma advertiser_reach_ok:
  assumes "advertiser_reach show_ip impl"
  shows "adv_ok show_ip impl"
  using assms
proof induction
  case advertiser_init_reach
  show ?case by (simp add: adv_ok_def advertiser_init_def default_advertisement_def maps_ordered_def)
qed (rule advertiser_step_ok)

section \<open>The thread\<close>

text \<open>
  The thread itself. It joins the groups when it starts and afterwards at the first round that begins
  five seconds (of \<open>steady_clock\<close>, in nanoseconds) or more after the last time; a turn takes what the
  environment answers: the two readings of the clock, the interface table, the outcome of joining, the
  datagram and whether the reply was taken. The loop ends when \<open>running\<close> is found false; \<open>others\<close> are
  the calls of the application between two turns.
\<close>

definition kMembershipRefresh :: int where "kMembershipRefresh = 5 * 1000000000"

record AdvTurn =
  turn_now :: int
  turn_after :: int
  turn_table :: "ifaddr list option"
  turn_join :: "u32 \<Rightarrow> JoinResult"
  turn_receive :: AdvReceive
  turn_send_ok :: bool

definition advertiser_turn ::
  "(u32 \<Rightarrow> string) \<Rightarrow> AdvTurn \<Rightarrow> AdvertiserImpl \<times> int \<Rightarrow> AdvertiserImpl \<times> int" where
  "advertiser_turn address_text t s =
     (case s of (impl, next_refresh) \<Rightarrow>
        let (impl, next_refresh) = (if turn_now t \<ge> next_refresh
              then (refresh_multicast address_text (multicast_interfaces (turn_table t)) (turn_join t) impl,
                    turn_after t + kMembershipRefresh)
              else (impl, next_refresh))
        in (snd (advertiser_round (turn_receive t) (turn_send_ok t) impl), next_refresh))"

fun advertiser_loop :: "(u32 \<Rightarrow> string) \<Rightarrow> (nat \<Rightarrow> AdvertiserImpl \<Rightarrow> AdvertiserImpl) \<Rightarrow> AdvTurn list \<Rightarrow>
    AdvertiserImpl \<times> int \<Rightarrow> AdvertiserImpl \<times> int" where
  "advertiser_loop address_text others [] s = s"
| "advertiser_loop address_text others (t # ts) s =
     (if \<not> adv_running (fst s) then s
      else let (impl, next_refresh) = advertiser_turn address_text t s
           in advertiser_loop address_text others ts (others (length ts) impl, next_refresh))"

definition advertiser_thread :: "(u32 \<Rightarrow> string) \<Rightarrow> (nat \<Rightarrow> AdvertiserImpl \<Rightarrow> AdvertiserImpl) \<Rightarrow>
    AdvTurn \<Rightarrow> AdvTurn list \<Rightarrow> AdvertiserImpl \<Rightarrow> AdvertiserImpl \<times> int" where
  "advertiser_thread address_text others t ts impl =
     advertiser_loop address_text others ts
       (refresh_multicast address_text (multicast_interfaces (turn_table t)) (turn_join t) impl,
        turn_after t + kMembershipRefresh)"

text \<open>A turn is one or two steps of the relation, so the thread stays within the reachable states.\<close>

lemma advertiser_turn_steps:
  assumes "adv_running impl"
  shows "(advertiser_step address_text)\<^sup>*\<^sup>* impl (fst (advertiser_turn address_text t (impl, n)))"
proof (cases "turn_now t \<ge> n")
  case True
  let ?impl = "refresh_multicast address_text (multicast_interfaces (turn_table t)) (turn_join t) impl"
  have "adv_running ?impl" using assms by (simp add: refresh_facts)
  with True refresh_step[OF assms] show ?thesis
    by (simp add: advertiser_turn_def) (meson r_into_rtranclp round_step rtranclp.rtrancl_into_rtrancl)
qed (use assms in \<open>simp add: advertiser_turn_def r_into_rtranclp round_step\<close>)

lemma advertiser_steps_reach:
  "(advertiser_step address_text)\<^sup>*\<^sup>* impl impl' \<Longrightarrow> advertiser_reach address_text impl \<Longrightarrow> advertiser_reach address_text impl'"
  by (induction rule: rtranclp_induct) (auto intro: advertiser_next)

lemma advertiser_loop_reach:
  assumes "\<And>i impl. (advertiser_step address_text)\<^sup>*\<^sup>* impl (others i impl)"
    and "advertiser_reach address_text (fst s)"
  shows "advertiser_reach address_text (fst (advertiser_loop address_text others ts s))"
  using assms(2)
proof (induction ts arbitrary: s)
  case (Cons t ts)
  obtain impl n where s: "s = (impl, n)" by fastforce
  have "advertiser_reach address_text (others (length ts) (fst (advertiser_turn address_text t s)))"
    if "adv_running impl"
    using advertiser_steps_reach[OF assms(1)] advertiser_steps_reach[OF advertiser_turn_steps[OF that]]
      Cons.prems by (simp add: s)
  with Cons s show ?case by (auto simp: case_prod_unfold Let_def)
qed simp

lemma advertiser_thread_reach:
  assumes "\<And>i impl. (advertiser_step address_text)\<^sup>*\<^sup>* impl (others i impl)"
    and "advertiser_reach address_text impl" and "adv_running impl"
  shows "advertiser_reach address_text (fst (advertiser_thread address_text others t ts impl))"
  unfolding advertiser_thread_def
  by (rule advertiser_loop_reach[OF assms(1)])
    (simp add: advertiser_next[OF assms(2) refresh_step[OF assms(3)]])

text \<open>
  The memberships do not go stale: at the end of a turn the next refresh is due within five seconds of
  the turn's last reading of the clock, and the first turn that starts five seconds later looks at the
  interfaces again. Between the two no turn does.
\<close>

lemma refresh_deadline:
  assumes "turn_now t \<le> turn_after t" and "n \<le> turn_after t + kMembershipRefresh"
    and "advertiser_turn address_text t (impl, n) = (impl', n')"
  shows "turn_now t < n'" and "n' \<le> turn_after t + kMembershipRefresh"
    and "turn_after t + kMembershipRefresh \<le> turn_now u \<Longrightarrow> advertiser_turn address_text u (impl', n') =
      (snd (advertiser_round (turn_receive u) (turn_send_ok u)
         (refresh_multicast address_text (multicast_interfaces (turn_table u)) (turn_join u) impl')),
       turn_after u + kMembershipRefresh)"
    and "turn_now u < n' \<Longrightarrow> advertiser_turn address_text u (impl', n') =
      (snd (advertiser_round (turn_receive u) (turn_send_ok u) impl'), n')"
  using assms by (auto simp: advertiser_turn_def kMembershipRefresh_def split: if_splits)

section \<open>Properties\<close>

text \<open>
  C32. In every reachable state of the responder, whatever the interfaces and the socket do: while it
  runs, the advertisement it answers with is valid; and a handler that follows the events (adding an
  interface on Joined, removing it on Left and JoinFailed) knows exactly the interfaces on which the
  responder is a member of the multicast group. Addresses are told apart by their text.
\<close>

theorem advertiser_invariant:
  assumes "advertiser_reach address_text impl" and "adv_running impl"
  shows "valid_advertisement (adv_advertisement impl) \<and>
    (inj address_text \<and> adv_has_handler impl \<longrightarrow> tracked impl = address_text ` joined impl)"
  using advertiser_reach_ok[OF assms(1)] assms(2) by (simp add: adv_ok_def)

definition bar_text :: "u32 \<Rightarrow> string" where
  "bar_text a = replicate (unat a) CHR ''|''"

definition started_advertiser :: AdvertiserImpl where
  "started_advertiser = snd (advertiser_start 9 9697 sample_advertisement ''s'' True True advertiser_init)"

definition joined_advertiser :: AdvertiserImpl where
  "joined_advertiser = refresh_multicast bar_text
     (multicast_interfaces (Some [\<lparr>ifa_inet = Some 5, ifa_up = True, ifa_multicast = True\<rparr>]))
     (\<lambda>a. Join_ok) started_advertiser"

lemma started_advertiser_eq:
  "started_advertiser = advertiser_init\<lparr>adv_advertisement := sample_advertisement, adv_shared_secret := ''s'',
     adv_has_handler := True, adv_memberships := [], adv_running := True, adv_events := []\<rparr>"
proof -
  have "da_started_at_ms sample_advertisement \<noteq> 0" by (simp add: sample_advertisement_def)
  then show ?thesis
    using sample_advertisement_ok(1)
    by (simp add: started_advertiser_def advertiser_start_def advertiser_init_def)
qed

lemma started_advertiser_reach: "advertiser_reach bar_text started_advertiser"
  unfolding started_advertiser_def
  by (intro advertiser_next[OF advertiser_init_reach] start_step sample_advertisement_ok(2))

lemma joined_advertiser_reach: "advertiser_reach bar_text joined_advertiser"
  unfolding joined_advertiser_def
  by (intro advertiser_next[OF started_advertiser_reach] refresh_step) (simp add: started_advertiser_eq)

lemma inj_bar_text: "inj bar_text"
  by (rule injI) (metis bar_text_def length_replicate word_unat_eq_iff)

theorem advertiser_invariant_witness:
  "valid_advertisement (adv_advertisement joined_advertiser) \<and> tracked joined_advertiser = {bar_text 5}"
proof -
  have "adv_running joined_advertiser" "adv_has_handler joined_advertiser" "joined joined_advertiser = {5}"
    by (auto simp: joined_advertiser_def multicast_interfaces_def map_filter_simps started_advertiser_eq
        refresh_multicast_def join_group_def advertiser_init_def adv_emit_def joined_def om_find_def
        split: if_splits)
  with advertiser_invariant[OF joined_advertiser_reach] inj_bar_text show ?thesis by simp
qed

text \<open>
  C33. Answers. A datagram that is no authenticated query gets no reply and leaves the advertisement
  alone. A query raises the sequence number by exactly one, and whatever reply is sent is decoded by
  the requester, under its nonce and the shared secret, to the advertisement as it then stands (less
  what the query's format has no place for).
\<close>

theorem advertiser_answers:
  assumes "advertiser_reach address_text impl"
    and "answer_query remote request send_ok impl = (reply, impl')"
  shows "case decode_discovery_query request (adv_shared_secret impl) of
      None \<Rightarrow> reply = None \<and> adv_advertisement impl' = adv_advertisement impl
    | Some q \<Rightarrow>
        adv_advertisement impl' = (adv_advertisement impl)
          \<lparr>da_sequence := da_sequence (adv_advertisement impl) + 1\<rparr> \<and>
        (\<forall>bs. reply = Some bs \<longrightarrow>
           decode_discovery_reply bs (adv_shared_secret impl) (dq_nonce q) =
             Some (advertisement_in (dq_format_version q) (adv_advertisement impl')))"
proof (cases "decode_discovery_query request (adv_shared_secret impl)")
  case None
  with assms(2) show ?thesis by (auto simp: answer_query_def frame_simps)
next
  case (Some q)
  let ?a = "(adv_advertisement impl)\<lparr>da_sequence := da_sequence (adv_advertisement impl) + 1\<rparr>"
  have "known_version (dq_format_version q)" using p_query.decode_sound[OF Some] by (simp add: query_ok_def)
  moreover have "maps_ordered ?a" using advertiser_reach_ok[OF assms(1)] by (simp add: adv_ok_def)
  ultimately show ?thesis
    using assms(2) Some decode_encoded_reply[of q ?a "adv_shared_secret impl"]
    by (auto simp: answer_query_def Let_def frame_simps split: if_splits)
qed

lemma sample_reply_encoded_next:
  "encode_discovery_reply sample_query (sample_advertisement\<lparr>da_sequence := 2\<rparr>) ''s'' \<noteq> []"
proof -
  have "length (dw_value (write_reply sample_query (a\<lparr>da_sequence := n\<rparr>))) = length (dw_value (write_reply sample_query a)) \<and>
      dw_valid (write_reply sample_query (a\<lparr>da_sequence := n\<rparr>)) = dw_valid (write_reply sample_query a)" for a n
    by (simp add: write_reply_def Let_def in_order_simps) (simp add: d_u64_def d_bytes_def)
  with sample_reply_encoded sample_advertisement_ok(1) show ?thesis
    by (simp add: encode_discovery_reply_def d_finish_def split: if_splits)
      (simp add: d_u64_def d_bytes_def be_bytes_def)
qed

theorem advertiser_answers_witness:
  "decode_discovery_reply (the (fst (answer_query (''h'', 1) (encode_discovery_query sample_query ''s'') True
     started_advertiser))) ''s'' 7 = Some (advertisement_in 4 (sample_advertisement\<lparr>da_sequence := 2\<rparr>))"
proof -
  let ?r = "answer_query (''h'', 1) (encode_discovery_query sample_query ''s'') True started_advertiser"
  have q: "query_ok sample_query" "dq_nonce sample_query = 7" "dq_format_version sample_query = 4"
    by (simp_all add: query_ok_def sample_query_def discovery_versions)
  have dec: "decode_discovery_query (encode_discovery_query sample_query ''s'') (adv_shared_secret started_advertiser) =
      Some sample_query"
    using p_query.decodes_encoded[OF q(1)] by (simp add: started_advertiser_eq)
  have seq: "da_sequence sample_advertisement + 1 = 2" by (simp add: sample_advertisement_def)
  obtain bs where "fst ?r = Some bs"
    using dec sample_reply_encoded_next by (simp add: answer_query_def Let_def frame_simps started_advertiser_eq seq)
  moreover have "adv_shared_secret started_advertiser = ''s''"
      "adv_advertisement started_advertiser = sample_advertisement"
    by (simp_all add: started_advertiser_eq)
  ultimately show ?thesis
    using advertiser_answers[OF started_advertiser_reach, of "(''h'', 1)"
        "encode_discovery_query sample_query ''s''" True "fst ?r" "snd ?r", OF prod.collapse[symmetric]] dec q
    by (simp add: seq)
qed

end
