(* ===== verification/Doubles.thy ===== *)
theory Doubles
  imports Prelude
begin

text \<open>
  What the sources use of \<open>double\<close> and \<open>float\<close>. A double is carried as its 64 bits, which is also how the
  codecs copy it; \<open>std::isfinite\<close>, the comparisons, and the multiplication and addition that the
  quaternion check of the Sunray profile performs follow IEEE 754 binary64 with rounding to nearest,
  ties to even. A double that is not a NaN is an integer multiple of $2^{-1074}$ (an infinity counts
  as the value its bits would have with one more exponent), so everything is integer arithmetic.
\<close>

definition f64_exponent :: "u64 \<Rightarrow> nat" where
  "f64_exponent b = unat (drop_bit 52 b AND 2047)"

definition f64_fraction :: "u64 \<Rightarrow> nat" where
  "f64_fraction b = unat b mod 2 ^ 52"

definition f64_negative :: "u64 \<Rightarrow> bool" where
  "f64_negative b \<longleftrightarrow> bit b 63"

definition isfinite :: "u64 \<Rightarrow> bool" where
  "isfinite b \<longleftrightarrow> f64_exponent b \<noteq> 2047"

definition f64_nan :: "u64 \<Rightarrow> bool" where
  "f64_nan b \<longleftrightarrow> f64_exponent b = 2047 \<and> f64_fraction b \<noteq> 0"

definition f64_magnitude :: "u64 \<Rightarrow> nat" where
  "f64_magnitude b =
     (if f64_exponent b = 0 then f64_fraction b
      else (2 ^ 52 + f64_fraction b) * 2 ^ (f64_exponent b - 1))"

definition f64_scaled :: "u64 \<Rightarrow> int" where
  "f64_scaled b = (if f64_negative b then - int (f64_magnitude b) else int (f64_magnitude b))"

section \<open>Comparison\<close>

definition f64_less :: "u64 \<Rightarrow> u64 \<Rightarrow> bool" where
  "f64_less a b \<longleftrightarrow> \<not> f64_nan a \<and> \<not> f64_nan b \<and> f64_scaled a < f64_scaled b"

definition f64_eq :: "u64 \<Rightarrow> u64 \<Rightarrow> bool" where
  "f64_eq a b \<longleftrightarrow> \<not> f64_nan a \<and> \<not> f64_nan b \<and> f64_scaled a = f64_scaled b"

definition f64_le :: "u64 \<Rightarrow> u64 \<Rightarrow> bool" where
  "f64_le a b \<longleftrightarrow> f64_less a b \<or> f64_eq a b"

text \<open>\<open>std::abs\<close>, and the two comparisons with zero the sources use most.\<close>

definition f64_abs :: "u64 \<Rightarrow> u64" where
  "f64_abs b = b AND mask 63"

abbreviation f64_below_zero :: "u64 \<Rightarrow> bool" where
  "f64_below_zero b \<equiv> f64_less b 0"

abbreviation f64_above_zero :: "u64 \<Rightarrow> bool" where
  "f64_above_zero b \<equiv> f64_less 0 b"

text \<open>The same for \<open>float\<close>, of which the sources use finiteness and \<open>< 0.0F\<close>.\<close>

definition f32_exponent :: "u32 \<Rightarrow> nat" where
  "f32_exponent b = unat (drop_bit 23 b AND 255)"

definition isfinitef :: "u32 \<Rightarrow> bool" where
  "isfinitef b \<longleftrightarrow> f32_exponent b \<noteq> 255"

definition f32_below_zero :: "u32 \<Rightarrow> bool" where
  "f32_below_zero b \<longleftrightarrow>
     \<not> (f32_exponent b = 255 \<and> unat b mod 2 ^ 23 \<noteq> 0) \<and> bit b 31 \<and> unat b mod 2 ^ 31 \<noteq> 0"

section \<open>Rounding, multiplication, addition\<close>

text \<open>\<open>n / 2 ^ k\<close> rounded to the nearest integer, ties to even.\<close>

definition round_even :: "nat \<Rightarrow> nat \<Rightarrow> nat" where
  "round_even k n =
     (let q = n div 2 ^ k; r = 2 * (n mod 2 ^ k) in
      if r > 2 ^ k \<or> r = 2 ^ k \<and> odd q then Suc q else q)"

fun bit_length :: "nat \<Rightarrow> nat" where
  "bit_length n = (if n = 0 then 0 else Suc (bit_length (n div 2)))"

declare bit_length.simps [simp del]

text \<open>
  The nonnegative double nearest to \<open>n * 2 ^ (- 1074 - k)\<close>. Adding the rounded significand to the
  exponent field lets a carry of the rounding move into the exponent.
\<close>

definition f64_round :: "nat \<Rightarrow> nat \<Rightarrow> u64" where
  "f64_round k n =
     (let sh = max k (bit_length n - 53) in
      word_of_nat (min (2047 * 2 ^ 52) ((sh - k) * 2 ^ 52 + round_even sh n)))"

definition f64_sign_bit :: "bool \<Rightarrow> u64 \<Rightarrow> u64" where
  "f64_sign_bit s b = (if s then set_bit 63 b else b)"

definition f64_quiet_nan :: u64 where "f64_quiet_nan = 9221120237041090560"
definition f64_infinity :: u64 where "f64_infinity = 9218868437227405312"

definition f64_mul :: "u64 \<Rightarrow> u64 \<Rightarrow> u64" where
  "f64_mul a b =
     (let s = (f64_negative a \<noteq> f64_negative b) in
      if f64_nan a \<or> f64_nan b then f64_quiet_nan
      else if \<not> isfinite a \<or> \<not> isfinite b then
        if f64_magnitude a = 0 \<or> f64_magnitude b = 0 then f64_quiet_nan else f64_sign_bit s f64_infinity
      else f64_sign_bit s (f64_round 1074 (f64_magnitude a * f64_magnitude b)))"

definition f64_add :: "u64 \<Rightarrow> u64 \<Rightarrow> u64" where
  "f64_add a b =
     (if f64_nan a \<or> f64_nan b \<or>
         \<not> isfinite a \<and> \<not> isfinite b \<and> f64_negative a \<noteq> f64_negative b then f64_quiet_nan
      else if \<not> isfinite a then a
      else if \<not> isfinite b then b
      else let s = f64_scaled a + f64_scaled b in
        f64_sign_bit (if s = 0 then f64_negative a \<and> f64_negative b else s < 0)
          (f64_round 0 (nat \<bar>s\<bar>)))"

section \<open>Facts\<close>

text \<open>Rounding is to a nearest integer: it is off by at most half.\<close>

lemma round_even_near: "\<bar>2 * (2 ^ k * int (round_even k n) - int n)\<bar> \<le> 2 ^ k"
proof -
  let ?q = "int (n div 2 ^ k)" and ?r = "int (n mod 2 ^ k)"
  have n: "int n = 2 ^ k * ?q + ?r"
    by (subst mult_div_mod_eq[of "2 ^ k" n, symmetric])
      (simp only: of_nat_add of_nat_mult of_nat_power of_nat_numeral)
  have r: "0 \<le> ?r" "?r < 2 ^ k" by (simp_all add: of_nat_mod)
  show ?thesis
  proof (cases "int (round_even k n) = ?q")
    case True
    then have "2 * (n mod 2 ^ k) \<le> 2 ^ k"
      by (auto simp: round_even_def Let_def split: if_splits)
    then have "int (2 * (n mod 2 ^ k)) \<le> int (2 ^ k)" by (simp only: of_nat_le_iff)
    with True n r show ?thesis by (simp only: of_nat_mult of_nat_power of_nat_numeral) simp
  next
    case False
    then have q: "int (round_even k n) = ?q + 1" and "2 ^ k \<le> 2 * (n mod 2 ^ k)"
      by (auto simp: round_even_def Let_def split: if_splits)
    then have "int (2 ^ k) \<le> int (2 * (n mod 2 ^ k))" by (simp only: of_nat_le_iff)
    then have "2 ^ k \<le> 2 * ?r" by (simp only: of_nat_mult of_nat_power of_nat_numeral)
    then show ?thesis unfolding q n using r by (simp only: distrib_left) simp
  qed
qed

lemma nan_not_finite: "f64_nan b \<Longrightarrow> \<not> isfinite b"
  by (simp add: f64_nan_def isfinite_def)

lemma special_not_finite: "\<not> isfinite f64_quiet_nan" "\<not> isfinite f64_infinity"
  "\<not> isfinite (f64_sign_bit s f64_infinity)"
  by (cases s; simp add: isfinite_def f64_exponent_def f64_quiet_nan_def f64_infinity_def
      f64_sign_bit_def set_bit_eq)+

text \<open>An operation on something that is not finite is not finite.\<close>

lemma finite_mul: "isfinite (f64_mul a b) \<Longrightarrow> isfinite a \<and> isfinite b"
  by (auto simp: f64_mul_def Let_def special_not_finite dest: nan_not_finite split: if_splits)

lemma finite_add: "isfinite (f64_add a b) \<Longrightarrow> isfinite a \<and> isfinite b"
  by (auto simp: f64_add_def Let_def special_not_finite dest: nan_not_finite split: if_splits)

lemma bit_length_power: "bit_length (2 ^ k) = Suc k"
proof (induction k)
  case 0
  then show ?case by (simp add: bit_length.simps[of "Suc 0"] bit_length.simps[of 0])
next
  case (Suc k)
  then show ?case by (subst bit_length.simps) simp
qed

text \<open>Powers of two are represented exactly.\<close>

lemma f64_round_power:
  assumes "52 \<le> j" and "j \<le> 2097"
  shows "f64_round k (2 ^ (k + j)) = word_of_nat ((j - 51) * 2 ^ 52)"
proof -
  let ?sh = "k + (j - 52)"
  have sh: "max k (bit_length (2 ^ (k + j)) - 53) = ?sh"
    using assms(1) by (simp add: bit_length_power)
  have "(2 :: nat) ^ (k + j) = 2 ^ ?sh * 2 ^ 52"
    using assms(1) by (simp only: power_add[symmetric]) simp
  then have "round_even ?sh (2 ^ (k + j)) = 2 ^ 52"
    by (simp only: round_even_def Let_def) simp
  moreover have "j - 52 + 1 = j - 51" using assms(1) by simp
  then have "(j - 52) * 2 ^ 52 + 2 ^ 52 = (j - 51) * (2 :: nat) ^ 52"
    by (metis Suc_eq_plus1 add.commute mult_Suc)
  moreover have "(j - 51) * 2 ^ 52 \<le> 2047 * (2 :: nat) ^ 52"
    using assms(2) by (intro mult_right_mono) auto
  ultimately show ?thesis unfolding f64_round_def Let_def sh by (simp only: diff_add_inverse min_absorb2)
qed

lemma f64_one: "f64_exponent 4607182418800017408 = 1023" "f64_fraction 4607182418800017408 = 0"
  "\<not> f64_negative 4607182418800017408" "f64_magnitude 4607182418800017408 = 2 ^ 1074"
proof -
  show e: "f64_exponent 4607182418800017408 = 1023" and f: "f64_fraction 4607182418800017408 = 0"
    and "\<not> f64_negative 4607182418800017408"
    by (simp_all add: f64_exponent_def f64_fraction_def f64_negative_def)
  show "f64_magnitude 4607182418800017408 = 2 ^ 1074"
    unfolding f64_magnitude_def e f by (simp only: power_add[symmetric] add_0_right) simp
qed

lemma double_zero [simp]: "f64_exponent 0 = 0" "f64_magnitude 0 = 0" "f64_scaled 0 = 0" "\<not> f64_nan 0" "isfinite 0"
  by (simp_all add: f64_magnitude_def f64_exponent_def f64_fraction_def f64_scaled_def f64_nan_def
      isfinite_def)

lemma finite_not_nan: "isfinite b \<Longrightarrow> \<not> f64_nan b"
  using nan_not_finite by blast

lemma not_le_zero: "isfinite b \<Longrightarrow> \<not> f64_le b 0 \<Longrightarrow> f64_above_zero b"
  by (auto simp: f64_le_def f64_less_def f64_eq_def finite_not_nan)

lemma round_zero: "f64_round k 0 = 0"
  by (simp add: f64_round_def bit_length.simps round_even_def Let_def)

lemma square_of_zero: "f64_magnitude x = 0 \<Longrightarrow> isfinite x \<Longrightarrow> f64_mul x x = 0"
  by (auto simp: f64_mul_def Let_def round_zero f64_sign_bit_def dest: nan_not_finite)

lemma add_zeros: "f64_add 0 0 = 0"
  by (simp add: f64_add_def round_zero f64_sign_bit_def f64_negative_def)

lemma one_squared: "f64_mul 4607182418800017408 4607182418800017408 = 4607182418800017408"
  using f64_round_power[of 1074 1074]
  by (simp add: f64_mul_def f64_one f64_nan_def isfinite_def f64_sign_bit_def power_add[symmetric]
      del: power_Suc)

lemma zero_plus_one: "f64_add 0 4607182418800017408 = 4607182418800017408"
  using f64_round_power[of 1074 0]
  by (simp add: f64_add_def f64_one f64_nan_def isfinite_def f64_sign_bit_def f64_scaled_def nat_power_eq
      f64_negative_def)

end
