(* ===== verification/ConfigIO.thy ===== *)
theory ConfigIO
  imports CoreIO Doubles
begin

text \<open>
  The shared part of the configuration codec: \<open>src/core/binary_codec_io.hpp\<close>, the data types of
  \<open>include/yunlink/core/semantic/configuration/service_types.hpp\<close> and the helpers of
  \<open>src/core/configuration_service/codec_io.hpp\<close>. \<open>BufferWriter\<close> and \<open>BufferReader\<close> have the members
  of the \<open>Writer\<close> and \<open>Reader\<close> of the Core payloads and are the same types here; their own operations
  differ in the limit of 1024 bytes the writer (and only the writer) puts on a string. A \<open>double\<close> is
  carried as its 64 bits, which is what the \<open>memcpy\<close> of the source does.
\<close>

section \<open>Buffers\<close>

definition kMaxCoreStringBytes :: nat where "kMaxCoreStringBytes = 1024"
definition kMaxConfigItems :: nat where "kMaxConfigItems = 256"

type_synonym BufferWriter = Writer
type_synonym BufferReader = Reader

definition bw_u8 :: "u8 \<Rightarrow> BufferWriter \<Rightarrow> BufferWriter" where
  "bw_u8 value w = w_u8 value w"

definition bw_bool :: "bool \<Rightarrow> BufferWriter \<Rightarrow> BufferWriter" where
  "bw_bool value w = bw_u8 (if value then 1 else 0) w"

definition bw_u16 :: "u16 \<Rightarrow> BufferWriter \<Rightarrow> BufferWriter" where
  "bw_u16 value w = w_u16 value w"

definition bw_u64 :: "u64 \<Rightarrow> BufferWriter \<Rightarrow> BufferWriter" where
  "bw_u64 value w = w_u64 value w"

definition bw_double :: "u64 \<Rightarrow> BufferWriter \<Rightarrow> BufferWriter" where
  "bw_double bits w = bw_u64 bits w"

definition bw_string :: "string \<Rightarrow> BufferWriter \<Rightarrow> BufferWriter" where
  "bw_string value w =
     (if length value > kMaxCoreStringBytes then w_invalid w
      else w_emit (bytes_of_string value) (bw_u16 (word_of_nat (length value)) w))"

definition br_u8 :: "BufferReader \<Rightarrow> (u8 \<times> BufferReader) option" where
  "br_u8 r = r_u8 r"

definition br_bool :: "BufferReader \<Rightarrow> (bool \<times> BufferReader) option" where
  "br_bool r = do { (value, r) \<leftarrow> br_u8 r; if value > 1 then None else Some (value \<noteq> 0, r) }"

definition br_u16 :: "BufferReader \<Rightarrow> (u16 \<times> BufferReader) option" where
  "br_u16 r = r_u16 r"

definition br_u64 :: "BufferReader \<Rightarrow> (u64 \<times> BufferReader) option" where
  "br_u64 r = r_u64 r"

definition br_double :: "BufferReader \<Rightarrow> (u64 \<times> BufferReader) option" where
  "br_double r = br_u64 r"

definition br_string :: "BufferReader \<Rightarrow> (string \<times> BufferReader) option" where
  "br_string r = r_text r"

definition build_payload :: "(BufferWriter \<Rightarrow> BufferWriter) \<Rightarrow> bytes" where
  "build_payload fn = (let w = fn writer_init in if w_valid w then w_data w else [])"

definition parse_payload :: "bytes \<Rightarrow> (BufferReader \<Rightarrow> ('a \<times> BufferReader) option) \<Rightarrow> 'a option" where
  "parse_payload bs fn = do {
     (parsed, r) \<leftarrow> fn (reader_init bs);
     if \<not> r_done r then None else Some parsed }"

definition write_vector :: "('a \<Rightarrow> BufferWriter \<Rightarrow> BufferWriter) \<Rightarrow> 'a list \<Rightarrow> BufferWriter \<Rightarrow> BufferWriter" where
  "write_vector wr values w =
     (if length values > kMaxConfigItems then w_invalid w
      else fold wr values (bw_u16 (word_of_nat (length values)) w))"

definition read_vector ::
  "(BufferReader \<Rightarrow> ('a \<times> BufferReader) option) \<Rightarrow> BufferReader \<Rightarrow> ('a list \<times> BufferReader) option" where
  "read_vector rd r = do {
     (count, r) \<leftarrow> br_u16 r;
     if unat count > kMaxConfigItems then None else read_n (unat count) rd r }"

definition write_strings :: "string list \<Rightarrow> BufferWriter \<Rightarrow> BufferWriter" where
  "write_strings = write_vector bw_string"

definition read_strings :: "BufferReader \<Rightarrow> (string list \<times> BufferReader) option" where
  "read_strings = read_vector br_string"

section \<open>Enumerations\<close>

datatype ConfigValueType = CVT_kBool | CVT_kInt64 | CVT_kDouble | CVT_kString | CVT_kStringList | CVT_kDoubleList |
  CVT_kUnset

fun value_type_code :: "ConfigValueType \<Rightarrow> u8" where
  "value_type_code CVT_kBool = 1"
| "value_type_code CVT_kInt64 = 2"
| "value_type_code CVT_kDouble = 3"
| "value_type_code CVT_kString = 4"
| "value_type_code CVT_kStringList = 5"
| "value_type_code CVT_kDoubleList = 6"
| "value_type_code CVT_kUnset = 7"

definition value_type_of :: "u8 \<Rightarrow> ConfigValueType option" where
  "value_type_of b = List.find (\<lambda>x. value_type_code x = b)
     [CVT_kBool, CVT_kInt64, CVT_kDouble, CVT_kString, CVT_kStringList, CVT_kDoubleList,
     CVT_kUnset]"

definition valid_value_type :: "u8 \<Rightarrow> bool" where
  "valid_value_type value \<longleftrightarrow> value \<ge> value_type_code CVT_kBool \<and> value \<le> value_type_code CVT_kUnset"

datatype ConfigServiceStatus = CSS_kOk | CSS_kNotFound | CSS_kUnsupported | CSS_kUnauthenticated | CSS_kUnauthorized |
  CSS_kConflict | CSS_kInvalid | CSS_kUnsafeState | CSS_kInternalError

fun config_status_code :: "ConfigServiceStatus \<Rightarrow> u8" where
  "config_status_code CSS_kOk = 0"
| "config_status_code CSS_kNotFound = 1"
| "config_status_code CSS_kUnsupported = 2"
| "config_status_code CSS_kUnauthenticated = 3"
| "config_status_code CSS_kUnauthorized = 4"
| "config_status_code CSS_kConflict = 5"
| "config_status_code CSS_kInvalid = 6"
| "config_status_code CSS_kUnsafeState = 7"
| "config_status_code CSS_kInternalError = 8"

definition config_status_of :: "u8 \<Rightarrow> ConfigServiceStatus option" where
  "config_status_of b = List.find (\<lambda>x. config_status_code x = b)
     [CSS_kOk, CSS_kNotFound, CSS_kUnsupported, CSS_kUnauthenticated, CSS_kUnauthorized,
     CSS_kConflict, CSS_kInvalid, CSS_kUnsafeState, CSS_kInternalError]"

definition valid_status :: "u8 \<Rightarrow> bool" where
  "valid_status value \<longleftrightarrow> value \<le> config_status_code CSS_kInternalError"

datatype ConfigApplyRequirement = CAR_kNone | CAR_kComponentRestart | CAR_kEndpointRestart | CAR_kDeviceReboot | CAR_kManual

fun requirement_code :: "ConfigApplyRequirement \<Rightarrow> u8" where
  "requirement_code CAR_kNone = 0"
| "requirement_code CAR_kComponentRestart = 1"
| "requirement_code CAR_kEndpointRestart = 2"
| "requirement_code CAR_kDeviceReboot = 3"
| "requirement_code CAR_kManual = 4"

definition requirement_of :: "u8 \<Rightarrow> ConfigApplyRequirement option" where
  "requirement_of b = List.find (\<lambda>x. requirement_code x = b)
     [CAR_kNone, CAR_kComponentRestart, CAR_kEndpointRestart, CAR_kDeviceReboot, CAR_kManual]"

definition valid_requirement :: "u8 \<Rightarrow> bool" where
  "valid_requirement value \<longleftrightarrow> value \<le> requirement_code CAR_kManual"

datatype ConfigApplyOutcome = CAO_kApplied | CAO_kRestartScheduled | CAO_kManualActionRequired | CAO_kFailed

fun outcome_code :: "ConfigApplyOutcome \<Rightarrow> u8" where
  "outcome_code CAO_kApplied = 1"
| "outcome_code CAO_kRestartScheduled = 2"
| "outcome_code CAO_kManualActionRequired = 3"
| "outcome_code CAO_kFailed = 4"

definition outcome_of :: "u8 \<Rightarrow> ConfigApplyOutcome option" where
  "outcome_of b = List.find (\<lambda>x. outcome_code x = b)
     [CAO_kApplied, CAO_kRestartScheduled, CAO_kManualActionRequired, CAO_kFailed]"

definition valid_outcome :: "u8 \<Rightarrow> bool" where
  "valid_outcome value \<longleftrightarrow> value \<ge> outcome_code CAO_kApplied \<and> value \<le> outcome_code CAO_kFailed"

datatype ConfigFieldUpdatePolicy = CUP_kHotReload | CUP_kComponentRestart | CUP_kEndpointRestart | CUP_kDeviceReboot |
  CUP_kManual | CUP_kRebuildRequired

fun update_policy_code :: "ConfigFieldUpdatePolicy \<Rightarrow> u8" where
  "update_policy_code CUP_kHotReload = 0"
| "update_policy_code CUP_kComponentRestart = 1"
| "update_policy_code CUP_kEndpointRestart = 2"
| "update_policy_code CUP_kDeviceReboot = 3"
| "update_policy_code CUP_kManual = 4"
| "update_policy_code CUP_kRebuildRequired = 5"

definition update_policy_of :: "u8 \<Rightarrow> ConfigFieldUpdatePolicy option" where
  "update_policy_of b = List.find (\<lambda>x. update_policy_code x = b)
     [CUP_kHotReload, CUP_kComponentRestart, CUP_kEndpointRestart, CUP_kDeviceReboot,
     CUP_kManual, CUP_kRebuildRequired]"

definition valid_update_policy :: "u8 \<Rightarrow> bool" where
  "valid_update_policy value \<longleftrightarrow> value \<le> update_policy_code CUP_kRebuildRequired"

datatype ConfigVariantSource = CVS_kDefault | CVS_kActive

fun variant_source_code :: "ConfigVariantSource \<Rightarrow> u8" where
  "variant_source_code CVS_kDefault = 1"
| "variant_source_code CVS_kActive = 2"

definition variant_source_of :: "u8 \<Rightarrow> ConfigVariantSource option" where
  "variant_source_of b = List.find (\<lambda>x. variant_source_code x = b)
     [CVS_kDefault, CVS_kActive]"

definition valid_variant_source :: "u8 \<Rightarrow> bool" where
  "valid_variant_source value \<longleftrightarrow> value \<ge> variant_source_code CVS_kDefault \<and> value \<le> variant_source_code CVS_kActive"

text \<open>The type of a schema field cannot be \<open>kUnset\<close>.\<close>

definition valid_schema_value_type :: "u8 \<Rightarrow> bool" where
  "valid_schema_value_type value \<longleftrightarrow> value \<ge> value_type_code CVT_kBool \<and> value \<le> value_type_code CVT_kDoubleList"

section \<open>Values\<close>

record ConfigValue =
  cv_type :: ConfigValueType
  cv_bool :: bool
  cv_int64 :: "64 word"
  cv_double :: u64
  cv_string :: string
  cv_string_list :: "string list"
  cv_double_list :: "u64 list"

definition default_value :: ConfigValue where
  "default_value = \<lparr>cv_type = CVT_kString, cv_bool = False, cv_int64 = 0, cv_double = 0, cv_string = [],
     cv_string_list = [], cv_double_list = []\<rparr>"

definition from_bool :: "bool \<Rightarrow> ConfigValue" where
  "from_bool value = default_value\<lparr>cv_type := CVT_kBool, cv_bool := value\<rparr>"

definition from_int64 :: "64 word \<Rightarrow> ConfigValue" where
  "from_int64 value = default_value\<lparr>cv_type := CVT_kInt64, cv_int64 := value\<rparr>"

definition from_double :: "u64 \<Rightarrow> ConfigValue" where
  "from_double value = default_value\<lparr>cv_type := CVT_kDouble, cv_double := value\<rparr>"

definition from_string :: "string \<Rightarrow> ConfigValue" where
  "from_string value = default_value\<lparr>cv_type := CVT_kString, cv_string := value\<rparr>"

definition from_string_list :: "string list \<Rightarrow> ConfigValue" where
  "from_string_list value = default_value\<lparr>cv_type := CVT_kStringList, cv_string_list := value\<rparr>"

definition from_double_list :: "u64 list \<Rightarrow> ConfigValue" where
  "from_double_list value = default_value\<lparr>cv_type := CVT_kDoubleList, cv_double_list := value\<rparr>"

definition write_finite :: "u64 \<Rightarrow> BufferWriter \<Rightarrow> BufferWriter" where
  "write_finite item w = (if \<not> isfinite item then w_invalid w else bw_double item w)"

definition write_value :: "ConfigValue \<Rightarrow> BufferWriter \<Rightarrow> BufferWriter" where
  "write_value value w =
     (let w = bw_u8 (value_type_code (cv_type value)) w in
      case cv_type value of
        CVT_kBool \<Rightarrow> bw_bool (cv_bool value) w
      | CVT_kInt64 \<Rightarrow> bw_u64 (cv_int64 value) w
      | CVT_kDouble \<Rightarrow> write_finite (cv_double value) w
      | CVT_kString \<Rightarrow> bw_string (cv_string value) w
      | CVT_kStringList \<Rightarrow> write_strings (cv_string_list value) w
      | CVT_kDoubleList \<Rightarrow> write_vector write_finite (cv_double_list value) w
      | CVT_kUnset \<Rightarrow> w)"

definition read_finite :: "BufferReader \<Rightarrow> (u64 \<times> BufferReader) option" where
  "read_finite r = do { (item, r) \<leftarrow> br_double r; if isfinite item then Some (item, r) else None }"

definition read_value :: "BufferReader \<Rightarrow> (ConfigValue \<times> BufferReader) option" where
  "read_value r = do {
     (raw, r) \<leftarrow> br_u8 r;
     if \<not> valid_value_type raw then None else do {
     type \<leftarrow> value_type_of raw;
     case type of
       CVT_kBool \<Rightarrow> do { (v, r) \<leftarrow> br_bool r; Some (default_value\<lparr>cv_type := type, cv_bool := v\<rparr>, r) }
     | CVT_kInt64 \<Rightarrow> do { (v, r) \<leftarrow> br_u64 r; Some (default_value\<lparr>cv_type := type, cv_int64 := v\<rparr>, r) }
     | CVT_kDouble \<Rightarrow> do { (v, r) \<leftarrow> read_finite r; Some (default_value\<lparr>cv_type := type, cv_double := v\<rparr>, r) }
     | CVT_kString \<Rightarrow> do { (v, r) \<leftarrow> br_string r; Some (default_value\<lparr>cv_type := type, cv_string := v\<rparr>, r) }
     | CVT_kStringList \<Rightarrow> do { (v, r) \<leftarrow> read_strings r; Some (default_value\<lparr>cv_type := type, cv_string_list := v\<rparr>, r) }
     | CVT_kDoubleList \<Rightarrow> do {
         (v, r) \<leftarrow> read_vector read_finite r;
         Some (default_value\<lparr>cv_type := type, cv_double_list := v\<rparr>, r) }
     | CVT_kUnset \<Rightarrow> Some (default_value\<lparr>cv_type := type\<rparr>, r) } }"

section \<open>Structures\<close>

record ConfigResourceDescriptor =
  crd_id :: string
  crd_title :: string
  crd_description :: string
  crd_readable :: bool
  crd_writable :: bool
  crd_apply_supported :: bool
  crd_variants_supported :: bool

definition write_descriptor :: "ConfigResourceDescriptor \<Rightarrow> BufferWriter \<Rightarrow> BufferWriter" where
  "write_descriptor v = in_order
    [bw_string (crd_id v), bw_string (crd_title v), bw_string (crd_description v),
     bw_bool (crd_readable v), bw_bool (crd_writable v), bw_bool (crd_apply_supported v),
     bw_bool (crd_variants_supported v)]"

definition read_descriptor :: "BufferReader \<Rightarrow> (ConfigResourceDescriptor \<times> BufferReader) option" where
  "read_descriptor r = do {
     (id_v, r) \<leftarrow> br_string r;
     (title_v, r) \<leftarrow> br_string r;
     (description_v, r) \<leftarrow> br_string r;
     (readable_v, r) \<leftarrow> br_bool r;
     (writable_v, r) \<leftarrow> br_bool r;
     (apply_supported_v, r) \<leftarrow> br_bool r;
     (variants_supported_v, r) \<leftarrow> br_bool r;
     Some (\<lparr>crd_id = id_v, crd_title = title_v, crd_description = description_v,
        crd_readable = readable_v, crd_writable = writable_v,
        crd_apply_supported = apply_supported_v, crd_variants_supported = variants_supported_v\<rparr>, r) }"

record ConfigChoice =
  cc_value :: ConfigValue
  cc_label :: string

definition write_choice :: "ConfigChoice \<Rightarrow> BufferWriter \<Rightarrow> BufferWriter" where
  "write_choice v = in_order
    [write_value (cc_value v), bw_string (cc_label v)]"

definition read_choice :: "BufferReader \<Rightarrow> (ConfigChoice \<times> BufferReader) option" where
  "read_choice r = do {
     (value_v, r) \<leftarrow> read_value r;
     (label_v, r) \<leftarrow> br_string r;
     Some (\<lparr>cc_value = value_v, cc_label = label_v\<rparr>, r) }"

record ConfigFieldValue =
  cfv_path :: string
  cfv_value :: ConfigValue

definition write_field_value :: "ConfigFieldValue \<Rightarrow> BufferWriter \<Rightarrow> BufferWriter" where
  "write_field_value v = in_order
    [bw_string (cfv_path v), write_value (cfv_value v)]"

definition read_field_value :: "BufferReader \<Rightarrow> (ConfigFieldValue \<times> BufferReader) option" where
  "read_field_value r = do {
     (path_v, r) \<leftarrow> br_string r;
     (value_v, r) \<leftarrow> read_value r;
     Some (\<lparr>cfv_path = path_v, cfv_value = value_v\<rparr>, r) }"

record ConfigSnapshot =
  csn_resource_id :: string
  csn_revision :: string
  csn_applied_revision :: string
  csn_variant_id :: string
  csn_active_variant_id :: string
  csn_values :: "ConfigFieldValue list"
  csn_user_overridden_paths :: "string list"

definition write_snapshot :: "ConfigSnapshot \<Rightarrow> BufferWriter \<Rightarrow> BufferWriter" where
  "write_snapshot v = in_order
    [bw_string (csn_resource_id v), bw_string (csn_revision v),
     bw_string (csn_applied_revision v), bw_string (csn_variant_id v),
     bw_string (csn_active_variant_id v), write_vector write_field_value (csn_values v),
     write_strings (csn_user_overridden_paths v)]"

definition read_snapshot :: "BufferReader \<Rightarrow> (ConfigSnapshot \<times> BufferReader) option" where
  "read_snapshot r = do {
     (resource_id_v, r) \<leftarrow> br_string r;
     (revision_v, r) \<leftarrow> br_string r;
     (applied_revision_v, r) \<leftarrow> br_string r;
     (variant_id_v, r) \<leftarrow> br_string r;
     (active_variant_id_v, r) \<leftarrow> br_string r;
     (values_v, r) \<leftarrow> read_vector read_field_value r;
     (user_overridden_paths_v, r) \<leftarrow> read_strings r;
     Some (\<lparr>csn_resource_id = resource_id_v, csn_revision = revision_v,
        csn_applied_revision = applied_revision_v, csn_variant_id = variant_id_v,
        csn_active_variant_id = active_variant_id_v, csn_values = values_v,
        csn_user_overridden_paths = user_overridden_paths_v\<rparr>, r) }"

record ConfigVariantDescriptor =
  cvd_id :: string
  cvd_title :: string
  cvd_revision :: string
  cvd_modified_at_ns :: u64
  cvd_active :: bool
  cvd_mutable_variant :: bool

definition write_variant :: "ConfigVariantDescriptor \<Rightarrow> BufferWriter \<Rightarrow> BufferWriter" where
  "write_variant v = in_order
    [bw_string (cvd_id v), bw_string (cvd_title v), bw_string (cvd_revision v),
     bw_u64 (cvd_modified_at_ns v), bw_bool (cvd_active v), bw_bool (cvd_mutable_variant v)]"

definition read_variant :: "BufferReader \<Rightarrow> (ConfigVariantDescriptor \<times> BufferReader) option" where
  "read_variant r = do {
     (id_v, r) \<leftarrow> br_string r;
     (title_v, r) \<leftarrow> br_string r;
     (revision_v, r) \<leftarrow> br_string r;
     (modified_at_ns_v, r) \<leftarrow> br_u64 r;
     (active_v, r) \<leftarrow> br_bool r;
     (mutable_variant_v, r) \<leftarrow> br_bool r;
     Some (\<lparr>cvd_id = id_v, cvd_title = title_v, cvd_revision = revision_v,
        cvd_modified_at_ns = modified_at_ns_v, cvd_active = active_v,
        cvd_mutable_variant = mutable_variant_v\<rparr>, r) }"

record ConfigFieldError =
  cfe_path :: string
  cfe_code :: string
  cfe_message :: string

definition write_field_error :: "ConfigFieldError \<Rightarrow> BufferWriter \<Rightarrow> BufferWriter" where
  "write_field_error v = in_order
    [bw_string (cfe_path v), bw_string (cfe_code v), bw_string (cfe_message v)]"

definition read_field_error :: "BufferReader \<Rightarrow> (ConfigFieldError \<times> BufferReader) option" where
  "read_field_error r = do {
     (path_v, r) \<leftarrow> br_string r;
     (code_v, r) \<leftarrow> br_string r;
     (message_v, r) \<leftarrow> br_string r;
     Some (\<lparr>cfe_path = path_v, cfe_code = code_v, cfe_message = message_v\<rparr>, r) }"

record ConfigEffects =
  ce_requirement :: ConfigApplyRequirement
  ce_affected_components :: "string list"
  ce_reconnect_expected :: bool

definition write_effects :: "ConfigEffects \<Rightarrow> BufferWriter \<Rightarrow> BufferWriter" where
  "write_effects v = in_order
    [bw_u8 (requirement_code (ce_requirement v)), write_strings (ce_affected_components v),
     bw_bool (ce_reconnect_expected v)]"

definition read_effects :: "BufferReader \<Rightarrow> (ConfigEffects \<times> BufferReader) option" where
  "read_effects r = do {
     (requirement_raw, r) \<leftarrow> br_u8 r;
     if \<not> valid_requirement requirement_raw then None else do {
     requirement_v \<leftarrow> requirement_of requirement_raw;
     (affected_components_v, r) \<leftarrow> read_strings r;
     (reconnect_expected_v, r) \<leftarrow> br_bool r;
     Some (\<lparr>ce_requirement = requirement_v, ce_affected_components = affected_components_v,
        ce_reconnect_expected = reconnect_expected_v\<rparr>, r) } }"

record ConfigFieldSchema =
  cfs_path :: string
  cfs_title :: string
  cfs_description :: string
  cfs_type :: ConfigValueType
  cfs_required :: bool
  cfs_read_only :: bool
  cfs_sensitive :: bool
  cfs_has_minimum :: bool
  cfs_minimum :: u64
  cfs_has_maximum :: bool
  cfs_maximum :: u64
  cfs_validation_pattern :: string
  cfs_choices :: "ConfigChoice list"
  cfs_group_path :: string
  cfs_update_policy :: ConfigFieldUpdatePolicy
  cfs_unit :: string
  cfs_default_value :: ConfigValue
  cfs_has_default_value :: bool
  cfs_advanced :: bool

definition write_schema :: "ConfigFieldSchema \<Rightarrow> BufferWriter \<Rightarrow> BufferWriter" where
  "write_schema v = in_order
    [bw_string (cfs_path v), bw_string (cfs_title v), bw_string (cfs_description v),
     bw_u8 (value_type_code (cfs_type v)), bw_bool (cfs_required v), bw_bool (cfs_read_only v),
     bw_bool (cfs_sensitive v), bw_bool (cfs_has_minimum v), bw_double (cfs_minimum v),
     bw_bool (cfs_has_maximum v), bw_double (cfs_maximum v), bw_string (cfs_validation_pattern v),
     write_vector write_choice (cfs_choices v), bw_string (cfs_group_path v),
     bw_u8 (update_policy_code (cfs_update_policy v)), bw_string (cfs_unit v),
     bw_bool (cfs_has_default_value v),
     (if cfs_has_default_value v then write_value (cfs_default_value v) else (\<lambda>w. w)),
     bw_bool (cfs_advanced v)]"

definition read_schema :: "BufferReader \<Rightarrow> (ConfigFieldSchema \<times> BufferReader) option" where
  "read_schema r = do {
     (path, r) \<leftarrow> br_string r;
     (title, r) \<leftarrow> br_string r;
     (description, r) \<leftarrow> br_string r;
     (type_raw, r) \<leftarrow> br_u8 r;
     if \<not> valid_schema_value_type type_raw then None else do {
     type \<leftarrow> value_type_of type_raw;
     (required, r) \<leftarrow> br_bool r;
     (read_only, r) \<leftarrow> br_bool r;
     (sensitive, r) \<leftarrow> br_bool r;
     (has_minimum, r) \<leftarrow> br_bool r;
     (minimum, r) \<leftarrow> br_double r;
     (has_maximum, r) \<leftarrow> br_bool r;
     (maximum, r) \<leftarrow> br_double r;
     (validation_pattern, r) \<leftarrow> br_string r;
     (choices, r) \<leftarrow> read_vector read_choice r;
     (group_path, r) \<leftarrow> br_string r;
     (policy_raw, r) \<leftarrow> br_u8 r;
     (unit, r) \<leftarrow> br_string r;
     if \<not> isfinite minimum \<or> \<not> isfinite maximum \<or> \<not> valid_update_policy policy_raw then None else do {
     policy \<leftarrow> update_policy_of policy_raw;
     (has_default_value, r) \<leftarrow> br_bool r;
     (dflt, r) \<leftarrow> (if has_default_value then read_value r else Some (default_value, r));
     (advanced, r) \<leftarrow> br_bool r;
     Some (\<lparr>cfs_path = path, cfs_title = title, cfs_description = description, cfs_type = type,
        cfs_required = required, cfs_read_only = read_only, cfs_sensitive = sensitive,
        cfs_has_minimum = has_minimum, cfs_minimum = minimum, cfs_has_maximum = has_maximum,
        cfs_maximum = maximum, cfs_validation_pattern = validation_pattern, cfs_choices = choices,
        cfs_group_path = group_path, cfs_update_policy = policy, cfs_unit = unit,
        cfs_default_value = dflt, cfs_has_default_value = has_default_value,
        cfs_advanced = advanced\<rparr>, r) } } }"

definition write_status :: "ConfigServiceStatus \<Rightarrow> string \<Rightarrow> BufferWriter \<Rightarrow> BufferWriter" where
  "write_status status message w = bw_string message (bw_u8 (config_status_code status) w)"

definition read_status :: "BufferReader \<Rightarrow> ((ConfigServiceStatus \<times> string) \<times> BufferReader) option" where
  "read_status r = do {
     (raw, r) \<leftarrow> br_u8 r;
     if \<not> valid_status raw then None else do {
     (message, r) \<leftarrow> br_string r;
     status \<leftarrow> config_status_of raw;
     Some ((status, message), r) } }"

section \<open>The field codecs\<close>

definition string_ok :: "string \<Rightarrow> bool" where
  "string_ok value \<longleftrightarrow> length value \<le> kMaxCoreStringBytes"

definition vector_ok :: "('a \<Rightarrow> bool) \<Rightarrow> 'a list \<Rightarrow> bool" where
  "vector_ok ok values \<longleftrightarrow> length values \<le> kMaxConfigItems \<and> list_all ok values"

interpretation b_u8: field_codec w_emit reader_at bw_u8 br_u8 "\<lambda>v. [v]" "\<lambda>_. True"
  by unfold_locales (simp_all add: bw_u8_def br_u8_def codec_laws)

interpretation b_bool: field_codec w_emit reader_at bw_bool br_bool enc_flag "\<lambda>_. True"
  by unfold_locales (simp_all add: bw_bool_def br_bool_def bw_u8_def br_u8_def enc_flag_def codec_laws)

interpretation b_u16: field_codec w_emit reader_at bw_u16 br_u16 "le_bytes 2" "\<lambda>_. True"
  by unfold_locales (simp_all add: bw_u16_def br_u16_def codec_laws)

interpretation b_u64: field_codec w_emit reader_at bw_u64 br_u64 "le_bytes 8" "\<lambda>_. True"
  by unfold_locales (simp_all add: bw_u64_def br_u64_def codec_laws)

interpretation b_double: field_codec w_emit reader_at bw_double br_double "le_bytes 8" "\<lambda>_. True"
  by unfold_locales (simp_all add: bw_double_def br_double_def b_u64.wr_ok b_u64.rd_enc)

interpretation b_finite: field_codec w_emit reader_at write_finite read_finite "le_bytes 8" isfinite
  by unfold_locales (simp_all add: write_finite_def read_finite_def b_double.wr_ok b_double.rd_enc)

interpretation b_string: field_codec w_emit reader_at bw_string br_string enc_text string_ok
proof unfold_locales
  fix x w assume "string_ok x"
  then show "bw_string x w = w_emit (enc_text x) w"
    by (simp add: bw_string_def string_ok_def enc_text_def b_u16.wr_ok core_stream.emit_emit)
next
  fix x pre post assume "string_ok x"
  then have "text_ok x" by (simp add: string_ok_def text_ok_def kMaxCoreStringBytes_def)
  then show "br_string (reader_at pre (enc_text x @ post)) = Some (x, reader_at (pre @ enc_text x) post)"
    by (simp add: br_string_def c_text.rd_enc)
qed

lemma vector_codec:
  assumes "field_codec w_emit reader_at wr rd enc ok"
  shows "field_codec w_emit reader_at (write_vector wr) (read_vector rd) (enc_list enc) (vector_ok ok)"
proof unfold_locales
  show "write_vector wr x w = w_emit (enc_list enc x) w" if "vector_ok ok x" for x w
    using that by (simp add: write_vector_def vector_ok_def enc_list_def b_u16.wr_ok
        field_codec.fold_wr[OF assms] core_stream.emit_emit)
  show "read_vector rd (reader_at pre (enc_list enc x @ post)) =
          Some (x, reader_at (pre @ enc_list enc x) post)" if "vector_ok ok x" for x pre post
    using that by (simp add: read_vector_def vector_ok_def kMaxConfigItems_def enc_list_def
        b_u16.rd_enc field_codec.read_n_enc[OF assms])
qed

interpretation b_strings: field_codec w_emit reader_at write_strings read_strings
  "enc_list enc_text" "vector_ok string_ok"
  unfolding write_strings_def read_strings_def
  by (rule vector_codec) (rule b_string.field_codec_axioms)

interpretation b_finites: field_codec w_emit reader_at "write_vector write_finite"
  "read_vector read_finite" "enc_list (le_bytes 8)" "vector_ok isfinite"
  by (rule vector_codec) (rule b_finite.field_codec_axioms)

lemmas config_wr = b_u8.wr_ok b_bool.wr_ok b_u64.wr_ok b_double.wr_ok b_finite.wr_ok b_string.wr_ok
  b_strings.wr_ok b_finites.wr_ok

lemmas config_rd = b_bool.rd_enc b_u64.rd_enc b_double.rd_enc b_finite.rd_enc b_string.rd_enc
  b_strings.rd_enc b_finites.rd_enc b_bool.rd_enc_end b_u64.rd_enc_end b_double.rd_enc_end
  b_finite.rd_enc_end b_string.rd_enc_end b_strings.rd_enc_end b_finites.rd_enc_end

lemma br_u8_Cons: "br_u8 (reader_at pre (x # post)) = Some (x, reader_at (pre @ [x]) post)"
  using b_u8.rd_enc[where x=x and pre=pre and post=post] by simp

text \<open>Every enumerator has a valid code and is found again under it.\<close>

lemma value_type_code_rt: "value_type_of (value_type_code x) = Some x \<and> valid_value_type (value_type_code x)"
  by (cases x) (simp_all add: value_type_of_def valid_value_type_def word_le_nat_alt)

lemma config_status_code_rt: "config_status_of (config_status_code x) = Some x \<and> valid_status (config_status_code x)"
  by (cases x) (simp_all add: config_status_of_def valid_status_def word_le_nat_alt)

lemma requirement_code_rt: "requirement_of (requirement_code x) = Some x \<and> valid_requirement (requirement_code x)"
  by (cases x) (simp_all add: requirement_of_def valid_requirement_def word_le_nat_alt)

lemma outcome_code_rt: "outcome_of (outcome_code x) = Some x \<and> valid_outcome (outcome_code x)"
  by (cases x) (simp_all add: outcome_of_def valid_outcome_def word_le_nat_alt)

lemma update_policy_code_rt: "update_policy_of (update_policy_code x) = Some x \<and> valid_update_policy (update_policy_code x)"
  by (cases x) (simp_all add: update_policy_of_def valid_update_policy_def word_le_nat_alt)

lemma variant_source_code_rt: "variant_source_of (variant_source_code x) = Some x \<and> valid_variant_source (variant_source_code x)"
  by (cases x) (simp_all add: variant_source_of_def valid_variant_source_def word_le_nat_alt)

lemma schema_type_rt: "valid_schema_value_type (value_type_code x) \<longleftrightarrow> x \<noteq> CVT_kUnset"
  by (cases x) (simp_all add: valid_schema_value_type_def word_le_nat_alt)

lemmas config_enum = value_type_code_rt config_status_code_rt requirement_code_rt outcome_code_rt
  update_policy_code_rt variant_source_code_rt schema_type_rt

text \<open>
  A value is within the limits when the member its type selects is; it is read back as itself when the
  other members are those of a fresh value, which is how the \<open>from_*\<close> functions build it.
\<close>

definition value_fits :: "ConfigValue \<Rightarrow> bool" where
  "value_fits v \<longleftrightarrow> (case cv_type v of
       CVT_kDouble \<Rightarrow> isfinite (cv_double v)
     | CVT_kString \<Rightarrow> string_ok (cv_string v)
     | CVT_kStringList \<Rightarrow> vector_ok string_ok (cv_string_list v)
     | CVT_kDoubleList \<Rightarrow> vector_ok isfinite (cv_double_list v)
     | _ \<Rightarrow> True)"

definition value_plain :: "ConfigValue \<Rightarrow> bool" where
  "value_plain v \<longleftrightarrow> v = (case cv_type v of
       CVT_kBool \<Rightarrow> from_bool (cv_bool v)
     | CVT_kInt64 \<Rightarrow> from_int64 (cv_int64 v)
     | CVT_kDouble \<Rightarrow> from_double (cv_double v)
     | CVT_kString \<Rightarrow> from_string (cv_string v)
     | CVT_kStringList \<Rightarrow> from_string_list (cv_string_list v)
     | CVT_kDoubleList \<Rightarrow> from_double_list (cv_double_list v)
     | CVT_kUnset \<Rightarrow> default_value\<lparr>cv_type := CVT_kUnset\<rparr>)"

definition value_ok :: "ConfigValue \<Rightarrow> bool" where
  "value_ok v \<longleftrightarrow> value_fits v \<and> value_plain v"

definition enc_value :: "ConfigValue \<Rightarrow> bytes" where
  "enc_value v = value_type_code (cv_type v) # (case cv_type v of
       CVT_kBool \<Rightarrow> enc_flag (cv_bool v)
     | CVT_kInt64 \<Rightarrow> le_bytes 8 (cv_int64 v)
     | CVT_kDouble \<Rightarrow> le_bytes 8 (cv_double v)
     | CVT_kString \<Rightarrow> enc_text (cv_string v)
     | CVT_kStringList \<Rightarrow> enc_list enc_text (cv_string_list v)
     | CVT_kDoubleList \<Rightarrow> enc_list (le_bytes 8) (cv_double_list v)
     | CVT_kUnset \<Rightarrow> [])"

lemmas from_defs = from_bool_def from_int64_def from_double_def from_string_def from_string_list_def
  from_double_list_def

interpretation b_value: field_codec w_emit reader_at write_value read_value enc_value value_ok
proof unfold_locales
  fix v w assume "value_ok v"
  then show "write_value v w = w_emit (enc_value v) w"
    by (cases "cv_type v")
      (simp_all add: write_value_def enc_value_def value_ok_def value_fits_def config_wr w_emit_emit)
next
  fix v pre post assume "value_ok v"
  then show "read_value (reader_at pre (enc_value v @ post)) =
               Some (v, reader_at (pre @ enc_value v) post)"
    by (cases "cv_type v")
      (simp_all del: value_type_code.simps
        add: read_value_def enc_value_def value_ok_def value_fits_def value_plain_def
        br_u8_Cons config_rd config_enum from_defs)
qed

section \<open>The structures\<close>

definition descriptor_ok :: "ConfigResourceDescriptor \<Rightarrow> bool" where
  "descriptor_ok v \<longleftrightarrow> string_ok (crd_id v) \<and> string_ok (crd_title v) \<and> string_ok (crd_description v)"

definition enc_descriptor :: "ConfigResourceDescriptor \<Rightarrow> bytes" where
  "enc_descriptor v = enc_text (crd_id v) @ enc_text (crd_title v) @ enc_text (crd_description v) @
     enc_flag (crd_readable v) @ enc_flag (crd_writable v) @ enc_flag (crd_apply_supported v) @
     enc_flag (crd_variants_supported v)"

interpretation b_descriptor: field_codec w_emit reader_at write_descriptor read_descriptor enc_descriptor descriptor_ok
  by unfold_locales
    (simp_all add: write_descriptor_def read_descriptor_def enc_descriptor_def
      descriptor_ok_def in_order_simps w_emit_emit config_wr config_rd config_enum br_u8_Cons)

interpretation b_descriptors: field_codec w_emit reader_at "write_vector write_descriptor"
  "read_vector read_descriptor" "enc_list enc_descriptor" "vector_ok descriptor_ok"
  by (rule vector_codec) (rule b_descriptor.field_codec_axioms)

definition choice_ok :: "ConfigChoice \<Rightarrow> bool" where
  "choice_ok v \<longleftrightarrow> value_ok (cc_value v) \<and> string_ok (cc_label v)"

definition enc_choice :: "ConfigChoice \<Rightarrow> bytes" where
  "enc_choice v = enc_value (cc_value v) @ enc_text (cc_label v)"

interpretation b_choice: field_codec w_emit reader_at write_choice read_choice enc_choice choice_ok
  by unfold_locales
    (simp_all add: write_choice_def read_choice_def enc_choice_def choice_ok_def in_order_simps
      w_emit_emit config_wr config_rd config_enum br_u8_Cons b_value.wr_ok b_value.rd_enc)

interpretation b_choices: field_codec w_emit reader_at "write_vector write_choice"
  "read_vector read_choice" "enc_list enc_choice" "vector_ok choice_ok"
  by (rule vector_codec) (rule b_choice.field_codec_axioms)

definition field_value_ok :: "ConfigFieldValue \<Rightarrow> bool" where
  "field_value_ok v \<longleftrightarrow> string_ok (cfv_path v) \<and> value_ok (cfv_value v)"

definition enc_field_value :: "ConfigFieldValue \<Rightarrow> bytes" where
  "enc_field_value v = enc_text (cfv_path v) @ enc_value (cfv_value v)"

interpretation b_field_value: field_codec w_emit reader_at write_field_value read_field_value enc_field_value field_value_ok
  by unfold_locales
    (simp_all add: write_field_value_def read_field_value_def enc_field_value_def
      field_value_ok_def in_order_simps w_emit_emit config_wr config_rd config_enum br_u8_Cons
      b_value.wr_ok b_value.rd_enc)

interpretation b_field_values: field_codec w_emit reader_at "write_vector write_field_value"
  "read_vector read_field_value" "enc_list enc_field_value" "vector_ok field_value_ok"
  by (rule vector_codec) (rule b_field_value.field_codec_axioms)

definition snapshot_ok :: "ConfigSnapshot \<Rightarrow> bool" where
  "snapshot_ok v \<longleftrightarrow> string_ok (csn_resource_id v) \<and> string_ok (csn_revision v) \<and>
     string_ok (csn_applied_revision v) \<and> string_ok (csn_variant_id v) \<and>
     string_ok (csn_active_variant_id v) \<and> vector_ok field_value_ok (csn_values v) \<and>
     vector_ok string_ok (csn_user_overridden_paths v)"

definition enc_snapshot :: "ConfigSnapshot \<Rightarrow> bytes" where
  "enc_snapshot v = enc_text (csn_resource_id v) @ enc_text (csn_revision v) @
     enc_text (csn_applied_revision v) @ enc_text (csn_variant_id v) @
     enc_text (csn_active_variant_id v) @ enc_list enc_field_value (csn_values v) @
     enc_list enc_text (csn_user_overridden_paths v)"

interpretation b_snapshot: field_codec w_emit reader_at write_snapshot read_snapshot enc_snapshot snapshot_ok
  by unfold_locales
    (simp_all add: write_snapshot_def read_snapshot_def enc_snapshot_def snapshot_ok_def
      in_order_simps w_emit_emit config_wr config_rd config_enum br_u8_Cons b_field_values.wr_ok
      b_field_values.rd_enc)

definition variant_ok :: "ConfigVariantDescriptor \<Rightarrow> bool" where
  "variant_ok v \<longleftrightarrow> string_ok (cvd_id v) \<and> string_ok (cvd_title v) \<and> string_ok (cvd_revision v)"

definition enc_variant :: "ConfigVariantDescriptor \<Rightarrow> bytes" where
  "enc_variant v = enc_text (cvd_id v) @ enc_text (cvd_title v) @ enc_text (cvd_revision v) @
     le_bytes 8 (cvd_modified_at_ns v) @ enc_flag (cvd_active v) @
     enc_flag (cvd_mutable_variant v)"

interpretation b_variant: field_codec w_emit reader_at write_variant read_variant enc_variant variant_ok
  by unfold_locales
    (simp_all add: write_variant_def read_variant_def enc_variant_def variant_ok_def
      in_order_simps w_emit_emit config_wr config_rd config_enum br_u8_Cons)

interpretation b_variants: field_codec w_emit reader_at "write_vector write_variant"
  "read_vector read_variant" "enc_list enc_variant" "vector_ok variant_ok"
  by (rule vector_codec) (rule b_variant.field_codec_axioms)

definition field_error_ok :: "ConfigFieldError \<Rightarrow> bool" where
  "field_error_ok v \<longleftrightarrow> string_ok (cfe_path v) \<and> string_ok (cfe_code v) \<and> string_ok (cfe_message v)"

definition enc_field_error :: "ConfigFieldError \<Rightarrow> bytes" where
  "enc_field_error v = enc_text (cfe_path v) @ enc_text (cfe_code v) @ enc_text (cfe_message v)"

interpretation b_field_error: field_codec w_emit reader_at write_field_error read_field_error enc_field_error field_error_ok
  by unfold_locales
    (simp_all add: write_field_error_def read_field_error_def enc_field_error_def
      field_error_ok_def in_order_simps w_emit_emit config_wr config_rd config_enum br_u8_Cons)

interpretation b_field_errors: field_codec w_emit reader_at "write_vector write_field_error"
  "read_vector read_field_error" "enc_list enc_field_error" "vector_ok field_error_ok"
  by (rule vector_codec) (rule b_field_error.field_codec_axioms)

definition effects_ok :: "ConfigEffects \<Rightarrow> bool" where
  "effects_ok v \<longleftrightarrow> vector_ok string_ok (ce_affected_components v)"

definition enc_effects :: "ConfigEffects \<Rightarrow> bytes" where
  "enc_effects v = [requirement_code (ce_requirement v)] @ enc_list enc_text (ce_affected_components v) @
     enc_flag (ce_reconnect_expected v)"

interpretation b_effects: field_codec w_emit reader_at write_effects read_effects enc_effects effects_ok
  by unfold_locales
    (simp_all add: write_effects_def read_effects_def enc_effects_def effects_ok_def
      in_order_simps w_emit_emit config_wr config_rd config_enum br_u8_Cons)

definition schema_ok :: "ConfigFieldSchema \<Rightarrow> bool" where
  "schema_ok v \<longleftrightarrow> string_ok (cfs_path v) \<and> string_ok (cfs_title v) \<and> string_ok (cfs_description v) \<and>
     cfs_type v \<noteq> CVT_kUnset \<and> isfinite (cfs_minimum v) \<and> isfinite (cfs_maximum v) \<and>
     string_ok (cfs_validation_pattern v) \<and> vector_ok choice_ok (cfs_choices v) \<and>
     string_ok (cfs_group_path v) \<and> string_ok (cfs_unit v) \<and>
     (if cfs_has_default_value v then value_ok (cfs_default_value v)
      else cfs_default_value v = default_value)"

definition enc_schema :: "ConfigFieldSchema \<Rightarrow> bytes" where
  "enc_schema v = enc_text (cfs_path v) @ enc_text (cfs_title v) @ enc_text (cfs_description v) @
     [value_type_code (cfs_type v)] @ enc_flag (cfs_required v) @ enc_flag (cfs_read_only v) @
     enc_flag (cfs_sensitive v) @ enc_flag (cfs_has_minimum v) @ le_bytes 8 (cfs_minimum v) @
     enc_flag (cfs_has_maximum v) @ le_bytes 8 (cfs_maximum v) @ enc_text (cfs_validation_pattern v) @
     enc_list enc_choice (cfs_choices v) @ enc_text (cfs_group_path v) @
     [update_policy_code (cfs_update_policy v)] @ enc_text (cfs_unit v) @
     enc_flag (cfs_has_default_value v) @
     (if cfs_has_default_value v then enc_value (cfs_default_value v) else []) @
     enc_flag (cfs_advanced v)"

interpretation b_schema: field_codec w_emit reader_at write_schema read_schema enc_schema schema_ok
  by unfold_locales
    (simp_all add: write_schema_def read_schema_def enc_schema_def schema_ok_def in_order_simps
      w_emit_emit config_wr config_rd config_enum br_u8_Cons b_value.wr_ok b_value.rd_enc
      b_choices.wr_ok b_choices.rd_enc split: if_splits)

interpretation b_schemas: field_codec w_emit reader_at "write_vector write_schema"
  "read_vector read_schema" "enc_list enc_schema" "vector_ok schema_ok"
  by (rule vector_codec) (rule b_schema.field_codec_axioms)

definition enc_status :: "ConfigServiceStatus \<times> string \<Rightarrow> bytes" where
  "enc_status s = config_status_code (fst s) # enc_text (snd s)"

interpretation b_status: field_codec w_emit reader_at "\<lambda>s. write_status (fst s) (snd s)" read_status
  enc_status "\<lambda>s. string_ok (snd s)"
  by unfold_locales
    (simp_all add: write_status_def read_status_def enc_status_def w_emit_emit config_wr config_rd
      config_enum br_u8_Cons)

lemma write_status_ok: "string_ok message \<Longrightarrow>
    write_status status message w = w_emit (enc_status (status, message)) w"
  using b_status.wr_ok[where x="(status, message)"] by simp

lemma read_status_enc: "string_ok message \<Longrightarrow>
    read_status (reader_at pre (enc_status (status, message) @ post)) =
      Some ((status, message), reader_at (pre @ enc_status (status, message)) post)"
  using b_status.rd_enc[where x="(status, message)"] by simp

lemma read_status_enc_end: "string_ok message \<Longrightarrow>
    read_status (reader_at pre (enc_status (status, message))) =
      Some ((status, message), reader_at (pre @ enc_status (status, message)) [])"
  using b_status.rd_enc_end[where x="(status, message)"] by simp

lemma build_payload_emit: "(\<And>w. fn w = w_emit bs w) \<Longrightarrow> build_payload fn = bs"
  by (simp add: build_payload_def w_emit_def writer_init_def)

lemma parse_payload_at: "fn (reader_at [] bs) = Some (v, reader_at pre []) \<Longrightarrow> parse_payload bs fn = Some v"
  by (simp add: parse_payload_def reader_init_at)

section \<open>What the writer refuses\<close>

text \<open>
  A limited writer keeps a writer valid exactly when the value is within its limits; an invalid writer
  stays invalid whatever is written next, and \<open>build_payload\<close> then gives up the whole payload.
\<close>

locale limited_writer =
  fixes wr :: "'a \<Rightarrow> BufferWriter \<Rightarrow> BufferWriter" and fits :: "'a \<Rightarrow> bool"
  assumes wr_valid: "w_valid (wr x w) \<longleftrightarrow> w_valid w \<and> fits x"
    and wr_grows: "length (w_data w) \<le> length (w_data (wr x w))"
begin

lemma fold_wr_valid: "w_valid (fold wr xs w) \<longleftrightarrow> w_valid w \<and> list_all fits xs"
  by (induction xs arbitrary: w) (auto simp: wr_valid)

lemma fold_wr_grows: "length (w_data w) \<le> length (w_data (fold wr xs w))"
  by (induction xs arbitrary: w) (auto intro: order_trans[OF wr_grows])

end

lemma w_valid_simps [simp]: "w_valid (w_emit bs w) = w_valid w" "\<not> w_valid (w_invalid w)"
  "w_valid (bw_u8 b w) = w_valid w" "w_valid (bw_u16 h w) = w_valid w" "w_valid (bw_u64 q w) = w_valid w"
  "w_valid (bw_double q w) = w_valid w" "w_valid (bw_bool f w) = w_valid w"
  by (simp_all add: w_emit_def w_invalid_def config_wr b_u16.wr_ok)

lemma w_data_simps [simp]: "w_data (w_emit bs w) = w_data w @ bs" "w_data (w_invalid w) = w_data w"
  "w_data (bw_u8 b w) = w_data w @ [b]" "w_data (bw_u16 h w) = w_data w @ le_bytes 2 h"
  "w_data (bw_u64 q w) = w_data w @ le_bytes 8 q" "w_data (bw_double q w) = w_data w @ le_bytes 8 q"
  "w_data (bw_bool f w) = w_data w @ enc_flag f"
  by (simp_all add: w_emit_def w_invalid_def config_wr b_u16.wr_ok)

interpretation l_string: limited_writer bw_string string_ok
  by unfold_locales (simp_all add: bw_string_def string_ok_def)

interpretation l_finite: limited_writer write_finite isfinite
  by unfold_locales (simp_all add: write_finite_def)

lemma vector_limited:
  assumes "limited_writer wr fits"
  shows "limited_writer (write_vector wr) (vector_ok fits)"
proof
  show "w_valid (write_vector wr x w) \<longleftrightarrow> w_valid w \<and> vector_ok fits x" for x w
    by (simp add: write_vector_def vector_ok_def limited_writer.fold_wr_valid[OF assms])
  show "length (w_data w) \<le> length (w_data (write_vector wr x w))" for x w
    using limited_writer.fold_wr_grows[OF assms, of "bw_u16 (word_of_nat (length x)) w" x]
    by (simp add: write_vector_def)
qed

interpretation l_strings: limited_writer write_strings "vector_ok string_ok"
  unfolding write_strings_def by (rule vector_limited) (rule l_string.limited_writer_axioms)

interpretation l_finites: limited_writer "write_vector write_finite" "vector_ok isfinite"
  by (rule vector_limited) (rule l_finite.limited_writer_axioms)

interpretation l_value: limited_writer write_value value_fits
proof
  fix x w
  show "w_valid (write_value x w) \<longleftrightarrow> w_valid w \<and> value_fits x"
    by (simp add: write_value_def value_fits_def l_string.wr_valid l_strings.wr_valid l_finite.wr_valid
        l_finites.wr_valid split: ConfigValueType.splits)
  let ?w = "bw_u8 (value_type_code (cv_type x)) w"
  have "length (w_data w) \<le> length (w_data ?w)" by simp
  also have "\<dots> \<le> length (w_data (write_value x w))"
    by (simp add: write_value_def Let_def l_string.wr_grows l_strings.wr_grows l_finite.wr_grows
        l_finites.wr_grows del: w_data_simps(3) split: ConfigValueType.splits)
  finally show "length (w_data w) \<le> length (w_data (write_value x w))" .
qed

definition field_value_fits :: "ConfigFieldValue \<Rightarrow> bool" where
  "field_value_fits v \<longleftrightarrow> string_ok (cfv_path v) \<and> value_fits (cfv_value v)"

interpretation l_field_value: limited_writer write_field_value field_value_fits
  by unfold_locales
    (auto simp: write_field_value_def field_value_fits_def in_order_simps l_string.wr_valid
      l_value.wr_valid intro: order_trans[OF l_string.wr_grows] l_value.wr_grows)

interpretation l_field_values: limited_writer "write_vector write_field_value" "vector_ok field_value_fits"
  by (rule vector_limited) (rule l_field_value.limited_writer_axioms)

section \<open>What the reader accepts\<close>

text \<open>
  A sound reader consumes exactly the encoding of the value it returns, and the value has the shape
  \<open>good\<close>. The shape does not include the writer's limit on strings: a reader takes up to 65535 bytes.
\<close>

locale sound_reader =
  fixes rd :: "BufferReader \<Rightarrow> ('a \<times> BufferReader) option" and enc :: "'a \<Rightarrow> bytes"
    and good :: "'a \<Rightarrow> bool"
  assumes rd_sound: "rd (reader_at pre rest) = Some (x, r') \<Longrightarrow>
    good x \<and> (\<exists>post. rest = enc x @ post \<and> r' = reader_at (pre @ enc x) post)"
begin

lemma read_n_good:
  "read_n n rd (reader_at pre rest) = Some (xs, r') \<Longrightarrow> length xs = n \<and> list_all good xs \<and>
     (\<exists>post. rest = concat (map enc xs) @ post \<and> r' = reader_at (pre @ concat (map enc xs)) post)"
proof (induction n arbitrary: pre rest xs)
  case (Suc n)
  from Suc.prems obtain x r1 ys where
      x: "rd (reader_at pre rest) = Some (x, r1)" and ys: "read_n n rd r1 = Some (ys, r')"
      and xs: "xs = x # ys"
    by (auto simp: bind_eq_Some_conv)
  from rd_sound[OF x] obtain post where
      "good x" "rest = enc x @ post" "r1 = reader_at (pre @ enc x) post" by blast
  with Suc.IH[of "pre @ enc x" post ys] ys xs show ?case by auto
qed simp

end

interpretation s_u8: sound_reader br_u8 "\<lambda>v. [v]" "\<lambda>_. True"
  by unfold_locales (use c_u8.rd_sound in \<open>auto simp: br_u8_def\<close>)

interpretation s_bool: sound_reader br_bool enc_flag "\<lambda>_. True"
proof
  fix pre rest x r'
  assume "br_bool (reader_at pre rest) = Some (x, r')"
  then have "r_flag (reader_at pre rest) = Some (x, r')"
    by (auto simp: br_bool_def br_u8_def r_flag_def bind_eq_Some_conv not_less split: if_splits)
  then show "True \<and> (\<exists>post. rest = enc_flag x @ post \<and> r' = reader_at (pre @ enc_flag x) post)"
    by (rule c_flag.rd_sound)
qed

interpretation s_u16: sound_reader br_u16 "le_bytes 2" "\<lambda>_. True"
  by unfold_locales (use c_u16.rd_sound in \<open>auto simp: br_u16_def\<close>)

interpretation s_u64: sound_reader br_u64 "le_bytes 8" "\<lambda>_. True"
  by unfold_locales (use c_u64.rd_sound in \<open>auto simp: br_u64_def\<close>)

interpretation s_finite: sound_reader read_finite "le_bytes 8" isfinite
  by unfold_locales
    (use s_u64.rd_sound in \<open>auto simp: read_finite_def br_double_def bind_eq_Some_conv split: if_splits\<close>)

interpretation s_string: sound_reader br_string enc_text text_ok
  by unfold_locales (use c_text.rd_sound in \<open>auto simp: br_string_def\<close>)

lemma vector_sound:
  assumes "sound_reader rd enc good"
  shows "sound_reader (read_vector rd) (enc_list enc) (vector_ok good)"
proof
  fix pre rest xs r'
  assume "read_vector rd (reader_at pre rest) = Some (xs, r')"
  then obtain count r1 where
      1: "br_u16 (reader_at pre rest) = Some (count, r1)" and le: "unat count \<le> kMaxConfigItems"
      and 2: "read_n (unat count) rd r1 = Some (xs, r')"
    by (auto simp: read_vector_def bind_eq_Some_conv not_less split: if_splits)
  from s_u16.rd_sound[OF 1] obtain post where
      p: "rest = le_bytes 2 count @ post" "r1 = reader_at (pre @ le_bytes 2 count) post" by blast
  from sound_reader.read_n_good[OF assms 2[unfolded p(2)]] le p show
    "vector_ok good xs \<and>
       (\<exists>post. rest = enc_list enc xs @ post \<and> r' = reader_at (pre @ enc_list enc xs) post)"
    by (auto simp: vector_ok_def enc_list_def)
qed

interpretation s_strings: sound_reader read_strings "enc_list enc_text" "vector_ok text_ok"
  unfolding read_strings_def by (rule vector_sound) (rule s_string.sound_reader_axioms)

interpretation s_finites: sound_reader "read_vector read_finite" "enc_list (le_bytes 8)" "vector_ok isfinite"
  by (rule vector_sound) (rule s_finite.sound_reader_axioms)

lemma value_type_ofD: "value_type_of b = Some t \<Longrightarrow> value_type_code t = b"
  by (auto simp only: value_type_of_def find_Some_iff)

lemmas config_sound = s_u8.rd_sound s_bool.rd_sound s_u64.rd_sound s_finite.rd_sound
  s_string.rd_sound s_strings.rd_sound s_finites.rd_sound

interpretation s_value: sound_reader read_value enc_value value_plain
proof
  fix pre rest v r'
  assume "read_value (reader_at pre rest) = Some (v, r')"
  then obtain raw r1 type where
      raw: "br_u8 (reader_at pre rest) = Some (raw, r1)" and "value_type_of raw = Some type"
      and body: "(case type of
         CVT_kBool \<Rightarrow> do { (v, r) \<leftarrow> br_bool r1; Some (default_value\<lparr>cv_type := type, cv_bool := v\<rparr>, r) }
       | CVT_kInt64 \<Rightarrow> do { (v, r) \<leftarrow> br_u64 r1; Some (default_value\<lparr>cv_type := type, cv_int64 := v\<rparr>, r) }
       | CVT_kDouble \<Rightarrow> do { (v, r) \<leftarrow> read_finite r1; Some (default_value\<lparr>cv_type := type, cv_double := v\<rparr>, r) }
       | CVT_kString \<Rightarrow> do { (v, r) \<leftarrow> br_string r1; Some (default_value\<lparr>cv_type := type, cv_string := v\<rparr>, r) }
       | CVT_kStringList \<Rightarrow> do { (v, r) \<leftarrow> read_strings r1; Some (default_value\<lparr>cv_type := type, cv_string_list := v\<rparr>, r) }
       | CVT_kDoubleList \<Rightarrow> do { (v, r) \<leftarrow> read_vector read_finite r1; Some (default_value\<lparr>cv_type := type, cv_double_list := v\<rparr>, r) }
       | CVT_kUnset \<Rightarrow> Some (default_value\<lparr>cv_type := type\<rparr>, r1)) = Some (v, r')"
    by (auto simp: read_value_def bind_eq_Some_conv split: if_splits)
  moreover from s_u8.rd_sound[OF raw] obtain post where
      "rest = raw # post" "r1 = reader_at (pre @ [raw]) post" by auto
  ultimately show "value_plain v \<and>
      (\<exists>post. rest = enc_value v @ post \<and> r' = reader_at (pre @ enc_value v) post)"
    by (cases type)
      (auto simp del: value_type_code.simps simp: value_plain_def enc_value_def from_defs
        bind_eq_Some_conv dest!: value_type_ofD config_sound)
qed

interpretation s_field_value: sound_reader read_field_value enc_field_value
  "\<lambda>v. text_ok (cfv_path v) \<and> value_plain (cfv_value v)"
  by unfold_locales
    (auto simp: read_field_value_def enc_field_value_def bind_eq_Some_conv
      dest!: config_sound s_value.rd_sound)

interpretation s_field_values: sound_reader "read_vector read_field_value" "enc_list enc_field_value"
  "vector_ok (\<lambda>v. text_ok (cfv_path v) \<and> value_plain (cfv_value v))"
  by (rule vector_sound) (rule s_field_value.sound_reader_axioms)

end
