(* ===== verification/ConfigCodec.thy ===== *)
theory ConfigCodec
  imports ConfigIO
begin

text \<open>
  The twenty configuration payloads of
  \<open>include/yunlink/core/semantic/configuration/service_types.hpp\<close> and their codec,
  \<open>src/core/configuration_service/codec.cpp\<close>, which the \<open>encode\<close> and \<open>decode\<close> overloads of
  \<open>src/core/core_messages_v2_configuration.cpp\<close> forward to. An encoder that meets a string, a list or
  a number outside the limits yields the empty payload; a decoder yields \<open>None\<close> unless it consumes the
  payload exactly. Every payload within its limits is an instance of \<open>payload_codec\<close>.
\<close>

section \<open>The payloads\<close>

record ConfigResourceListRequest =
  lreq_reserved :: u8

record ConfigResourceListResponse =
  lresp_status :: ConfigServiceStatus
  lresp_message :: string
  lresp_resources :: "ConfigResourceDescriptor list"

record ConfigResourceDescribeRequest =
  dreq_resource_id :: string
  dreq_locale :: string

record ConfigResourceDescribeResponse =
  dresp_status :: ConfigServiceStatus
  dresp_message :: string
  dresp_resource :: ConfigResourceDescriptor
  dresp_fields :: "ConfigFieldSchema list"

record ConfigResourceGetRequest =
  greq_resource_id :: string
  greq_variant_id :: string

record ConfigResourceGetResponse =
  gresp_status :: ConfigServiceStatus
  gresp_message :: string
  gresp_snapshot :: ConfigSnapshot

record ConfigResourcePatchRequest =
  preq_resource_id :: string
  preq_variant_id :: string
  preq_expected_revision :: string
  preq_updates :: "ConfigFieldValue list"
  preq_validate_only :: bool

record ConfigResourcePatchResponse =
  presp_status :: ConfigServiceStatus
  presp_message :: string
  presp_snapshot :: ConfigSnapshot
  presp_errors :: "ConfigFieldError list"
  presp_effects :: ConfigEffects
  presp_has_candidate_snapshot :: bool
  presp_candidate_snapshot :: ConfigSnapshot

record ConfigResourceApplyRequest =
  areqc_resource_id :: string
  areqc_expected_revision :: string

record ConfigResourceApplyResponse =
  arespc_status :: ConfigServiceStatus
  arespc_message :: string
  arespc_applied_revision :: string
  arespc_outcome :: ConfigApplyOutcome
  arespc_effects :: ConfigEffects

record ConfigResourceVariantListRequest =
  vlreq_resource_id :: string

record ConfigResourceVariantListResponse =
  vlresp_status :: ConfigServiceStatus
  vlresp_message :: string
  vlresp_active_variant_id :: string
  vlresp_variants :: "ConfigVariantDescriptor list"

record ConfigResourceVariantCreateRequest =
  vcreq_resource_id :: string
  vcreq_variant_id :: string
  vcreq_source :: ConfigVariantSource
  vcreq_expected_active_revision :: string

record ConfigResourceVariantCreateResponse =
  vcresp_status :: ConfigServiceStatus
  vcresp_message :: string
  vcresp_variant :: ConfigVariantDescriptor
  vcresp_effects :: ConfigEffects

record ConfigResourceVariantSaveCurrentRequest =
  vsreq_resource_id :: string
  vsreq_variant_id :: string
  vsreq_expected_variant_revision :: string
  vsreq_expected_active_revision :: string

record ConfigResourceVariantSaveCurrentResponse =
  vsresp_status :: ConfigServiceStatus
  vsresp_message :: string
  vsresp_variant :: ConfigVariantDescriptor
  vsresp_effects :: ConfigEffects

record ConfigResourceVariantActivateRequest =
  vareq_resource_id :: string
  vareq_variant_id :: string
  vareq_expected_active_revision :: string

record ConfigResourceVariantActivateResponse =
  varesp_status :: ConfigServiceStatus
  varesp_message :: string
  varesp_applied_revision :: string
  varesp_outcome :: ConfigApplyOutcome
  varesp_effects :: ConfigEffects

record ConfigResourceVariantDeleteRequest =
  vdreq_resource_id :: string
  vdreq_variant_id :: string
  vdreq_expected_revision :: string

record ConfigResourceVariantDeleteResponse =
  vdresp_status :: ConfigServiceStatus
  vdresp_message :: string

text \<open>The value-initialised structures a response starts from.\<close>

definition default_snapshot :: ConfigSnapshot where
  "default_snapshot = \<lparr>csn_resource_id = [], csn_revision = [], csn_applied_revision = [],
     csn_variant_id = [], csn_active_variant_id = [], csn_values = [], csn_user_overridden_paths = []\<rparr>"

section \<open>Encoders and decoders\<close>

definition encode_ConfigResourceListRequest :: "ConfigResourceListRequest \<Rightarrow> bytes" where
  "encode_ConfigResourceListRequest v = build_payload (in_order
    [bw_u8 (lreq_reserved v)])"

definition decode_ConfigResourceListRequest :: "bytes \<Rightarrow> ConfigResourceListRequest option" where
  "decode_ConfigResourceListRequest bs = parse_payload bs (\<lambda>r. do {
     (reserved_v, r) \<leftarrow> br_u8 r;
     Some (\<lparr>lreq_reserved = reserved_v\<rparr>, r) })"

definition encode_ConfigResourceListResponse :: "ConfigResourceListResponse \<Rightarrow> bytes" where
  "encode_ConfigResourceListResponse v = build_payload (in_order
    [write_status (lresp_status v) (lresp_message v),
     write_vector write_descriptor (lresp_resources v)])"

definition decode_ConfigResourceListResponse :: "bytes \<Rightarrow> ConfigResourceListResponse option" where
  "decode_ConfigResourceListResponse bs = parse_payload bs (\<lambda>r. do {
     ((status_v, message_v), r) \<leftarrow> read_status r;
     (resources_v, r) \<leftarrow> read_vector read_descriptor r;
     Some (\<lparr>lresp_status = status_v, lresp_message = message_v, lresp_resources = resources_v\<rparr>, r) })"

text \<open>The default locale is not written: a reader that finds the payload at its end leaves it empty.\<close>

definition encode_ConfigResourceDescribeRequest :: "ConfigResourceDescribeRequest \<Rightarrow> bytes" where
  "encode_ConfigResourceDescribeRequest v = build_payload (in_order
    [bw_string (dreq_resource_id v),
     (if dreq_locale v \<noteq> [] then bw_string (dreq_locale v) else (\<lambda>w. w))])"

definition decode_ConfigResourceDescribeRequest :: "bytes \<Rightarrow> ConfigResourceDescribeRequest option" where
  "decode_ConfigResourceDescribeRequest bs = parse_payload bs (\<lambda>r. do {
     (resource_id_v, r) \<leftarrow> br_string r;
     if r_done r then Some (\<lparr>dreq_resource_id = resource_id_v, dreq_locale = []\<rparr>, r)
     else do {
     (locale_v, r) \<leftarrow> br_string r;
     Some (\<lparr>dreq_resource_id = resource_id_v, dreq_locale = locale_v\<rparr>, r) } })"

definition encode_ConfigResourceDescribeResponse :: "ConfigResourceDescribeResponse \<Rightarrow> bytes" where
  "encode_ConfigResourceDescribeResponse v = build_payload (in_order
    [write_status (dresp_status v) (dresp_message v), write_descriptor (dresp_resource v),
     write_vector write_schema (dresp_fields v)])"

definition decode_ConfigResourceDescribeResponse :: "bytes \<Rightarrow> ConfigResourceDescribeResponse option" where
  "decode_ConfigResourceDescribeResponse bs = parse_payload bs (\<lambda>r. do {
     ((status_v, message_v), r) \<leftarrow> read_status r;
     (resource_v, r) \<leftarrow> read_descriptor r;
     (fields_v, r) \<leftarrow> read_vector read_schema r;
     Some (\<lparr>dresp_status = status_v, dresp_message = message_v, dresp_resource = resource_v,
        dresp_fields = fields_v\<rparr>, r) })"

definition encode_ConfigResourceGetRequest :: "ConfigResourceGetRequest \<Rightarrow> bytes" where
  "encode_ConfigResourceGetRequest v = build_payload (in_order
    [bw_string (greq_resource_id v), bw_string (greq_variant_id v)])"

definition decode_ConfigResourceGetRequest :: "bytes \<Rightarrow> ConfigResourceGetRequest option" where
  "decode_ConfigResourceGetRequest bs = parse_payload bs (\<lambda>r. do {
     (resource_id_v, r) \<leftarrow> br_string r;
     (variant_id_v, r) \<leftarrow> br_string r;
     Some (\<lparr>greq_resource_id = resource_id_v, greq_variant_id = variant_id_v\<rparr>, r) })"

definition encode_ConfigResourceGetResponse :: "ConfigResourceGetResponse \<Rightarrow> bytes" where
  "encode_ConfigResourceGetResponse v = build_payload (in_order
    [write_status (gresp_status v) (gresp_message v), write_snapshot (gresp_snapshot v)])"

definition decode_ConfigResourceGetResponse :: "bytes \<Rightarrow> ConfigResourceGetResponse option" where
  "decode_ConfigResourceGetResponse bs = parse_payload bs (\<lambda>r. do {
     ((status_v, message_v), r) \<leftarrow> read_status r;
     (snapshot_v, r) \<leftarrow> read_snapshot r;
     Some (\<lparr>gresp_status = status_v, gresp_message = message_v, gresp_snapshot = snapshot_v\<rparr>, r) })"

definition encode_ConfigResourcePatchRequest :: "ConfigResourcePatchRequest \<Rightarrow> bytes" where
  "encode_ConfigResourcePatchRequest v = build_payload (in_order
    [bw_string (preq_resource_id v), bw_string (preq_variant_id v),
     bw_string (preq_expected_revision v), write_vector write_field_value (preq_updates v),
     bw_bool (preq_validate_only v)])"

definition decode_ConfigResourcePatchRequest :: "bytes \<Rightarrow> ConfigResourcePatchRequest option" where
  "decode_ConfigResourcePatchRequest bs = parse_payload bs (\<lambda>r. do {
     (resource_id_v, r) \<leftarrow> br_string r;
     (variant_id_v, r) \<leftarrow> br_string r;
     (expected_revision_v, r) \<leftarrow> br_string r;
     (updates_v, r) \<leftarrow> read_vector read_field_value r;
     (validate_only_v, r) \<leftarrow> br_bool r;
     Some (\<lparr>preq_resource_id = resource_id_v, preq_variant_id = variant_id_v,
        preq_expected_revision = expected_revision_v, preq_updates = updates_v,
        preq_validate_only = validate_only_v\<rparr>, r) })"

definition encode_ConfigResourcePatchResponse :: "ConfigResourcePatchResponse \<Rightarrow> bytes" where
  "encode_ConfigResourcePatchResponse v = build_payload (in_order
    [write_status (presp_status v) (presp_message v), write_snapshot (presp_snapshot v),
     bw_bool (presp_has_candidate_snapshot v),
     (if presp_has_candidate_snapshot v then write_snapshot (presp_candidate_snapshot v) else (\<lambda>w. w)),
     write_vector write_field_error (presp_errors v), write_effects (presp_effects v)])"

definition decode_ConfigResourcePatchResponse :: "bytes \<Rightarrow> ConfigResourcePatchResponse option" where
  "decode_ConfigResourcePatchResponse bs = parse_payload bs (\<lambda>r. do {
     ((status_v, message_v), r) \<leftarrow> read_status r;
     (snapshot_v, r) \<leftarrow> read_snapshot r;
     (has_candidate_snapshot_v, r) \<leftarrow> br_bool r;
     (candidate_snapshot_v, r) \<leftarrow>
       (if \<not> has_candidate_snapshot_v then Some (default_snapshot, r) else read_snapshot r);
     (errors_v, r) \<leftarrow> read_vector read_field_error r;
     (effects_v, r) \<leftarrow> read_effects r;
     Some (\<lparr>presp_status = status_v, presp_message = message_v, presp_snapshot = snapshot_v,
        presp_errors = errors_v, presp_effects = effects_v,
        presp_has_candidate_snapshot = has_candidate_snapshot_v,
        presp_candidate_snapshot = candidate_snapshot_v\<rparr>, r) })"

definition encode_ConfigResourceApplyRequest :: "ConfigResourceApplyRequest \<Rightarrow> bytes" where
  "encode_ConfigResourceApplyRequest v = build_payload (in_order
    [bw_string (areqc_resource_id v), bw_string (areqc_expected_revision v)])"

definition decode_ConfigResourceApplyRequest :: "bytes \<Rightarrow> ConfigResourceApplyRequest option" where
  "decode_ConfigResourceApplyRequest bs = parse_payload bs (\<lambda>r. do {
     (resource_id_v, r) \<leftarrow> br_string r;
     (expected_revision_v, r) \<leftarrow> br_string r;
     Some (\<lparr>areqc_resource_id = resource_id_v, areqc_expected_revision = expected_revision_v\<rparr>, r) })"

definition encode_ConfigResourceApplyResponse :: "ConfigResourceApplyResponse \<Rightarrow> bytes" where
  "encode_ConfigResourceApplyResponse v = build_payload (in_order
    [write_status (arespc_status v) (arespc_message v), bw_string (arespc_applied_revision v),
     bw_u8 (outcome_code (arespc_outcome v)), write_effects (arespc_effects v)])"

definition decode_ConfigResourceApplyResponse :: "bytes \<Rightarrow> ConfigResourceApplyResponse option" where
  "decode_ConfigResourceApplyResponse bs = parse_payload bs (\<lambda>r. do {
     ((status_v, message_v), r) \<leftarrow> read_status r;
     (applied_revision_v, r) \<leftarrow> br_string r;
     (outcome_raw, r) \<leftarrow> br_u8 r;
     if \<not> valid_outcome outcome_raw then None else do {
     outcome_v \<leftarrow> outcome_of outcome_raw;
     (effects_v, r) \<leftarrow> read_effects r;
     Some (\<lparr>arespc_status = status_v, arespc_message = message_v,
        arespc_applied_revision = applied_revision_v, arespc_outcome = outcome_v,
        arespc_effects = effects_v\<rparr>, r) } })"

definition encode_ConfigResourceVariantListRequest :: "ConfigResourceVariantListRequest \<Rightarrow> bytes" where
  "encode_ConfigResourceVariantListRequest v = build_payload (in_order
    [bw_string (vlreq_resource_id v)])"

definition decode_ConfigResourceVariantListRequest :: "bytes \<Rightarrow> ConfigResourceVariantListRequest option" where
  "decode_ConfigResourceVariantListRequest bs = parse_payload bs (\<lambda>r. do {
     (resource_id_v, r) \<leftarrow> br_string r;
     Some (\<lparr>vlreq_resource_id = resource_id_v\<rparr>, r) })"

definition encode_ConfigResourceVariantListResponse :: "ConfigResourceVariantListResponse \<Rightarrow> bytes" where
  "encode_ConfigResourceVariantListResponse v = build_payload (in_order
    [write_status (vlresp_status v) (vlresp_message v), bw_string (vlresp_active_variant_id v),
     write_vector write_variant (vlresp_variants v)])"

definition decode_ConfigResourceVariantListResponse :: "bytes \<Rightarrow> ConfigResourceVariantListResponse option" where
  "decode_ConfigResourceVariantListResponse bs = parse_payload bs (\<lambda>r. do {
     ((status_v, message_v), r) \<leftarrow> read_status r;
     (active_variant_id_v, r) \<leftarrow> br_string r;
     (variants_v, r) \<leftarrow> read_vector read_variant r;
     Some (\<lparr>vlresp_status = status_v, vlresp_message = message_v,
        vlresp_active_variant_id = active_variant_id_v, vlresp_variants = variants_v\<rparr>, r) })"

definition encode_ConfigResourceVariantCreateRequest :: "ConfigResourceVariantCreateRequest \<Rightarrow> bytes" where
  "encode_ConfigResourceVariantCreateRequest v = build_payload (in_order
    [bw_string (vcreq_resource_id v), bw_string (vcreq_variant_id v),
     bw_u8 (variant_source_code (vcreq_source v)), bw_string (vcreq_expected_active_revision v)])"

definition decode_ConfigResourceVariantCreateRequest :: "bytes \<Rightarrow> ConfigResourceVariantCreateRequest option" where
  "decode_ConfigResourceVariantCreateRequest bs = parse_payload bs (\<lambda>r. do {
     (resource_id_v, r) \<leftarrow> br_string r;
     (variant_id_v, r) \<leftarrow> br_string r;
     (source_raw, r) \<leftarrow> br_u8 r;
     if \<not> valid_variant_source source_raw then None else do {
     (expected_active_revision_v, r) \<leftarrow> br_string r;
     source_v \<leftarrow> variant_source_of source_raw;
     Some (\<lparr>vcreq_resource_id = resource_id_v, vcreq_variant_id = variant_id_v,
        vcreq_source = source_v, vcreq_expected_active_revision = expected_active_revision_v\<rparr>, r) } })"

definition encode_ConfigResourceVariantCreateResponse :: "ConfigResourceVariantCreateResponse \<Rightarrow> bytes" where
  "encode_ConfigResourceVariantCreateResponse v = build_payload (in_order
    [write_status (vcresp_status v) (vcresp_message v), write_variant (vcresp_variant v),
     write_effects (vcresp_effects v)])"

definition decode_ConfigResourceVariantCreateResponse :: "bytes \<Rightarrow> ConfigResourceVariantCreateResponse option" where
  "decode_ConfigResourceVariantCreateResponse bs = parse_payload bs (\<lambda>r. do {
     ((status_v, message_v), r) \<leftarrow> read_status r;
     (variant_v, r) \<leftarrow> read_variant r;
     (effects_v, r) \<leftarrow> read_effects r;
     Some (\<lparr>vcresp_status = status_v, vcresp_message = message_v, vcresp_variant = variant_v,
        vcresp_effects = effects_v\<rparr>, r) })"

definition encode_ConfigResourceVariantSaveCurrentRequest :: "ConfigResourceVariantSaveCurrentRequest \<Rightarrow> bytes" where
  "encode_ConfigResourceVariantSaveCurrentRequest v = build_payload (in_order
    [bw_string (vsreq_resource_id v), bw_string (vsreq_variant_id v),
     bw_string (vsreq_expected_variant_revision v), bw_string (vsreq_expected_active_revision v)])"

definition decode_ConfigResourceVariantSaveCurrentRequest :: "bytes \<Rightarrow> ConfigResourceVariantSaveCurrentRequest option" where
  "decode_ConfigResourceVariantSaveCurrentRequest bs = parse_payload bs (\<lambda>r. do {
     (resource_id_v, r) \<leftarrow> br_string r;
     (variant_id_v, r) \<leftarrow> br_string r;
     (expected_variant_revision_v, r) \<leftarrow> br_string r;
     (expected_active_revision_v, r) \<leftarrow> br_string r;
     Some (\<lparr>vsreq_resource_id = resource_id_v, vsreq_variant_id = variant_id_v,
        vsreq_expected_variant_revision = expected_variant_revision_v,
        vsreq_expected_active_revision = expected_active_revision_v\<rparr>, r) })"

definition encode_ConfigResourceVariantSaveCurrentResponse :: "ConfigResourceVariantSaveCurrentResponse \<Rightarrow> bytes" where
  "encode_ConfigResourceVariantSaveCurrentResponse v = build_payload (in_order
    [write_status (vsresp_status v) (vsresp_message v), write_variant (vsresp_variant v),
     write_effects (vsresp_effects v)])"

definition decode_ConfigResourceVariantSaveCurrentResponse :: "bytes \<Rightarrow> ConfigResourceVariantSaveCurrentResponse option" where
  "decode_ConfigResourceVariantSaveCurrentResponse bs = parse_payload bs (\<lambda>r. do {
     ((status_v, message_v), r) \<leftarrow> read_status r;
     (variant_v, r) \<leftarrow> read_variant r;
     (effects_v, r) \<leftarrow> read_effects r;
     Some (\<lparr>vsresp_status = status_v, vsresp_message = message_v, vsresp_variant = variant_v,
        vsresp_effects = effects_v\<rparr>, r) })"

definition encode_ConfigResourceVariantActivateRequest :: "ConfigResourceVariantActivateRequest \<Rightarrow> bytes" where
  "encode_ConfigResourceVariantActivateRequest v = build_payload (in_order
    [bw_string (vareq_resource_id v), bw_string (vareq_variant_id v),
     bw_string (vareq_expected_active_revision v)])"

definition decode_ConfigResourceVariantActivateRequest :: "bytes \<Rightarrow> ConfigResourceVariantActivateRequest option" where
  "decode_ConfigResourceVariantActivateRequest bs = parse_payload bs (\<lambda>r. do {
     (resource_id_v, r) \<leftarrow> br_string r;
     (variant_id_v, r) \<leftarrow> br_string r;
     (expected_active_revision_v, r) \<leftarrow> br_string r;
     Some (\<lparr>vareq_resource_id = resource_id_v, vareq_variant_id = variant_id_v,
        vareq_expected_active_revision = expected_active_revision_v\<rparr>, r) })"

definition encode_ConfigResourceVariantActivateResponse :: "ConfigResourceVariantActivateResponse \<Rightarrow> bytes" where
  "encode_ConfigResourceVariantActivateResponse v = build_payload (in_order
    [write_status (varesp_status v) (varesp_message v), bw_string (varesp_applied_revision v),
     bw_u8 (outcome_code (varesp_outcome v)), write_effects (varesp_effects v)])"

definition decode_ConfigResourceVariantActivateResponse :: "bytes \<Rightarrow> ConfigResourceVariantActivateResponse option" where
  "decode_ConfigResourceVariantActivateResponse bs = parse_payload bs (\<lambda>r. do {
     ((status_v, message_v), r) \<leftarrow> read_status r;
     (applied_revision_v, r) \<leftarrow> br_string r;
     (outcome_raw, r) \<leftarrow> br_u8 r;
     if \<not> valid_outcome outcome_raw then None else do {
     outcome_v \<leftarrow> outcome_of outcome_raw;
     (effects_v, r) \<leftarrow> read_effects r;
     Some (\<lparr>varesp_status = status_v, varesp_message = message_v,
        varesp_applied_revision = applied_revision_v, varesp_outcome = outcome_v,
        varesp_effects = effects_v\<rparr>, r) } })"

definition encode_ConfigResourceVariantDeleteRequest :: "ConfigResourceVariantDeleteRequest \<Rightarrow> bytes" where
  "encode_ConfigResourceVariantDeleteRequest v = build_payload (in_order
    [bw_string (vdreq_resource_id v), bw_string (vdreq_variant_id v),
     bw_string (vdreq_expected_revision v)])"

definition decode_ConfigResourceVariantDeleteRequest :: "bytes \<Rightarrow> ConfigResourceVariantDeleteRequest option" where
  "decode_ConfigResourceVariantDeleteRequest bs = parse_payload bs (\<lambda>r. do {
     (resource_id_v, r) \<leftarrow> br_string r;
     (variant_id_v, r) \<leftarrow> br_string r;
     (expected_revision_v, r) \<leftarrow> br_string r;
     Some (\<lparr>vdreq_resource_id = resource_id_v, vdreq_variant_id = variant_id_v,
        vdreq_expected_revision = expected_revision_v\<rparr>, r) })"

definition encode_ConfigResourceVariantDeleteResponse :: "ConfigResourceVariantDeleteResponse \<Rightarrow> bytes" where
  "encode_ConfigResourceVariantDeleteResponse v = build_payload (in_order
    [write_status (vdresp_status v) (vdresp_message v)])"

definition decode_ConfigResourceVariantDeleteResponse :: "bytes \<Rightarrow> ConfigResourceVariantDeleteResponse option" where
  "decode_ConfigResourceVariantDeleteResponse bs = parse_payload bs (\<lambda>r. do {
     ((status_v, message_v), r) \<leftarrow> read_status r;
     Some (\<lparr>vdresp_status = status_v, vdresp_message = message_v\<rparr>, r) })"

section \<open>Limits and instances\<close>

definition config_list_request_ok :: "ConfigResourceListRequest \<Rightarrow> bool" where
  "config_list_request_ok v \<longleftrightarrow> True"

definition config_list_response_ok :: "ConfigResourceListResponse \<Rightarrow> bool" where
  "config_list_response_ok v \<longleftrightarrow> string_ok (lresp_message v) \<and> vector_ok descriptor_ok (lresp_resources v)"

definition config_describe_request_ok :: "ConfigResourceDescribeRequest \<Rightarrow> bool" where
  "config_describe_request_ok v \<longleftrightarrow> string_ok (dreq_resource_id v) \<and> string_ok (dreq_locale v)"

definition config_describe_response_ok :: "ConfigResourceDescribeResponse \<Rightarrow> bool" where
  "config_describe_response_ok v \<longleftrightarrow> string_ok (dresp_message v) \<and> descriptor_ok (dresp_resource v) \<and>
     vector_ok schema_ok (dresp_fields v)"

definition config_get_request_ok :: "ConfigResourceGetRequest \<Rightarrow> bool" where
  "config_get_request_ok v \<longleftrightarrow> string_ok (greq_resource_id v) \<and> string_ok (greq_variant_id v)"

definition config_get_response_ok :: "ConfigResourceGetResponse \<Rightarrow> bool" where
  "config_get_response_ok v \<longleftrightarrow> string_ok (gresp_message v) \<and> snapshot_ok (gresp_snapshot v)"

definition config_patch_request_ok :: "ConfigResourcePatchRequest \<Rightarrow> bool" where
  "config_patch_request_ok v \<longleftrightarrow> string_ok (preq_resource_id v) \<and> string_ok (preq_variant_id v) \<and>
     string_ok (preq_expected_revision v) \<and> vector_ok field_value_ok (preq_updates v)"

definition config_patch_response_ok :: "ConfigResourcePatchResponse \<Rightarrow> bool" where
  "config_patch_response_ok v \<longleftrightarrow> string_ok (presp_message v) \<and> snapshot_ok (presp_snapshot v) \<and>
     (if presp_has_candidate_snapshot v then snapshot_ok (presp_candidate_snapshot v) else presp_candidate_snapshot v = default_snapshot) \<and>
     vector_ok field_error_ok (presp_errors v) \<and> effects_ok (presp_effects v)"

definition config_apply_request_ok :: "ConfigResourceApplyRequest \<Rightarrow> bool" where
  "config_apply_request_ok v \<longleftrightarrow> string_ok (areqc_resource_id v) \<and> string_ok (areqc_expected_revision v)"

definition config_apply_response_ok :: "ConfigResourceApplyResponse \<Rightarrow> bool" where
  "config_apply_response_ok v \<longleftrightarrow> string_ok (arespc_message v) \<and> string_ok (arespc_applied_revision v) \<and>
     effects_ok (arespc_effects v)"

definition variant_list_request_ok :: "ConfigResourceVariantListRequest \<Rightarrow> bool" where
  "variant_list_request_ok v \<longleftrightarrow> string_ok (vlreq_resource_id v)"

definition variant_list_response_ok :: "ConfigResourceVariantListResponse \<Rightarrow> bool" where
  "variant_list_response_ok v \<longleftrightarrow> string_ok (vlresp_message v) \<and> string_ok (vlresp_active_variant_id v) \<and>
     vector_ok variant_ok (vlresp_variants v)"

definition variant_create_request_ok :: "ConfigResourceVariantCreateRequest \<Rightarrow> bool" where
  "variant_create_request_ok v \<longleftrightarrow> string_ok (vcreq_resource_id v) \<and> string_ok (vcreq_variant_id v) \<and>
     string_ok (vcreq_expected_active_revision v)"

definition variant_create_response_ok :: "ConfigResourceVariantCreateResponse \<Rightarrow> bool" where
  "variant_create_response_ok v \<longleftrightarrow> string_ok (vcresp_message v) \<and> variant_ok (vcresp_variant v) \<and>
     effects_ok (vcresp_effects v)"

definition variant_save_request_ok :: "ConfigResourceVariantSaveCurrentRequest \<Rightarrow> bool" where
  "variant_save_request_ok v \<longleftrightarrow> string_ok (vsreq_resource_id v) \<and> string_ok (vsreq_variant_id v) \<and>
     string_ok (vsreq_expected_variant_revision v) \<and>
     string_ok (vsreq_expected_active_revision v)"

definition variant_save_response_ok :: "ConfigResourceVariantSaveCurrentResponse \<Rightarrow> bool" where
  "variant_save_response_ok v \<longleftrightarrow> string_ok (vsresp_message v) \<and> variant_ok (vsresp_variant v) \<and>
     effects_ok (vsresp_effects v)"

definition variant_activate_request_ok :: "ConfigResourceVariantActivateRequest \<Rightarrow> bool" where
  "variant_activate_request_ok v \<longleftrightarrow> string_ok (vareq_resource_id v) \<and> string_ok (vareq_variant_id v) \<and>
     string_ok (vareq_expected_active_revision v)"

definition variant_activate_response_ok :: "ConfigResourceVariantActivateResponse \<Rightarrow> bool" where
  "variant_activate_response_ok v \<longleftrightarrow> string_ok (varesp_message v) \<and> string_ok (varesp_applied_revision v) \<and>
     effects_ok (varesp_effects v)"

definition variant_delete_request_ok :: "ConfigResourceVariantDeleteRequest \<Rightarrow> bool" where
  "variant_delete_request_ok v \<longleftrightarrow> string_ok (vdreq_resource_id v) \<and> string_ok (vdreq_variant_id v) \<and>
     string_ok (vdreq_expected_revision v)"

definition variant_delete_response_ok :: "ConfigResourceVariantDeleteResponse \<Rightarrow> bool" where
  "variant_delete_response_ok v \<longleftrightarrow> string_ok (vdresp_message v)"

lemmas config_struct_wr = b_descriptor.wr_ok b_snapshot.wr_ok b_variant.wr_ok b_effects.wr_ok
  b_descriptors.wr_ok b_field_values.wr_ok b_variants.wr_ok b_field_errors.wr_ok b_schemas.wr_ok

lemmas config_struct_rd = b_descriptor.rd_enc b_snapshot.rd_enc b_variant.rd_enc b_effects.rd_enc
  b_descriptors.rd_enc b_field_values.rd_enc b_variants.rd_enc b_field_errors.rd_enc b_schemas.rd_enc
  b_descriptor.rd_enc_end b_snapshot.rd_enc_end b_variant.rd_enc_end b_effects.rd_enc_end
  b_descriptors.rd_enc_end b_field_values.rd_enc_end b_variants.rd_enc_end b_field_errors.rd_enc_end
  b_schemas.rd_enc_end

lemmas config_payload = in_order_simps w_emit_emit config_wr config_struct_wr write_status_ok
  build_payload_def parse_payload_def reader_init_at br_u8_Cons config_rd config_struct_rd
  read_status_enc read_status_enc_end config_enum

lemma enc_text_ne [simp]: "enc_text s \<noteq> []"
  using length_le_bytes[of 2 "word_of_nat (length s) :: u16"] by (auto simp: enc_text_def simp del: length_le_bytes)

lemma writer_init_simps [simp]: "w_valid writer_init" "w_data writer_init = []"
  by (simp_all add: writer_init_def)

interpretation p_config_list_request: payload_codec encode_ConfigResourceListRequest
  decode_ConfigResourceListRequest config_list_request_ok
  by unfold_locales
    (simp add: encode_ConfigResourceListRequest_def
      decode_ConfigResourceListRequest_def config_list_request_ok_def config_payload)

interpretation p_config_list_response: payload_codec encode_ConfigResourceListResponse
  decode_ConfigResourceListResponse config_list_response_ok
  by unfold_locales
    (simp add: encode_ConfigResourceListResponse_def
      decode_ConfigResourceListResponse_def config_list_response_ok_def config_payload)

interpretation p_config_describe_request: payload_codec encode_ConfigResourceDescribeRequest
  decode_ConfigResourceDescribeRequest config_describe_request_ok
  by unfold_locales
    (simp add: encode_ConfigResourceDescribeRequest_def
      decode_ConfigResourceDescribeRequest_def config_describe_request_ok_def config_payload)

interpretation p_config_describe_response: payload_codec encode_ConfigResourceDescribeResponse
  decode_ConfigResourceDescribeResponse config_describe_response_ok
  by unfold_locales
    (simp add: encode_ConfigResourceDescribeResponse_def
      decode_ConfigResourceDescribeResponse_def config_describe_response_ok_def config_payload)

interpretation p_config_get_request: payload_codec encode_ConfigResourceGetRequest
  decode_ConfigResourceGetRequest config_get_request_ok
  by unfold_locales
    (simp add: encode_ConfigResourceGetRequest_def
      decode_ConfigResourceGetRequest_def config_get_request_ok_def config_payload)

interpretation p_config_get_response: payload_codec encode_ConfigResourceGetResponse
  decode_ConfigResourceGetResponse config_get_response_ok
  by unfold_locales
    (simp add: encode_ConfigResourceGetResponse_def
      decode_ConfigResourceGetResponse_def config_get_response_ok_def config_payload)

interpretation p_config_patch_request: payload_codec encode_ConfigResourcePatchRequest
  decode_ConfigResourcePatchRequest config_patch_request_ok
  by unfold_locales
    (simp add: encode_ConfigResourcePatchRequest_def
      decode_ConfigResourcePatchRequest_def config_patch_request_ok_def config_payload)

interpretation p_config_patch_response: payload_codec encode_ConfigResourcePatchResponse
  decode_ConfigResourcePatchResponse config_patch_response_ok
  by unfold_locales
    (simp add: encode_ConfigResourcePatchResponse_def
      decode_ConfigResourcePatchResponse_def config_patch_response_ok_def config_payload split: if_splits)

interpretation p_config_apply_request: payload_codec encode_ConfigResourceApplyRequest
  decode_ConfigResourceApplyRequest config_apply_request_ok
  by unfold_locales
    (simp add: encode_ConfigResourceApplyRequest_def
      decode_ConfigResourceApplyRequest_def config_apply_request_ok_def config_payload)

interpretation p_config_apply_response: payload_codec encode_ConfigResourceApplyResponse
  decode_ConfigResourceApplyResponse config_apply_response_ok
  by unfold_locales
    (simp add: encode_ConfigResourceApplyResponse_def
      decode_ConfigResourceApplyResponse_def config_apply_response_ok_def config_payload)

interpretation p_variant_list_request: payload_codec encode_ConfigResourceVariantListRequest
  decode_ConfigResourceVariantListRequest variant_list_request_ok
  by unfold_locales
    (simp add: encode_ConfigResourceVariantListRequest_def
      decode_ConfigResourceVariantListRequest_def variant_list_request_ok_def config_payload)

interpretation p_variant_list_response: payload_codec encode_ConfigResourceVariantListResponse
  decode_ConfigResourceVariantListResponse variant_list_response_ok
  by unfold_locales
    (simp add: encode_ConfigResourceVariantListResponse_def
      decode_ConfigResourceVariantListResponse_def variant_list_response_ok_def config_payload)

interpretation p_variant_create_request: payload_codec encode_ConfigResourceVariantCreateRequest
  decode_ConfigResourceVariantCreateRequest variant_create_request_ok
  by unfold_locales
    (simp add: encode_ConfigResourceVariantCreateRequest_def
      decode_ConfigResourceVariantCreateRequest_def variant_create_request_ok_def config_payload)

interpretation p_variant_create_response: payload_codec encode_ConfigResourceVariantCreateResponse
  decode_ConfigResourceVariantCreateResponse variant_create_response_ok
  by unfold_locales
    (simp add: encode_ConfigResourceVariantCreateResponse_def
      decode_ConfigResourceVariantCreateResponse_def variant_create_response_ok_def config_payload)

interpretation p_variant_save_request: payload_codec encode_ConfigResourceVariantSaveCurrentRequest
  decode_ConfigResourceVariantSaveCurrentRequest variant_save_request_ok
  by unfold_locales
    (simp add: encode_ConfigResourceVariantSaveCurrentRequest_def
      decode_ConfigResourceVariantSaveCurrentRequest_def variant_save_request_ok_def config_payload)

interpretation p_variant_save_response: payload_codec encode_ConfigResourceVariantSaveCurrentResponse
  decode_ConfigResourceVariantSaveCurrentResponse variant_save_response_ok
  by unfold_locales
    (simp add: encode_ConfigResourceVariantSaveCurrentResponse_def
      decode_ConfigResourceVariantSaveCurrentResponse_def variant_save_response_ok_def config_payload)

interpretation p_variant_activate_request: payload_codec encode_ConfigResourceVariantActivateRequest
  decode_ConfigResourceVariantActivateRequest variant_activate_request_ok
  by unfold_locales
    (simp add: encode_ConfigResourceVariantActivateRequest_def
      decode_ConfigResourceVariantActivateRequest_def variant_activate_request_ok_def config_payload)

interpretation p_variant_activate_response: payload_codec encode_ConfigResourceVariantActivateResponse
  decode_ConfigResourceVariantActivateResponse variant_activate_response_ok
  by unfold_locales
    (simp add: encode_ConfigResourceVariantActivateResponse_def
      decode_ConfigResourceVariantActivateResponse_def variant_activate_response_ok_def config_payload)

interpretation p_variant_delete_request: payload_codec encode_ConfigResourceVariantDeleteRequest
  decode_ConfigResourceVariantDeleteRequest variant_delete_request_ok
  by unfold_locales
    (simp add: encode_ConfigResourceVariantDeleteRequest_def
      decode_ConfigResourceVariantDeleteRequest_def variant_delete_request_ok_def config_payload)

interpretation p_variant_delete_response: payload_codec encode_ConfigResourceVariantDeleteResponse
  decode_ConfigResourceVariantDeleteResponse variant_delete_response_ok
  by unfold_locales
    (simp add: encode_ConfigResourceVariantDeleteResponse_def
      decode_ConfigResourceVariantDeleteResponse_def variant_delete_response_ok_def config_payload)

text \<open>Concrete payloads: a resource with one field of each value type.\<close>

definition sample_descriptor :: ConfigResourceDescriptor where
  "sample_descriptor = \<lparr>crd_id = ''net'', crd_title = ''Network'', crd_description = '''',
     crd_readable = True, crd_writable = True, crd_apply_supported = False, crd_variants_supported = True\<rparr>"

definition sample_snapshot :: ConfigSnapshot where
  "sample_snapshot = \<lparr>csn_resource_id = ''net'', csn_revision = ''r2'', csn_applied_revision = ''r1'',
     csn_variant_id = '''', csn_active_variant_id = ''v'',
     csn_values = [\<lparr>cfv_path = ''dhcp'', cfv_value = from_bool True\<rparr>,
       \<lparr>cfv_path = ''port'', cfv_value = from_int64 (- 1)\<rparr>,
       \<lparr>cfv_path = ''gain'', cfv_value = from_double 4607182418800017408\<rparr>,
       \<lparr>cfv_path = ''host'', cfv_value = from_string ''a''\<rparr>,
       \<lparr>cfv_path = ''dns'', cfv_value = from_string_list [''b'', '''']\<rparr>,
       \<lparr>cfv_path = ''pid'', cfv_value = from_double_list [0, 4607182418800017408]\<rparr>,
       \<lparr>cfv_path = ''old'', cfv_value = default_value\<lparr>cv_type := CVT_kUnset\<rparr>\<rparr>],
     csn_user_overridden_paths = [''dhcp'']\<rparr>"

definition sample_schema :: ConfigFieldSchema where
  "sample_schema = \<lparr>cfs_path = ''port'', cfs_title = ''Port'', cfs_description = '''', cfs_type = CVT_kInt64,
     cfs_required = True, cfs_read_only = False, cfs_sensitive = False, cfs_has_minimum = True,
     cfs_minimum = 0, cfs_has_maximum = False, cfs_maximum = 0, cfs_validation_pattern = '''',
     cfs_choices = [\<lparr>cc_value = from_int64 80, cc_label = ''http''\<rparr>], cfs_group_path = ''net'',
     cfs_update_policy = CUP_kManual, cfs_unit = '''', cfs_default_value = from_int64 80,
     cfs_has_default_value = True, cfs_advanced = False\<rparr>"

definition sample_field_error :: ConfigFieldError where
  "sample_field_error = \<lparr>cfe_path = ''port'', cfe_code = ''range'', cfe_message = ''too large''\<rparr>"

definition sample_effects :: ConfigEffects where
  "sample_effects = \<lparr>ce_requirement = CAR_kManual, ce_affected_components = [''agent''],
     ce_reconnect_expected = True\<rparr>"

definition sample_variant :: ConfigVariantDescriptor where
  "sample_variant = \<lparr>cvd_id = ''v'', cvd_title = ''V'', cvd_revision = ''r'', cvd_modified_at_ns = 9,
     cvd_active = True, cvd_mutable_variant = False\<rparr>"

lemmas sample_ok_defs = string_ok_def kMaxCoreStringBytes_def vector_ok_def kMaxConfigItems_def
  value_ok_def value_fits_def value_plain_def isfinite_def
  f64_exponent_def from_defs default_value_def

lemma samples_ok:
  "descriptor_ok sample_descriptor" "snapshot_ok sample_snapshot" "schema_ok sample_schema"
  "field_error_ok sample_field_error" "effects_ok sample_effects" "variant_ok sample_variant"
  by (simp_all add: sample_descriptor_def sample_snapshot_def sample_schema_def sample_field_error_def
      sample_effects_def sample_variant_def descriptor_ok_def snapshot_ok_def schema_ok_def
      field_error_ok_def effects_ok_def variant_ok_def field_value_ok_def choice_ok_def sample_ok_defs)

definition sample_config_list_request :: ConfigResourceListRequest where
  "sample_config_list_request = \<lparr>lreq_reserved = 0\<rparr>"

definition sample_config_list_response :: ConfigResourceListResponse where
  "sample_config_list_response = \<lparr>lresp_status = CSS_kConflict, lresp_message = ''x'',
     lresp_resources = [sample_descriptor]\<rparr>"

definition sample_config_describe_request :: ConfigResourceDescribeRequest where
  "sample_config_describe_request = \<lparr>dreq_resource_id = ''x'', dreq_locale = ''x''\<rparr>"

definition sample_config_describe_response :: ConfigResourceDescribeResponse where
  "sample_config_describe_response = \<lparr>dresp_status = CSS_kConflict, dresp_message = ''x'',
     dresp_resource = sample_descriptor, dresp_fields = [sample_schema]\<rparr>"

definition sample_config_get_request :: ConfigResourceGetRequest where
  "sample_config_get_request = \<lparr>greq_resource_id = ''x'', greq_variant_id = ''x''\<rparr>"

definition sample_config_get_response :: ConfigResourceGetResponse where
  "sample_config_get_response = \<lparr>gresp_status = CSS_kConflict, gresp_message = ''x'',
     gresp_snapshot = sample_snapshot\<rparr>"

definition sample_config_patch_request :: ConfigResourcePatchRequest where
  "sample_config_patch_request = \<lparr>preq_resource_id = ''x'', preq_variant_id = ''x'', preq_expected_revision = ''x'',
     preq_updates = csn_values sample_snapshot, preq_validate_only = True\<rparr>"

definition sample_config_patch_response :: ConfigResourcePatchResponse where
  "sample_config_patch_response = \<lparr>presp_status = CSS_kConflict, presp_message = ''x'',
     presp_snapshot = sample_snapshot, presp_errors = [sample_field_error],
     presp_effects = sample_effects, presp_has_candidate_snapshot = True,
     presp_candidate_snapshot = sample_snapshot\<rparr>"

definition sample_config_apply_request :: ConfigResourceApplyRequest where
  "sample_config_apply_request = \<lparr>areqc_resource_id = ''x'', areqc_expected_revision = ''x''\<rparr>"

definition sample_config_apply_response :: ConfigResourceApplyResponse where
  "sample_config_apply_response = \<lparr>arespc_status = CSS_kConflict, arespc_message = ''x'',
     arespc_applied_revision = ''x'', arespc_outcome = CAO_kRestartScheduled,
     arespc_effects = sample_effects\<rparr>"

definition sample_variant_list_request :: ConfigResourceVariantListRequest where
  "sample_variant_list_request = \<lparr>vlreq_resource_id = ''x''\<rparr>"

definition sample_variant_list_response :: ConfigResourceVariantListResponse where
  "sample_variant_list_response = \<lparr>vlresp_status = CSS_kConflict, vlresp_message = ''x'',
     vlresp_active_variant_id = ''x'', vlresp_variants = [sample_variant]\<rparr>"

definition sample_variant_create_request :: ConfigResourceVariantCreateRequest where
  "sample_variant_create_request = \<lparr>vcreq_resource_id = ''x'', vcreq_variant_id = ''x'', vcreq_source = CVS_kActive,
     vcreq_expected_active_revision = ''x''\<rparr>"

definition sample_variant_create_response :: ConfigResourceVariantCreateResponse where
  "sample_variant_create_response = \<lparr>vcresp_status = CSS_kConflict, vcresp_message = ''x'',
     vcresp_variant = sample_variant, vcresp_effects = sample_effects\<rparr>"

definition sample_variant_save_request :: ConfigResourceVariantSaveCurrentRequest where
  "sample_variant_save_request = \<lparr>vsreq_resource_id = ''x'', vsreq_variant_id = ''x'',
     vsreq_expected_variant_revision = ''x'', vsreq_expected_active_revision = ''x''\<rparr>"

definition sample_variant_save_response :: ConfigResourceVariantSaveCurrentResponse where
  "sample_variant_save_response = \<lparr>vsresp_status = CSS_kConflict, vsresp_message = ''x'',
     vsresp_variant = sample_variant, vsresp_effects = sample_effects\<rparr>"

definition sample_variant_activate_request :: ConfigResourceVariantActivateRequest where
  "sample_variant_activate_request = \<lparr>vareq_resource_id = ''x'', vareq_variant_id = ''x'',
     vareq_expected_active_revision = ''x''\<rparr>"

definition sample_variant_activate_response :: ConfigResourceVariantActivateResponse where
  "sample_variant_activate_response = \<lparr>varesp_status = CSS_kConflict, varesp_message = ''x'',
     varesp_applied_revision = ''x'', varesp_outcome = CAO_kRestartScheduled,
     varesp_effects = sample_effects\<rparr>"

definition sample_variant_delete_request :: ConfigResourceVariantDeleteRequest where
  "sample_variant_delete_request = \<lparr>vdreq_resource_id = ''x'', vdreq_variant_id = ''x'',
     vdreq_expected_revision = ''x''\<rparr>"

definition sample_variant_delete_response :: ConfigResourceVariantDeleteResponse where
  "sample_variant_delete_response = \<lparr>vdresp_status = CSS_kConflict, vdresp_message = ''x''\<rparr>"

lemma sample_ok_lists:
  "vector_ok descriptor_ok [sample_descriptor]" "vector_ok schema_ok [sample_schema]"
  "vector_ok variant_ok [sample_variant]" "vector_ok field_error_ok [sample_field_error]"
  "vector_ok field_value_ok (csn_values sample_snapshot)"
  using samples_ok by (simp_all add: vector_ok_def kMaxConfigItems_def snapshot_ok_def)

section \<open>Properties\<close>

definition config_patch_request_fits :: "ConfigResourcePatchRequest \<Rightarrow> bool" where
  "config_patch_request_fits v \<longleftrightarrow> string_ok (preq_resource_id v) \<and> string_ok (preq_variant_id v) \<and>
     string_ok (preq_expected_revision v) \<and> vector_ok field_value_fits (preq_updates v)"

lemma patch_request_writer_valid:
  "w_valid (in_order [bw_string (preq_resource_id v), bw_string (preq_variant_id v),
     bw_string (preq_expected_revision v), write_vector write_field_value (preq_updates v),
     bw_bool (preq_validate_only v)] writer_init) \<longleftrightarrow> config_patch_request_fits v"
  by (simp add: in_order_simps l_string.wr_valid l_field_values.wr_valid config_patch_request_fits_def)

lemma vector_ok_conj:
  "vector_ok ok xs \<Longrightarrow> vector_ok ok' xs \<Longrightarrow> (\<And>x. ok x \<Longrightarrow> ok' x \<Longrightarrow> ok'' x) \<Longrightarrow> vector_ok ok'' xs"
  by (auto simp: vector_ok_def list_all_iff)

lemma decoded_patch_request:
  assumes "decode_ConfigResourcePatchRequest bs = Some v" and "config_patch_request_fits v"
  shows "config_patch_request_ok v \<and> encode_ConfigResourcePatchRequest v = bs"
proof -
  have fits: "string_ok (preq_resource_id v)" "string_ok (preq_variant_id v)"
      "string_ok (preq_expected_revision v)" "vector_ok field_value_fits (preq_updates v)"
    using assms(2) by (simp_all add: config_patch_request_fits_def)
  from assms(1) have bs: "bs = enc_text (preq_resource_id v) @ enc_text (preq_variant_id v) @
        enc_text (preq_expected_revision v) @ enc_list enc_field_value (preq_updates v) @
        enc_flag (preq_validate_only v)"
      and plain: "vector_ok (\<lambda>u. text_ok (cfv_path u) \<and> value_plain (cfv_value u)) (preq_updates v)"
    by (auto simp: decode_ConfigResourcePatchRequest_def parse_payload_def reader_init_at
        bind_eq_Some_conv split: if_splits dest!: config_sound s_field_values.rd_sound)
  have "vector_ok field_value_ok (preq_updates v)"
    by (rule vector_ok_conj[OF fits(4) plain])
      (simp add: field_value_ok_def field_value_fits_def value_ok_def)
  with fits have ok: "config_patch_request_ok v" by (simp add: config_patch_request_ok_def)
  with bs show ?thesis
    by (simp add: encode_ConfigResourcePatchRequest_def config_patch_request_ok_def config_payload)
qed

text \<open>
  C37. The limits of a configuration patch are enforced on both sides. The encoder produces the empty
  payload exactly when a string is longer than 1024 bytes, a list has more than 256 items or a number
  is not finite, and the decoder refuses the empty payload, so an over-limit patch is never half sent.
  For a patch within the limits the decoder accepts exactly one byte string, its encoding, and only
  when every update holds nothing besides the member its type selects.
\<close>

theorem config_patch_exact:
  "(encode_ConfigResourcePatchRequest v = [] \<longleftrightarrow> \<not> config_patch_request_fits v) \<and>
   decode_ConfigResourcePatchRequest [] = None \<and>
   (config_patch_request_fits v \<longrightarrow>
      decode_ConfigResourcePatchRequest bs = Some v \<longleftrightarrow>
        config_patch_request_ok v \<and> encode_ConfigResourcePatchRequest v = bs)"
proof (intro conjI impI)
  show "encode_ConfigResourcePatchRequest v = [] \<longleftrightarrow> \<not> config_patch_request_fits v"
    using patch_request_writer_valid[of v]
    by (auto simp: encode_ConfigResourcePatchRequest_def build_payload_def Let_def in_order_simps
        enc_flag_def)
  show "decode_ConfigResourcePatchRequest [] = None"
    by (simp add: decode_ConfigResourcePatchRequest_def parse_payload_def reader_init_def br_string_def
        r_text_def r_u16_def r_bytes_n_def)
  assume "config_patch_request_fits v"
  then show "decode_ConfigResourcePatchRequest bs = Some v \<longleftrightarrow>
      config_patch_request_ok v \<and> encode_ConfigResourcePatchRequest v = bs"
    using decoded_patch_request p_config_patch_request.decodes_encoded by blast
qed

theorem config_patch_exact_witness:
  "encode_ConfigResourcePatchRequest (sample_config_patch_request\<lparr>preq_updates :=
     [\<lparr>cfv_path = ''g'', cfv_value = from_double 9218868437227405312\<rparr>]\<rparr>) = [] \<and>
   decode_ConfigResourcePatchRequest (encode_ConfigResourcePatchRequest sample_config_patch_request) =
     Some sample_config_patch_request"
proof
  show "encode_ConfigResourcePatchRequest (sample_config_patch_request\<lparr>preq_updates :=
     [\<lparr>cfv_path = ''g'', cfv_value = from_double 9218868437227405312\<rparr>]\<rparr>) = []"
    by (subst config_patch_exact[THEN conjunct1])
      (simp add: config_patch_request_fits_def field_value_fits_def sample_ok_defs)
  have "config_patch_request_ok sample_config_patch_request"
    by (simp add: sample_config_patch_request_def config_patch_request_ok_def sample_ok_lists string_ok_def
        kMaxCoreStringBytes_def)
  moreover have "config_patch_request_fits sample_config_patch_request"
    using samples_ok(2)
    by (simp add: sample_config_patch_request_def config_patch_request_fits_def snapshot_ok_def
        string_ok_def kMaxCoreStringBytes_def vector_ok_def list_all_iff field_value_ok_def
        field_value_fits_def value_ok_def)
  ultimately show "decode_ConfigResourcePatchRequest
      (encode_ConfigResourcePatchRequest sample_config_patch_request) = Some sample_config_patch_request"
    using config_patch_exact by blast
qed

end
