(* ===== verification/ConfigMessages.thy ===== *)
theory ConfigMessages
  imports ConfigCodec RuntimeTypes
begin

text \<open>
  The overload sets \<open>encode\<close> and \<open>decode\<close> of \<open>src/core/core_messages_v2_configuration.cpp\<close>, which forward
  each configuration payload to its codec. The static type that selects an overload is the constructor
  of the message here; for \<open>decode\<close>, where it is the type of the out pointer, it is named by the
  operation of the configuration family that carries such payloads.
\<close>

datatype (plugins only: code size) ConfigMessage =
    CM_ListRequest ConfigResourceListRequest
  | CM_ListResponse ConfigResourceListResponse
  | CM_DescribeRequest ConfigResourceDescribeRequest
  | CM_DescribeResponse ConfigResourceDescribeResponse
  | CM_GetRequest ConfigResourceGetRequest
  | CM_GetResponse ConfigResourceGetResponse
  | CM_PatchRequest ConfigResourcePatchRequest
  | CM_PatchResponse ConfigResourcePatchResponse
  | CM_ApplyRequest ConfigResourceApplyRequest
  | CM_ApplyResponse ConfigResourceApplyResponse
  | CM_VariantListRequest ConfigResourceVariantListRequest
  | CM_VariantListResponse ConfigResourceVariantListResponse
  | CM_VariantCreateRequest ConfigResourceVariantCreateRequest
  | CM_VariantCreateResponse ConfigResourceVariantCreateResponse
  | CM_VariantSaveCurrentRequest ConfigResourceVariantSaveCurrentRequest
  | CM_VariantSaveCurrentResponse ConfigResourceVariantSaveCurrentResponse
  | CM_VariantActivateRequest ConfigResourceVariantActivateRequest
  | CM_VariantActivateResponse ConfigResourceVariantActivateResponse
  | CM_VariantDeleteRequest ConfigResourceVariantDeleteRequest
  | CM_VariantDeleteResponse ConfigResourceVariantDeleteResponse

fun encode_config :: "ConfigMessage \<Rightarrow> bytes" where
  "encode_config (CM_ListRequest m) = encode_ConfigResourceListRequest m"
| "encode_config (CM_ListResponse m) = encode_ConfigResourceListResponse m"
| "encode_config (CM_DescribeRequest m) = encode_ConfigResourceDescribeRequest m"
| "encode_config (CM_DescribeResponse m) = encode_ConfigResourceDescribeResponse m"
| "encode_config (CM_GetRequest m) = encode_ConfigResourceGetRequest m"
| "encode_config (CM_GetResponse m) = encode_ConfigResourceGetResponse m"
| "encode_config (CM_PatchRequest m) = encode_ConfigResourcePatchRequest m"
| "encode_config (CM_PatchResponse m) = encode_ConfigResourcePatchResponse m"
| "encode_config (CM_ApplyRequest m) = encode_ConfigResourceApplyRequest m"
| "encode_config (CM_ApplyResponse m) = encode_ConfigResourceApplyResponse m"
| "encode_config (CM_VariantListRequest m) = encode_ConfigResourceVariantListRequest m"
| "encode_config (CM_VariantListResponse m) = encode_ConfigResourceVariantListResponse m"
| "encode_config (CM_VariantCreateRequest m) = encode_ConfigResourceVariantCreateRequest m"
| "encode_config (CM_VariantCreateResponse m) = encode_ConfigResourceVariantCreateResponse m"
| "encode_config (CM_VariantSaveCurrentRequest m) = encode_ConfigResourceVariantSaveCurrentRequest m"
| "encode_config (CM_VariantSaveCurrentResponse m) = encode_ConfigResourceVariantSaveCurrentResponse m"
| "encode_config (CM_VariantActivateRequest m) = encode_ConfigResourceVariantActivateRequest m"
| "encode_config (CM_VariantActivateResponse m) = encode_ConfigResourceVariantActivateResponse m"
| "encode_config (CM_VariantDeleteRequest m) = encode_ConfigResourceVariantDeleteRequest m"
| "encode_config (CM_VariantDeleteResponse m) = encode_ConfigResourceVariantDeleteResponse m"

fun decode_config :: "ConfigurationOperation \<Rightarrow> bytes \<Rightarrow> ConfigMessage option" where
  "decode_config COp_kListRequest bs =
     map_option CM_ListRequest (decode_ConfigResourceListRequest bs)"
| "decode_config COp_kListResponse bs =
     map_option CM_ListResponse (decode_ConfigResourceListResponse bs)"
| "decode_config COp_kDescribeRequest bs =
     map_option CM_DescribeRequest (decode_ConfigResourceDescribeRequest bs)"
| "decode_config COp_kDescribeResponse bs =
     map_option CM_DescribeResponse (decode_ConfigResourceDescribeResponse bs)"
| "decode_config COp_kGetRequest bs =
     map_option CM_GetRequest (decode_ConfigResourceGetRequest bs)"
| "decode_config COp_kGetResponse bs =
     map_option CM_GetResponse (decode_ConfigResourceGetResponse bs)"
| "decode_config COp_kPatchRequest bs =
     map_option CM_PatchRequest (decode_ConfigResourcePatchRequest bs)"
| "decode_config COp_kPatchResponse bs =
     map_option CM_PatchResponse (decode_ConfigResourcePatchResponse bs)"
| "decode_config COp_kApplyRequest bs =
     map_option CM_ApplyRequest (decode_ConfigResourceApplyRequest bs)"
| "decode_config COp_kApplyResponse bs =
     map_option CM_ApplyResponse (decode_ConfigResourceApplyResponse bs)"
| "decode_config COp_kVariantListRequest bs =
     map_option CM_VariantListRequest (decode_ConfigResourceVariantListRequest bs)"
| "decode_config COp_kVariantListResponse bs =
     map_option CM_VariantListResponse (decode_ConfigResourceVariantListResponse bs)"
| "decode_config COp_kVariantCreateRequest bs =
     map_option CM_VariantCreateRequest (decode_ConfigResourceVariantCreateRequest bs)"
| "decode_config COp_kVariantCreateResponse bs =
     map_option CM_VariantCreateResponse (decode_ConfigResourceVariantCreateResponse bs)"
| "decode_config COp_kVariantSaveCurrentRequest bs =
     map_option CM_VariantSaveCurrentRequest (decode_ConfigResourceVariantSaveCurrentRequest bs)"
| "decode_config COp_kVariantSaveCurrentResponse bs =
     map_option CM_VariantSaveCurrentResponse (decode_ConfigResourceVariantSaveCurrentResponse bs)"
| "decode_config COp_kVariantActivateRequest bs =
     map_option CM_VariantActivateRequest (decode_ConfigResourceVariantActivateRequest bs)"
| "decode_config COp_kVariantActivateResponse bs =
     map_option CM_VariantActivateResponse (decode_ConfigResourceVariantActivateResponse bs)"
| "decode_config COp_kVariantDeleteRequest bs =
     map_option CM_VariantDeleteRequest (decode_ConfigResourceVariantDeleteRequest bs)"
| "decode_config COp_kVariantDeleteResponse bs =
     map_option CM_VariantDeleteResponse (decode_ConfigResourceVariantDeleteResponse bs)"

text \<open>The operation a message travels under, and when its codec carries it unchanged.\<close>

fun config_operation :: "ConfigMessage \<Rightarrow> ConfigurationOperation" where
  "config_operation (CM_ListRequest m) = COp_kListRequest"
| "config_operation (CM_ListResponse m) = COp_kListResponse"
| "config_operation (CM_DescribeRequest m) = COp_kDescribeRequest"
| "config_operation (CM_DescribeResponse m) = COp_kDescribeResponse"
| "config_operation (CM_GetRequest m) = COp_kGetRequest"
| "config_operation (CM_GetResponse m) = COp_kGetResponse"
| "config_operation (CM_PatchRequest m) = COp_kPatchRequest"
| "config_operation (CM_PatchResponse m) = COp_kPatchResponse"
| "config_operation (CM_ApplyRequest m) = COp_kApplyRequest"
| "config_operation (CM_ApplyResponse m) = COp_kApplyResponse"
| "config_operation (CM_VariantListRequest m) = COp_kVariantListRequest"
| "config_operation (CM_VariantListResponse m) = COp_kVariantListResponse"
| "config_operation (CM_VariantCreateRequest m) = COp_kVariantCreateRequest"
| "config_operation (CM_VariantCreateResponse m) = COp_kVariantCreateResponse"
| "config_operation (CM_VariantSaveCurrentRequest m) = COp_kVariantSaveCurrentRequest"
| "config_operation (CM_VariantSaveCurrentResponse m) = COp_kVariantSaveCurrentResponse"
| "config_operation (CM_VariantActivateRequest m) = COp_kVariantActivateRequest"
| "config_operation (CM_VariantActivateResponse m) = COp_kVariantActivateResponse"
| "config_operation (CM_VariantDeleteRequest m) = COp_kVariantDeleteRequest"
| "config_operation (CM_VariantDeleteResponse m) = COp_kVariantDeleteResponse"

fun config_message_ok :: "ConfigMessage \<Rightarrow> bool" where
  "config_message_ok (CM_ListRequest m) = config_list_request_ok m"
| "config_message_ok (CM_ListResponse m) = config_list_response_ok m"
| "config_message_ok (CM_DescribeRequest m) = config_describe_request_ok m"
| "config_message_ok (CM_DescribeResponse m) = config_describe_response_ok m"
| "config_message_ok (CM_GetRequest m) = config_get_request_ok m"
| "config_message_ok (CM_GetResponse m) = config_get_response_ok m"
| "config_message_ok (CM_PatchRequest m) = config_patch_request_ok m"
| "config_message_ok (CM_PatchResponse m) = config_patch_response_ok m"
| "config_message_ok (CM_ApplyRequest m) = config_apply_request_ok m"
| "config_message_ok (CM_ApplyResponse m) = config_apply_response_ok m"
| "config_message_ok (CM_VariantListRequest m) = variant_list_request_ok m"
| "config_message_ok (CM_VariantListResponse m) = variant_list_response_ok m"
| "config_message_ok (CM_VariantCreateRequest m) = variant_create_request_ok m"
| "config_message_ok (CM_VariantCreateResponse m) = variant_create_response_ok m"
| "config_message_ok (CM_VariantSaveCurrentRequest m) = variant_save_request_ok m"
| "config_message_ok (CM_VariantSaveCurrentResponse m) = variant_save_response_ok m"
| "config_message_ok (CM_VariantActivateRequest m) = variant_activate_request_ok m"
| "config_message_ok (CM_VariantActivateResponse m) = variant_activate_response_ok m"
| "config_message_ok (CM_VariantDeleteRequest m) = variant_delete_request_ok m"
| "config_message_ok (CM_VariantDeleteResponse m) = variant_delete_response_ok m"

lemmas config_decodes_encoded =
  p_config_list_request.decodes_encoded p_config_list_response.decodes_encoded
  p_config_describe_request.decodes_encoded p_config_describe_response.decodes_encoded
  p_config_get_request.decodes_encoded p_config_get_response.decodes_encoded
  p_config_patch_request.decodes_encoded p_config_patch_response.decodes_encoded
  p_config_apply_request.decodes_encoded p_config_apply_response.decodes_encoded
  p_variant_list_request.decodes_encoded p_variant_list_response.decodes_encoded
  p_variant_create_request.decodes_encoded p_variant_create_response.decodes_encoded
  p_variant_save_request.decodes_encoded p_variant_save_response.decodes_encoded
  p_variant_activate_request.decodes_encoded p_variant_activate_response.decodes_encoded
  p_variant_delete_request.decodes_encoded p_variant_delete_response.decodes_encoded

text \<open>
  C38. Every configuration payload is decoded to itself: the requests to list, describe (with or
  without a locale), read, patch and apply a resource and to list, create, save, activate and delete a
  variant, and the ten responses with their descriptors, schemas, snapshots, optional candidate
  snapshot, field errors, variants, effects and status, whenever strings have at most 1024 bytes, lists
  at most 256 items, doubles are finite, values carry only the member their type selects and absent
  optional members have their initial value. The decoder is the overload of the message's own type.
\<close>

theorem config_round_trip:
  assumes "config_message_ok m"
  shows "decode_config (config_operation m) (encode_config m) = Some m"
  using assms by (cases m) (simp_all add: config_decodes_encoded)

definition config_samples :: "ConfigMessage list" where
  "config_samples =
     [CM_ListRequest sample_config_list_request,
      CM_ListResponse sample_config_list_response,
      CM_DescribeRequest sample_config_describe_request,
      CM_DescribeResponse sample_config_describe_response,
      CM_GetRequest sample_config_get_request,
      CM_GetResponse sample_config_get_response,
      CM_PatchRequest sample_config_patch_request,
      CM_PatchResponse sample_config_patch_response,
      CM_ApplyRequest sample_config_apply_request,
      CM_ApplyResponse sample_config_apply_response,
      CM_VariantListRequest sample_variant_list_request,
      CM_VariantListResponse sample_variant_list_response,
      CM_VariantCreateRequest sample_variant_create_request,
      CM_VariantCreateResponse sample_variant_create_response,
      CM_VariantSaveCurrentRequest sample_variant_save_request,
      CM_VariantSaveCurrentResponse sample_variant_save_response,
      CM_VariantActivateRequest sample_variant_activate_request,
      CM_VariantActivateResponse sample_variant_activate_response,
      CM_VariantDeleteRequest sample_variant_delete_request,
      CM_VariantDeleteResponse sample_variant_delete_response]"

lemma config_samples_ok: "list_all config_message_ok config_samples"
  by (simp add: config_samples_def samples_ok sample_ok_lists sample_config_list_request_def
      sample_config_describe_request_def sample_config_get_request_def
      sample_config_patch_request_def sample_config_apply_request_def
      sample_variant_list_request_def sample_variant_create_request_def
      sample_variant_save_request_def sample_variant_activate_request_def
      sample_variant_delete_request_def sample_config_list_response_def
      sample_config_describe_response_def sample_config_get_response_def
      sample_config_patch_response_def sample_config_apply_response_def
      sample_variant_list_response_def sample_variant_create_response_def
      sample_variant_save_response_def sample_variant_activate_response_def
      sample_variant_delete_response_def config_list_request_ok_def
      config_describe_request_ok_def config_get_request_ok_def config_patch_request_ok_def
      config_apply_request_ok_def variant_list_request_ok_def variant_create_request_ok_def
      variant_save_request_ok_def variant_activate_request_ok_def variant_delete_request_ok_def
      config_list_response_ok_def config_describe_response_ok_def config_get_response_ok_def
      config_patch_response_ok_def config_apply_response_ok_def variant_list_response_ok_def
      variant_create_response_ok_def variant_save_response_ok_def
      variant_activate_response_ok_def variant_delete_response_ok_def string_ok_def
      kMaxCoreStringBytes_def)

theorem config_round_trip_witness:
  "map (\<lambda>m. decode_config (config_operation m) (encode_config m)) config_samples = map Some config_samples"
  using config_round_trip config_samples_ok by (simp add: list_all_iff)

end
