(* ===== verification/ProfileBase.thy ===== *)
theory ProfileBase
  imports Doubles
begin

text \<open>
  What the payload checks under \<open>profiles/\<close> share. A check returns a boolean and writes its reason
  through the optional \<open>error\<close> pointer; here it is \<open>Inl reason\<close> or \<open>Inr ()\<close>, so the reason a failing
  check leaves behind is part of the model. (On success the checks of the media and telemetry profiles
  also clear the string, the others leave it alone.) The messages are the classes \<open>protoc\<close> generates
  from the \<open>.proto\<close> files of the repository: records of their fields, an optional submessage as an
  option, a \<open>oneof\<close> as a datatype, and, as proto3 enumerations are open, an enumeration as an integer
  with named values.
\<close>

type_synonym validation = "string + unit"
type_synonym proto_enum = int

abbreviation fail :: "string \<Rightarrow> validation" where
  "fail message \<equiv> Inl message"

abbreviation valid :: validation where
  "valid \<equiv> Inr ()"

section \<open>Characters\<close>

definition ascii_lower :: "char \<Rightarrow> bool" where
  "ascii_lower c \<longleftrightarrow> 97 \<le> (of_char c :: nat) \<and> (of_char c :: nat) \<le> 122"

definition ascii_upper :: "char \<Rightarrow> bool" where
  "ascii_upper c \<longleftrightarrow> 65 \<le> (of_char c :: nat) \<and> (of_char c :: nat) \<le> 90"

definition ascii_digit :: "char \<Rightarrow> bool" where
  "ascii_digit c \<longleftrightarrow> 48 \<le> (of_char c :: nat) \<and> (of_char c :: nat) \<le> 57"

definition ascii_alphanumeric :: "char \<Rightarrow> bool" where
  "ascii_alphanumeric c \<longleftrightarrow> ascii_lower c \<or> ascii_upper c \<or> ascii_digit c"

lemmas ascii_defs = ascii_lower_def ascii_upper_def ascii_digit_def ascii_alphanumeric_def

section \<open>Splitting at a separator\<close>

fun split_at :: "'a \<Rightarrow> 'a list \<Rightarrow> 'a list list" where
  "split_at c [] = [[]]"
| "split_at c (x # xs) =
     (if x = c then [] # split_at c xs
      else (x # hd (split_at c xs)) # tl (split_at c xs))"

lemma split_at_ne [simp]: "split_at c xs \<noteq> []"
  by (cases xs) simp_all

lemma split_at_free: "c \<notin> set xs \<Longrightarrow> split_at c xs = [xs]"
  by (induction xs) auto

lemma split_at_append: "c \<notin> set xs \<Longrightarrow> split_at c (xs @ c # ys) = xs # split_at c ys"
  by (induction xs) auto

section \<open>Loops with a set of seen keys\<close>

text \<open>
  Several checks walk over a repeated field, check each element and insert its key into an
  \<open>unordered_set\<close>, refusing a key that is already there. Such a loop accepts exactly the lists of good
  elements with distinct keys.
\<close>

locale unique_loop =
  fixes loop :: "'k list \<Rightarrow> 'a list \<Rightarrow> validation" and key :: "'a \<Rightarrow> 'k" and good :: "'a \<Rightarrow> bool"
  assumes loop_Nil: "loop seen [] = valid"
    and loop_Cons: "loop seen (x # xs) = valid \<longleftrightarrow>
      good x \<and> key x \<notin> set seen \<and> loop (key x # seen) xs = valid"
begin

lemma loop_seen:
  "loop seen xs = valid \<longleftrightarrow>
     list_all good xs \<and> distinct (map key xs) \<and> set (map key xs) \<inter> set seen = {}"
  by (induction xs arbitrary: seen) (auto simp: loop_Nil loop_Cons)

lemma loop_accepts: "loop [] xs = valid \<longleftrightarrow> list_all good xs \<and> distinct (map key xs)"
  by (simp add: loop_seen)

end

end
