(* ===== verification/SystemShell.thy ===== *)
theory SystemShell
  imports ProfileBase
begin

text \<open>
  The checks of the system and shell profiles: \<open>profiles/org.yunlink.system/v1/system_validation.cpp\<close>
  and \<open>profiles/org.yunlink.shell/v1/shell_validation.cpp\<close>. The difference of two timestamps is a
  subtraction of \<open>int64_t\<close> values; it is the mathematical difference here, and the lemma
  \<open>clock_delta_in_range\<close> shows that it never leaves the range when it is evaluated.
\<close>

section \<open>Clock synchronisation\<close>

definition kMinimumTrustedUnixTimeMs :: u64 where "kMinimumTrustedUnixTimeMs = 1704067200000"
definition kMaximumTrustedUnixTimeMs :: u64 where "kMaximumTrustedUnixTimeMs = 4102444800000"

definition CLOCK_SYNC_UNSPECIFIED :: proto_enum where "CLOCK_SYNC_UNSPECIFIED = 0"
definition CLOCK_SYNC_OK :: proto_enum where "CLOCK_SYNC_OK = 1"
definition CLOCK_SYNC_INTERNAL_ERROR :: proto_enum where "CLOCK_SYNC_INTERNAL_ERROR = 6"

record ClockSyncRequest =
  csr_unix_time_ms :: u64
  csr_source :: string

record ClockSyncResponse =
  csp_error :: proto_enum
  csp_message :: string
  csp_previous_unix_time_ms :: u64
  csp_applied_unix_time_ms :: u64
  csp_delta_ms :: "64 word"

definition valid_source :: "string \<Rightarrow> bool" where
  "valid_source src \<longleftrightarrow> src \<noteq> [] \<and> length src \<le> 64 \<and>
     list_all (\<lambda>c. ascii_lower c \<or> ascii_upper c \<or> ascii_digit c \<or> c = CHR ''-'' \<or> c = CHR ''_'' \<or>
       c = CHR ''.'') src"

definition validate_clock_sync_request :: "ClockSyncRequest \<Rightarrow> validation" where
  "validate_clock_sync_request request =
     (if csr_unix_time_ms request < kMinimumTrustedUnixTimeMs \<or>
         csr_unix_time_ms request > kMaximumTrustedUnixTimeMs
      then fail ''clock sync time is outside the product range''
      else if valid_source (csr_source request) then valid
      else fail ''clock sync source is invalid'')"

definition clock_delta :: "ClockSyncResponse \<Rightarrow> int" where
  "clock_delta response =
     sint (csp_applied_unix_time_ms response) - sint (csp_previous_unix_time_ms response)"

definition validate_clock_sync_response :: "ClockSyncResponse \<Rightarrow> validation" where
  "validate_clock_sync_response response =
     (if csp_error response \<le> CLOCK_SYNC_UNSPECIFIED \<or> csp_error response > CLOCK_SYNC_INTERNAL_ERROR \<or>
         length (csp_message response) > 256
      then fail ''clock sync response enum or message is invalid''
      else let ok = (csp_error response = CLOCK_SYNC_OK) in
      if ok \<and> (csp_previous_unix_time_ms response > 9223372036854775807 \<or>
               csp_applied_unix_time_ms response < kMinimumTrustedUnixTimeMs \<or>
               csp_applied_unix_time_ms response > kMaximumTrustedUnixTimeMs \<or>
               sint (csp_delta_ms response) \<noteq> clock_delta response)
      then fail ''successful clock sync response has invalid timestamps''
      else if \<not> ok \<and> (csp_previous_unix_time_ms response \<noteq> 0 \<or> csp_applied_unix_time_ms response \<noteq> 0 \<or>
               csp_delta_ms response \<noteq> 0)
      then fail ''failed clock sync response must not contain applied timestamps''
      else valid)"

lemma difference_bound:
  "0 \<le> x \<Longrightarrow> x \<le> 9223372036854775807 \<Longrightarrow> 0 \<le> y \<Longrightarrow> y \<le> 9223372036854775807 \<Longrightarrow>
     - (2 ^ 63) \<le> x - y \<and> x - y < (2 ^ 63 :: int)"
  by simp

lemma sint_small: "(w :: u64) \<le> 9223372036854775807 \<Longrightarrow> sint w = uint w"
proof -
  assume "w \<le> 9223372036854775807"
  then have "uint w < 2 ^ 63" "- (2 ^ 63) \<le> uint w"
    using difference_bound[of "uint w" 0] by (simp_all add: word_le_def)
  then show ?thesis by (simp add: sint_uint signed_take_bit_int_eq_self)
qed

text \<open>
  Whenever the difference is evaluated, the operands before it in the disjunction bound both
  timestamps, so neither cast changes a value and the subtraction does not overflow.
\<close>

lemma clock_delta_in_range:
  assumes "csp_previous_unix_time_ms r \<le> 9223372036854775807"
    and "kMinimumTrustedUnixTimeMs \<le> csp_applied_unix_time_ms r"
    and "csp_applied_unix_time_ms r \<le> kMaximumTrustedUnixTimeMs"
  shows "clock_delta r = uint (csp_applied_unix_time_ms r) - uint (csp_previous_unix_time_ms r) \<and>
    clock_delta r \<in> {- (2 ^ 63) ..< 2 ^ 63}"
proof -
  from assms(3) have a: "uint (csp_applied_unix_time_ms r) \<le> 4102444800000"
    by (simp add: kMaximumTrustedUnixTimeMs_def word_le_def)
  then have "csp_applied_unix_time_ms r \<le> 9223372036854775807" by (simp add: word_le_def)
  from sint_small[OF this] sint_small[OF assms(1)] have
    d: "clock_delta r = uint (csp_applied_unix_time_ms r) - uint (csp_previous_unix_time_ms r)"
    by (simp add: clock_delta_def)
  from assms(1) have "uint (csp_previous_unix_time_ms r) \<le> 9223372036854775807" by (simp add: word_le_def)
  with a difference_bound[of "uint (csp_applied_unix_time_ms r)" "uint (csp_previous_unix_time_ms r)"]
  have "- (2 ^ 63) \<le> clock_delta r \<and> clock_delta r < 2 ^ 63" by (simp add: d)
  with d show ?thesis by simp
qed

section \<open>Shell requests\<close>

record ShellOpenRequest =
  sor_cols :: u32
  sor_rows :: u32

record ShellWriteRequest =
  swr_session_uid :: string
  swr_data :: bytes

record ShellResizeRequest =
  srr_session_uid :: string
  srr_cols :: u32
  srr_rows :: u32

record ShellCloseRequest =
  scr_session_uid :: string

definition valid_window :: "u32 \<Rightarrow> u32 \<Rightarrow> bool" where
  "valid_window cols rows \<longleftrightarrow> cols \<ge> 20 \<and> cols \<le> 400 \<and> rows \<ge> 5 \<and> rows \<le> 200"

definition validate_open_request :: "ShellOpenRequest \<Rightarrow> validation" where
  "validate_open_request request =
     (if valid_window (sor_cols request) (sor_rows request) then valid else fail ''invalid shell window'')"

definition validate_write_request :: "ShellWriteRequest \<Rightarrow> validation" where
  "validate_write_request request =
     (if swr_session_uid request \<noteq> [] \<and> length (swr_data request) \<le> 16 * 1024 then valid
      else fail ''invalid shell write request'')"

definition validate_resize_request :: "ShellResizeRequest \<Rightarrow> validation" where
  "validate_resize_request request =
     (if srr_session_uid request \<noteq> [] \<and> valid_window (srr_cols request) (srr_rows request) then valid
      else fail ''invalid shell resize request'')"

definition validate_close_request :: "ShellCloseRequest \<Rightarrow> validation" where
  "validate_close_request request =
     (if scr_session_uid request \<noteq> [] then valid else fail ''shell session UID is required'')"

end
