(* ===== verification/Telemetry.thy ===== *)
theory Telemetry
  imports ProfileBase
begin

text \<open>
  The check of a telemetry summary: \<open>profiles/org.yunlink.telemetry/v1/summary_validation.cpp\<close>. The
  size of the serialised message, \<open>ByteSizeLong\<close>, is computed by generated code and is a parameter of
  the model. \<open>valid_metric_key\<close> is a scanner over the characters of a key; the grammar it recognises is
  stated over the key's segments and proved equal to it.
\<close>

definition kSummaryMaxMetrics :: nat where "kSummaryMaxMetrics = 64"
definition kSummaryMaxPayloadBytes :: nat where "kSummaryMaxPayloadBytes = 16 * 1024"
definition kMetricMaxKeyBytes :: nat where "kMetricMaxKeyBytes = 128"
definition kMetricMaxUnitBytes :: nat where "kMetricMaxUnitBytes = 16"
definition kMetricMaxEnumBytes :: nat where "kMetricMaxEnumBytes = 64"
definition kMetricMaxTextBytes :: nat where "kMetricMaxTextBytes = 256"

definition METRIC_QUALITY_UNSPECIFIED :: proto_enum where "METRIC_QUALITY_UNSPECIFIED = 0"
definition METRIC_VALID :: proto_enum where "METRIC_VALID = 1"
definition METRIC_STALE :: proto_enum where "METRIC_STALE = 2"
definition METRIC_UNAVAILABLE :: proto_enum where "METRIC_UNAVAILABLE = 4"

lemmas telemetry_consts = kSummaryMaxMetrics_def kSummaryMaxPayloadBytes_def kMetricMaxKeyBytes_def
  kMetricMaxUnitBytes_def kMetricMaxEnumBytes_def kMetricMaxTextBytes_def
  METRIC_QUALITY_UNSPECIFIED_def METRIC_VALID_def METRIC_STALE_def METRIC_UNAVAILABLE_def

datatype MetricValue = VALUE_NOT_SET | BoolValue bool | IntValue "64 word" | DoubleValue u64 |
  EnumToken string | TextValue string

text \<open>A metric without a value message reads as one whose \<open>oneof\<close> is not set.\<close>

record Metric =
  metric_key :: string
  metric_value :: MetricValue
  metric_unit :: string
  metric_quality :: proto_enum
  metric_source_timestamp_ns :: u64

record SummarySnapshot =
  sum_generated_at_ns :: u64
  sum_metrics :: "Metric list"

text \<open>The loop of \<open>valid_metric_key\<close>: \<open>None\<close> is the early return.\<close>

fun key_scan :: "bool \<Rightarrow> nat \<Rightarrow> string \<Rightarrow> (bool \<times> nat) option" where
  "key_scan segment_start segment_count [] = Some (segment_start, segment_count)"
| "key_scan segment_start segment_count (c # cs) =
     (if c = CHR ''.'' then
        if segment_start then None else key_scan True (Suc segment_count) cs
      else if segment_start then
        if \<not> ascii_lower c then None else key_scan False segment_count cs
      else if \<not> ascii_lower c \<and> \<not> ascii_digit c \<and> c \<noteq> CHR ''_'' then None
      else key_scan segment_start segment_count cs)"

definition valid_metric_key :: "string \<Rightarrow> bool" where
  "valid_metric_key key =
     (if key = [] \<or> length key > kMetricMaxKeyBytes then False
      else case key_scan True 1 key of
        None \<Rightarrow> False
      | Some (segment_start, segment_count) \<Rightarrow> \<not> segment_start \<and> segment_count \<ge> 3)"

definition metric_check :: "Metric \<Rightarrow> validation" where
  "metric_check metric =
     (if length (metric_unit metric) > kMetricMaxUnitBytes then fail ''metric unit exceeds limit''
      else if metric_quality metric = METRIC_QUALITY_UNSPECIFIED \<or>
              metric_quality metric > METRIC_UNAVAILABLE then fail ''invalid metric quality''
      else if (metric_quality metric = METRIC_VALID \<or> metric_quality metric = METRIC_STALE) \<and>
              metric_value metric = VALUE_NOT_SET then fail ''metric value is required''
      else case metric_value metric of
        DoubleValue d \<Rightarrow> if \<not> isfinite d then fail ''metric double is not finite'' else valid
      | EnumToken t \<Rightarrow>
          if length t > kMetricMaxEnumBytes then fail ''metric enum token exceeds limit'' else valid
      | TextValue t \<Rightarrow> if length t > kMetricMaxTextBytes then fail ''metric text exceeds limit'' else valid
      | _ \<Rightarrow> valid)"

fun metric_loop :: "string list \<Rightarrow> Metric list \<Rightarrow> validation" where
  "metric_loop keys [] = valid"
| "metric_loop keys (metric # metrics) =
     (if \<not> valid_metric_key (metric_key metric) then fail ''invalid metric key''
      else if metric_key metric \<in> set keys then fail ''duplicate metric key''
      else case metric_check metric of
        Inl message \<Rightarrow> Inl message
      | Inr _ \<Rightarrow> metric_loop (metric_key metric # keys) metrics)"

definition validate_summary_snapshot :: "(SummarySnapshot \<Rightarrow> nat) \<Rightarrow> SummarySnapshot \<Rightarrow> validation" where
  "validate_summary_snapshot byte_size snapshot =
     (if length (sum_metrics snapshot) > kSummaryMaxMetrics then fail ''too many metrics''
      else if byte_size snapshot > kSummaryMaxPayloadBytes then fail ''summary payload exceeds limit''
      else metric_loop [] (sum_metrics snapshot))"

section \<open>The grammar of metric keys\<close>

definition key_segment :: "string \<Rightarrow> bool" where
  "key_segment s \<longleftrightarrow> s \<noteq> [] \<and> ascii_lower (hd s) \<and>
     list_all (\<lambda>c. ascii_lower c \<or> ascii_digit c \<or> c = CHR ''_'') (tl s)"

definition metric_key_grammar :: "string \<Rightarrow> bool" where
  "metric_key_grammar key \<longleftrightarrow> length key \<le> 128 \<and> length (split_at CHR ''.'' key) \<ge> 3 \<and>
     list_all key_segment (split_at CHR ''.'' key)"

definition key_tail :: "string \<Rightarrow> bool" where
  "key_tail s \<longleftrightarrow> list_all (\<lambda>c. ascii_lower c \<or> ascii_digit c \<or> c = CHR ''_'') s"

lemma dot_not_lower: "ascii_lower c \<Longrightarrow> c \<noteq> CHR ''.''"
  by (auto simp: ascii_defs)

lemma key_scan_spec:
  "key_scan start n cs = Some (False, m) \<longleftrightarrow>
     m = n + length (split_at CHR ''.'' cs) - 1 \<and>
     (if start then key_segment (hd (split_at CHR ''.'' cs)) else key_tail (hd (split_at CHR ''.'' cs))) \<and>
     list_all key_segment (tl (split_at CHR ''.'' cs))"
proof (induction cs arbitrary: start n)
  case Nil
  then show ?case by (auto simp: key_segment_def key_tail_def)
next
  case (Cons c cs)
  let ?ss = "split_at CHR ''.'' cs"
  have ss: "list_all key_segment ?ss \<longleftrightarrow> key_segment (hd ?ss) \<and> list_all key_segment (tl ?ss)"
    and len: "Suc (length (tl ?ss)) = length ?ss"
    by (cases ?ss; simp)+
  show ?case
  proof (cases "c = CHR ''.''")
    case True
    then show ?thesis using len by (auto simp: Cons.IH ss key_segment_def[of "[]"] key_tail_def)
  next
    case False
    then show ?thesis
      by (cases start) (auto simp: Cons.IH key_segment_def[of "_ # _"] key_tail_def)
  qed
qed

lemma valid_metric_key_grammar: "valid_metric_key key \<longleftrightarrow> metric_key_grammar key"
proof -
  let ?ss = "split_at CHR ''.'' key"
  have "list_all key_segment ?ss \<longleftrightarrow> key_segment (hd ?ss) \<and> list_all key_segment (tl ?ss)"
    by (cases ?ss) simp_all
  then have "(\<exists>m. key_scan True 1 key = Some (False, m) \<and> m \<ge> 3) \<longleftrightarrow>
      length ?ss \<ge> 3 \<and> list_all key_segment ?ss"
    by (auto simp: key_scan_spec)
  moreover have "valid_metric_key key \<longleftrightarrow> key \<noteq> [] \<and> length key \<le> 128 \<and>
      (\<exists>m. key_scan True 1 key = Some (False, m) \<and> m \<ge> 3)"
    by (auto simp: valid_metric_key_def telemetry_consts not_less split: option.splits)
  moreover have "length ?ss \<ge> 3 \<Longrightarrow> key \<noteq> []" by auto
  ultimately show ?thesis by (auto simp: metric_key_grammar_def)
qed

section \<open>Accepted summaries\<close>

definition metric_ok :: "Metric \<Rightarrow> bool" where
  "metric_ok m \<longleftrightarrow> metric_key_grammar (metric_key m) \<and> length (metric_unit m) \<le> 16 \<and>
     metric_quality m \<noteq> 0 \<and> metric_quality m \<le> 4 \<and>
     (metric_quality m \<in> {1, 2} \<longrightarrow> metric_value m \<noteq> VALUE_NOT_SET) \<and>
     (case metric_value m of
        DoubleValue d \<Rightarrow> isfinite d
      | EnumToken t \<Rightarrow> length t \<le> 64
      | TextValue t \<Rightarrow> length t \<le> 256
      | _ \<Rightarrow> True)"

interpretation metrics: unique_loop metric_loop metric_key metric_ok
  by unfold_locales
    (auto simp: metric_check_def metric_ok_def valid_metric_key_grammar telemetry_consts not_less
      split: sum.splits MetricValue.splits)

lemma summary_accepted:
  "validate_summary_snapshot byte_size s = valid \<longleftrightarrow>
     length (sum_metrics s) \<le> 64 \<and> byte_size s \<le> 16384 \<and>
     list_all metric_ok (sum_metrics s) \<and> distinct (map metric_key (sum_metrics s))"
  by (auto simp: validate_summary_snapshot_def telemetry_consts metrics.loop_accepts not_less)

end
