(* ===== verification/Media.thy ===== *)
theory Media
  imports ProfileBase
begin

text \<open>
  The checks of the media profile: \<open>profiles/org.yunlink.media/v1/media_validation.cpp\<close>, over the
  messages of \<open>media.proto\<close> that they read. The scan of a relative path is shown to accept exactly the
  paths whose segments are proper names, so that an accepted path stays below the directory it is
  resolved in; the checks of repeated fields are instances of \<open>unique_loop\<close>.
\<close>

definition kMediaMaxCameras :: nat where "kMediaMaxCameras = 32"
definition kMediaMaxCameraUidBytes :: nat where "kMediaMaxCameraUidBytes = 96"
definition kMediaMaxMessageBytes :: nat where "kMediaMaxMessageBytes = 256"
definition kMediaMaxAssetIdBytes :: nat where "kMediaMaxAssetIdBytes = 128"
definition kMediaMaxTransferIdBytes :: nat where "kMediaMaxTransferIdBytes = 128"
definition kMediaMaxChunkBytes :: nat where "kMediaMaxChunkBytes = 256 * 1024"
definition kMediaSha256Bytes :: nat where "kMediaSha256Bytes = 32"
definition kMediaMaxSourceUriBytes :: nat where "kMediaMaxSourceUriBytes = 2048"
definition kMediaMaxAssetPageSize :: nat where "kMediaMaxAssetPageSize = 100"
definition kMediaMaxPageTokenBytes :: nat where "kMediaMaxPageTokenBytes = 512"
definition kMediaMaxDimensionPixels :: u32 where "kMediaMaxDimensionPixels = 32768"
definition kMediaMaxStorageIdBytes :: nat where "kMediaMaxStorageIdBytes = 64"
definition kMediaMaxRelativePathBytes :: nat where "kMediaMaxRelativePathBytes = 1024"
definition kMediaMaxFileEntries :: nat where "kMediaMaxFileEntries = 256"

definition MEDIA_OK :: proto_enum where "MEDIA_OK = 1"
definition MEDIA_NO_SPACE :: proto_enum where "MEDIA_NO_SPACE = 12"
definition MEDIA_PHOTO :: proto_enum where "MEDIA_PHOTO = 1"
definition MEDIA_THUMBNAIL :: proto_enum where "MEDIA_THUMBNAIL = 2"
definition MEDIA_VIDEO :: proto_enum where "MEDIA_VIDEO = 3"
definition MEDIA_FILE :: proto_enum where "MEDIA_FILE = 1"
definition MEDIA_DIRECTORY :: proto_enum where "MEDIA_DIRECTORY = 2"

lemmas media_consts = kMediaMaxCameras_def kMediaMaxCameraUidBytes_def kMediaMaxMessageBytes_def
  kMediaMaxAssetIdBytes_def kMediaMaxTransferIdBytes_def kMediaMaxChunkBytes_def kMediaSha256Bytes_def
  kMediaMaxSourceUriBytes_def kMediaMaxAssetPageSize_def kMediaMaxPageTokenBytes_def
  kMediaMaxDimensionPixels_def kMediaMaxStorageIdBytes_def kMediaMaxRelativePathBytes_def
  kMediaMaxFileEntries_def MEDIA_OK_def MEDIA_NO_SPACE_def MEDIA_PHOTO_def MEDIA_THUMBNAIL_def
  MEDIA_VIDEO_def MEDIA_FILE_def MEDIA_DIRECTORY_def

section \<open>Messages\<close>

record CameraDescriptor =
  cam_camera_uid :: string
  cam_camera_id :: u32
  cam_name :: string
  cam_image_topic :: string
  cam_camera_info_topic :: string
  cam_online :: bool
  cam_frame_rate_hz :: u64
  cam_width :: u32
  cam_height :: u32
  cam_encoding :: string
  cam_recording :: bool
  cam_live_view_supported :: bool
  cam_live_view_control_supported :: bool
  cam_live_view_active :: bool
  cam_error_message :: string
  cam_rtsp_url :: string
  cam_live_view_autostart :: bool

record CameraCatalogSnapshot =
  ccs_generated_at_ns :: u64
  ccs_cameras :: "CameraDescriptor list"
  ccs_camera_manager_available :: bool

record CameraStartRtspResponse =
  rtsp_error :: proto_enum
  rtsp_message :: string
  rtsp_url :: string

record MediaAssetRef =
  mar_asset_id :: string
  mar_kind :: proto_enum
  mar_mime_type :: string
  mar_size_bytes :: u64
  mar_sha256 :: bytes
  mar_created_at_ns :: u64
  mar_camera_uid :: string
  mar_display_name :: string

record MediaAssetItem =
  mai_asset :: "MediaAssetRef option"
  mai_thumbnail :: "MediaAssetRef option"
  mai_width :: u32
  mai_height :: u32
  mai_duration_ms :: u64

record MediaAssetListRequest =
  malr_camera_uid :: string
  malr_kinds :: "proto_enum list"
  malr_created_after_ns :: u64
  malr_created_before_ns :: u64
  malr_page_size :: u32
  malr_page_token :: string

record MediaAssetListResponse =
  malp_error :: proto_enum
  malp_message :: string
  malp_items :: "MediaAssetItem list"
  malp_next_page_token :: string
  malp_catalog_revision :: u64

record MediaAssetChunkResponse =
  mac_error :: proto_enum
  mac_message :: string
  mac_transfer_id :: string
  mac_offset :: u64
  mac_data :: bytes
  mac_eof :: bool

record MediaFileEntry =
  mfe_file_id :: string
  mfe_entry_type :: proto_enum
  mfe_storage_id :: string
  mfe_relative_path :: string
  mfe_name :: string
  mfe_mime_type :: string
  mfe_size_bytes :: u64
  mfe_sha256 :: bytes
  mfe_modified_at_ns :: u64

record MediaFileListRequest =
  mflr_storage_id :: string
  mflr_path_prefix :: string
  mflr_page_size :: u32
  mflr_page_token :: string

record MediaFileListResponse =
  mflp_error :: proto_enum
  mflp_message :: string
  mflp_entries :: "MediaFileEntry list"
  mflp_next_page_token :: string
  mflp_catalog_revision :: u64

record MediaFileChunkResponse =
  mfc_error :: proto_enum
  mfc_message :: string
  mfc_transfer_id :: string
  mfc_offset :: u64
  mfc_data :: bytes
  mfc_eof :: bool

record MediaFileStorageStatRequest =
  mss_storage_id :: string

record MediaFilePutOpen =
  mpo_storage_id :: string
  mpo_relative_path :: string
  mpo_size_bytes :: u64
  mpo_sha256 :: bytes
  mpo_mime_type :: string
  mpo_desired_window_size :: u32
  mpo_capability :: string

record MediaFilePutChunk =
  mpc_transfer_id :: string
  mpc_offset :: u64
  mpc_data :: bytes

section \<open>Strings\<close>

definition valid_token :: "string \<Rightarrow> nat \<Rightarrow> bool" where
  "valid_token value max_bytes =
     (if value = [] \<or> length value > max_bytes then False
      else list_all (\<lambda>c. ascii_alphanumeric c \<or> c = CHR ''-'' \<or> c = CHR ''_'' \<or> c = CHR ''.'') value)"

definition valid_page_token :: "string \<Rightarrow> bool" where
  "valid_page_token value \<longleftrightarrow> length value \<le> kMediaMaxPageTokenBytes \<and>
     list_all (\<lambda>c. ascii_alphanumeric c \<or> c = CHR ''-'' \<or> c = CHR ''_'' \<or> c = CHR ''='') value"

definition valid_error :: "proto_enum \<Rightarrow> bool" where
  "valid_error error \<longleftrightarrow> error \<ge> MEDIA_OK \<and> error \<le> MEDIA_NO_SPACE"

definition contains_control :: "string \<Rightarrow> bool" where
  "contains_control value \<longleftrightarrow> list_ex (\<lambda>c. (of_char c :: nat) < 32 \<or> (of_char c :: nat) = 127) value"

text \<open>\<open>std::string::find(c, start)\<close>, with \<open>None\<close> for \<open>npos\<close>.\<close>

definition find_from :: "char \<Rightarrow> nat \<Rightarrow> string \<Rightarrow> nat option" where
  "find_from c start s =
     (let skipped = length (takeWhile (\<lambda>x. x \<noteq> c) (drop start s)) in
      if start + skipped < length s then Some (start + skipped) else None)"

lemma find_from_bounds: "find_from c start s = Some e \<Longrightarrow> start \<le> e \<and> e < length s"
  by (auto simp: find_from_def Let_def split: if_splits)

text \<open>\<open>value.substr(start, end - start)\<close>, or up to the end of the string when there is no separator.\<close>

definition path_segment :: "string \<Rightarrow> nat \<Rightarrow> nat option \<Rightarrow> string" where
  "path_segment value start end_pos =
     (case end_pos of None \<Rightarrow> drop start value | Some e \<Rightarrow> take (e - start) (drop start value))"

function path_loop :: "string \<Rightarrow> nat \<Rightarrow> bool" where
  "path_loop value start =
     (if start \<le> length value then
        let end_pos = find_from CHR ''/'' start value; segment = path_segment value start end_pos in
        if segment = [] \<or> segment = ''.'' \<or> segment = ''..'' then False
        else case end_pos of None \<Rightarrow> True | Some e \<Rightarrow> path_loop value (e + 1)
      else True)"
  by pat_completeness auto
termination
  by (relation "measure (\<lambda>(value, start). Suc (length value) - start)")
    (auto dest!: find_from_bounds[OF sym])

declare path_loop.simps [simp del]

definition valid_relative_path :: "string \<Rightarrow> bool \<Rightarrow> bool" where
  "valid_relative_path value allow_empty =
     (if value = [] then allow_empty
      else if hd value = CHR ''/'' \<or> CHR 0x5C \<in> set value then False
      else path_loop value 0)"

section \<open>Cameras\<close>

definition validate_camera_request :: "string \<Rightarrow> validation" where
  "validate_camera_request camera_uid =
     (if \<not> valid_token camera_uid kMediaMaxCameraUidBytes then fail ''camera uid is invalid'' else valid)"

definition validate_camera_descriptor :: "CameraDescriptor \<Rightarrow> validation" where
  "validate_camera_descriptor camera =
     (if \<not> valid_token (cam_camera_uid camera) kMediaMaxCameraUidBytes then fail ''camera uid is invalid''
      else if length (cam_name camera) > 128 \<or> length (cam_image_topic camera) > 256 \<or>
        length (cam_camera_info_topic camera) > 256 \<or> length (cam_encoding camera) > 64 \<or>
        length (cam_error_message camera) > kMediaMaxMessageBytes \<or>
        length (cam_rtsp_url camera) > kMediaMaxSourceUriBytes \<or>
        contains_control (cam_rtsp_url camera) \<or>
        cam_live_view_active camera \<and>
          (\<not> cam_live_view_supported camera \<or> cam_rtsp_url camera = []) \<or>
        \<not> cam_live_view_supported camera \<and>
          (cam_live_view_control_supported camera \<or> cam_rtsp_url camera \<noteq> [] \<or>
           cam_live_view_autostart camera) \<or>
        \<not> isfinite (cam_frame_rate_hz camera) \<or> f64_below_zero (cam_frame_rate_hz camera)
      then fail ''camera descriptor is invalid''
      else valid)"

fun camera_loop :: "string list \<Rightarrow> CameraDescriptor list \<Rightarrow> validation" where
  "camera_loop camera_uids [] = valid"
| "camera_loop camera_uids (camera # cameras) =
     (case validate_camera_descriptor camera of
        Inl message \<Rightarrow> Inl message
      | Inr _ \<Rightarrow>
          if cam_camera_uid camera \<in> set camera_uids then fail ''duplicate camera uid''
          else camera_loop (cam_camera_uid camera # camera_uids) cameras)"

definition validate_camera_catalog_snapshot :: "CameraCatalogSnapshot \<Rightarrow> validation" where
  "validate_camera_catalog_snapshot snapshot =
     (if length (ccs_cameras snapshot) > kMediaMaxCameras then fail ''camera catalog is invalid''
      else camera_loop [] (ccs_cameras snapshot))"

definition validate_camera_start_rtsp_response :: "CameraStartRtspResponse \<Rightarrow> validation" where
  "validate_camera_start_rtsp_response response =
     (if \<not> valid_error (rtsp_error response) \<or> length (rtsp_message response) > kMediaMaxMessageBytes \<or>
        length (rtsp_url response) > kMediaMaxSourceUriBytes \<or> contains_control (rtsp_url response) \<or>
        rtsp_error response = MEDIA_OK \<and> rtsp_url response = [] \<or>
        rtsp_error response \<noteq> MEDIA_OK \<and> rtsp_url response \<noteq> []
      then fail ''camera start RTSP response is invalid''
      else valid)"

section \<open>Assets\<close>

definition validate_media_asset_ref :: "MediaAssetRef \<Rightarrow> validation" where
  "validate_media_asset_ref asset =
     (if \<not> valid_token (mar_asset_id asset) kMediaMaxAssetIdBytes \<or> mar_kind asset < MEDIA_PHOTO \<or>
        mar_kind asset > MEDIA_VIDEO \<or> mar_mime_type asset = [] \<or> length (mar_mime_type asset) > 96 \<or>
        mar_size_bytes asset = 0 \<or> length (mar_sha256 asset) \<noteq> kMediaSha256Bytes \<or>
        \<not> valid_token (mar_camera_uid asset) kMediaMaxCameraUidBytes \<or>
        length (mar_display_name asset) > 160
      then fail ''media asset reference is invalid''
      else valid)"

definition thumbnail_related :: "MediaAssetRef \<Rightarrow> MediaAssetRef \<Rightarrow> bool" where
  "thumbnail_related thumbnail asset \<longleftrightarrow>
     validate_media_asset_ref thumbnail = valid \<and> mar_kind thumbnail = MEDIA_THUMBNAIL \<and>
     mar_camera_uid thumbnail = mar_camera_uid asset \<and> mar_asset_id thumbnail \<noteq> mar_asset_id asset"

definition validate_media_asset_item :: "MediaAssetItem \<Rightarrow> validation" where
  "validate_media_asset_item item =
     (case mai_asset item of
        None \<Rightarrow> fail ''media asset item is invalid''
      | Some asset \<Rightarrow>
          if validate_media_asset_ref asset \<noteq> valid \<or> mar_kind asset = MEDIA_THUMBNAIL \<or>
             mai_width item > kMediaMaxDimensionPixels \<or> mai_height item > kMediaMaxDimensionPixels
          then fail ''media asset item is invalid''
          else case mai_thumbnail item of
            None \<Rightarrow> valid
          | Some thumbnail \<Rightarrow>
              if \<not> thumbnail_related thumbnail asset
              then fail ''media asset thumbnail relation is invalid''
              else valid)"

fun kind_loop :: "proto_enum list \<Rightarrow> proto_enum list \<Rightarrow> validation" where
  "kind_loop kinds [] = valid"
| "kind_loop kinds (kind # rest) =
     (if kind \<noteq> MEDIA_PHOTO \<and> kind \<noteq> MEDIA_VIDEO \<or> kind \<in> set kinds
      then fail ''media asset list kind is invalid''
      else kind_loop (kind # kinds) rest)"

definition validate_media_asset_list_request :: "MediaAssetListRequest \<Rightarrow> validation" where
  "validate_media_asset_list_request request =
     (if malr_camera_uid request \<noteq> [] \<and>
          \<not> valid_token (malr_camera_uid request) kMediaMaxCameraUidBytes \<or>
        malr_page_size request = 0 \<or> unat (malr_page_size request) > kMediaMaxAssetPageSize \<or>
        \<not> valid_page_token (malr_page_token request) \<or>
        malr_created_after_ns request \<noteq> 0 \<and> malr_created_before_ns request \<noteq> 0 \<and>
          malr_created_after_ns request > malr_created_before_ns request
      then fail ''media asset list request is invalid''
      else kind_loop [] (malr_kinds request))"

text \<open>An item without an asset reads as one whose asset has an empty identifier.\<close>

definition item_asset_id :: "MediaAssetItem \<Rightarrow> string" where
  "item_asset_id item = (case mai_asset item of None \<Rightarrow> [] | Some asset \<Rightarrow> mar_asset_id asset)"

fun asset_loop :: "string list \<Rightarrow> MediaAssetItem list \<Rightarrow> validation" where
  "asset_loop asset_ids [] = valid"
| "asset_loop asset_ids (item # items) =
     (if validate_media_asset_item item \<noteq> valid \<or> item_asset_id item \<in> set asset_ids
      then fail ''media asset list response contains duplicate or invalid asset''
      else asset_loop (item_asset_id item # asset_ids) items)"

definition validate_media_asset_list_response :: "MediaAssetListResponse \<Rightarrow> validation" where
  "validate_media_asset_list_response response =
     (if \<not> valid_error (malp_error response) \<or> length (malp_message response) > kMediaMaxMessageBytes \<or>
        length (malp_items response) > kMediaMaxAssetPageSize \<or>
        \<not> valid_page_token (malp_next_page_token response)
      then fail ''media asset list response is invalid''
      else if malp_error response \<noteq> MEDIA_OK \<and>
        (length (malp_items response) \<noteq> 0 \<or> malp_next_page_token response \<noteq> [])
      then fail ''failed media asset list response contains data''
      else asset_loop [] (malp_items response))"

definition validate_media_asset_chunk :: "MediaAssetChunkResponse \<Rightarrow> validation" where
  "validate_media_asset_chunk chunk =
     (if \<not> valid_error (mac_error chunk) then fail ''media error is invalid''
      else if length (mac_message chunk) > kMediaMaxMessageBytes \<or>
        length (mac_data chunk) > kMediaMaxChunkBytes \<or>
        mac_transfer_id chunk \<noteq> [] \<and> \<not> valid_token (mac_transfer_id chunk) kMediaMaxTransferIdBytes
      then fail ''media asset chunk is invalid''
      else if mac_error chunk = MEDIA_OK \<and>
        (mac_transfer_id chunk = [] \<or> mac_data chunk = [] \<and> \<not> mac_eof chunk)
      then fail ''empty non-final media chunk''
      else valid)"

section \<open>Files\<close>

definition validate_media_file_entry :: "MediaFileEntry \<Rightarrow> validation" where
  "validate_media_file_entry entry =
     (let directory = (mfe_entry_type entry = MEDIA_DIRECTORY) in
      if \<not> valid_token (mfe_file_id entry) kMediaMaxAssetIdBytes \<or>
        mfe_entry_type entry \<noteq> MEDIA_FILE \<and> \<not> directory \<or>
        mfe_storage_id entry = [] \<or> length (mfe_storage_id entry) > kMediaMaxStorageIdBytes \<or>
        mfe_relative_path entry = [] \<or> length (mfe_relative_path entry) > kMediaMaxRelativePathBytes \<or>
        mfe_name entry = [] \<or> length (mfe_name entry) > 160 \<or>
        contains_control (mfe_relative_path entry) \<or>
        \<not> valid_relative_path (mfe_relative_path entry) False \<or>
        contains_control (mfe_name entry) \<or> \<not> directory \<and> mfe_size_bytes entry = 0 \<or>
        \<not> directory \<and> length (mfe_sha256 entry) \<noteq> kMediaSha256Bytes \<or>
        directory \<and> (mfe_mime_type entry \<noteq> [] \<or> mfe_size_bytes entry \<noteq> 0 \<or> mfe_sha256 entry \<noteq> []) \<or>
        length (mfe_mime_type entry) > 96
      then fail ''media file entry is invalid''
      else valid)"

definition validate_media_file_list_request :: "MediaFileListRequest \<Rightarrow> validation" where
  "validate_media_file_list_request request =
     (if mflr_storage_id request = [] \<or> length (mflr_storage_id request) > kMediaMaxStorageIdBytes \<or>
        length (mflr_path_prefix request) > kMediaMaxRelativePathBytes \<or>
        contains_control (mflr_path_prefix request) \<or>
        \<not> valid_relative_path (mflr_path_prefix request) True \<or> mflr_page_size request = 0 \<or>
        unat (mflr_page_size request) > kMediaMaxFileEntries \<or>
        \<not> valid_page_token (mflr_page_token request)
      then fail ''media file list request is invalid''
      else valid)"

fun file_loop :: "string list \<Rightarrow> MediaFileEntry list \<Rightarrow> validation" where
  "file_loop ids [] = valid"
| "file_loop ids (entry # entries) =
     (if validate_media_file_entry entry \<noteq> valid \<or> mfe_file_id entry \<in> set ids
      then fail ''media file list response contains duplicate or invalid entry''
      else file_loop (mfe_file_id entry # ids) entries)"

definition validate_media_file_list_response :: "MediaFileListResponse \<Rightarrow> validation" where
  "validate_media_file_list_response response =
     (if \<not> valid_error (mflp_error response) \<or> length (mflp_message response) > kMediaMaxMessageBytes \<or>
        length (mflp_entries response) > kMediaMaxFileEntries \<or>
        \<not> valid_page_token (mflp_next_page_token response)
      then fail ''media file list response is invalid''
      else if mflp_error response \<noteq> MEDIA_OK \<and>
        (length (mflp_entries response) \<noteq> 0 \<or> mflp_next_page_token response \<noteq> [])
      then fail ''failed media file list response contains data''
      else file_loop [] (mflp_entries response))"

definition validate_media_file_chunk :: "MediaFileChunkResponse \<Rightarrow> validation" where
  "validate_media_file_chunk chunk =
     (if \<not> valid_error (mfc_error chunk) \<or> length (mfc_message chunk) > kMediaMaxMessageBytes \<or>
        length (mfc_data chunk) > kMediaMaxChunkBytes \<or>
        mfc_transfer_id chunk \<noteq> [] \<and> \<not> valid_token (mfc_transfer_id chunk) kMediaMaxTransferIdBytes \<or>
        mfc_error chunk = MEDIA_OK \<and>
          (mfc_transfer_id chunk = [] \<or> mfc_data chunk = [] \<and> \<not> mfc_eof chunk)
      then fail ''media file chunk is invalid''
      else valid)"

definition validate_media_file_storage_stat_request :: "MediaFileStorageStatRequest \<Rightarrow> validation" where
  "validate_media_file_storage_stat_request request =
     (if mss_storage_id request = [] \<or> length (mss_storage_id request) > kMediaMaxStorageIdBytes
      then fail ''media storage stat request is invalid''
      else valid)"

definition validate_media_file_put_open :: "MediaFilePutOpen \<Rightarrow> validation" where
  "validate_media_file_put_open request =
     (if mpo_storage_id request = [] \<or> length (mpo_storage_id request) > kMediaMaxStorageIdBytes \<or>
        mpo_relative_path request = [] \<or>
        length (mpo_relative_path request) > kMediaMaxRelativePathBytes \<or>
        contains_control (mpo_relative_path request) \<or>
        \<not> valid_relative_path (mpo_relative_path request) False \<or> mpo_size_bytes request = 0 \<or>
        length (mpo_sha256 request) \<noteq> kMediaSha256Bytes \<or> length (mpo_mime_type request) > 96
      then fail ''media file put open is invalid''
      else valid)"

definition validate_media_file_put_chunk :: "MediaFilePutChunk \<Rightarrow> validation" where
  "validate_media_file_put_chunk request =
     (if \<not> valid_token (mpc_transfer_id request) kMediaMaxTransferIdBytes \<or> mpc_data request = [] \<or>
        length (mpc_data request) > kMediaMaxChunkBytes
      then fail ''media file put chunk is invalid''
      else valid)"

section \<open>Relative paths\<close>

definition proper_name :: "string \<Rightarrow> bool" where
  "proper_name s \<longleftrightarrow> s \<noteq> [] \<and> s \<noteq> ''.'' \<and> s \<noteq> ''..''"

text \<open>
  How a file system resolves the segments of a path from a directory: an empty segment and a dot stay,
  two dots go up, a name goes down.
\<close>

definition walk_segment :: "string list \<Rightarrow> string \<Rightarrow> string list" where
  "walk_segment dir s =
     (if s = [] \<or> s = ''.'' then dir else if s = ''..'' then butlast dir else dir @ [s])"

definition resolve :: "string list \<Rightarrow> string \<Rightarrow> string list" where
  "resolve dir path =
     fold (\<lambda>s d. walk_segment d s) (split_at CHR ''/'' path)
       (if path \<noteq> [] \<and> hd path = CHR ''/'' then [] else dir)"

lemma takeWhile_shorter: "length (takeWhile (\<lambda>x. x \<noteq> c) xs) < length xs \<longleftrightarrow> c \<in> set xs"
  by (induction xs) auto

lemma find_from_None: "start \<le> length s \<Longrightarrow>
    find_from c start s = None \<longleftrightarrow> c \<notin> set (drop start s)"
  using takeWhile_shorter[of c "drop start s"] by (auto simp: find_from_def Let_def)

lemma find_from_Some:
  assumes "find_from c start s = Some e"
  shows "drop start s = take (e - start) (drop start s) @ c # drop (e + 1) s \<and>
    c \<notin> set (take (e - start) (drop start s))"
proof -
  let ?t = "takeWhile (\<lambda>x. x \<noteq> c) (drop start s)"
  from assms have e: "e = start + length ?t" "start + length ?t < length s"
    by (auto simp: find_from_def Let_def split: if_splits)
  then have "drop start s ! length ?t = c" "length ?t < length (drop start s)"
    using nth_length_takeWhile[of "\<lambda>x. x \<noteq> c" "drop start s"] by simp_all
  then have "drop start s = take (length ?t) (drop start s) @ c # drop (Suc (length ?t)) (drop start s)"
    using id_take_nth_drop by metis
  moreover have "take (length ?t) (drop start s) = ?t" by (simp add: takeWhile_eq_take[symmetric])
  moreover have "c \<notin> set ?t" by (auto dest: set_takeWhileD)
  ultimately show ?thesis using e by (simp add: add.commute)
qed

lemma path_loop_segments:
  "start \<le> length path \<Longrightarrow>
     path_loop path start \<longleftrightarrow> list_all proper_name (split_at CHR ''/'' (drop start path))"
proof (induction "length path - start" arbitrary: start rule: less_induct)
  case less
  show ?case
  proof (cases "find_from CHR ''/'' start path")
    case None
    with less.prems find_from_None[of start path "CHR ''/''"] show ?thesis
      by (subst path_loop.simps) (simp add: path_segment_def proper_name_def split_at_free Let_def)
  next
    case (Some e)
    note bounds = find_from_bounds[OF Some]
    let ?segment = "take (e - start) (drop start path)"
    from find_from_Some[OF Some] have
      "split_at CHR ''/'' (drop start path) = ?segment # split_at CHR ''/'' (drop (e + 1) path)"
      using split_at_append by metis
    moreover have "path_loop path (e + 1) \<longleftrightarrow> list_all proper_name (split_at CHR ''/'' (drop (e + 1) path))"
      by (rule less.hyps) (use bounds in auto)
    ultimately show ?thesis using less.prems Some
      by (subst path_loop.simps) (simp add: path_segment_def proper_name_def Let_def)
  qed
qed

lemma relative_path_segments:
  "valid_relative_path path False \<longleftrightarrow>
     CHR 0x5C \<notin> set path \<and> list_all proper_name (split_at CHR ''/'' path)"
  using path_loop_segments[of 0 path]
  by (cases path) (auto simp: valid_relative_path_def proper_name_def)

lemma walk_names: "list_all proper_name ss \<Longrightarrow> fold (\<lambda>s d. walk_segment d s) ss dir = dir @ ss"
  by (induction ss arbitrary: dir) (auto simp: walk_segment_def proper_name_def)

lemma relative_path_resolves:
  assumes "valid_relative_path path False"
  shows "resolve dir path = dir @ split_at CHR ''/'' path"
proof -
  from assms have "list_all proper_name (split_at CHR ''/'' path)" by (simp add: relative_path_segments)
  moreover from assms have "\<not> (path \<noteq> [] \<and> hd path = CHR ''/'')"
    by (auto simp: valid_relative_path_def)
  ultimately show ?thesis by (auto simp: resolve_def walk_names)
qed

section \<open>Repeated fields\<close>

interpretation cameras: unique_loop camera_loop cam_camera_uid
  "\<lambda>camera. validate_camera_descriptor camera = valid"
  by unfold_locales (auto split: sum.splits)

interpretation kinds: unique_loop kind_loop "\<lambda>kind. kind" "\<lambda>kind. kind = MEDIA_PHOTO \<or> kind = MEDIA_VIDEO"
  by unfold_locales auto

interpretation assets: unique_loop asset_loop item_asset_id
  "\<lambda>item. validate_media_asset_item item = valid"
  by unfold_locales auto

interpretation files: unique_loop file_loop mfe_file_id "\<lambda>entry. validate_media_file_entry entry = valid"
  by unfold_locales auto

section \<open>Properties\<close>

definition sample_put_open :: MediaFilePutOpen where
  "sample_put_open = \<lparr>mpo_storage_id = ''sd'', mpo_relative_path = ''maps/a.pcd'', mpo_size_bytes = 1,
     mpo_sha256 = replicate 32 0, mpo_mime_type = '''', mpo_desired_window_size = 0, mpo_capability = ''''\<rparr>"

text \<open>
  C34. No path traversal. A relative path is accepted exactly when it has no backslash and each of its
  segments is a proper name: not empty, not a dot, not two dots. So the path of an accepted upload or
  file entry, resolved in any directory, names something strictly below that directory, and the prefix
  of an accepted listing names the directory itself or something below it.
\<close>

theorem media_paths_confined:
  "(valid_relative_path path False \<longleftrightarrow>
      CHR 0x5C \<notin> set path \<and> list_all proper_name (split_at CHR ''/'' path)) \<and>
   (validate_media_file_put_open u = valid \<longrightarrow>
      (\<exists>names. names \<noteq> [] \<and> resolve dir (mpo_relative_path u) = dir @ names)) \<and>
   (validate_media_file_entry e = valid \<longrightarrow>
      (\<exists>names. names \<noteq> [] \<and> resolve dir (mfe_relative_path e) = dir @ names)) \<and>
   (validate_media_file_list_request q = valid \<longrightarrow>
      (\<exists>names. resolve dir (mflr_path_prefix q) = dir @ names))"
proof (intro conjI impI)
  show "valid_relative_path path False \<longleftrightarrow>
      CHR 0x5C \<notin> set path \<and> list_all proper_name (split_at CHR ''/'' path)"
    by (rule relative_path_segments)
  have below: "\<exists>names. names \<noteq> [] \<and> resolve dir p = dir @ names" if "valid_relative_path p False" for p
    using relative_path_resolves[OF that, of dir]
    by (intro exI[of _ "split_at CHR ''/'' p"]) simp
  show "\<exists>names. names \<noteq> [] \<and> resolve dir (mpo_relative_path u) = dir @ names"
    if "validate_media_file_put_open u = valid"
    using that by (intro below) (simp add: validate_media_file_put_open_def split: if_splits)
  show "\<exists>names. names \<noteq> [] \<and> resolve dir (mfe_relative_path e) = dir @ names"
    if "validate_media_file_entry e = valid"
    using that by (intro below) (simp add: validate_media_file_entry_def Let_def split: if_splits)
  show "\<exists>names. resolve dir (mflr_path_prefix q) = dir @ names"
    if "validate_media_file_list_request q = valid"
  proof (cases "mflr_path_prefix q = []")
    case True
    then show ?thesis by (simp add: resolve_def walk_segment_def)
  next
    case False
    with that have "valid_relative_path (mflr_path_prefix q) False"
      by (simp add: validate_media_file_list_request_def valid_relative_path_def split: if_splits)
    from below[OF this] show ?thesis by blast
  qed
qed

theorem media_paths_confined_witness:
  "\<not> valid_relative_path ''a/../../etc'' False \<and>
   (\<exists>names. names \<noteq> [] \<and> resolve [''srv''] (mpo_relative_path sample_put_open) = [''srv''] @ names)"
proof
  show "\<not> valid_relative_path ''a/../../etc'' False"
    by (subst media_paths_confined[THEN conjunct1]) (simp add: proper_name_def)
  have "valid_relative_path ''maps/a.pcd'' False"
    by (simp add: relative_path_segments proper_name_def)
  then have "validate_media_file_put_open sample_put_open = valid"
    by (simp add: validate_media_file_put_open_def sample_put_open_def media_consts contains_control_def)
  then show "\<exists>names. names \<noteq> [] \<and> resolve [''srv''] (mpo_relative_path sample_put_open) = [''srv''] @ names"
    using media_paths_confined by blast
qed

end
