(* ===== verification/Sunray.thy ===== *)
theory Sunray
  imports ProfileBase
begin

text \<open>
  The checks of the Sunray control profile: \<open>profiles/com.yundrone.sunray/v2/control_validation.cpp\<close>,
  over the messages of \<open>sunray.proto\<close> and \<open>mobility.proto\<close>; the records have the fields the checks
  read. Every number a vehicle would
  act on is a \<open>double\<close>: the checks keep infinities and NaNs out, and the quaternion check also keeps out
  orientations of (nearly) zero length. The numbers of the unknown fields of a message, which protobuf
  keeps, are a field of the record.
\<close>

definition kMinDirectControlLeaseMs :: u32 where "kMinDirectControlLeaseMs = 250"
definition kMaxDirectControlLeaseMs :: u32 where "kMaxDirectControlLeaseMs = 2000"
definition kMaxWaypointCount :: nat where "kMaxWaypointCount = 256"
definition kMaxWaypointTaskNameBytes :: nat where "kMaxWaypointTaskNameBytes = 96"

lemmas sunray_consts = kMinDirectControlLeaseMs_def kMaxDirectControlLeaseMs_def kMaxWaypointCount_def
  kMaxWaypointTaskNameBytes_def

section \<open>Geometry\<close>

record Vector2 =
  v2_x :: u64
  v2_y :: u64

record Vector3 =
  v3_x :: u64
  v3_y :: u64
  v3_z :: u64

record Quaternion =
  q_x :: u64
  q_y :: u64
  q_z :: u64
  q_w :: u64

record Pose =
  pose_position :: "Vector3 option"
  pose_orientation :: "Quaternion option"

definition finite2 :: "Vector2 \<Rightarrow> bool" where
  "finite2 v \<longleftrightarrow> isfinite (v2_x v) \<and> isfinite (v2_y v)"

definition finite3 :: "Vector3 \<Rightarrow> bool" where
  "finite3 v \<longleftrightarrow> isfinite (v3_x v) \<and> isfinite (v3_y v) \<and> isfinite (v3_z v)"

definition norm_squared :: "Quaternion \<Rightarrow> u64" where
  "norm_squared q =
     f64_add (f64_add (f64_add (f64_mul (q_x q) (q_x q)) (f64_mul (q_y q) (q_y q)))
       (f64_mul (q_z q) (q_z q))) (f64_mul (q_w q) (q_w q))"

text \<open>The literal \<open>1e-12\<close>.\<close>

definition tiny_norm :: u64 where "tiny_norm = 4427486594234968593"

definition finite_quaternion :: "Quaternion \<Rightarrow> bool" where
  "finite_quaternion q \<longleftrightarrow> isfinite (norm_squared q) \<and> f64_less tiny_norm (norm_squared q)"

definition finite_pose :: "Pose \<Rightarrow> bool" where
  "finite_pose p =
     (case (pose_position p, pose_orientation p) of
        (Some position, Some orientation) \<Rightarrow> finite3 position \<and> finite_quaternion orientation
      | _ \<Rightarrow> False)"

abbreviation present :: "('a \<Rightarrow> bool) \<Rightarrow> 'a option \<Rightarrow> bool" where
  "present ok field \<equiv> (case field of None \<Rightarrow> False | Some v \<Rightarrow> ok v)"

section \<open>Vehicle states\<close>

definition ACTIVE_CONTROLLER_UNKNOWN :: proto_enum where "ACTIVE_CONTROLLER_UNKNOWN = 0"
definition ACTIVE_CONTROLLER_NMPC :: proto_enum where "ACTIVE_CONTROLLER_NMPC = 4"

record FlightControlState =
  fcs_battery_voltage_v :: u32
  fcs_battery_percent :: u32
  fcs_controller_type :: proto_enum

record UgvControlState =
  ucs_battery_voltage_v :: u32
  ucs_battery_percent :: u32

definition validate_flight_control_state :: "FlightControlState \<Rightarrow> validation" where
  "validate_flight_control_state state =
     (if \<not> isfinitef (fcs_battery_voltage_v state) \<or> f32_below_zero (fcs_battery_voltage_v state) \<or>
        fcs_battery_percent state > 100 \<or> fcs_controller_type state < ACTIVE_CONTROLLER_UNKNOWN \<or>
        fcs_controller_type state > ACTIVE_CONTROLLER_NMPC
      then fail ''flight control state is invalid'' else valid)"

definition validate_ugv_control_state :: "UgvControlState \<Rightarrow> validation" where
  "validate_ugv_control_state state =
     (if \<not> isfinitef (ucs_battery_voltage_v state) \<or> f32_below_zero (ucs_battery_voltage_v state) \<or>
        ucs_battery_percent state > 100
      then fail ''UGV control state is invalid'' else valid)"

section \<open>Goals of an aerial vehicle\<close>

definition UAV_YAW_KEEP :: proto_enum where "UAV_YAW_KEEP = 0"
definition UAV_YAW_SET_ANGLE :: proto_enum where "UAV_YAW_SET_ANGLE = 1"
definition UAV_YAW_SET_RATE :: proto_enum where "UAV_YAW_SET_RATE = 2"
definition UAV_CONTROLLER_DEFAULT :: proto_enum where "UAV_CONTROLLER_DEFAULT = 0"
definition UAV_CONTROLLER_POSITION :: proto_enum where "UAV_CONTROLLER_POSITION = 1"
definition UAV_CONTROLLER_ATTITUDE :: proto_enum where "UAV_CONTROLLER_ATTITUDE = 2"

lemmas uav_enums = UAV_YAW_KEEP_def UAV_YAW_SET_ANGLE_def UAV_YAW_SET_RATE_def
  UAV_CONTROLLER_DEFAULT_def UAV_CONTROLLER_POSITION_def UAV_CONTROLLER_ATTITUDE_def

record YawTarget =
  yaw_mode :: proto_enum
  yaw_value :: u64

record WorldPositionTarget =
  wp_frame_id :: string
  wp_position_m :: "Vector3 option"

record BodyPositionTarget =
  bp_body_xy_position_m :: "Vector2 option"
  bp_fixed_height_m :: u64

record TrajectorySetpointTarget =
  ts_frame_id :: string
  ts_position_m :: "Vector3 option"
  ts_velocity_mps :: "Vector3 option"
  ts_acceleration_mps2 :: "Vector3 option"

record WorldVelocityTarget =
  wv_frame_id :: string
  wv_velocity_mps :: "Vector3 option"
  wv_height_lock :: "u64 option"

record BodyVelocityTarget =
  bv_body_xy_velocity_mps :: "Vector2 option"
  bv_fixed_height_m :: u64

datatype UavTarget = UAV_TARGET_NOT_SET | WorldPosition WorldPositionTarget | BodyPosition BodyPositionTarget |
  TrajectorySetpoint TrajectorySetpointTarget | WorldVelocity WorldVelocityTarget |
  BodyVelocity BodyVelocityTarget

record UavDirectControlGoal =
  dcg_target :: UavTarget
  dcg_yaw :: "YawTarget option"
  dcg_controller :: proto_enum
  dcg_lease_ms :: u32

definition valid_yaw :: "UavDirectControlGoal \<Rightarrow> bool" where
  "valid_yaw goal =
     (case dcg_yaw goal of
        None \<Rightarrow> False
      | Some yaw \<Rightarrow> isfinite (yaw_value yaw) \<and>
          (yaw_mode yaw = UAV_YAW_KEEP \<or> yaw_mode yaw = UAV_YAW_SET_ANGLE \<or> yaw_mode yaw = UAV_YAW_SET_RATE))"

definition valid_controller :: "UavDirectControlGoal \<Rightarrow> bool" where
  "valid_controller goal \<longleftrightarrow> dcg_controller goal = UAV_CONTROLLER_DEFAULT \<or>
     dcg_controller goal = UAV_CONTROLLER_POSITION \<or> dcg_controller goal = UAV_CONTROLLER_ATTITUDE"

definition valid_continuous_lease :: "u32 \<Rightarrow> bool" where
  "valid_continuous_lease lease_ms \<longleftrightarrow>
     lease_ms \<ge> kMinDirectControlLeaseMs \<and> lease_ms \<le> kMaxDirectControlLeaseMs"

definition validate_uav_direct_control_goal :: "UavDirectControlGoal \<Rightarrow> validation" where
  "validate_uav_direct_control_goal goal =
     (if \<not> valid_yaw goal then fail ''yaw target is missing or invalid''
      else if \<not> valid_controller goal then fail ''controller is invalid''
      else case dcg_target goal of
        WorldPosition t \<Rightarrow>
          if dcg_lease_ms goal \<noteq> 0 \<or> wp_frame_id t = [] \<or> \<not> present finite3 (wp_position_m t)
          then fail ''world position target is invalid'' else valid
      | BodyPosition t \<Rightarrow>
          if dcg_lease_ms goal \<noteq> 0 \<or> \<not> present finite2 (bp_body_xy_position_m t) \<or>
            \<not> isfinite (bp_fixed_height_m t) \<or> f64_le (bp_fixed_height_m t) 0
          then fail ''body position target is invalid'' else valid
      | TrajectorySetpoint t \<Rightarrow>
          if \<not> valid_continuous_lease (dcg_lease_ms goal) \<or> ts_frame_id t = [] \<or>
            \<not> present finite3 (ts_position_m t) \<or> \<not> present finite3 (ts_velocity_mps t) \<or>
            \<not> present finite3 (ts_acceleration_mps2 t)
          then fail ''trajectory setpoint target is invalid'' else valid
      | WorldVelocity t \<Rightarrow>
          if \<not> valid_continuous_lease (dcg_lease_ms goal) \<or> wv_frame_id t = [] \<or>
            \<not> present finite3 (wv_velocity_mps t) \<or>
            present (\<lambda>height_m. \<not> isfinite height_m \<or> f64_le height_m 0) (wv_height_lock t)
          then fail ''world velocity target is invalid'' else valid
      | BodyVelocity t \<Rightarrow>
          if \<not> valid_continuous_lease (dcg_lease_ms goal) \<or>
            \<not> present finite2 (bv_body_xy_velocity_mps t) \<or>
            \<not> isfinite (bv_fixed_height_m t) \<or> f64_le (bv_fixed_height_m t) 0
          then fail ''body velocity target is invalid'' else valid
      | UAV_TARGET_NOT_SET \<Rightarrow> fail ''direct control target is missing'')"

record UavAccelerationCompensationGoal =
  acc_acceleration_ned_mps2 :: "Vector3 option"

definition validate_uav_acceleration_compensation_goal ::
  "UavAccelerationCompensationGoal \<Rightarrow> validation" where
  "validate_uav_acceleration_compensation_goal goal =
     (if \<not> present finite3 (acc_acceleration_ned_mps2 goal)
      then fail ''NED acceleration compensation must be present and finite'' else valid)"

record EmergencyKillGoal =
  ekg_confirmed :: bool

definition validate_emergency_kill_goal :: "EmergencyKillGoal \<Rightarrow> validation" where
  "validate_emergency_kill_goal goal =
     (if ekg_confirmed goal then valid else fail ''emergency kill requires explicit confirmation'')"

record TakeoffGoal =
  tg_takeoff_relative_height_m :: u64
  tg_takeoff_max_velocity_mps :: u64

definition validate_takeoff_goal :: "TakeoffGoal \<Rightarrow> validation" where
  "validate_takeoff_goal goal =
     (if \<not> isfinite (tg_takeoff_relative_height_m goal) \<or> f64_below_zero (tg_takeoff_relative_height_m goal) \<or>
        \<not> isfinite (tg_takeoff_max_velocity_mps goal) \<or> f64_below_zero (tg_takeoff_max_velocity_mps goal)
      then fail ''takeoff goal is invalid'' else valid)"

record LandGoal =
  lg_land_max_velocity_mps :: u64

definition validate_land_goal :: "LandGoal \<Rightarrow> validation" where
  "validate_land_goal goal =
     (if isfinite (lg_land_max_velocity_mps goal) \<and> f64_le 0 (lg_land_max_velocity_mps goal)
      then valid else fail ''land goal is invalid'')"

definition UAV_WAYPOINT_NEXT :: proto_enum where "UAV_WAYPOINT_NEXT = 0"
definition UAV_WAYPOINT_HOLD_CURRENT_YAW :: proto_enum where "UAV_WAYPOINT_HOLD_CURRENT_YAW = 1"
definition UAV_WAYPOINT_HOLD_SET_YAW :: proto_enum where "UAV_WAYPOINT_HOLD_SET_YAW = 2"
definition UAV_MISSION_FINISH_HOVER :: proto_enum where "UAV_MISSION_FINISH_HOVER = 0"
definition UAV_MISSION_FINISH_RETURN_HOME_AND_LAND :: proto_enum where
  "UAV_MISSION_FINISH_RETURN_HOME_AND_LAND = 1"
definition UAV_MISSION_FINISH_LAND_NOW :: proto_enum where "UAV_MISSION_FINISH_LAND_NOW = 2"

record UavWaypoint =
  uw_position_m :: "Vector3 option"
  uw_yaw_rad :: u64
  uw_hold_time_s :: u64
  uw_arrival_action :: proto_enum

record UavWaypointMissionGoal =
  umg_frame_id :: string
  umg_waypoints :: "UavWaypoint list"
  umg_task_name :: string
  umg_completion_action :: proto_enum

definition uav_waypoint_invalid :: "UavWaypoint \<Rightarrow> bool" where
  "uav_waypoint_invalid waypoint \<longleftrightarrow>
     (let holding = (uw_arrival_action waypoint = UAV_WAYPOINT_HOLD_CURRENT_YAW \<or>
                     uw_arrival_action waypoint = UAV_WAYPOINT_HOLD_SET_YAW) in
      \<not> present finite3 (uw_position_m waypoint) \<or> \<not> isfinite (uw_yaw_rad waypoint) \<or>
      \<not> isfinite (uw_hold_time_s waypoint) \<or> f64_below_zero (uw_hold_time_s waypoint) \<or>
      uw_arrival_action waypoint \<noteq> UAV_WAYPOINT_NEXT \<and> \<not> holding)"

definition validate_uav_waypoint_mission_goal :: "UavWaypointMissionGoal \<Rightarrow> validation" where
  "validate_uav_waypoint_mission_goal goal =
     (if umg_frame_id goal = [] then fail ''waypoint frame is missing''
      else if umg_task_name goal = [] \<or> length (umg_task_name goal) > kMaxWaypointTaskNameBytes
      then fail ''waypoint task name is invalid''
      else if umg_completion_action goal \<noteq> UAV_MISSION_FINISH_HOVER \<and>
        umg_completion_action goal \<noteq> UAV_MISSION_FINISH_RETURN_HOME_AND_LAND \<and>
        umg_completion_action goal \<noteq> UAV_MISSION_FINISH_LAND_NOW
      then fail ''waypoint completion action is invalid''
      else if umg_waypoints goal = [] \<or> length (umg_waypoints goal) > kMaxWaypointCount
      then fail ''waypoint count is invalid''
      else if list_ex uav_waypoint_invalid (umg_waypoints goal) then fail ''waypoint is invalid''
      else valid)"

record UavNavGoal =
  ung_frame_id :: string
  ung_position_m :: "Vector3 option"
  ung_yaw_rad :: u64

definition validate_uav_nav_goal :: "UavNavGoal \<Rightarrow> validation" where
  "validate_uav_nav_goal goal =
     (if ung_frame_id goal = [] \<or> \<not> present finite3 (ung_position_m goal) \<or> \<not> isfinite (ung_yaw_rad goal)
      then fail ''UAV navigation goal is invalid'' else valid)"

section \<open>Goals of a ground vehicle\<close>

definition UGV_MOVE_LOCAL :: proto_enum where "UGV_MOVE_LOCAL = 0"
definition UGV_MOVE_BODY :: proto_enum where "UGV_MOVE_BODY = 1"
definition UGV_YAW_KEEP :: proto_enum where "UGV_YAW_KEEP = 0"
definition UGV_YAW_SET :: proto_enum where "UGV_YAW_SET = 1"

record UgvMovePointGoal =
  ump_frame :: proto_enum
  ump_point_m :: "Vector3 option"
  ump_yaw_mode :: proto_enum
  ump_desired_yaw_rad :: u64
  ump_local_frame_id :: string

definition validate_ugv_move_point_goal :: "UgvMovePointGoal \<Rightarrow> validation" where
  "validate_ugv_move_point_goal goal =
     (if \<not> present (\<lambda>p. finite3 p \<and> f64_eq (v3_z p) 0) (ump_point_m goal) \<or>
        \<not> isfinite (ump_desired_yaw_rad goal)
      then fail ''UGV move point goal is invalid''
      else if ump_frame goal \<noteq> UGV_MOVE_LOCAL \<and> ump_frame goal \<noteq> UGV_MOVE_BODY
      then fail ''UGV move point frame is invalid''
      else if ump_yaw_mode goal \<noteq> UGV_YAW_KEEP \<and> ump_yaw_mode goal \<noteq> UGV_YAW_SET
      then fail ''UGV yaw mode is invalid''
      else if (ump_frame goal = UGV_MOVE_LOCAL) \<noteq> (ump_local_frame_id goal \<noteq> [])
      then fail ''UGV local frame contract is invalid''
      else valid)"

record UgvLocalVelocityTarget =
  ulv_frame_id :: string
  ulv_linear_mps :: "Vector2 option"
  ulv_desired_yaw_rad :: u64

record UgvBodyVelocityTarget =
  ubv_linear_mps :: "Vector2 option"
  ubv_yaw_rate_radps :: u64

datatype UgvTarget = UGV_TARGET_NOT_SET | LocalVelocity UgvLocalVelocityTarget |
  UgvBodyVelocity UgvBodyVelocityTarget

record UgvVelocityGoal =
  uvg_target :: UgvTarget
  uvg_lease_ms :: u32

definition validate_ugv_velocity_goal :: "UgvVelocityGoal \<Rightarrow> validation" where
  "validate_ugv_velocity_goal goal =
     (if \<not> valid_continuous_lease (uvg_lease_ms goal) then fail ''UGV velocity lease is invalid''
      else case uvg_target goal of
        LocalVelocity t \<Rightarrow>
          if ulv_frame_id t = [] \<or> \<not> present finite2 (ulv_linear_mps t) \<or> \<not> isfinite (ulv_desired_yaw_rad t)
          then fail ''UGV local velocity target is invalid'' else valid
      | UgvBodyVelocity t \<Rightarrow>
          if \<not> present finite2 (ubv_linear_mps t) \<or> \<not> isfinite (ubv_yaw_rate_radps t)
          then fail ''UGV body velocity target is invalid'' else valid
      | UGV_TARGET_NOT_SET \<Rightarrow> fail ''UGV velocity target is missing'')"

record UgvNavGoal =
  gng_frame_id :: string
  gng_position_m :: "Vector2 option"
  gng_yaw_rad :: u64

definition validate_ugv_nav_goal :: "UgvNavGoal \<Rightarrow> validation" where
  "validate_ugv_nav_goal goal =
     (if gng_frame_id goal = [] \<or> \<not> present finite2 (gng_position_m goal) \<or> \<not> isfinite (gng_yaw_rad goal)
      then fail ''UGV navigation goal is invalid'' else valid)"

definition UGV_WAYPOINT_NEXT :: proto_enum where "UGV_WAYPOINT_NEXT = 0"
definition UGV_WAYPOINT_HOLD_CURRENT_YAW :: proto_enum where "UGV_WAYPOINT_HOLD_CURRENT_YAW = 1"
definition UGV_WAYPOINT_HOLD_SET_YAW :: proto_enum where "UGV_WAYPOINT_HOLD_SET_YAW = 2"
definition UGV_MISSION_HOLD :: proto_enum where "UGV_MISSION_HOLD = 0"
definition UGV_MISSION_RETURN_HOME_AND_HOLD :: proto_enum where "UGV_MISSION_RETURN_HOME_AND_HOLD = 1"

record UgvWaypoint =
  gw_position_m :: "Vector2 option"
  gw_yaw_rad :: u64
  gw_hold_time_s :: u64
  gw_arrival_action :: proto_enum

record UgvWaypointMissionGoal =
  gmg_task_name :: string
  gmg_frame_id :: string
  gmg_waypoints :: "UgvWaypoint list"
  gmg_completion_action :: proto_enum

definition ugv_waypoint_invalid :: "UgvWaypoint \<Rightarrow> bool" where
  "ugv_waypoint_invalid waypoint \<longleftrightarrow>
     \<not> present finite2 (gw_position_m waypoint) \<or> \<not> isfinite (gw_yaw_rad waypoint) \<or>
     \<not> isfinite (gw_hold_time_s waypoint) \<or> f64_below_zero (gw_hold_time_s waypoint) \<or>
     gw_arrival_action waypoint \<noteq> UGV_WAYPOINT_NEXT \<and>
       gw_arrival_action waypoint \<noteq> UGV_WAYPOINT_HOLD_CURRENT_YAW \<and>
       gw_arrival_action waypoint \<noteq> UGV_WAYPOINT_HOLD_SET_YAW"

definition validate_ugv_waypoint_mission_goal :: "UgvWaypointMissionGoal \<Rightarrow> validation" where
  "validate_ugv_waypoint_mission_goal goal =
     (if gmg_frame_id goal = [] then fail ''UGV waypoint frame is missing''
      else if gmg_task_name goal = [] \<or> length (gmg_task_name goal) > kMaxWaypointTaskNameBytes
      then fail ''UGV waypoint task name is invalid''
      else if gmg_completion_action goal \<noteq> UGV_MISSION_HOLD \<and>
        gmg_completion_action goal \<noteq> UGV_MISSION_RETURN_HOME_AND_HOLD
      then fail ''UGV waypoint completion action is invalid''
      else if gmg_waypoints goal = [] \<or> length (gmg_waypoints goal) > kMaxWaypointCount
      then fail ''UGV waypoint count is invalid''
      else if list_ex ugv_waypoint_invalid (gmg_waypoints goal) then fail ''UGV waypoint is invalid''
      else valid)"

record UgvPlanningState =
  gps_main_state :: u32
  gps_task_state :: u32
  gps_current_waypoint_index :: u32
  gps_total_waypoints :: u32
  gps_current_waypoint :: "UgvWaypoint option"
  gps_distance_to_goal_m :: u64
  gps_hold_remaining_s :: u64

definition validate_ugv_planning_state :: "UgvPlanningState \<Rightarrow> validation" where
  "validate_ugv_planning_state state =
     (if gps_main_state state > 3 \<or> gps_task_state state > 5 \<or>
        gps_current_waypoint_index state > gps_total_waypoints state \<or>
        \<not> isfinite (gps_distance_to_goal_m state) \<or> f64_below_zero (gps_distance_to_goal_m state) \<or>
        \<not> isfinite (gps_hold_remaining_s state) \<or> f64_below_zero (gps_hold_remaining_s state) \<or>
        present (\<lambda>w. \<not> present finite2 (gw_position_m w) \<or> \<not> isfinite (gw_yaw_rad w) \<or>
          \<not> isfinite (gw_hold_time_s w)) (gps_current_waypoint state)
      then fail ''UGV planning state is invalid'' else valid)"

record PlannerSetHomeRequest =
  psh_home_m :: "Vector3 option"
  psh_frame_id :: string

definition validate_planner_set_home_request :: "PlannerSetHomeRequest \<Rightarrow> validation" where
  "validate_planner_set_home_request request =
     (if psh_frame_id request = [] \<or> \<not> present finite3 (psh_home_m request)
      then fail ''Planner home request is invalid'' else valid)"

section \<open>Formations\<close>

definition FORMATION_UNKNOWN :: proto_enum where "FORMATION_UNKNOWN = 0"
definition FORMATION_TAKEOFF :: proto_enum where "FORMATION_TAKEOFF = 1"
definition FORMATION_LAND :: proto_enum where "FORMATION_LAND = 2"
definition FORMATION_STATIC_LINE :: proto_enum where "FORMATION_STATIC_LINE = 10"
definition FORMATION_STATIC_POLYGON :: proto_enum where "FORMATION_STATIC_POLYGON = 11"
definition FORMATION_LEADER :: proto_enum where "FORMATION_LEADER = 12"
definition FORMATION_DYNAMIC_POLYGON :: proto_enum where "FORMATION_DYNAMIC_POLYGON = 20"
definition FORMATION_DYNAMIC_RING :: proto_enum where "FORMATION_DYNAMIC_RING = 21"
definition FORMATION_DYNAMIC_LEMNISCATE :: proto_enum where "FORMATION_DYNAMIC_LEMNISCATE = 22"
definition FORMATION_LEADER_TARGET_FIXED_POSE :: proto_enum where "FORMATION_LEADER_TARGET_FIXED_POSE = 1"
definition FORMATION_LEADER_TARGET_ODOM_TOPIC :: proto_enum where "FORMATION_LEADER_TARGET_ODOM_TOPIC = 2"
definition FORMATION_PHASE_IDLE :: proto_enum where "FORMATION_PHASE_IDLE = 0"
definition FORMATION_PHASE_ERROR :: proto_enum where "FORMATION_PHASE_ERROR = 4"

lemmas formation_enums = FORMATION_UNKNOWN_def FORMATION_TAKEOFF_def FORMATION_LAND_def
  FORMATION_STATIC_LINE_def FORMATION_STATIC_POLYGON_def FORMATION_LEADER_def
  FORMATION_DYNAMIC_POLYGON_def FORMATION_DYNAMIC_RING_def FORMATION_DYNAMIC_LEMNISCATE_def

record FormationLine =
  fl_spacing_m :: u64
  fl_angle_deg :: u64

record FormationPolygon =
  fp_side_length_m :: u64
  fp_move_speed_mps :: u64

record FormationRing =
  fr_radius_m :: u64
  fr_move_speed_mps :: u64

record FormationLemniscate =
  fle_x_scale_m :: u64
  fle_y_scale_m :: u64
  fle_move_speed_mps :: u64

record FormationLeader =
  fld_agent_slots :: "u32 list"
  fld_spacing_m :: u64
  fld_virtual_leader_slots :: "bool list"

record FormationSetRequest =
  fsr_formation_type :: proto_enum
  fsr_align_yaw_with_trajectory :: bool
  fsr_line :: "FormationLine option"
  fsr_polygon :: "FormationPolygon option"
  fsr_ring :: "FormationRing option"
  fsr_lemniscate :: "FormationLemniscate option"
  fsr_leader :: "FormationLeader option"
  fsr_team_id :: string
  fsr_unknown_fields :: "int list"

definition positive :: "u64 \<Rightarrow> bool" where
  "positive v \<longleftrightarrow> isfinite v \<and> f64_above_zero v"

definition moving :: "u64 \<Rightarrow> bool" where
  "moving v \<longleftrightarrow> isfinite v \<and> f64_above_zero (f64_abs v)"

text \<open>The loop over the agent slots, which returns the set of agents or fails.\<close>

fun slot_loop :: "u32 list \<Rightarrow> u32 list \<Rightarrow> u32 list option" where
  "slot_loop agents [] = Some agents"
| "slot_loop agents (slot # slots) =
     (if slot > 255 \<or> slot \<noteq> 0 \<and> slot \<in> set agents then None
      else slot_loop (if slot = 0 then agents else slot # agents) slots)"

definition leader_layout :: "FormationLeader option \<Rightarrow> validation" where
  "leader_layout field =
     (case field of
        None \<Rightarrow> fail ''formation leader layout is invalid''
      | Some leader \<Rightarrow>
          if length (fld_agent_slots leader) \<noteq> 25 \<or> length (fld_virtual_leader_slots leader) \<noteq> 25 \<or>
             \<not> positive (fld_spacing_m leader)
          then fail ''formation leader layout is invalid''
          else case slot_loop [] (fld_agent_slots leader) of
            None \<Rightarrow> fail ''formation leader agent slots are invalid''
          | Some agents \<Rightarrow>
              if agents = [] then fail ''formation leader has no agent slots''
              else if fold (\<lambda>slot n. if slot then n + 1 else n) (fld_virtual_leader_slots leader) 0 = (1 :: nat)
              then valid
              else fail ''formation leader target slot is invalid'')"

definition validate_formation_set_request :: "FormationSetRequest \<Rightarrow> validation" where
  "validate_formation_set_request request =
     (if list_ex (\<lambda>n. n = 8 \<or> n = 9 \<or> n = 10) (fsr_unknown_fields request)
      then fail ''removed formation height or double-ring fields are not supported''
      else let type = fsr_formation_type request in
      if type = FORMATION_TAKEOFF \<or> type = FORMATION_LAND then valid
      else if type = FORMATION_STATIC_LINE then
        (if \<not> present (\<lambda>l. positive (fl_spacing_m l) \<and> isfinite (fl_angle_deg l)) (fsr_line request)
         then fail ''formation line is invalid'' else valid)
      else if type = FORMATION_STATIC_POLYGON then
        (if \<not> present (\<lambda>p. positive (fp_side_length_m p)) (fsr_polygon request)
         then fail ''formation polygon is invalid'' else valid)
      else if type = FORMATION_DYNAMIC_POLYGON then
        (if \<not> present (\<lambda>p. positive (fp_side_length_m p) \<and> moving (fp_move_speed_mps p)) (fsr_polygon request)
         then fail ''dynamic formation polygon is invalid'' else valid)
      else if type = FORMATION_DYNAMIC_RING then
        (if \<not> present (\<lambda>r. positive (fr_radius_m r) \<and> moving (fr_move_speed_mps r)) (fsr_ring request)
         then fail ''dynamic formation ring is invalid'' else valid)
      else if type = FORMATION_DYNAMIC_LEMNISCATE then
        (if \<not> present (\<lambda>l. positive (fle_x_scale_m l) \<and> positive (fle_y_scale_m l) \<and>
           moving (fle_move_speed_mps l)) (fsr_lemniscate request)
         then fail ''dynamic formation lemniscate is invalid'' else valid)
      else if type = 13 \<or> type = 23 then fail ''double-ring formations were removed''
      else if type = FORMATION_LEADER then leader_layout (fsr_leader request)
      else fail ''formation type is invalid'')"

record FormationLeaderTargetRequest =
  flt_target_mode :: proto_enum
  flt_frame_id :: string
  flt_target_pose :: "Pose option"
  flt_odom_topic :: string
  flt_team_id :: string

definition validate_formation_leader_target_request :: "FormationLeaderTargetRequest \<Rightarrow> validation" where
  "validate_formation_leader_target_request request =
     (if flt_target_mode request = FORMATION_LEADER_TARGET_FIXED_POSE then
        (if flt_frame_id request \<noteq> [] \<and> present finite_pose (flt_target_pose request) then valid
         else fail ''formation leader fixed pose is invalid'')
      else if flt_target_mode request = FORMATION_LEADER_TARGET_ODOM_TOPIC then
        (if length (flt_odom_topic request) > 1 \<and> hd (flt_odom_topic request) = CHR ''/'' then valid
         else fail ''formation leader odometry topic is invalid'')
      else fail ''formation leader target mode is invalid'')"

record TeamGoalRequest =
  tgr_frame_id :: string
  tgr_source_stamp_ns :: u64
  tgr_target_pose :: "Pose option"
  tgr_team_id :: string

definition validate_team_goal_request :: "TeamGoalRequest \<Rightarrow> validation" where
  "validate_team_goal_request request =
     (if tgr_team_id request = [] then fail ''team goal request team_id must not be empty''
      else if tgr_frame_id request = [] then fail ''team goal request frame_id must not be empty''
      else if \<not> present finite_pose (tgr_target_pose request) then fail ''team goal target pose is invalid''
      else valid)"

record FormationPreviewRequest =
  fpr_goal :: "FormationSetRequest option"
  fpr_reference :: "Pose option"
  fpr_member_ids :: "u32 list"

definition validate_formation_preview_request :: "FormationPreviewRequest \<Rightarrow> validation" where
  "validate_formation_preview_request request =
     (if fpr_goal request = None \<or> \<not> present finite_pose (fpr_reference request) \<or>
        \<not> present (\<lambda>goal. validate_formation_set_request goal = valid) (fpr_goal request)
      then fail ''formation preview request is invalid''
      else if list_ex (\<lambda>member. member = 0) (fpr_member_ids request)
      then fail ''formation preview member id must be non-zero''
      else valid)"

record FormationState =
  fst_phase :: proto_enum
  fst_formation_type :: proto_enum
  fst_virtual_leader_target_valid :: bool
  fst_virtual_leader_target :: "Pose option"
  fst_formation_target_valid :: bool
  fst_formation_target :: "Pose option"

definition validate_formation_state :: "FormationState \<Rightarrow> validation" where
  "validate_formation_state state =
     (let type = fst_formation_type state;
        valid_type = (type = FORMATION_UNKNOWN \<or> type = FORMATION_TAKEOFF \<or> type = FORMATION_LAND \<or>
          type = FORMATION_STATIC_LINE \<or> type = FORMATION_STATIC_POLYGON \<or> type = FORMATION_LEADER \<or>
          type = FORMATION_DYNAMIC_POLYGON \<or> type = FORMATION_DYNAMIC_RING \<or>
          type = FORMATION_DYNAMIC_LEMNISCATE) in
      if fst_phase state < FORMATION_PHASE_IDLE \<or> fst_phase state > FORMATION_PHASE_ERROR \<or>
        \<not> valid_type \<or>
        fst_virtual_leader_target_valid state \<and> \<not> present finite_pose (fst_virtual_leader_target state) \<or>
        fst_formation_target_valid state \<and> \<not> present finite_pose (fst_formation_target state)
      then fail ''formation state is invalid'' else valid)"

record FormationShapePoint =
  fpt_x :: u64
  fpt_y :: u64
  fpt_z :: u64

definition finite_point :: "FormationShapePoint \<Rightarrow> bool" where
  "finite_point v \<longleftrightarrow> isfinite (fpt_x v) \<and> isfinite (fpt_y v) \<and> isfinite (fpt_z v)"

record FormationShape =
  fsh_formation_type :: proto_enum
  fsh_valid :: bool
  fsh_closed :: bool
  fsh_move_speed_mps :: u64
  fsh_points :: "FormationShapePoint list"

definition validate_formation_shape :: "FormationShape \<Rightarrow> validation" where
  "validate_formation_shape shape =
     (if \<not> fsh_valid shape then
        (if fsh_points shape = [] then valid else fail ''formation shape is invalid'')
      else if fsh_formation_type shape \<noteq> FORMATION_DYNAMIC_POLYGON \<and>
        fsh_formation_type shape \<noteq> FORMATION_DYNAMIC_RING \<and>
        fsh_formation_type shape \<noteq> FORMATION_DYNAMIC_LEMNISCATE
      then fail ''formation shape type is not dynamic planar''
      else if length (fsh_points shape) < 3 then fail ''formation shape needs at least 3 points''
      else if list_ex (\<lambda>point. \<not> finite_point point) (fsh_points shape)
      then fail ''formation shape has a non-finite point''
      else if isfinite (fsh_move_speed_mps shape) then valid
      else fail ''formation shape move speed is not finite'')"

section \<open>Mapping and gimbal\<close>

record MappingLidarState =
  ml_lidar_rate_hz :: u64
  ml_imu_rate_hz :: u64
  ml_lidar_age_sec :: u64
  ml_imu_age_sec :: u64

record MappingState =
  ms_status :: string
  ms_lidars :: "MappingLidarState list"

definition validate_mapping_state :: "MappingState \<Rightarrow> validation" where
  "validate_mapping_state state =
     (if ms_status state \<noteq> '''' \<and> ms_status state \<noteq> ''UNAVAILABLE'' \<and> ms_status state \<noteq> ''IDLE'' \<and>
        ms_status state \<noteq> ''ACCUMULATING'' \<and> ms_status state \<noteq> ''ERROR''
      then fail ''mapping state status is invalid''
      else if list_ex (\<lambda>lidar. \<not> isfinite (ml_lidar_rate_hz lidar) \<or> \<not> isfinite (ml_imu_rate_hz lidar) \<or>
        \<not> isfinite (ml_lidar_age_sec lidar) \<or> \<not> isfinite (ml_imu_age_sec lidar)) (ms_lidars state)
      then fail ''mapping state contains a non-finite value''
      else valid)"

record GimbalAngleGoal =
  gag_yaw_rad :: u64
  gag_pitch_rad :: u64

record GimbalRateGoal =
  grg_yaw_control :: "32 word"
  grg_pitch_control :: "32 word"

record GimbalZoomAbsoluteGoal =
  gzg_zoom :: u64

definition validate_gimbal_angle_goal :: "GimbalAngleGoal \<Rightarrow> validation" where
  "validate_gimbal_angle_goal goal =
     (if \<not> isfinite (gag_yaw_rad goal) \<or> \<not> isfinite (gag_pitch_rad goal)
      then fail ''gimbal angle goal is invalid'' else valid)"

definition validate_gimbal_rate_goal :: "GimbalRateGoal \<Rightarrow> validation" where
  "validate_gimbal_rate_goal goal =
     (if sint (grg_yaw_control goal) < -100 \<or> sint (grg_yaw_control goal) > 100 \<or>
        sint (grg_pitch_control goal) < -100 \<or> sint (grg_pitch_control goal) > 100
      then fail ''gimbal rate control must be between -100 and 100'' else valid)"

text \<open>The literals \<open>1.0\<close> and \<open>30.9\<close>.\<close>

definition zoom_min :: u64 where "zoom_min = 4607182418800017408"
definition zoom_max :: u64 where "zoom_max = 4629390794462488166"

definition validate_gimbal_zoom_absolute_goal :: "GimbalZoomAbsoluteGoal \<Rightarrow> validation" where
  "validate_gimbal_zoom_absolute_goal goal =
     (if \<not> isfinite (gzg_zoom goal) \<or> f64_less (gzg_zoom goal) zoom_min \<or> f64_less zoom_max (gzg_zoom goal)
      then fail ''gimbal zoom must be between 1.0 and 30.9'' else valid)"

section \<open>Orientations\<close>

text \<open>An accepted orientation has finite components, not all of them zero.\<close>

lemma accepted_quaternion:
  assumes "finite_quaternion q"
  shows "isfinite (q_x q) \<and> isfinite (q_y q) \<and> isfinite (q_z q) \<and> isfinite (q_w q) \<and>
    \<not> (f64_magnitude (q_x q) = 0 \<and> f64_magnitude (q_y q) = 0 \<and> f64_magnitude (q_z q) = 0 \<and>
       f64_magnitude (q_w q) = 0)"
proof -
  have fin: "isfinite (q_x q)" "isfinite (q_y q)" "isfinite (q_z q)" "isfinite (q_w q)"
    using assms by (auto simp: finite_quaternion_def norm_squared_def dest!: finite_add finite_mul)
  have "\<not> f64_less tiny_norm 0"
    by (simp add: f64_less_def f64_scaled_def f64_negative_def tiny_norm_def)
  then have "norm_squared q \<noteq> 0" using assms by (auto simp: finite_quaternion_def)
  moreover have "norm_squared q = 0" if "f64_magnitude (q_x q) = 0" "f64_magnitude (q_y q) = 0"
      "f64_magnitude (q_z q) = 0" "f64_magnitude (q_w q) = 0"
    using fin that by (simp add: norm_squared_def square_of_zero add_zeros)
  ultimately show ?thesis using fin by blast
qed

section \<open>Numbers of a direct control goal\<close>

definition doubles2 :: "Vector2 option \<Rightarrow> u64 list" where
  "doubles2 field = (case field of None \<Rightarrow> [] | Some v \<Rightarrow> [v2_x v, v2_y v])"

definition doubles3 :: "Vector3 option \<Rightarrow> u64 list" where
  "doubles3 field = (case field of None \<Rightarrow> [] | Some v \<Rightarrow> [v3_x v, v3_y v, v3_z v])"

text \<open>Every number of a target, and those among them that are heights.\<close>

fun target_doubles :: "UavTarget \<Rightarrow> u64 list" where
  "target_doubles UAV_TARGET_NOT_SET = []"
| "target_doubles (WorldPosition t) = doubles3 (wp_position_m t)"
| "target_doubles (BodyPosition t) = doubles2 (bp_body_xy_position_m t) @ [bp_fixed_height_m t]"
| "target_doubles (TrajectorySetpoint t) =
     doubles3 (ts_position_m t) @ doubles3 (ts_velocity_mps t) @ doubles3 (ts_acceleration_mps2 t)"
| "target_doubles (WorldVelocity t) =
     doubles3 (wv_velocity_mps t) @ (case wv_height_lock t of None \<Rightarrow> [] | Some h \<Rightarrow> [h])"
| "target_doubles (BodyVelocity t) = doubles2 (bv_body_xy_velocity_mps t) @ [bv_fixed_height_m t]"

fun target_heights :: "UavTarget \<Rightarrow> u64 list" where
  "target_heights (BodyPosition t) = [bp_fixed_height_m t]"
| "target_heights (WorldVelocity t) = (case wv_height_lock t of None \<Rightarrow> [] | Some h \<Rightarrow> [h])"
| "target_heights (BodyVelocity t) = [bv_fixed_height_m t]"
| "target_heights _ = []"

definition goal_doubles :: "UavDirectControlGoal \<Rightarrow> u64 list" where
  "goal_doubles goal =
     (case dcg_yaw goal of None \<Rightarrow> [] | Some yaw \<Rightarrow> [yaw_value yaw]) @ target_doubles (dcg_target goal)"

fun continuous_target :: "UavTarget \<Rightarrow> bool" where
  "continuous_target (TrajectorySetpoint t) = True"
| "continuous_target (WorldVelocity t) = True"
| "continuous_target (BodyVelocity t) = True"
| "continuous_target _ = False"

lemma present_doubles:
  "present finite2 a \<Longrightarrow> list_all isfinite (doubles2 a)" "present finite3 b \<Longrightarrow> list_all isfinite (doubles3 b)"
  by (auto simp: doubles2_def doubles3_def finite2_def finite3_def split: option.splits)

section \<open>Leader layouts\<close>

lemma slot_loop_eq:
  "slot_loop agents slots =
     (if list_all (\<lambda>s. s \<le> 255) slots \<and> distinct (filter (\<lambda>s. s \<noteq> 0) slots) \<and>
         set (filter (\<lambda>s. s \<noteq> 0) slots) \<inter> set agents = {}
      then Some (rev (filter (\<lambda>s. s \<noteq> 0) slots) @ agents) else None)"
  by (induction slots arbitrary: agents) (auto simp: not_less)

lemma count_true: "fold (\<lambda>slot n. if slot then n + 1 else n) slots n = n + count_list slots True"
  by (induction slots arbitrary: n) auto

definition leader_ok :: "FormationLeader \<Rightarrow> bool" where
  "leader_ok l \<longleftrightarrow> length (fld_agent_slots l) = 25 \<and> length (fld_virtual_leader_slots l) = 25 \<and>
     positive (fld_spacing_m l) \<and> list_all (\<lambda>s. s \<le> 255) (fld_agent_slots l) \<and>
     distinct (filter (\<lambda>s. s \<noteq> 0) (fld_agent_slots l)) \<and> \<not> list_all (\<lambda>s. s = 0) (fld_agent_slots l) \<and>
     count_list (fld_virtual_leader_slots l) True = 1"

lemma leader_layout_accepts: "leader_layout field = valid \<longleftrightarrow> (\<exists>l. field = Some l \<and> leader_ok l)"
proof -
  have empty: "filter (\<lambda>s. s \<noteq> 0) slots = [] \<longleftrightarrow> list_all (\<lambda>s. s = 0) slots" for slots :: "u32 list"
    by (auto simp: filter_empty_conv list_all_iff)
  show ?thesis
    by (auto simp: leader_layout_def leader_ok_def count_true slot_loop_eq empty
        split: option.splits)
qed

section \<open>Properties\<close>

definition sample_direct_goal :: UavDirectControlGoal where
  "sample_direct_goal = \<lparr>dcg_target = BodyVelocity \<lparr>bv_body_xy_velocity_mps =
       Some \<lparr>v2_x = 4607182418800017408, v2_y = 0\<rparr>, bv_fixed_height_m = 4611686018427387904\<rparr>,
     dcg_yaw = Some \<lparr>yaw_mode = 0, yaw_value = 0\<rparr>, dcg_controller = 1, dcg_lease_ms = 500\<rparr>"

lemmas f64_eval = isfinite_def f64_exponent_def f64_fraction_def f64_nan_def f64_negative_def
  f64_magnitude_def f64_scaled_def f64_less_def f64_eq_def f64_le_def

text \<open>
  C35. What a vehicle may act on. An accepted direct control goal has a target, every number of it (yaw
  included) is finite and every height is above zero. A velocity or trajectory setpoint, which the
  vehicle keeps executing, carries a lease of 250 to 2000 ms, a position target none.
\<close>

theorem direct_control_safe:
  assumes "validate_uav_direct_control_goal goal = valid"
  shows "dcg_target goal \<noteq> UAV_TARGET_NOT_SET \<and> list_all isfinite (goal_doubles goal) \<and>
    list_all f64_above_zero (target_heights (dcg_target goal)) \<and>
    (if continuous_target (dcg_target goal) then 250 \<le> dcg_lease_ms goal \<and> dcg_lease_ms goal \<le> 2000
     else dcg_lease_ms goal = 0)"
proof -
  have yaw: "list_all isfinite (case dcg_yaw goal of None \<Rightarrow> [] | Some yaw \<Rightarrow> [yaw_value yaw])"
    using assms by (auto simp: validate_uav_direct_control_goal_def valid_yaw_def split: if_splits option.splits)
  note defs = validate_uav_direct_control_goal_def goal_doubles_def valid_continuous_lease_def sunray_consts
  show ?thesis
  proof (cases "dcg_target goal")
    case (WorldVelocity t)
    with assms yaw show ?thesis
      by (cases "wv_height_lock t") (auto simp: defs present_doubles not_le_zero split: if_splits)
  qed (use assms yaw in \<open>auto simp: defs present_doubles not_le_zero split: if_splits\<close>)
qed

theorem direct_control_safe_witness:
  "dcg_target sample_direct_goal \<noteq> UAV_TARGET_NOT_SET \<and> list_all isfinite (goal_doubles sample_direct_goal)"
proof -
  have "validate_uav_direct_control_goal sample_direct_goal = valid"
    by (simp add: validate_uav_direct_control_goal_def sample_direct_goal_def valid_yaw_def uav_enums
        valid_controller_def valid_continuous_lease_def sunray_consts finite2_def f64_eval)
  from direct_control_safe[OF this] show ?thesis by blast
qed

definition sample_leader :: FormationLeader where
  "sample_leader = \<lparr>fld_agent_slots = 7 # 9 # replicate 23 0, fld_spacing_m = 4607182418800017408,
     fld_virtual_leader_slots = True # replicate 24 False\<rparr>"

text \<open>
  Formation requests. A leader formation is accepted exactly when its layout has 25 agent slots
  with distinct nonzero agents up to 255 and at least one of them, 25 target slots of which exactly one
  is set, and a positive finite spacing, and the request carries none of the removed fields. An accepted
  team goal names its team and its frame, and its orientation has finite components that are not all
  zero.
\<close>

theorem formation_requests_exact:
  "(fsr_formation_type r = FORMATION_LEADER \<longrightarrow>
      (validate_formation_set_request r = valid \<longleftrightarrow>
         {8, 9, 10} \<inter> set (fsr_unknown_fields r) = {} \<and> (\<exists>l. fsr_leader r = Some l \<and> leader_ok l))) \<and>
   (validate_team_goal_request g = valid \<longrightarrow> tgr_team_id g \<noteq> [] \<and> tgr_frame_id g \<noteq> [] \<and>
      (\<exists>p v q. tgr_target_pose g = Some p \<and> pose_position p = Some v \<and> pose_orientation p = Some q \<and>
         finite3 v \<and> list_all isfinite [q_x q, q_y q, q_z q, q_w q] \<and>
         list_ex (\<lambda>c. f64_magnitude c \<noteq> 0) [q_x q, q_y q, q_z q, q_w q]))"
proof (intro conjI impI)
  assume "fsr_formation_type r = FORMATION_LEADER"
  then show "validate_formation_set_request r = valid \<longleftrightarrow>
      {8, 9, 10} \<inter> set (fsr_unknown_fields r) = {} \<and> (\<exists>l. fsr_leader r = Some l \<and> leader_ok l)"
    by (auto simp: validate_formation_set_request_def formation_enums leader_layout_accepts list_ex_iff)
next
  assume "validate_team_goal_request g = valid"
  then have "tgr_team_id g \<noteq> []" "tgr_frame_id g \<noteq> []" and "present finite_pose (tgr_target_pose g)"
    by (auto simp: validate_team_goal_request_def split: if_splits)
  then show "tgr_team_id g \<noteq> []" "tgr_frame_id g \<noteq> []"
      "\<exists>p v q. tgr_target_pose g = Some p \<and> pose_position p = Some v \<and> pose_orientation p = Some q \<and>
         finite3 v \<and> list_all isfinite [q_x q, q_y q, q_z q, q_w q] \<and>
         list_ex (\<lambda>c. f64_magnitude c \<noteq> 0) [q_x q, q_y q, q_z q, q_w q]"
    using accepted_quaternion by (auto simp: finite_pose_def split: option.splits)
qed

theorem formation_requests_exact_witness:
  "validate_formation_set_request \<lparr>fsr_formation_type = 12, fsr_align_yaw_with_trajectory = False,
     fsr_line = None, fsr_polygon = None, fsr_ring = None, fsr_lemniscate = None,
     fsr_leader = Some sample_leader, fsr_team_id = [], fsr_unknown_fields = [4]\<rparr> = valid \<and>
   tgr_team_id \<lparr>tgr_frame_id = ''map'', tgr_source_stamp_ns = 0, tgr_target_pose =
     Some \<lparr>pose_position = Some \<lparr>v3_x = 0, v3_y = 0, v3_z = 0\<rparr>,
       pose_orientation = Some \<lparr>q_x = 0, q_y = 0, q_z = 0, q_w = 4607182418800017408\<rparr>\<rparr>,
     tgr_team_id = ''alpha''\<rparr> \<noteq> []"
  (is "validate_formation_set_request ?r = valid \<and> tgr_team_id ?g \<noteq> []")
proof
  have "leader_ok sample_leader"
    by (simp add: leader_ok_def sample_leader_def positive_def f64_eval list_all_iff)
  then show "validate_formation_set_request ?r = valid"
    by (subst formation_requests_exact[THEN conjunct1, rule_format]) (simp_all add: formation_enums)
  have "norm_squared \<lparr>q_x = 0, q_y = 0, q_z = 0, q_w = 4607182418800017408\<rparr> = 4607182418800017408"
    by (simp add: norm_squared_def square_of_zero add_zeros one_squared zero_plus_one)
  then have "validate_team_goal_request ?g = valid"
    by (simp add: validate_team_goal_request_def finite_pose_def finite3_def finite_quaternion_def
        tiny_norm_def f64_eval)
  then show "tgr_team_id ?g \<noteq> []" using formation_requests_exact by blast
qed

end
