(* ===== verification/Spec2Isabelle.thy ===== *)
theory Spec2Isabelle
  imports Handshake CApi Advertiser ConfigMessages SystemShell Telemetry Media Sunray
begin

text \<open>
  \<^bold>\<open>A verification library for YunLink 2\<close>

  YunLink is a C++17 communication runtime for vehicles and ground stations. An endpoint keeps TCP
  connections to its peers; over a connection it opens sessions in which both sides prove a shared
  secret and negotiate profiles; within a session it exchanges envelopes, whose payloads Core treats as
  bytes of a named type. Control of an entity is arbitrated by leases. UDP discovery tells endpoints of
  each other. Profiles, compiled separately, define and check typed payloads.

  \<^bold>\<open>Parts of the program and the theories that model them\<close> (paths below the repository root)

  \<^item> \<open>Prelude\<close>, \<open>StdMap\<close>, \<open>Codec\<close>: machine words and their byte orders, bounds-checked reads,
    \<open>std::map\<close> as a sorted association list (locale \<open>keyed_store\<close>), and the contracts between an encoder
    and a decoder (locales \<open>byte_stream\<close>, \<open>field_codec\<close>, \<open>canonical_codec\<close>, \<open>payload_codec\<close>,
    \<open>canonical_payload\<close>). \<open>Doubles\<close>: the part of IEEE 754 the sources use, on the bits of a double.

  \<^item> \<open>Wire\<close>, \<open>WireCodec\<close>: \<open>src/core/wire_v2.cpp\<close> and \<open>wire_v2_codec.cpp\<close> with their headers: envelopes,
    target selectors, identifier checks, \<open>WireCodec::encode\<close> and \<open>WireCodec::decode\<close>.

  \<^item> \<open>CoreIO\<close>, \<open>CoreMessages\<close>: \<open>src/core/core_messages_v2_internal.hpp\<close> and \<open>core_messages_v2.cpp\<close>, the
    payloads Core itself defines. \<open>ConfigIO\<close>, \<open>ConfigCodec\<close>: \<open>src/core/binary_codec_io.hpp\<close> and
    \<open>src/core/configuration_service/\<close>, the configuration requests and responses. \<open>ConfigMessages\<close>:
    \<open>src/core/core_messages_v2_configuration.cpp\<close>, the overloads that dispatch over them.

  \<^item> \<open>RuntimeCommon\<close>, \<open>RuntimeTypes\<close>, \<open>RuntimeState\<close>: \<open>src/runtime/v2/runtime_common.cpp\<close>,
    \<open>runtime_internal.hpp\<close> and \<open>include/yunlink/runtime/runtime_v2.hpp\<close>: session payloads, configuration,
    events and the state \<open>Impl\<close> of a runtime as a record.

  \<^item> \<open>SendQueue\<close>, \<open>SendLoop\<close>, \<open>Receive\<close>: \<open>src/runtime/v2/runtime_network.cpp\<close> and
    \<open>io/runtime_receive.cpp\<close>: the four queues of a connection with their byte budget (locale \<open>outbox\<close>),
    the chunked writing of a frame, and the framing of what is received.

  \<^item> \<open>Authority\<close>, \<open>Session\<close>, \<open>Runtime\<close>: \<open>authority.cpp\<close>, \<open>session.cpp\<close>, \<open>runtime.cpp\<close> and
    \<open>runtime_api.cpp\<close> of \<open>src/runtime/v2\<close>: leases (locale \<open>lease_service\<close>), the handshake and the
    handling of every received envelope, and the operations of the class \<open>Runtime\<close>. The steps of the
    application and of the threads form the relation \<open>runtime_step\<close>; \<open>RuntimeInvariant\<close> holds the
    invariant of the reachable states, \<open>Identity\<close> the bounds on every identifier a runtime stores or
    reports, and \<open>Handshake\<close> the composition of both sides of \<open>open_session\<close>. The race of a
    connection attempt against its timer is \<open>connect_with_timeout\<close> in \<open>Runtime\<close>.

  \<^item> \<open>Discovery\<close>, \<open>Advertiser\<close>: \<open>src/discovery/discovery_v2.cpp\<close> and \<open>discovery_v2_advertiser.cpp\<close>: the
    packets in their three formats and the responder with its multicast memberships and its thread.

  \<^item> \<open>CBase\<close>, \<open>CRuntime\<close>, \<open>CDiscovery\<close>, \<open>CApi\<close>: \<open>include/yunlink/c/yunlink_v2.h\<close>, \<open>src/c/v2/runtime.cpp\<close>
    and \<open>src/c/v2/discovery.cpp\<close>: views and fixed-size fields, the objects behind the handles (locale
    \<open>handle_table\<close>), every function of the C ABI over the operations above, and the sequences of calls
    a client can make (\<open>c_call\<close>, \<open>c_exec\<close>, \<open>c_reach\<close>).

  \<^item> \<open>ProfileBase\<close>, \<open>SystemShell\<close>, \<open>Telemetry\<close>, \<open>Media\<close>, \<open>Sunray\<close>: the payload checks below
    \<open>profiles/\<close> (locale \<open>unique_loop\<close> for the checks of repeated fields).

  \<^bold>\<open>How state and operations correspond.\<close> A struct is a record with the struct's members, prefixed where
  HOL needs distinct names; an \<open>enum class\<close> is a datatype with its codes, a proto3 enumeration an
  integer, since it is open. An operation keeps its name and takes and returns the state it changes.
  What comes from outside is an argument: clocks, what a socket call returns (the outcome of a
  read, the function a write asks how many bytes were taken), the interface table, the size of a
  serialised protobuf message. A failing read or an early \<open>return false\<close> is \<open>None\<close>, an error with a
  reason is \<open>Inl\<close>; reading outside a buffer would be undefined in C++ and is a separate \<open>None\<close> that
  \<open>decode_defined\<close> and \<open>receive_total_bounded\<close> show not to occur. In the same way a function of the C
  ABI is \<open>None\<close> where a call of it would be undefined (a handle that is not alive, a view or an array
  that cannot be read); \<open>call_ok\<close> lists what a client has to keep to. There \<open>size_t\<close> and
  pointers have 64 bits, which fixes the \<open>sizeof\<close> the configuration struct is checked against. While a call waits for other threads (\<open>bind_lossy_lane\<close>, the
  advertiser's loop), what those do between two looks is a function \<open>others\<close>. \<open>emitted\<close> and \<open>adv_events\<close> are ghost
  fields that record the events handed to the application.

  \<^bold>\<open>What the lemmas show.\<close>

  \<^item> Codecs: what is encoded is decoded to itself; decoders without maps accept nothing else; every
    decoder is total and reads within bounds; a damaged frame or discovery packet is refused; limits on
    lengths and numbers are enforced (\<open>WireCodec\<close>, \<open>CoreMessages\<close>, \<open>ConfigMessages\<close>, \<open>Discovery\<close>, and
    \<open>payloads_canonical\<close> below).

  \<^item> Transport: the byte budget of a connection, strict priority, no loss or reordering of
    ReliableOrdered frames and no repetition of any frame, the reserve for control traffic, completion of a write on a live socket, independence of
    the segmentation of the stream (\<open>SendQueue\<close>, \<open>SendLoop\<close>, \<open>Receive\<close>), and their composition from
    one queue to the other side's handler (\<open>end_to_end_delivery\<close> below).

  \<^item> Runtime: one invariant for every interleaving of application calls and thread steps; an envelope
    is delivered only in an active session of its source and, for commands, with the lease; the lease
    table refines an abstract one, and a held lease cannot be stolen; the handshake ends as the shared secret decides; both sides
    negotiate the same profiles; a lost or closed peer leaves nothing behind; the wait for a lossy lane
    ends with the lane bound or with nothing left of it.

  \<^item> C ABI: after any sequence of calls, a call that keeps to \<open>call_ok\<close> is defined and behind every
    handle is a reachable runtime or a valid advertisement; a publish is refused exactly for the stated
    reasons; the event a callback gets can be published again as it was; the fields of a connected peer
    read back as its identifier and address; queries and replies mean through the ABI what they mean
    in the protocol (\<open>CDiscovery\<close>, \<open>CApi\<close>).

  \<^item> Profiles: accepted paths stay below their directory, accepted lists have distinct identifiers,
    accepted motion goals have finite numbers and bounded leases (\<open>Media\<close>, \<open>Sunray\<close>,
    \<open>profile_lists_exact\<close> below).

  \<^item> Five theorems state what the code does where it falls short of its intent:
    \<open>authentication_skipped\<close>, \<open>self_bound_session_survives\<close>, \<open>split_magic_lost\<close>,
    \<open>expired_lease_misdirects\<close> (after an expired lease is erased, a request acts on the lease of the next
    key) and \<open>repeated_profile_disagrees\<close>.

  \<^bold>\<open>Bounds and termination.\<close> There is no fuel: loops are structural recursions or functions with a
  measure (bytes left in a buffer, frames left in the lossy queues, attempts left for a chunk,
  connections left to close). Counters, identifiers, byte budgets and times that the code keeps in
  fixed-width integers are words of that width and wrap as they do; sizes of buffers held in memory are
  natural numbers, and where the code stores one in 64 bits the bound $2^{64}$ is a hypothesis.

  \<^bold>\<open>Not modelled.\<close> Threads and locks: a handler or a loop round is one step, as it is under the mutex of
  the code; interleavings inside a round are not. Socket set-up, name resolution and operating system
  calls (their outcomes are arguments), thread objects and the joining of threads in
  \<open>close_connection\<close>. In the C ABI: exhaustion of memory and exceptions that would cross it, the
  lifetime of views after the object they point into is destroyed, callbacks that call back into the
  runtime they come from. The generated protobuf classes of the profiles (their fields are records).
  Bindings, tools, tests.
\<close>

section \<open>Properties across components\<close>

definition small_frame :: "nat \<Rightarrow> bytes \<Rightarrow> bool" where
  "small_frame max_bytes bs \<longleftrightarrow> (\<exists>e. frame_of bs e) \<and> length bs + 8192 \<le> max_bytes"

definition eager_socket :: chunk_sender where
  "eager_socket i n = (n, Sock_ok)"

definition queued_sample :: OutboundFrame where
  "queued_sample = \<lparr>fr_bytes = sample_frame, fr_qos = Qos_kReliableOrdered, fr_latest_key = []\<rparr>"

definition queued_connection :: RuntimeConnection where
  "queued_connection = (new_connection sample_peer 4096)\<lparr>queued_bytes := 107,
     send_queues := (\<lambda>_. [])(0 := [queued_sample])\<rparr>"

definition sent_link :: link_state where
  "sent_link = \<lparr>l_conn = queued_connection\<lparr>queued_bytes := 0, send_queues := (\<lambda>_. [])\<rparr>,
     l_accepted = [queued_sample], l_wire = sample_frame\<rparr>"

lemma sample_frame_ne: "sample_frame \<noteq> []"
  using length_sample_frame by auto

lemma sample_frame_enqueued:
  "runtime_enqueue (new_connection sample_peer 4096) sample_frame Qos_kReliableOrdered [] =
     (True, queued_connection)"
proof -
  have size: "size_of sample_frame = 107" by (simp add: size_of_def length_sample_frame)
  have "make_room (new_connection sample_peer 4096) 107 Qos_kReliableOrdered =
      (True, new_connection sample_peer 4096)"
    by (rule make_room_enough) (simp add: limit_of_def new_connection_def)
  with size show ?thesis
    by (simp add: runtime_enqueue_def push_frame_def sample_frame_ne enqueue_limit_def
        queued_connection_def queued_sample_def) (simp add: new_connection_def)
qed

lemma sample_frame_sent:
  "send_step False (\<lambda>_. True) eager_socket (\<lambda>_. True) queued_connection =
     (queued_connection\<lparr>queued_bytes := 0, send_queues := (\<lambda>_. [])\<rparr>, [], sample_frame)"
proof -
  have "sender_ok eager_socket" "sender_live eager_socket kCongestionRetryLimit"
    by (auto simp: sender_ok_def sender_live_def eager_socket_def kCongestionRetryLimit_def
        intro: exI[of _ 0])
  from write_frame_live[OF sample_frame_ne this] obtain r where
    "write_frame_chunks sample_frame eager_socket (\<lambda>_. True) kCongestionRetryLimit = (r, sample_frame)"
    "wr_status r = Write_kComplete"
    by (metis prod.collapse)
  then show ?thesis
    by (simp add: send_step_def write_socket_def take_next_frame_def first_queue_def queued_connection_def
        queued_sample_def new_connection_def size_of_def length_sample_frame Let_def fun_upd_idem)
qed

lemma sent_link_reach: "link_reach (small_frame 9000) sample_peer 4096 sent_link"
proof -
  have "small_frame 9000 sample_frame"
    using sample_frame_of length_sample_frame by (auto simp: small_frame_def)
  moreover have "runtime_enqueue (l_conn (link_init sample_peer 4096)) sample_frame Qos_kReliableOrdered [] =
      (True, queued_connection)"
    by (simp add: link_init_def sample_frame_enqueued)
  ultimately have "link_step (small_frame 9000) (link_init sample_peer 4096)
      \<lparr>l_conn = queued_connection, l_accepted = [queued_sample], l_wire = []\<rparr>"
    using enqueue_step[of "small_frame 9000" sample_frame "link_init sample_peer 4096"
        Qos_kReliableOrdered "[]" True queued_connection] length_sample_frame
    by (simp add: link_init_def queued_sample_def)
  moreover have "sender_ok eager_socket" by (simp add: sender_ok_def eager_socket_def)
  from write_step[OF this, of False "\<lambda>_. True" "\<lambda>_. True"
      "\<lparr>l_conn = queued_connection, l_accepted = [queued_sample], l_wire = []\<rparr>"]
  have "link_step (small_frame 9000) \<lparr>l_conn = queued_connection, l_accepted = [queued_sample], l_wire = []\<rparr>
      sent_link"
    by (simp add: sample_frame_sent sent_link_def)
  ultimately show ?thesis by (meson link_start link_next)
qed

text \<open>
  C1. End to end over one connection. Let a connection reach any state in which it still runs, with
  clients that enqueue only encoded envelopes at least 8192 bytes below the receiver's buffer limit.
  Then the bytes its socket took, received in any segmentation, are handed to the receiving runtime as
  whole envelopes, in the order written and without an error. The ReliableOrdered frames accepted by
  the queue are exactly those received followed by those still queued: none is lost or reordered. Of
  every frame, of whatever class, no more copies are received or still queued than were accepted: none
  is repeated.
\<close>

theorem end_to_end_delivery:
  assumes "link_reach (small_frame max_bytes) peer limit s" and "unat limit < 2 ^ 63"
    and "conn_running (l_conn s)"
    and "concat chunks = l_wire s" and "\<forall>c \<in> set chunks. length c \<le> 8192"
  shows "\<exists>frames es. list_all2 frame_of (map fr_bytes frames) es \<and>
    receive_chunks max_bytes [] chunks = Some (map Recv_envelope es, [], True) \<and>
    ordered_frames (l_accepted s) = ordered_frames frames @ map fr_bytes (send_queues (l_conn s) 0) \<and>
    mset frames + queued_frames (l_conn s) \<subseteq># mset (l_accepted s)"
proof -
  obtain frames where fs: "list_all (\<lambda>f. small_frame max_bytes (fr_bytes f)) frames"
      "l_wire s = concat (map fr_bytes frames)"
      "ordered_frames (l_accepted s) = ordered_frames frames @ map fr_bytes (send_queues (l_conn s) 0)"
      "mset frames + queued_frames (l_conn s) \<subseteq># mset (l_accepted s)"
    using link_reach_ok[OF assms(1,2)] assms(3) unfolding link_ok_def by auto
  from fs(1) obtain es where es: "list_all2 frame_of (map fr_bytes frames) es"
  proof (induction frames arbitrary: thesis)
    case (Cons f frames)
    from Cons.prems(2) obtain e where "frame_of (fr_bytes f) e" by (auto simp: small_frame_def)
    moreover obtain es where "list_all2 frame_of (map fr_bytes frames) es" using Cons by auto
    ultimately have "list_all2 frame_of (map fr_bytes (f # frames)) (e # es)" by simp
    then show ?case by (rule Cons.prems(1))
  qed simp
  have "receive_chunks max_bytes [] chunks = Some (map Recv_envelope es, [], True)"
  proof (rule receive_stream[OF es _ assms(5)])
    show "\<forall>f \<in> set (map fr_bytes frames). length f + 8192 \<le> max_bytes"
      using fs(1) by (auto simp: list_all_iff small_frame_def)
    show "[] @ concat chunks = concat (map fr_bytes frames)" using assms(4) fs(2) by simp
    show "short [] (map fr_bytes frames)"
      using es by (cases frames) (auto simp: short_def list_all2_Cons1 elim!: frame_ofE)
  qed
  with es fs(3,4) show ?thesis by blast
qed

theorem end_to_end_delivery_witness:
  "\<exists>frames es. list_all2 frame_of (map fr_bytes frames) es \<and>
    receive_chunks 9000 [] [take 50 sample_frame, drop 50 sample_frame] = Some (map Recv_envelope es, [], True) \<and>
    [sample_frame] = ordered_frames frames \<and> mset frames \<subseteq># {#queued_sample#}"
proof -
  have "queued_frames (l_conn sent_link) = {#}" "send_queues (l_conn sent_link) 0 = []"
      "conn_running (l_conn sent_link)" "l_wire sent_link = sample_frame" "l_accepted sent_link = [queued_sample]"
    by (simp_all add: sent_link_def queued_connection_def new_connection_def queued_frames_def)
  moreover have "ordered_frames [queued_sample] = [sample_frame]"
    by (simp add: ordered_frames_def queued_sample_def)
  ultimately show ?thesis
    using end_to_end_delivery[OF sent_link_reach, of "[take 50 sample_frame, drop 50 sample_frame]"]
    by (simp add: length_sample_frame)
qed

section \<open>Accepted lists of the profiles\<close>

text \<open>
  C36. The repeated fields of the profile messages. A camera catalogue, a page of media assets, a page
  of files and a telemetry summary are accepted exactly when they are within their length limits, every
  element is acceptable on its own and no two elements have the same identifier; a media listing that
  reports an error has to be empty. The keys of an accepted summary have at least three
  dot-separated segments that start with a lower-case letter.
\<close>

theorem profile_lists_exact:
  "(validate_camera_catalog_snapshot c = valid \<longleftrightarrow> length (ccs_cameras c) \<le> 32 \<and>
      list_all (\<lambda>x. validate_camera_descriptor x = valid) (ccs_cameras c) \<and>
      distinct (map cam_camera_uid (ccs_cameras c))) \<and>
   (validate_media_asset_list_response a = valid \<longleftrightarrow>
      valid_error (malp_error a) \<and> length (malp_message a) \<le> 256 \<and> length (malp_items a) \<le> 100 \<and>
      valid_page_token (malp_next_page_token a) \<and>
      (malp_error a = MEDIA_OK \<or> malp_items a = [] \<and> malp_next_page_token a = []) \<and>
      list_all (\<lambda>x. validate_media_asset_item x = valid) (malp_items a) \<and>
      distinct (map item_asset_id (malp_items a))) \<and>
   (validate_media_file_list_response f = valid \<longleftrightarrow>
      valid_error (mflp_error f) \<and> length (mflp_message f) \<le> 256 \<and> length (mflp_entries f) \<le> 256 \<and>
      valid_page_token (mflp_next_page_token f) \<and>
      (mflp_error f = MEDIA_OK \<or> mflp_entries f = [] \<and> mflp_next_page_token f = []) \<and>
      list_all (\<lambda>x. validate_media_file_entry x = valid) (mflp_entries f) \<and>
      distinct (map mfe_file_id (mflp_entries f))) \<and>
   (validate_summary_snapshot byte_size s = valid \<longleftrightarrow>
      length (sum_metrics s) \<le> 64 \<and> byte_size s \<le> 16384 \<and>
      list_all metric_ok (sum_metrics s) \<and> distinct (map metric_key (sum_metrics s)))"
  by (intro conjI summary_accepted;
      auto simp: validate_camera_catalog_snapshot_def validate_media_asset_list_response_def
        validate_media_file_list_response_def cameras.loop_accepts assets.loop_accepts
        files.loop_accepts media_consts not_less)

section \<open>Payloads of Core and of the session\<close>

text \<open>
  C39. The payloads without string maps are canonical: the decoder of an authority request or status,
  of an attachment request or response, of an action update, of a subscription or its status, of a
  log read request or response, of a session text and of a session's profile list accepts exactly the
  encodings of values within the bounds of their fields. So no two byte strings mean the same request,
  trailing or missing bytes are refused, an accepted entity identifier is valid, an accepted progress is
  at most 100 percent and an accepted log read has a positive byte budget.
\<close>

theorem payloads_canonical:
  "(decode_AuthorityRequest bs = Some q \<longleftrightarrow> authority_request_ok q \<and> encode_AuthorityRequest q = bs) \<and>
   (decode_AuthorityStatus bs = Some s \<longleftrightarrow> authority_status_ok s \<and> encode_AuthorityStatus s = bs) \<and>
   (decode_AttachmentRequest bs = Some a \<longleftrightarrow>
      attachment_request_ok a \<and> encode_AttachmentRequest a = bs) \<and>
   (decode_AttachmentResponse bs = Some p \<longleftrightarrow>
      attachment_response_ok p \<and> encode_AttachmentResponse p = bs) \<and>
   (decode_ActionUpdate bs = Some u \<longleftrightarrow>
      au_progress_percent u \<le> 100 \<and> text_ok (au_detail u) \<and> encode_ActionUpdate u = bs) \<and>
   (decode_StreamSubscription bs = Some sq \<longleftrightarrow> subscription_ok sq \<and> encode_StreamSubscription sq = bs) \<and>
   (decode_StreamSubscriptionStatus bs = Some sp \<longleftrightarrow>
      subscription_status_ok sp \<and> encode_StreamSubscriptionStatus sp = bs) \<and>
   (decode_LogReadRequest bs = Some lq \<longleftrightarrow>
      uid_ok (lr_log_uid lq) \<and> 0 < lr_max_bytes lq \<and> encode_LogReadRequest lq = bs) \<and>
   (decode_LogReadResponse bs = Some lp \<longleftrightarrow>
      log_read_response_ok lp \<and> encode_LogReadResponse lp = bs) \<and>
   (decode_text bs = Some t \<longleftrightarrow> length t \<le> 65535 \<and> encode_text t = bs) \<and>
   (decode_profile_list bs = Some ps \<longleftrightarrow> profiles_ok ps \<and> encode_profile_list ps = bs)"
  using p_action_update.decode_iff p_log_read_request.decode_iff
  by (simp add: p_authority_request.decode_iff p_authority_status.decode_iff
      p_attach_request.decode_iff p_attach_response.decode_iff action_update_ok_def
      p_log_read_response.decode_iff log_read_request_ok_def p_subscription.decode_iff
      p_subscription_status.decode_iff p_text.decode_iff p_profiles.decode_iff)

end
